(* ===== verification/Prelude.thy ===== *)
theory Prelude
  imports Complex_Main "HOL-Library.Word"
begin

text \<open>
  Shared vocabulary of the development. The engine of \<open>src/src/labs/lab5\<close> is written
  over numpy arrays of three floats; here a point, a vector, an RGB triple and an
  Euler-angle triple are all a \<open>vec3\<close>, a triple of reals (floats are idealised as
  exact reals, see the header of \<open>Spec2Isabelle\<close>). A 3x3 matrix is a triple of rows.
  The theory holds the vector algebra the components share, the Python conventions
  (truncating \<open>int()\<close>, negative list indexing, \<open>max(lo, min(hi, x))\<close> clamping), the
  Python exceptions the model raises, and a datatype for the Python values a colour
  argument can be.
\<close>

named_theorems vec_simps "componentwise evaluation of the vector operations"

section \<open>Vectors and matrices\<close>

type_synonym vec3 = "real \<times> real \<times> real"
type_synonym mat3 = "vec3 \<times> vec3 \<times> vec3"

abbreviation vx :: "vec3 \<Rightarrow> real" where "vx v \<equiv> fst v"
abbreviation vy :: "vec3 \<Rightarrow> real" where "vy v \<equiv> fst (snd v)"
abbreviation vz :: "vec3 \<Rightarrow> real" where "vz v \<equiv> snd (snd v)"

definition vadd :: "vec3 \<Rightarrow> vec3 \<Rightarrow> vec3" where
  "vadd a b = (vx a + vx b, vy a + vy b, vz a + vz b)"

definition vneg :: "vec3 \<Rightarrow> vec3" where
  "vneg a = (- vx a, - vy a, - vz a)"

definition vsub :: "vec3 \<Rightarrow> vec3 \<Rightarrow> vec3" where
  "vsub a b = (vx a - vx b, vy a - vy b, vz a - vz b)"

definition vscale :: "real \<Rightarrow> vec3 \<Rightarrow> vec3" where
  "vscale k a = (k * vx a, k * vy a, k * vz a)"

definition dot :: "vec3 \<Rightarrow> vec3 \<Rightarrow> real" where
  "dot a b = vx a * vx b + vy a * vy b + vz a * vz b"

definition norm2 :: "vec3 \<Rightarrow> real" where
  "norm2 a = dot a a"

definition vzero :: vec3 where
  "vzero = (0, 0, 0)"

text \<open>\<open>numpy.sum(..., axis=0)\<close> of a list of points, and \<open>numpy.mean(..., axis=0)\<close>.\<close>

definition vsum :: "vec3 list \<Rightarrow> vec3" where
  "vsum ps = (sum_list (map vx ps), sum_list (map vy ps), sum_list (map vz ps))"

definition mean :: "vec3 list \<Rightarrow> vec3" where
  "mean ps = vscale (1 / real (length ps)) (vsum ps)"

text \<open>\<open>numpy.dot(M, v)\<close> for a matrix given by rows, and \<open>numpy.dot(A, B)\<close>.\<close>

definition mat_vec :: "mat3 \<Rightarrow> vec3 \<Rightarrow> vec3" where
  "mat_vec m v = (dot (fst m) v, dot (fst (snd m)) v, dot (snd (snd m)) v)"

definition transpose3 :: "mat3 \<Rightarrow> mat3" where
  "transpose3 m =
     ((vx (fst m), vx (fst (snd m)), vx (snd (snd m))),
      (vy (fst m), vy (fst (snd m)), vy (snd (snd m))),
      (vz (fst m), vz (fst (snd m)), vz (snd (snd m))))"

definition mat_mul :: "mat3 \<Rightarrow> mat3 \<Rightarrow> mat3" where
  "mat_mul a b =
     (let bt = transpose3 b in
      (mat_vec bt (fst a), mat_vec bt (fst (snd a)), mat_vec bt (snd (snd a))))"

definition id3 :: mat3 where
  "id3 = ((1, 0, 0), (0, 1, 0), (0, 0, 1))"

text \<open>A matrix is an isometry when it keeps the squared length of every vector.\<close>

definition isometry :: "mat3 \<Rightarrow> bool" where
  "isometry m \<longleftrightarrow> (\<forall>v. norm2 (mat_vec m v) = norm2 v)"

text \<open>\<open>math.radians\<close>.\<close>

definition radians :: "real \<Rightarrow> real" where
  "radians d = d * pi / 180"

declare vadd_def [vec_simps] vneg_def [vec_simps] vsub_def [vec_simps]
  vscale_def [vec_simps] dot_def [vec_simps] norm2_def [vec_simps] vzero_def [vec_simps]
  mat_vec_def [vec_simps] transpose3_def [vec_simps] id3_def [vec_simps]

section \<open>Python conventions\<close>

text \<open>\<open>max(lo, min(hi, x))\<close>, the clamp the camera writes out at every update.\<close>

definition clamp :: "real \<Rightarrow> real \<Rightarrow> real \<Rightarrow> real" where
  "clamp lo hi x = max lo (min hi x)"

text \<open>\<open>int(x)\<close> of a float truncates towards zero.\<close>

definition py_int :: "real \<Rightarrow> int" where
  "py_int x = (if 0 \<le> x then \<lfloor>x\<rfloor> else \<lceil>x\<rceil>)"

text \<open>
  The exceptions the modelled code can raise (\<open>Exception\<close> is a bare
  \<open>raise Exception(message)\<close>), \<open>EOFError\<close> of \<open>input()\<close> on an exhausted console, and
  \<open>Diverges\<close> for a call that never returns (an endless loop inside a handler).
\<close>

datatype py_error =
    ValueError string
  | TypeError string
  | IndexError
  | AttributeError string
  | UnboundLocalError string
  | KeyError string
  | Exception string
  | EOFError
  | Diverges

type_synonym 'a result = "py_error + 'a"

text \<open>\<open>xs[i]\<close> on a list or string: negative indices count from the end, anything else
  out of range raises \<open>IndexError\<close>.\<close>

definition py_index :: "'a list \<Rightarrow> int \<Rightarrow> 'a result" where
  "py_index xs i =
     (if i \<in> {- int (length xs) ..< int (length xs)}
      then Inr (xs ! nat (i mod int (length xs))) else Inl IndexError)"

text \<open>Sequencing of statements that may raise: the first exception propagates.\<close>

definition rbind :: "'a result \<Rightarrow> ('a \<Rightarrow> 'b result) \<Rightarrow> 'b result" where
  "rbind r k = (case r of Inl e \<Rightarrow> Inl e | Inr a \<Rightarrow> k a)"

text \<open>A Python loop building a list whose body may raise: the first exception propagates.\<close>

fun rmap :: "('a \<Rightarrow> 'b result) \<Rightarrow> 'a list \<Rightarrow> 'b list result" where
  "rmap f [] = Inr []"
| "rmap f (x # xs) = rbind (f x) (\<lambda>y. rbind (rmap f xs) (\<lambda>ys. Inr (y # ys)))"

text \<open>
  The Python values that reach \<open>set_color\<close> and colour transformations: a string
  (a palette name, or anything else), a tuple of numbers, a list of numbers. Lists are
  unhashable, which matters for the \<open>in colors.keys()\<close> test of \<open>set_color\<close>.
\<close>

datatype pyval = PStr string | PTuple "real list" | PList "real list"

fun py_len :: "pyval \<Rightarrow> nat" where
  "py_len (PStr s) = length s"
| "py_len (PTuple xs) = length xs"
| "py_len (PList xs) = length xs"

section \<open>Shared lemmas\<close>

lemma vec3_eqI [intro]:
  "vx a = vx b \<Longrightarrow> vy a = vy b \<Longrightarrow> vz a = vz b \<Longrightarrow> a = (b::vec3)"
  by (simp add: prod_eq_iff)

lemma vsum_Nil [simp]: "vsum [] = vzero"
  by (simp add: vsum_def vzero_def)

lemma vsum_Cons [simp]: "vsum (p # ps) = vadd p (vsum ps)"
  by (simp add: vsum_def vadd_def)

lemma vsum_map_vadd_const:
  "vsum (map (\<lambda>p. vadd (f p) k) ps) = vadd (vsum (map f ps)) (vscale (real (length ps)) k)"
  by (induction ps) (auto simp: vec_simps algebra_simps)

lemma vsum_map_mat_vec:
  "vsum (map (\<lambda>p. mat_vec m (f p)) ps) = mat_vec m (vsum (map f ps))"
  by (induction ps) (auto simp: vec_simps algebra_simps)

lemma vsum_map_vsub_const:
  "vsum (map (\<lambda>p. vsub p k) ps) = vsub (vsum ps) (vscale (real (length ps)) k)"
  by (induction ps) (auto simp: vec_simps algebra_simps)

lemma vadd_vsub_cancel [simp]: "vadd (vsub p c) c = p"
  by (simp add: vec_simps)

lemma vsub_self [simp]: "vsub a a = vzero"
  by (simp add: vec_simps)

lemma vadd_vzero_left [simp]: "vadd vzero a = a"
  by (simp add: vec_simps)

lemma vadd_assoc: "vadd (vadd a b) c = vadd a (vadd b c)"
  by (simp add: vec_simps algebra_simps)

lemma vadd_vneg_is_vsub: "vadd p (vneg c) = vsub p c"
  by (simp add: vec_simps)

lemma mat_vec_vsub: "mat_vec m (vsub a b) = vsub (mat_vec m a) (mat_vec m b)"
  by (simp add: vec_simps algebra_simps)

lemma mat_vec_vscale: "mat_vec m (vscale k a) = vscale k (mat_vec m a)"
  by (simp add: vec_simps algebra_simps)

lemma mat_vec_vzero [simp]: "mat_vec m vzero = vzero"
  by (simp add: vec_simps)

lemma mat_vec_mat_mul: "mat_vec (mat_mul a b) v = mat_vec a (mat_vec b v)"
  by (simp add: mat_mul_def vec_simps algebra_simps)

lemma mat_vec_id3 [simp]: "mat_vec id3 v = v"
  by (simp add: vec_simps)

lemma mean_vsub_self:
  assumes "ps \<noteq> []"
  shows "vsum (map (\<lambda>p. vsub p (mean ps)) ps) = vzero"
proof -
  have "vsum (map (\<lambda>p. vsub p (mean ps)) ps) = vsub (vsum ps) (vscale (real (length ps)) (mean ps))"
    by (rule vsum_map_vsub_const)
  then show ?thesis
    using assms by (simp add: mean_def vec_simps)
qed

text \<open>
  The centroid of the image of a point list under \<open>p \<mapsto> M (p - c) + d\<close> is the image of
  the centroid. Figure rotation and scaling are both of this shape.
\<close>

lemma mean_affine:
  assumes "ps \<noteq> []"
  shows "mean (map (\<lambda>p. vadd (mat_vec m (vsub p c)) d) ps) = vadd (mat_vec m (vsub (mean ps) c)) d"
proof -
  let ?n = "real (length ps)"
  have n: "?n \<noteq> 0" using assms by simp
  have "vsum (map (\<lambda>p. vadd (mat_vec m (vsub p c)) d) ps)
      = vadd (mat_vec m (vsub (vsum ps) (vscale ?n c))) (vscale ?n d)"
    by (simp add: vsum_map_vadd_const vsum_map_mat_vec vsum_map_vsub_const)
  then show ?thesis
    using n by (simp add: mean_def vec_simps field_simps)
qed

lemma isometryD: "isometry m \<Longrightarrow> norm2 (mat_vec m v) = norm2 v"
  unfolding isometry_def by blast

lemma isometryI: "(\<And>v. norm2 (mat_vec m v) = norm2 v) \<Longrightarrow> isometry m"
  unfolding isometry_def by blast

lemma isometry_mat_mul: "isometry a \<Longrightarrow> isometry b \<Longrightarrow> isometry (mat_mul a b)"
  by (rule isometryI) (simp add: mat_vec_mat_mul isometryD)

lemma isometry_dist:
  "isometry m \<Longrightarrow> norm2 (vsub (mat_vec m a) (mat_vec m b)) = norm2 (vsub a b)"
  by (simp add: isometryD flip: mat_vec_vsub)

lemma clamp_in_interval: "lo \<le> hi \<Longrightarrow> clamp lo hi x \<in> {lo..hi}"
  by (simp add: clamp_def)

lemma clamp_id: "lo \<le> x \<Longrightarrow> x \<le> hi \<Longrightarrow> clamp lo hi x = x"
  by (simp add: clamp_def)

lemma py_int_nonneg: "0 \<le> x \<Longrightarrow> py_int x = \<lfloor>x\<rfloor>"
  by (simp add: py_int_def)

lemma rbind_Inr [simp]: "rbind (Inr a) k = k a"
  by (simp add: rbind_def)

lemma rbind_Inl [simp]: "rbind (Inl e) k = Inl e"
  by (simp add: rbind_def)

text \<open>A recursive call under \<open>rbind\<close> sees the value it is bound to.\<close>

lemma rbind_cong [fundef_cong]:
  "r = r' \<Longrightarrow> (\<And>x. r' = Inr x \<Longrightarrow> f x = g x) \<Longrightarrow> rbind r f = rbind r' g"
  by (cases r') (auto simp: rbind_def)

lemma rbind_eq_Inr:
  "rbind r k = Inr b \<longleftrightarrow> (\<exists>a. r = Inr a \<and> k a = Inr b)"
  by (cases r) auto

text \<open>Updating one element through a function that keeps a projection keeps that projection everywhere.\<close>

lemma nth_update_keeps:
  assumes "\<And>x. h (g x) = h x"
  shows "h ((xs[r := g (xs ! r)]) ! i) = h (xs ! i)"
proof (cases "r < length xs")
  case True
  then show ?thesis using assms by (cases "i = r") simp_all
next
  case False
  then show ?thesis by (simp add: list_update_beyond)
qed

lemma rbind_pair_Inr:
  "rbind r (\<lambda>(a, s). k a s) = Inr b \<longleftrightarrow> (\<exists>a s. r = Inr (a, s) \<and> k a s = Inr b)"
  by (cases r) (auto simp: rbind_def split: prod.splits)

lemma rbind_pairE:
  "rbind r (\<lambda>(a, s). k a s) = Inr b \<Longrightarrow> (\<And>a s. r = Inr (a, s) \<Longrightarrow> k a s = Inr b \<Longrightarrow> P) \<Longrightarrow> P"
  by (auto simp: rbind_pair_Inr)

lemma rmap_Inr:
  "(\<And>x. x \<in> set xs \<Longrightarrow> f x = Inr (g x)) \<Longrightarrow> rmap f xs = Inr (map g xs)"
  by (induction xs) simp_all

lemma py_index_mem:
  assumes "py_index xs i = Inr y"
  shows "y \<in> set xs"
proof -
  have r: "- int (length xs) \<le> i" "i < int (length xs)" and y: "y = xs ! nat (i mod int (length xs))"
    using assms by (auto simp: py_index_def split: if_splits)
  then have "0 < int (length xs)" by linarith
  then have "nat (i mod int (length xs)) < length xs" by (simp add: nat_less_iff)
  then show ?thesis using y by simp
qed

lemma rmap_Inr_set: "rmap f xs = Inr ys \<Longrightarrow> \<forall>y \<in> set ys. \<exists>x \<in> set xs. f x = Inr y"
  by (induction xs arbitrary: ys) (force simp: rbind_eq_Inr)+

lemma rmap_all:
  "(\<And>x. x \<in> set xs \<Longrightarrow> \<exists>y. f x = Inr y \<and> P y) \<Longrightarrow>
   \<exists>ys. rmap f xs = Inr ys \<and> length ys = length xs \<and> (\<forall>y \<in> set ys. P y)"
  by (induction xs) fastforce+

lemma list_update_all:
  "(\<forall>y \<in> set xs. P y) \<Longrightarrow> (\<And>y. P y \<Longrightarrow> P (g y)) \<Longrightarrow> \<forall>y \<in> set (xs[i := g (xs ! i)]). P y"
proof (cases "i < length xs")
  case True
  assume "\<forall>y \<in> set xs. P y" "\<And>y. P y \<Longrightarrow> P (g y)"
  with True show ?thesis using set_update_subset_insert [of xs i "g (xs ! i)"] by auto
qed (simp add: list_update_beyond)

lemma py_index_nat:
  "i < length xs \<Longrightarrow> py_index xs (int i) = Inr (xs ! i)"
  by (simp add: py_index_def)

lemma py_index_Nil [simp]: "py_index [] i = Inl IndexError"
  by (simp add: py_index_def)

end
