(* ===== verification/Figure.thy ===== *)
theory Figure
  imports Prelude
begin

text \<open>
  The figure component: \<open>Vertex\<close>, \<open>Edge\<close>, \<open>Face\<close> and \<open>FigureData\<close> of
  \<open>src/src/labs/lab5/dal/Figure.py\<close>, the colour palette of the same file, and the
  geometric and colour operations of \<open>FigureWrapper\<close> in
  \<open>src/src/labs/lab5/bll/FigureWrapper.py\<close> (\<open>translate\<close>, \<open>rotate\<close>, \<open>scale\<close>,
  \<open>set_color\<close>, \<open>apply_color_transformation\<close>, \<open>set_draw_mode\<close>).
  Edges and faces hold \<^emph>\<open>references\<close> to the figure's \<open>Vertex\<close> objects; they are
  modelled as indices into the vertex list, so that moving a vertex moves it in every
  edge and face that shares it, as the shared Python objects do.
  The lemmas show translation additive, rotation a rigid motion about a fixed centroid,
  scaling centroid-preserving, the palette and error branches of \<open>set_color\<close>, and that
  the figure and vertex colours stay in sync.
\<close>

section \<open>Data\<close>

record vertex =
  position :: vec3
  vcolor :: pyval

record edge =
  evertices :: "nat \<times> nat"
  ecolor :: pyval

record face =
  fvertices :: "nat list"
  fcolor :: pyval

record figure_data =
  vertices :: "vertex list"
  edges :: "edge list"
  faces :: "face list"
  color :: pyval
  angle :: vec3
  draw_mode :: string
  selected :: bool
  figure_color :: bool

text \<open>\<open>Vertex(x, y, z)\<close> with its default colour \<open>(0, 0, 100)\<close>.\<close>

definition mk_vertex :: "real \<Rightarrow> real \<Rightarrow> real \<Rightarrow> vertex" where
  "mk_vertex x y z = \<lparr>position = (x, y, z), vcolor = PTuple [0, 0, 100]\<rparr>"

definition mk_edge :: "nat \<Rightarrow> nat \<Rightarrow> edge" where
  "mk_edge a b = \<lparr>evertices = (a, b), ecolor = PTuple [1, 0, 0]\<rparr>"

definition mk_face :: "nat list \<Rightarrow> face" where
  "mk_face vs = \<lparr>fvertices = vs, fcolor = PTuple [0, 1, 0]\<rparr>"

text \<open>
  The second \<open>FigureData\<close> class of \<open>Figure.py\<close> (the one that shadows the first):
  faces default to the empty list, the angle starts at zero, the figure is not selected,
  and \<open>figure_color\<close> is set to \<open>True\<close> whatever the argument says.
\<close>

definition mk_figure_data ::
  "vertex list \<Rightarrow> edge list \<Rightarrow> face list option \<Rightarrow> pyval \<Rightarrow> string \<Rightarrow> bool \<Rightarrow> figure_data" where
  "mk_figure_data vs es fs c mode fc =
     \<lparr>vertices = vs, edges = es, faces = (case fs of None \<Rightarrow> [] | Some l \<Rightarrow> l),
      color = c, angle = (0, 0, 0), draw_mode = mode, selected = False, figure_color = True\<rparr>"

text \<open>The palette \<open>colors\<close> of \<open>Figure.py\<close>; its values are Python lists.\<close>

definition colors :: "string \<rightharpoonup> real list" where
  "colors = map_of
     [(''Red'', [1, 0, 0]), (''Green'', [0, 1, 0]), (''Blue'', [0, 0, 1]),
      (''Yellow'', [1, 1, 0]), (''Cyan'', [0, 1, 1]), (''Magenta'', [1, 0, 1]),
      (''White'', [1, 1, 1]), (''Black'', [0, 0, 0])]"

definition draw_modes :: "string list" where
  "draw_modes = [''points'', ''edges'', ''faces'']"

section \<open>Operations\<close>

definition positions :: "figure_data \<Rightarrow> vec3 list" where
  "positions f = map position (vertices f)"

text \<open>\<open>translate(x, y, z)\<close>: \<open>vertex.position += [x, y, z]\<close> for every vertex.\<close>

definition translate :: "real \<Rightarrow> real \<Rightarrow> real \<Rightarrow> figure_data \<Rightarrow> figure_data" where
  "translate x y z f =
     f\<lparr>vertices := map (\<lambda>v. v\<lparr>position := vadd (position v) (x, y, z)\<rparr>) (vertices f)\<rparr>"

text \<open>\<open>vertex.position = np.dot(vertex.position, M.T)\<close>, i.e. \<open>M\<close> applied to every vertex.\<close>

definition apply_matrix :: "mat3 \<Rightarrow> figure_data \<Rightarrow> figure_data" where
  "apply_matrix m f =
     f\<lparr>vertices := map (\<lambda>v. v\<lparr>position := mat_vec m (position v)\<rparr>) (vertices f)\<rparr>"

definition rotation_matrix_x :: "real \<Rightarrow> mat3" where
  "rotation_matrix_x a =
     ((1, 0, 0), (0, cos a, - sin a), (0, sin a, cos a))"

definition rotation_matrix_y :: "real \<Rightarrow> mat3" where
  "rotation_matrix_y a =
     ((cos a, 0, sin a), (0, 1, 0), (- sin a, 0, cos a))"

definition rotation_matrix_z :: "real \<Rightarrow> mat3" where
  "rotation_matrix_z a =
     ((cos a, - sin a, 0), (sin a, cos a, 0), (0, 0, 1))"

text \<open>\<open>np.dot(np.dot(Rz, Ry), Rx)\<close> with the angles converted to radians.\<close>

definition rotation_matrix :: "real \<Rightarrow> real \<Rightarrow> real \<Rightarrow> mat3" where
  "rotation_matrix dx dy dz =
     mat_mul (mat_mul (rotation_matrix_z (radians dz)) (rotation_matrix_y (radians dy)))
       (rotation_matrix_x (radians dx))"

text \<open>
  \<open>rotate(dx, dy, dz)\<close>: the centroid is recomputed, the figure translated to the origin,
  rotated, translated back, and the deltas added to the tracked angle.
\<close>

definition rotate :: "real \<Rightarrow> real \<Rightarrow> real \<Rightarrow> figure_data \<Rightarrow> figure_data" where
  "rotate dx dy dz f =
     (let center = mean (positions f);
          f1 = translate (- vx center) (- vy center) (- vz center) f;
          f2 = apply_matrix (rotation_matrix dx dy dz) f1;
          f3 = translate (vx center) (vy center) (vz center) f2
      in f3\<lparr>angle := vadd (angle f3) (dx, dy, dz)\<rparr>)"

definition scale_matrix :: "real \<Rightarrow> real \<Rightarrow> real \<Rightarrow> mat3" where
  "scale_matrix sx sy sz = ((sx, 0, 0), (0, sy, 0), (0, 0, sz))"

text \<open>\<open>scale(sx, sy, sz)\<close>: the same recentring with a diagonal matrix; no guard on the factors.\<close>

definition scale :: "real \<Rightarrow> real \<Rightarrow> real \<Rightarrow> figure_data \<Rightarrow> figure_data" where
  "scale sx sy sz f =
     (let center = mean (positions f);
          f1 = translate (- vx center) (- vy center) (- vz center) f;
          f2 = apply_matrix (scale_matrix sx sy sz) f1
      in translate (vx center) (vy center) (vz center) f2)"

text \<open>\<open>set_draw_mode(mode)\<close>: a mode outside the three names is silently ignored.\<close>

definition set_draw_mode :: "string \<Rightarrow> figure_data \<Rightarrow> figure_data" where
  "set_draw_mode mode f = (if mode \<in> set draw_modes then f\<lparr>draw_mode := mode\<rparr> else f)"

text \<open>The common tail of \<open>set_color\<close> and \<open>apply_color_transformation\<close>.\<close>

definition paint :: "pyval \<Rightarrow> figure_data \<Rightarrow> figure_data" where
  "paint c f = f\<lparr>color := c, vertices := map (\<lambda>v. v\<lparr>vcolor := c\<rparr>) (vertices f)\<rparr>"

text \<open>
  \<open>set_color(color)\<close>: \<open>color in colors.keys()\<close> hashes the argument, which raises
  \<open>TypeError\<close> for a list; a palette name is replaced by its RGB list; then anything
  whose \<open>len\<close> is not 3 raises \<open>ValueError\<close>.
\<close>

definition set_color :: "pyval \<Rightarrow> figure_data \<Rightarrow> figure_data result" where
  "set_color c f =
     (case c of
        PList _ \<Rightarrow> Inl (TypeError ''unhashable type: list'')
      | _ \<Rightarrow>
          (let c' = (case c of PStr s \<Rightarrow> (case colors s of Some rgb \<Rightarrow> PList rgb | None \<Rightarrow> c) | _ \<Rightarrow> c)
           in if py_len c' \<noteq> 3 then Inl (ValueError ''Color must be a tuple of 3 elements (R, G, B).'')
              else Inr (paint c' f)))"

text \<open>
  \<open>apply_color_transformation(t)\<close> for a callable \<open>t\<close> (a HOL function is always
  callable, so the \<open>callable\<close> guard never fires here): the result must have length 3.
\<close>

definition apply_color_transformation :: "(pyval \<Rightarrow> pyval) \<Rightarrow> figure_data \<Rightarrow> figure_data result" where
  "apply_color_transformation t f =
     (let nc = t (color f)
      in if py_len nc \<noteq> 3 then Inl (ValueError ''Transformed color must be a tuple of 3 elements (R, G, B).'')
         else Inr (paint nc f))"

section \<open>Invariants\<close>

text \<open>
  Well-formedness of a figure: every edge and face refers to vertices of the figure,
  every face has at least three corners, and the draw mode is one of the three names.
\<close>

definition wf_figure :: "figure_data \<Rightarrow> bool" where
  "wf_figure f \<longleftrightarrow>
     (\<forall>e \<in> set (edges f). fst (evertices e) < length (vertices f) \<and> snd (evertices e) < length (vertices f))
     \<and> (\<forall>fc \<in> set (faces f). 3 \<le> length (fvertices fc) \<and> (\<forall>i \<in> set (fvertices fc). i < length (vertices f)))
     \<and> draw_mode f \<in> set draw_modes"

text \<open>The figure colour and the colour of every vertex agree.\<close>

definition colors_synced :: "figure_data \<Rightarrow> bool" where
  "colors_synced f \<longleftrightarrow> (\<forall>v \<in> set (vertices f). vcolor v = color f)"

text \<open>The operations a caller can apply to one figure, as one step function.\<close>

datatype figure_op =
    Translate real real real
  | Rotate real real real
  | Scale real real real
  | SetColor pyval
  | SetDrawMode string

fun figure_step :: "figure_op \<Rightarrow> figure_data \<Rightarrow> figure_data result" where
  "figure_step (Translate x y z) f = Inr (translate x y z f)"
| "figure_step (Rotate dx dy dz) f = Inr (rotate dx dy dz f)"
| "figure_step (Scale sx sy sz) f = Inr (scale sx sy sz f)"
| "figure_step (SetColor c) f = set_color c f"
| "figure_step (SetDrawMode m) f = Inr (set_draw_mode m f)"

section \<open>Lemmas\<close>

named_theorems figure_simps "how the figure operations act on the fields"

lemma positions_translate [figure_simps]:
  "positions (translate x y z f) = map (\<lambda>p. vadd p (x, y, z)) (positions f)"
  by (simp add: positions_def translate_def)

lemma positions_apply_matrix [figure_simps]:
  "positions (apply_matrix m f) = map (mat_vec m) (positions f)"
  by (simp add: positions_def apply_matrix_def)

lemma length_vertices_translate [figure_simps]: "length (vertices (translate x y z f)) = length (vertices f)"
  by (simp add: translate_def)

lemma length_vertices_apply_matrix [figure_simps]: "length (vertices (apply_matrix m f)) = length (vertices f)"
  by (simp add: apply_matrix_def)

lemma fields_translate [figure_simps]:
  "edges (translate x y z f) = edges f" "faces (translate x y z f) = faces f"
  "color (translate x y z f) = color f" "angle (translate x y z f) = angle f"
  "draw_mode (translate x y z f) = draw_mode f" "selected (translate x y z f) = selected f"
  "figure_color (translate x y z f) = figure_color f"
  "map vcolor (vertices (translate x y z f)) = map vcolor (vertices f)"
  by (simp_all add: translate_def comp_def)

lemma fields_apply_matrix [figure_simps]:
  "edges (apply_matrix m f) = edges f" "faces (apply_matrix m f) = faces f"
  "color (apply_matrix m f) = color f" "angle (apply_matrix m f) = angle f"
  "draw_mode (apply_matrix m f) = draw_mode f" "selected (apply_matrix m f) = selected f"
  "figure_color (apply_matrix m f) = figure_color f"
  "map vcolor (vertices (apply_matrix m f)) = map vcolor (vertices f)"
  by (simp_all add: apply_matrix_def comp_def)

text \<open>Both recentring operations move every vertex by \<open>p \<mapsto> M (p - c) + c\<close>, \<open>c\<close> the centroid.\<close>

lemma positions_recentred:
  "positions (translate (vx c) (vy c) (vz c) (apply_matrix m (translate (- vx c) (- vy c) (- vz c) f)))
   = map (\<lambda>p. vadd (mat_vec m (vsub p c)) c) (positions f)"
  by (simp add: figure_simps vadd_vneg_is_vsub [unfolded vneg_def, simplified])

lemma positions_rotate:
  "positions (rotate dx dy dz f)
   = map (\<lambda>p. vadd (mat_vec (rotation_matrix dx dy dz) (vsub p (mean (positions f)))) (mean (positions f)))
       (positions f)"
proof -
  have "positions (rotate dx dy dz f)
      = positions (translate (vx (mean (positions f))) (vy (mean (positions f))) (vz (mean (positions f)))
          (apply_matrix (rotation_matrix dx dy dz)
            (translate (- vx (mean (positions f))) (- vy (mean (positions f))) (- vz (mean (positions f))) f)))"
    by (simp add: rotate_def Let_def positions_def)
  then show ?thesis by (simp only: positions_recentred)
qed

lemma positions_scale:
  "positions (scale sx sy sz f)
   = map (\<lambda>p. vadd (mat_vec (scale_matrix sx sy sz) (vsub p (mean (positions f)))) (mean (positions f)))
       (positions f)"
  unfolding scale_def Let_def by (rule positions_recentred)

lemma isometry_rotation_matrix_x: "isometry (rotation_matrix_x a)"
proof (rule isometryI)
  fix v :: vec3
  show "norm2 (mat_vec (rotation_matrix_x a) v) = norm2 v"
    unfolding rotation_matrix_x_def mat_vec_def norm2_def dot_def fst_conv snd_conv
    using sin_cos_squared_add3 [of a] by algebra
qed

lemma isometry_rotation_matrix_y: "isometry (rotation_matrix_y a)"
proof (rule isometryI)
  fix v :: vec3
  show "norm2 (mat_vec (rotation_matrix_y a) v) = norm2 v"
    unfolding rotation_matrix_y_def mat_vec_def norm2_def dot_def fst_conv snd_conv
    using sin_cos_squared_add3 [of a] by algebra
qed

lemma isometry_rotation_matrix_z: "isometry (rotation_matrix_z a)"
proof (rule isometryI)
  fix v :: vec3
  show "norm2 (mat_vec (rotation_matrix_z a) v) = norm2 v"
    unfolding rotation_matrix_z_def mat_vec_def norm2_def dot_def fst_conv snd_conv
    using sin_cos_squared_add3 [of a] by algebra
qed

lemma isometry_rotation_matrix: "isometry (rotation_matrix dx dy dz)"
  unfolding rotation_matrix_def
  by (intro isometry_mat_mul isometry_rotation_matrix_x isometry_rotation_matrix_y isometry_rotation_matrix_z)

lemma vsub_vadd_cancel [simp]: "vsub (vadd q c) c = q"
  by (simp add: vec_simps)

lemma mean_positions_recentred:
  "mean (map (\<lambda>p. vadd (mat_vec m (vsub p (mean ps))) (mean ps)) ps) = mean ps"
proof (cases "ps = []")
  case True
  then show ?thesis by simp
next
  case False
  then show ?thesis by (simp add: mean_affine)
qed

lemma mean_positions_rotate [figure_simps]:
  "mean (positions (rotate dx dy dz f)) = mean (positions f)"
  by (simp only: positions_rotate mean_positions_recentred)

lemma mean_positions_scale [figure_simps]:
  "mean (positions (scale sx sy sz f)) = mean (positions f)"
  by (simp only: positions_scale mean_positions_recentred)

lemma rotate_fields [figure_simps]:
  "edges (rotate dx dy dz f) = edges f" "faces (rotate dx dy dz f) = faces f"
  "color (rotate dx dy dz f) = color f" "draw_mode (rotate dx dy dz f) = draw_mode f"
  "selected (rotate dx dy dz f) = selected f" "figure_color (rotate dx dy dz f) = figure_color f"
  "length (vertices (rotate dx dy dz f)) = length (vertices f)"
  "map vcolor (vertices (rotate dx dy dz f)) = map vcolor (vertices f)"
  by (simp_all add: rotate_def Let_def figure_simps)

lemma scale_fields [figure_simps]:
  "edges (scale sx sy sz f) = edges f" "faces (scale sx sy sz f) = faces f"
  "color (scale sx sy sz f) = color f" "draw_mode (scale sx sy sz f) = draw_mode f"
  "angle (scale sx sy sz f) = angle f"
  "selected (scale sx sy sz f) = selected f" "figure_color (scale sx sy sz f) = figure_color f"
  "length (vertices (scale sx sy sz f)) = length (vertices f)"
  "map vcolor (vertices (scale sx sy sz f)) = map vcolor (vertices f)"
  by (simp_all add: scale_def Let_def figure_simps)

lemma angle_rotate [figure_simps]: "angle (rotate dx dy dz f) = vadd (angle f) (dx, dy, dz)"
  by (simp add: rotate_def Let_def figure_simps)

text \<open>Two rotations in a row act as one rotation by the product matrix about the same centroid.\<close>

lemma positions_rotate_rotate:
  "positions (rotate a' b' c' (rotate a b c f))
   = map (\<lambda>p. vadd (mat_vec (rotation_matrix a' b' c') (mat_vec (rotation_matrix a b c) (vsub p (mean (positions f)))))
                    (mean (positions f))) (positions f)"
  by (simp add: positions_rotate [of a' b' c'] mean_positions_rotate)
     (simp add: positions_rotate comp_def)

lemma mat_vec_rotation_matrix_x_only:
  "mat_vec (rotation_matrix dx 0 0) v = mat_vec (rotation_matrix_x (radians dx)) v"
  by (simp add: rotation_matrix_def mat_vec_mat_mul)
     (simp add: radians_def rotation_matrix_y_def rotation_matrix_z_def vec_simps)

lemma mat_vec_rotation_matrix_y_only:
  "mat_vec (rotation_matrix 0 dy 0) v = mat_vec (rotation_matrix_y (radians dy)) v"
  by (simp add: rotation_matrix_def mat_vec_mat_mul)
     (simp add: radians_def rotation_matrix_x_def rotation_matrix_z_def vec_simps)

lemma mat_vec_rotation_matrix_z_only:
  "mat_vec (rotation_matrix 0 0 dz) v = mat_vec (rotation_matrix_z (radians dz)) v"
  by (simp add: rotation_matrix_def mat_vec_mat_mul)
     (simp add: radians_def rotation_matrix_x_def rotation_matrix_y_def vec_simps)

lemma rotation_matrix_x_neg:
  "mat_vec (rotation_matrix_x (- a)) (mat_vec (rotation_matrix_x a) v) = v"
  unfolding rotation_matrix_x_def mat_vec_def dot_def fst_conv snd_conv cos_minus sin_minus
  using sin_cos_squared_add3 [of a] by (intro vec3_eqI; simp; algebra)

lemma rotation_matrix_y_neg:
  "mat_vec (rotation_matrix_y (- a)) (mat_vec (rotation_matrix_y a) v) = v"
  unfolding rotation_matrix_y_def mat_vec_def dot_def fst_conv snd_conv cos_minus sin_minus
  using sin_cos_squared_add3 [of a] by (intro vec3_eqI; simp; algebra)

lemma rotation_matrix_z_neg:
  "mat_vec (rotation_matrix_z (- a)) (mat_vec (rotation_matrix_z a) v) = v"
  unfolding rotation_matrix_z_def mat_vec_def dot_def fst_conv snd_conv cos_minus sin_minus
  using sin_cos_squared_add3 [of a] by (intro vec3_eqI; simp; algebra)

lemma radians_minus: "radians (- d) = - radians d"
  by (simp add: radians_def)

lemma rotation_matrix_decompose:
  "mat_vec (rotation_matrix a b c) v
   = mat_vec (rotation_matrix 0 0 c) (mat_vec (rotation_matrix 0 b 0) (mat_vec (rotation_matrix a 0 0) v))"
  by (simp add: mat_vec_rotation_matrix_x_only mat_vec_rotation_matrix_y_only mat_vec_rotation_matrix_z_only)
     (simp add: rotation_matrix_def mat_vec_mat_mul)

lemma positions_scale_one:
  "positions (scale 1 1 1 f) = positions f"
proof -
  have "mat_vec (scale_matrix 1 1 1) v = v" for v
    by (simp add: scale_matrix_def vec_simps)
  then show ?thesis by (simp add: positions_scale)
qed

lemma paint_synced: "colors_synced (paint c f)"
  by (simp add: colors_synced_def paint_def)

lemma paint_fields [figure_simps]:
  "positions (paint c f) = positions f" "edges (paint c f) = edges f" "faces (paint c f) = faces f"
  "draw_mode (paint c f) = draw_mode f" "color (paint c f) = c"
  "length (vertices (paint c f)) = length (vertices f)"
  by (simp_all add: paint_def positions_def comp_def)

lemma colors_synced_map_vcolor:
  "map vcolor (vertices g) = map vcolor (vertices f) \<Longrightarrow> color g = color f \<Longrightarrow> colors_synced f \<Longrightarrow> colors_synced g"
  unfolding colors_synced_def by (metis in_set_conv_nth length_map nth_map)

lemma set_color_cases:
  "set_color c f = Inr g \<Longrightarrow> \<exists>c'. g = paint c' f \<and> py_len c' = 3"
  by (auto simp: set_color_def Let_def split: pyval.splits option.splits if_splits)

lemma set_color_palette:
  "colors s = Some rgb \<Longrightarrow> length rgb = 3 \<Longrightarrow> set_color (PStr s) f = Inr (paint (PList rgb) f)"
  by (simp add: set_color_def)

lemma wf_figure_cong:
  "edges g = edges f \<Longrightarrow> faces g = faces f \<Longrightarrow> length (vertices g) = length (vertices f)
   \<Longrightarrow> draw_mode g = draw_mode f \<Longrightarrow> wf_figure f \<Longrightarrow> wf_figure g"
  unfolding wf_figure_def by simp

lemma set_draw_mode_fields [figure_simps]:
  "vertices (set_draw_mode m f) = vertices f" "edges (set_draw_mode m f) = edges f"
  "faces (set_draw_mode m f) = faces f" "color (set_draw_mode m f) = color f"
  by (simp_all add: set_draw_mode_def)

lemma draw_mode_set_draw_mode:
  "draw_mode f \<in> set draw_modes \<Longrightarrow> draw_mode (set_draw_mode m f) \<in> set draw_modes"
  by (simp add: set_draw_mode_def)

lemma figure_step_shape:
  "figure_step op f = Inr g \<Longrightarrow>
     edges g = edges f \<and> faces g = faces f \<and> length (vertices g) = length (vertices f)"
  by (cases op) (auto simp: figure_simps dest!: set_color_cases)

lemma figure_step_colors:
  "figure_step op f = Inr g \<Longrightarrow>
     (map vcolor (vertices g) = map vcolor (vertices f) \<and> color g = color f) \<or> colors_synced g"
  by (cases op) (auto simp: figure_simps paint_synced dest!: set_color_cases)

section \<open>Properties\<close>

text \<open>Translating by one offset and then another is translating once by their sum.\<close>

theorem translate_translate:
  "translate x2 y2 z2 (translate x1 y1 z1 f) = translate (x1 + x2) (y1 + y2) (z1 + z2) f"
  by (simp add: translate_def comp_def vadd_assoc) (simp add: vadd_def)

text \<open>C6. Rotation is about the centroid: the mean of the vertex positions is unchanged.\<close>

theorem rotate_keeps_centroid:
  "mean (positions (rotate dx dy dz f)) = mean (positions f)"
  by (rule mean_positions_rotate)

text \<open>Rotation is rigid: the squared distance between any two vertices is unchanged.\<close>

theorem rotate_rigid:
  assumes "i < length (vertices f)" and "j < length (vertices f)"
  shows "norm2 (vsub (positions (rotate dx dy dz f) ! i) (positions (rotate dx dy dz f) ! j))
         = norm2 (vsub (positions f ! i) (positions f ! j))"
proof -
  let ?m = "mean (positions f)" and ?r = "rotation_matrix dx dy dz"
  have step: "norm2 (vsub (vadd (mat_vec ?r (vsub p ?m)) ?m) (vadd (mat_vec ?r (vsub q ?m)) ?m))
        = norm2 (vsub p q)" for p q
  proof -
    have "vsub (vadd (mat_vec ?r (vsub p ?m)) ?m) (vadd (mat_vec ?r (vsub q ?m)) ?m)
          = vsub (mat_vec ?r (vsub p ?m)) (mat_vec ?r (vsub q ?m))"
      by (simp add: vec_simps)
    moreover have "norm2 (vsub (mat_vec ?r (vsub p ?m)) (mat_vec ?r (vsub q ?m)))
          = norm2 (vsub (vsub p ?m) (vsub q ?m))"
      by (rule isometry_dist [OF isometry_rotation_matrix])
    moreover have "vsub (vsub p ?m) (vsub q ?m) = vsub p q"
      by (simp add: vec_simps)
    ultimately show ?thesis by simp
  qed
  have len: "length (positions f) = length (vertices f)"
    by (simp add: positions_def)
  from assms len show ?thesis
    by (simp add: positions_rotate step)
qed

theorem rotate_rigid_witness:
  "let f = \<lparr>vertices = [mk_vertex 0 0 0, mk_vertex 1 0 0], edges = [mk_edge 0 1], faces = [],
            color = PTuple [1, 1, 1], angle = (0, 0, 0), draw_mode = ''edges'', selected = False,
            figure_color = True\<rparr>
   in 0 < length (vertices f) \<and> 1 < length (vertices f) \<and>
      norm2 (vsub (positions (rotate 30 45 60 f) ! 0) (positions (rotate 30 45 60 f) ! 1)) = 1"
proof -
  let ?f = "\<lparr>vertices = [mk_vertex 0 0 0, mk_vertex 1 0 0], edges = [mk_edge 0 1], faces = [],
            color = PTuple [1, 1, 1], angle = (0, 0, 0), draw_mode = ''edges'', selected = False,
            figure_color = True\<rparr>"
  have "norm2 (vsub (positions (rotate 30 45 60 ?f) ! 0) (positions (rotate 30 45 60 ?f) ! 1))
        = norm2 (vsub (positions ?f ! 0) (positions ?f ! 1))"
    by (rule rotate_rigid) simp_all
  then show ?thesis by (simp add: positions_def mk_vertex_def vec_simps)
qed

text \<open>
  A rotation is undone by rotating back about each axis in the reverse order
  (\<open>R = Rz Ry Rx\<close>, so the inverse is \<open>Rx\<^sup>-\<^sup>1 Ry\<^sup>-\<^sup>1 Rz\<^sup>-\<^sup>1\<close>): the vertex positions return.
\<close>

theorem rotate_undo:
  "positions (rotate (- a) 0 0 (rotate 0 (- b) 0 (rotate 0 0 (- c) (rotate a b c f)))) = positions f"
proof -
  let ?m = "mean (positions f)"
  let ?g1 = "rotate a b c f"
  let ?g2 = "rotate 0 0 (- c) ?g1"
  let ?g3 = "rotate 0 (- b) 0 ?g2"
  have m1: "mean (positions ?g1) = ?m" and m2: "mean (positions ?g2) = ?m"
    and m3: "mean (positions ?g3) = ?m"
    by (simp_all add: mean_positions_rotate)
  have undo: "mat_vec (rotation_matrix (- a) 0 0) (mat_vec (rotation_matrix 0 (- b) 0)
                (mat_vec (rotation_matrix 0 0 (- c)) (mat_vec (rotation_matrix a b c) v))) = v" for v
    by (simp add: rotation_matrix_decompose [of a b c] mat_vec_rotation_matrix_x_only
        mat_vec_rotation_matrix_y_only mat_vec_rotation_matrix_z_only radians_minus
        rotation_matrix_x_neg rotation_matrix_y_neg rotation_matrix_z_neg)
  have p1: "positions ?g1 = map (\<lambda>p. vadd (mat_vec (rotation_matrix a b c) (vsub p ?m)) ?m) (positions f)"
    by (rule positions_rotate)
  have p2: "positions ?g2 = map (\<lambda>p. vadd (mat_vec (rotation_matrix 0 0 (- c)) (vsub p ?m)) ?m) (positions ?g1)"
    by (simp only: positions_rotate [of 0 0 "- c" ?g1] m1)
  have p3: "positions ?g3 = map (\<lambda>p. vadd (mat_vec (rotation_matrix 0 (- b) 0) (vsub p ?m)) ?m) (positions ?g2)"
    by (simp only: positions_rotate [of 0 "- b" 0 ?g2] m2)
  have p4: "positions (rotate (- a) 0 0 ?g3)
      = map (\<lambda>p. vadd (mat_vec (rotation_matrix (- a) 0 0) (vsub p ?m)) ?m) (positions ?g3)"
    by (simp only: positions_rotate [of "- a" 0 0 ?g3] m3)
  have "positions (rotate (- a) 0 0 ?g3)
        = map (\<lambda>p. vadd (mat_vec (rotation_matrix (- a) 0 0) (mat_vec (rotation_matrix 0 (- b) 0)
                (mat_vec (rotation_matrix 0 0 (- c)) (mat_vec (rotation_matrix a b c) (vsub p ?m))))) ?m)
            (positions f)"
    by (simp only: p1 p2 p3 p4 map_map comp_def vsub_vadd_cancel)
  also have "\<dots> = positions f"
    by (simp add: undo map_idI)
  finally show ?thesis .
qed

text \<open>
  C8. Every figure operation keeps a figure well formed and keeps the figure colour and
  the vertex colours in sync once they are: geometric operations and \<open>set_draw_mode\<close> touch
  neither edges, faces nor colours, and a successful \<open>set_color\<close> writes one colour to the
  figure and every vertex.
\<close>

theorem figure_step_invariants:
  assumes "figure_step op f = Inr g"
  shows "(wf_figure f \<longrightarrow> wf_figure g) \<and> (colors_synced f \<longrightarrow> colors_synced g)"
proof
  have shape: "edges g = edges f" "faces g = faces f" "length (vertices g) = length (vertices f)"
    using figure_step_shape [OF assms] by simp_all
  have "draw_mode f \<in> set draw_modes \<Longrightarrow> draw_mode g \<in> set draw_modes"
    using assms by (cases op) (auto simp: figure_simps draw_mode_set_draw_mode dest!: set_color_cases)
  with shape show "wf_figure f \<longrightarrow> wf_figure g"
    unfolding wf_figure_def by simp
  show "colors_synced f \<longrightarrow> colors_synced g"
    using figure_step_colors [OF assms] colors_synced_map_vcolor by blast
qed

theorem figure_step_invariants_witness:
  "figure_step (SetColor (PStr ''Red''))
     (mk_figure_data [mk_vertex 0 0 0, mk_vertex 1 0 0] [mk_edge 0 1] None (PTuple [1, 1, 1]) ''edges'' True)
   = Inr (paint (PList [1, 0, 0])
     (mk_figure_data [mk_vertex 0 0 0, mk_vertex 1 0 0] [mk_edge 0 1] None (PTuple [1, 1, 1]) ''edges'' True))
   \<and> wf_figure (paint (PList [1, 0, 0])
     (mk_figure_data [mk_vertex 0 0 0, mk_vertex 1 0 0] [mk_edge 0 1] None (PTuple [1, 1, 1]) ''edges'' True))"
proof -
  let ?f = "mk_figure_data [mk_vertex 0 0 0, mk_vertex 1 0 0] [mk_edge 0 1] None (PTuple [1, 1, 1]) ''edges'' True"
  have step: "figure_step (SetColor (PStr ''Red'')) ?f = Inr (paint (PList [1, 0, 0]) ?f)"
    by (simp add: set_color_def colors_def)
  have wf: "wf_figure ?f"
    by (simp add: wf_figure_def mk_figure_data_def mk_edge_def draw_modes_def)
  show ?thesis
    using figure_step_invariants [OF step] step wf by simp
qed

text \<open>
  \<open>set_color\<close> accepts more than a palette name or an RGB triple: any string of
  length three that is not a palette name becomes the figure's colour, while a three-element
  Python list raises \<open>TypeError\<close> at the \<open>in colors.keys()\<close> test and a tuple of another
  length raises \<open>ValueError\<close>.
\<close>

theorem set_color_shapes:
  "set_color (PStr ''abc'') f = Inr (paint (PStr ''abc'') f)
   \<and> set_color (PStr ''Green'') f = Inr (paint (PList [0, 1, 0]) f)
   \<and> set_color (PList [1, 0, 0]) f = Inl (TypeError ''unhashable type: list'')
   \<and> set_color (PTuple [1, 0]) f = Inl (ValueError ''Color must be a tuple of 3 elements (R, G, B).'')"
  by (simp add: set_color_def colors_def)

text \<open>Scaling is about the centroid: the mean of the vertex positions is unchanged.\<close>

theorem scale_keeps_centroid:
  "mean (positions (scale sx sy sz f)) = mean (positions f)"
  by (rule mean_positions_scale)

end
