(* ===== verification/Camera.thy ===== *)
theory Camera
  imports Prelude
begin

text \<open>
  The camera: \<open>CameraData\<close> of \<open>src/src/labs/lab5/dal/Camera.py\<close> as a record, its
  \<open>__eq__\<close>, and the operations of \<open>Camera\<close> in \<open>src/src/labs/lab5/bll/CameraWrapper.py\<close>:
  \<open>create\<close>, \<open>apply_transformations\<close> (the nine scalars handed to \<open>gluLookAt\<close>),
  \<open>rotate\<close> (a first-person look with the pitch clamped to [-89, 89]), \<open>translate\<close>
  (position and target moved together), the four clamped \<open>update_*\<close> mutators and
  \<open>get_perspective\<close>. The lemmas show the clamp ranges are an invariant of every
  operation, the look direction after \<open>rotate\<close> has unit length, \<open>translate\<close> keeps the
  view direction, and they record that \<open>z_near < z_far\<close> is not maintained.
\<close>

section \<open>Data\<close>

record camera_data =
  cam_position :: vec3
  target :: vec3
  up_vector :: vec3
  pitch :: real
  yaw :: real
  fovy :: real
  aspect :: real
  z_near :: real
  z_far :: real

text \<open>The defaults of \<open>CameraData.__init__\<close>.\<close>

definition default_camera_data :: camera_data where
  "default_camera_data =
     \<lparr>cam_position = (0, 0, 0), target = (0, 0, -1), up_vector = (0, 1, 0), pitch = 0, yaw = 0,
      fovy = 45, aspect = 1.33, z_near = 0.1, z_far = 1000\<rparr>"

text \<open>\<open>Camera.create\<close> with its defaults for the angles and the perspective.\<close>

definition camera_create ::
  "vec3 \<Rightarrow> vec3 \<Rightarrow> vec3 \<Rightarrow> real \<Rightarrow> real \<Rightarrow> real \<Rightarrow> real \<Rightarrow> real \<Rightarrow> real \<Rightarrow> camera_data" where
  "camera_create p t u pi0 ya fo asp zn zf =
     \<lparr>cam_position = p, target = t, up_vector = u, pitch = pi0, yaw = ya,
      fovy = fo, aspect = asp, z_near = zn, z_far = zf\<rparr>"

abbreviation camera_create_default :: "vec3 \<Rightarrow> vec3 \<Rightarrow> vec3 \<Rightarrow> camera_data" where
  "camera_create_default p t u \<equiv> camera_create p t u 0 (-90) 45 1.77 0.1 100"

text \<open>
  \<open>CameraData.__eq__\<close> as written: its aspect conjunct compares \<open>self.aspect\<close> with
  itself.
\<close>

definition camera_eq :: "camera_data \<Rightarrow> camera_data \<Rightarrow> bool" where
  "camera_eq c d \<longleftrightarrow>
     cam_position c = cam_position d \<and> target c = target d \<and> up_vector c = up_vector d
     \<and> pitch c = pitch d \<and> yaw c = yaw d \<and> fovy c = fovy d \<and> aspect c = aspect c
     \<and> z_near c = z_near d \<and> z_far c = z_far d"

section \<open>Operations\<close>

text \<open>\<open>apply_transformations\<close>: the arguments of \<open>gluLookAt\<close>.\<close>

definition apply_transformations :: "camera_data \<Rightarrow> vec3 \<times> vec3 \<times> vec3" where
  "apply_transformations c = (cam_position c, target c, up_vector c)"

text \<open>The unit look direction for a yaw and a pitch in degrees.\<close>

definition look_direction :: "real \<Rightarrow> real \<Rightarrow> vec3" where
  "look_direction ya pi0 =
     (cos (radians ya) * cos (radians pi0), sin (radians pi0), sin (radians ya) * cos (radians pi0))"

text \<open>
  \<open>rotate(dx, dy, dz=0)\<close>: \<open>yaw -= dy\<close>, \<open>pitch += dx\<close> (the axes are swapped on
  purpose), the pitch clamped to [-89, 89], then the target recomputed from the position.
\<close>

definition cam_rotate :: "real \<Rightarrow> real \<Rightarrow> camera_data \<Rightarrow> camera_data" where
  "cam_rotate dx dy c =
     (let ya = yaw c - dy;
          pi0 = clamp (-89) 89 (pitch c + dx)
      in c\<lparr>yaw := ya, pitch := pi0, target := vadd (cam_position c) (look_direction ya pi0)\<rparr>)"

definition cam_translate :: "real \<Rightarrow> real \<Rightarrow> real \<Rightarrow> camera_data \<Rightarrow> camera_data" where
  "cam_translate x y z c =
     c\<lparr>cam_position := vadd (cam_position c) (x, y, z), target := vadd (target c) (x, y, z)\<rparr>"

definition update_fovy :: "real \<Rightarrow> camera_data \<Rightarrow> camera_data" where
  "update_fovy d c = c\<lparr>fovy := clamp 10 170 (fovy c + d)\<rparr>"

text \<open>
  \<open>update_aspect(delta)\<close>: a zero (falsy) argument returns early; otherwise the aspect
  becomes the clamped argument itself, not the old aspect plus it.
\<close>

definition update_aspect :: "real \<Rightarrow> camera_data \<Rightarrow> camera_data" where
  "update_aspect d c = (if d = 0 then c else c\<lparr>aspect := clamp 0.1 5 d\<rparr>)"

definition update_z_near :: "real \<Rightarrow> camera_data \<Rightarrow> camera_data" where
  "update_z_near d c = c\<lparr>z_near := clamp 0.01 5 (z_near c + d)\<rparr>"

definition update_z_far :: "real \<Rightarrow> camera_data \<Rightarrow> camera_data" where
  "update_z_far d c = c\<lparr>z_far := clamp 3 1000 (z_far c + d)\<rparr>"

definition get_perspective :: "camera_data \<Rightarrow> real \<times> real \<times> real \<times> real" where
  "get_perspective c = (fovy c, aspect c, z_near c, z_far c)"

text \<open>The camera's mutators as one step function over an operation datatype.\<close>

datatype camera_op =
    CamRotate real real
  | CamTranslate real real real
  | UpdateFovy real
  | UpdateAspect real
  | UpdateZNear real
  | UpdateZFar real

fun camera_step :: "camera_op \<Rightarrow> camera_data \<Rightarrow> camera_data" where
  "camera_step (CamRotate dx dy) c = cam_rotate dx dy c"
| "camera_step (CamTranslate x y z) c = cam_translate x y z c"
| "camera_step (UpdateFovy d) c = update_fovy d c"
| "camera_step (UpdateAspect d) c = update_aspect d c"
| "camera_step (UpdateZNear d) c = update_z_near d c"
| "camera_step (UpdateZFar d) c = update_z_far d c"

definition camera_run :: "camera_op list \<Rightarrow> camera_data \<Rightarrow> camera_data" where
  "camera_run ops c = fold camera_step ops c"

text \<open>The documented ranges of every clamped camera field.\<close>

definition camera_in_range :: "camera_data \<Rightarrow> bool" where
  "camera_in_range c \<longleftrightarrow>
     pitch c \<in> {-89..89} \<and> fovy c \<in> {10..170} \<and> aspect c \<in> {0.1..5}
     \<and> z_near c \<in> {0.01..5} \<and> z_far c \<in> {3..1000}"

section \<open>Lemmas\<close>

lemma camera_step_in_range: "camera_in_range c \<Longrightarrow> camera_in_range (camera_step op c)"
  by (cases op)
     (auto simp: camera_in_range_def cam_rotate_def Let_def cam_translate_def update_fovy_def
        update_aspect_def update_z_near_def update_z_far_def clamp_def)

lemma norm2_look_direction: "norm2 (look_direction ya pi0) = 1"
proof -
  let ?a = "radians ya" and ?b = "radians pi0"
  have "(cos ?a * cos ?b)\<^sup>2 + (sin ?b)\<^sup>2 + (sin ?a * cos ?b)\<^sup>2
        = ((cos ?a)\<^sup>2 + (sin ?a)\<^sup>2) * (cos ?b)\<^sup>2 + (sin ?b)\<^sup>2"
    by algebra
  also have "\<dots> = 1" by (simp only: sin_cos_squared_add2 mult_1)
  finally show ?thesis
    by (simp add: look_direction_def vec_simps power2_eq_square)
qed

section \<open>Properties\<close>

text \<open>
  C7. Clamp invariant: from a camera whose clamped fields are in their documented ranges,
  any sequence of rotations, translations and perspective updates keeps every one of them
  in range (pitch [-89, 89], fovy [10, 170], aspect [0.1, 5], z_near [0.01, 5],
  z_far [3, 1000]).
\<close>

theorem camera_run_in_range:
  assumes "camera_in_range c"
  shows "camera_in_range (camera_run ops c)"
  using assms unfolding camera_run_def
proof (induction ops arbitrary: c)
  case Nil
  then show ?case by simp
next
  case (Cons op ops)
  then show ?case by (simp add: camera_step_in_range)
qed

theorem camera_run_in_range_witness:
  "camera_in_range (camera_create_default (0, 0, 5) (0, 0, 0) (0, 1, 0))
   \<and> camera_in_range (camera_run [UpdateFovy 500, UpdateZNear (-3), UpdateZFar 5000, CamRotate 200 10]
        (camera_create_default (0, 0, 5) (0, 0, 0) (0, 1, 0)))"
proof -
  have h: "camera_in_range (camera_create_default (0, 0, 5) (0, 0, 0) (0, 1, 0))"
    by (simp add: camera_in_range_def camera_create_def)
  show ?thesis using h camera_run_in_range [OF h] by simp
qed

text \<open>
  C13. Each update clamps on its own: whatever the starting camera and however large the
  delta, \<open>update_fovy\<close> leaves fovy in [10, 170], \<open>update_z_near\<close> leaves z_near in
  [0.01, 5] and \<open>update_z_far\<close> leaves z_far in [3, 1000].
\<close>

theorem update_clamps:
  "fovy (update_fovy d c) \<in> {10..170} \<and> z_near (update_z_near d c) \<in> {0.01..5}
   \<and> z_far (update_z_far d c) \<in> {3..1000}"
  by (simp add: update_fovy_def update_z_near_def update_z_far_def clamp_def)

text \<open>
  After \<open>rotate\<close> the target is the position plus a unit vector: the camera looks
  at a point at distance one, whatever the angles.
\<close>

theorem cam_rotate_unit_direction:
  "norm2 (vsub (target (cam_rotate dx dy c)) (cam_position (cam_rotate dx dy c))) = 1"
proof -
  have "vsub (vadd p d) p = d" for p d by (simp add: vec_simps)
  then show ?thesis
    by (simp add: cam_rotate_def Let_def norm2_look_direction)
qed

text \<open>\<open>translate\<close> moves the eye and the target together: the view direction is kept.\<close>

theorem cam_translate_keeps_direction:
  "vsub (target (cam_translate x y z c)) (cam_position (cam_translate x y z c))
   = vsub (target c) (cam_position c)"
  by (simp add: cam_translate_def vec_simps)

text \<open>
  The ordering \<open>z_near < z_far\<close> is not maintained: from the default camera of
  \<open>Camera.create\<close>, lowering z_far by 1000 and raising z_near by 10 gives z_near = 5 and
  z_far = 3, although both fields stay inside their own ranges.
\<close>

theorem z_near_exceeds_z_far:
  "let c = camera_run [UpdateZFar (-1000), UpdateZNear 10] (camera_create_default (0, 0, 5) (0, 0, 0) (0, 1, 0))
   in camera_in_range c \<and> z_near c = 5 \<and> z_far c = 3 \<and> \<not> z_near c < z_far c"
  by (simp add: camera_run_def camera_create_def update_z_near_def update_z_far_def clamp_def
      camera_in_range_def)

text \<open>
  \<open>update_aspect\<close> replaces the aspect by the clamped argument: the old aspect plays
  no part, unlike the three other updates, and a zero argument changes nothing.
\<close>

theorem update_aspect_replaces:
  assumes "d \<noteq> 0"
  shows "aspect (update_aspect d c) = aspect (update_aspect d c') \<and> aspect (update_aspect d c) = clamp 0.1 5 d"
  using assms by (simp add: update_aspect_def)

theorem update_aspect_replaces_witness:
  "(2::real) \<noteq> 0 \<and> aspect (update_aspect 2 (camera_create_default (0, 0, 5) (0, 0, 0) (0, 1, 0)))
     = aspect (update_aspect 2 default_camera_data)
   \<and> aspect (update_aspect 2 default_camera_data) = clamp 0.1 5 2"
  using update_aspect_replaces [of 2 "camera_create_default (0, 0, 5) (0, 0, 0) (0, 1, 0)" default_camera_data]
  by simp

text \<open>
  \<open>CameraData.__eq__\<close> ignores the aspect ratio: two cameras that differ only in
  their aspect compare equal.
\<close>

theorem camera_eq_ignores_aspect:
  "camera_eq c (c\<lparr>aspect := a\<rparr>)"
  by (simp add: camera_eq_def)

end
