(* ===== verification/Templates.thy ===== *)
theory Templates
  imports Figure
begin

text \<open>
  The template catalogue of \<open>src/src/labs/lab5/dal/Figure.py\<close>: the seven module-level
  \<open>FigureData\<close> objects (Cube, Pyramid, Sphere, Tetrahedron, Hexahedron, Octahedron,
  Icosahedron), the \<open>figures\<close> dictionary that names them, \<open>FigureWrapper.set_example\<close>
  (an unknown name raises \<open>ValueError\<close>), and the border loop \<open>draw_faces\<close> walks
  for every face. The lemmas check the data by evaluation: every template is
  well-formed, the border segments of five templates are edges of the template, and the
  Sphere and Icosahedron entries are not closed polyhedra (Euler characteristic 5 and
  -1; the icosahedron lists 28 of its 30 edges and 15 of its 20 faces).
\<close>

section \<open>The catalogue\<close>

definition cube_data :: figure_data where
  "cube_data = mk_figure_data
     [(mk_vertex (- 1) (- 1) (- 1)),
      (mk_vertex (1) (- 1) (- 1)),
      (mk_vertex (1) (1) (- 1)),
      (mk_vertex (- 1) (1) (- 1)),
      (mk_vertex (- 1) (- 1) (1)),
      (mk_vertex (1) (- 1) (1)),
      (mk_vertex (1) (1) (1)),
      (mk_vertex (- 1) (1) (1))]
     [mk_edge 0 1, mk_edge 1 2, mk_edge 2 3, mk_edge 3 0, mk_edge 4 5, mk_edge 5 6, mk_edge 6 7, mk_edge 7 4, mk_edge 0 4, mk_edge 1 5, mk_edge 2 6, mk_edge 3 7]
     (Some [mk_face [0, 1, 2, 3], mk_face [4, 5, 6, 7], mk_face [0, 1, 5, 4], mk_face [2, 3, 7, 6], mk_face [0, 3, 7, 4], mk_face [1, 2, 6, 5]])
     (PTuple [0, 1, 0]) ''edges'' True"

definition pyramid_data :: figure_data where
  "pyramid_data = mk_figure_data
     [(mk_vertex (0) (1) (0)),
      (mk_vertex (- 1) (- 1) (- 1)),
      (mk_vertex (1) (- 1) (- 1)),
      (mk_vertex (1) (- 1) (1)),
      (mk_vertex (- 1) (- 1) (1))]
     [mk_edge 0 1, mk_edge 0 2, mk_edge 0 3, mk_edge 0 4, mk_edge 1 2, mk_edge 2 3, mk_edge 3 4, mk_edge 4 1]
     (Some [mk_face [0, 1, 2], mk_face [0, 2, 3], mk_face [0, 3, 4], mk_face [0, 4, 1], mk_face [1, 2, 3, 4]])
     (PTuple [1, 0, 0]) ''faces'' True"

definition sphere_data :: figure_data where
  "sphere_data = mk_figure_data
     [(mk_vertex (- 1) (0) (0)),
      (mk_vertex (1) (0) (0)),
      (mk_vertex (0) (1) (0)),
      (mk_vertex (0) (- 1) (0)),
      (mk_vertex (0) (0) (1)),
      (mk_vertex (0) (0) (- 1))]
     [mk_edge 0 1, mk_edge 2 3, mk_edge 4 5]
     (Some [mk_face [0, 1, 2], mk_face [3, 4, 5]])
     (PTuple [0, 0, 1]) ''edges'' True"

definition tetrahedron_data :: figure_data where
  "tetrahedron_data = mk_figure_data
     [(mk_vertex (1) (1) (1)),
      (mk_vertex (- 1) (- 1) (1)),
      (mk_vertex (- 1) (1) (- 1)),
      (mk_vertex (1) (- 1) (- 1))]
     [mk_edge 0 1, mk_edge 0 2, mk_edge 0 3, mk_edge 1 2, mk_edge 1 3, mk_edge 2 3]
     (Some [mk_face [0, 1, 2], mk_face [1, 2, 3], mk_face [2, 3, 0], mk_face [3, 0, 1]])
     (PTuple [1, 1, 0]) ''faces'' True"

definition hexahedron_data :: figure_data where
  "hexahedron_data = mk_figure_data
     [(mk_vertex (1) (1) (1)),
      (mk_vertex (- 1) (1) (1)),
      (mk_vertex (- 1) (- 1) (1)),
      (mk_vertex (1) (- 1) (1)),
      (mk_vertex (1) (- 1) (- 1)),
      (mk_vertex (1) (1) (- 1)),
      (mk_vertex (- 1) (1) (- 1)),
      (mk_vertex (- 1) (- 1) (- 1))]
     [mk_edge 0 1, mk_edge 1 2, mk_edge 2 3, mk_edge 3 0, mk_edge 4 5, mk_edge 5 6, mk_edge 6 7, mk_edge 7 4, mk_edge 0 5, mk_edge 1 6, mk_edge 2 7, mk_edge 3 4]
     (Some [mk_face [0, 1, 2, 3], mk_face [4, 5, 6, 7], mk_face [0, 1, 6, 5], mk_face [1, 2, 7, 6], mk_face [2, 3, 4, 7], mk_face [3, 0, 5, 4]])
     (PTuple [0, 1, 1]) ''faces'' True"

definition octahedron_data :: figure_data where
  "octahedron_data = mk_figure_data
     [(mk_vertex (0) (1) (0)),
      (mk_vertex (1) (0) (0)),
      (mk_vertex (0) (0) (1)),
      (mk_vertex (- 1) (0) (0)),
      (mk_vertex (0) (0) (- 1)),
      (mk_vertex (0) (- 1) (0))]
     [mk_edge 0 1, mk_edge 0 2, mk_edge 0 3, mk_edge 0 4, mk_edge 1 2, mk_edge 2 3, mk_edge 3 4, mk_edge 4 1, mk_edge 1 5, mk_edge 2 5, mk_edge 3 5, mk_edge 4 5]
     (Some [mk_face [0, 1, 2], mk_face [0, 2, 3], mk_face [0, 3, 4], mk_face [0, 4, 1], mk_face [5, 1, 2], mk_face [5, 2, 3], mk_face [5, 3, 4], mk_face [5, 4, 1]])
     (PTuple [1, 0, 1]) ''edges'' True"

definition icosahedron_data :: figure_data where
  "icosahedron_data = mk_figure_data
     [(mk_vertex (0) (1) (0)),
      (mk_vertex (0.8944) (0.4472) (0)),
      (mk_vertex (0.2764) (0.4472) (0.8506)),
      (mk_vertex (- 0.7236) (0.4472) (0.5257)),
      (mk_vertex (- 0.7236) (0.4472) (- 0.5257)),
      (mk_vertex (0.2764) (0.4472) (- 0.8506)),
      (mk_vertex (0.7236) (- 0.4472) (0.5257)),
      (mk_vertex (- 0.2764) (- 0.4472) (0.8506)),
      (mk_vertex (- 0.8944) (- 0.4472) (0)),
      (mk_vertex (- 0.2764) (- 0.4472) (- 0.8506)),
      (mk_vertex (0.7236) (- 0.4472) (- 0.5257)),
      (mk_vertex (0) (- 1) (0))]
     [mk_edge 0 1, mk_edge 0 2, mk_edge 0 3, mk_edge 0 4, mk_edge 0 5, mk_edge 1 2, mk_edge 1 5, mk_edge 1 6, mk_edge 2 3, mk_edge 2 6, mk_edge 2 7, mk_edge 3 4, mk_edge 3 7, mk_edge 3 8, mk_edge 4 5, mk_edge 4 8, mk_edge 4 9, mk_edge 5 10, mk_edge 6 7, mk_edge 6 10, mk_edge 7 8, mk_edge 7 11, mk_edge 8 9, mk_edge 8 11, mk_edge 9 10, mk_edge 9 11, mk_edge 10 11, mk_edge 5 11]
     (Some [mk_face [0, 1, 2], mk_face [0, 2, 3], mk_face [0, 3, 4], mk_face [0, 4, 5], mk_face [0, 5, 1], mk_face [1, 2, 6], mk_face [2, 3, 7], mk_face [3, 4, 8], mk_face [4, 5, 9], mk_face [5, 1, 10], mk_face [6, 7, 11], mk_face [7, 8, 11], mk_face [8, 9, 11], mk_face [9, 10, 11], mk_face [10, 6, 11]])
     (PTuple [0, 1, 1]) ''faces'' True"

text \<open>The \<open>figures\<close> dictionary, in its insertion order.\<close>

definition figure_catalogue :: "(string \<times> figure_data) list" where
  "figure_catalogue =
     [(''Cube'', cube_data), (''Pyramid'', pyramid_data), (''Sphere'', sphere_data),
      (''Tetrahedron'', tetrahedron_data), (''Hexahedron'', hexahedron_data),
      (''Octahedron'', octahedron_data), (''Icosahedron'', icosahedron_data)]"

definition figures :: "string \<rightharpoonup> figure_data" where
  "figures = map_of figure_catalogue"

text \<open>\<open>set_example(name)\<close> (and so \<open>create(name)\<close>): the template object itself, or \<open>ValueError\<close>.\<close>

definition set_example :: "string \<Rightarrow> figure_data result" where
  "set_example name =
     (case figures name of
        None \<Rightarrow> Inl (ValueError ''Wrong example name'')
      | Some d \<Rightarrow> Inr d)"

section \<open>Face borders and closedness\<close>

text \<open>
  The segments \<open>draw_faces\<close> emits for one face when the figure is selected:
  \<open>face.vertices[i]\<close> to \<open>face.vertices[(i + 1) % len(face.vertices)]\<close>.
\<close>

definition face_border :: "face \<Rightarrow> (nat \<times> nat) list" where
  "face_border fc =
     (let vs = fvertices fc; n = length vs
      in map (\<lambda>i. (vs ! i, vs ! ((i + 1) mod n))) [0..<n])"

text \<open>Every border segment of every face is an edge of the figure, in either direction.\<close>

definition borders_are_edges :: "figure_data \<Rightarrow> bool" where
  "borders_are_edges f \<longleftrightarrow>
     (\<forall>fc \<in> set (faces f). \<forall>(a, b) \<in> set (face_border fc).
        (a, b) \<in> evertices ` set (edges f) \<or> (b, a) \<in> evertices ` set (edges f))"

definition euler_characteristic :: "figure_data \<Rightarrow> int" where
  "euler_characteristic f = int (length (vertices f)) - int (length (edges f)) + int (length (faces f))"

section \<open>Lemmas\<close>

lemmas template_data_defs =
  cube_data_def pyramid_data_def sphere_data_def tetrahedron_data_def hexahedron_data_def
  octahedron_data_def icosahedron_data_def mk_figure_data_def mk_vertex_def mk_edge_def mk_face_def

lemma template_names: "fst ` set figure_catalogue =
  {''Cube'', ''Pyramid'', ''Sphere'', ''Tetrahedron'', ''Hexahedron'', ''Octahedron'', ''Icosahedron''}"
  by (simp add: figure_catalogue_def)

section \<open>Properties\<close>

text \<open>
  C12. \<open>set_example\<close> (and \<open>create\<close>) fails with \<open>ValueError\<close> exactly for a name outside the
  catalogue, and otherwise returns the catalogue's object for that name.
\<close>

theorem set_example_result:
  "set_example n =
     (if n \<in> {''Cube'', ''Pyramid'', ''Sphere'', ''Tetrahedron'', ''Hexahedron'', ''Octahedron'', ''Icosahedron''}
      then Inr (the (figures n)) else Inl (ValueError ''Wrong example name''))"
proof (cases "figures n")
  case None
  then have "n \<notin> fst ` set figure_catalogue" by (simp add: figures_def map_of_eq_None_iff)
  then show ?thesis using None by (simp only: template_names set_example_def option.case if_False)
next
  case (Some d)
  then have "n \<in> fst ` set figure_catalogue" unfolding figures_def by (metis map_of_eq_None_iff option.distinct(1))
  then show ?thesis using Some by (simp only: template_names set_example_def option.case if_True option.sel)
qed

text \<open>
  Every template of the catalogue is well formed: its edges and faces refer to its own
  vertices, each face has at least three corners, and its draw mode is a valid one.
\<close>

theorem templates_well_formed:
  "\<forall>(n, f) \<in> set figure_catalogue. wf_figure f"
  by (simp add: figure_catalogue_def wf_figure_def template_data_defs draw_modes_def)

theorem templates_well_formed_witness:
  "wf_figure cube_data \<and> wf_figure icosahedron_data"
  using templates_well_formed by (simp add: figure_catalogue_def)

text \<open>
  The highlighted border of a selected figure's faces runs along the figure's own edges
  for Cube, Pyramid, Tetrahedron, Hexahedron and Octahedron, but not for Sphere and
  Icosahedron: for the icosahedron the face (5, 1, 10) has the side 1-10, which is not in
  its edge list.
\<close>

theorem template_borders:
  "map (\<lambda>(n, f). (n, borders_are_edges f)) figure_catalogue =
     [(''Cube'', True), (''Pyramid'', True), (''Sphere'', False), (''Tetrahedron'', True),
      (''Hexahedron'', True), (''Octahedron'', True), (''Icosahedron'', False)]
   \<and> (1, 10) \<in> set (face_border (faces icosahedron_data ! 9))
   \<and> (1, 10) \<notin> evertices ` set (edges icosahedron_data)
   \<and> (10, 1) \<notin> evertices ` set (edges icosahedron_data)"
  by (simp add: figure_catalogue_def borders_are_edges_def face_border_def template_data_defs upt_conv_Cons)

text \<open>
  Closedness by Euler's formula V - E + F = 2: it holds for the five true polyhedra
  and fails for Sphere (6 - 3 + 2 = 5) and Icosahedron (12 - 28 + 15 = -1, where a
  regular icosahedron has 30 edges and 20 faces).
\<close>

theorem template_euler:
  "map (\<lambda>(n, f). euler_characteristic f) figure_catalogue = [2, 2, 5, 2, 2, 2, -1]
   \<and> length (edges icosahedron_data) = 28 \<and> length (faces icosahedron_data) = 15"
  by (simp add: figure_catalogue_def euler_characteristic_def template_data_defs)

end
