(* ===== verification/Picking.thy ===== *)
theory Picking
  imports Figure Camera
begin

text \<open>
  Screen-space picking: \<open>project_vertices_to_screen\<close> and \<open>contains_point\<close> of
  \<open>src/src/labs/lab5/bll/FigureWrapper.py\<close>. They call the GLU library, whose behaviour is
  written out here from the GLU specification (it is not code of the repository):
  \<open>gluProject\<close> maps a point through the modelview and projection matrices and the
  viewport and fails (PyOpenGL raises \<open>ValueError\<close>) only when the clip coordinate
  \<open>w\<close> is zero; \<open>gluLookAt\<close> and \<open>gluPerspective\<close> build the two matrices from the
  camera. A figure contains a screen point when the point lies in the axis-aligned
  bounding box of the projections that succeeded; vertices whose projection fails are
  skipped. The lemmas show that the test never misses a projected vertex, that failed
  projections do not count, and evaluate the spec's scenario of a cube seen from (0, 0, 5).
\<close>

section \<open>The GLU matrices\<close>

type_synonym vec4 = "real \<times> real \<times> real \<times> real"
type_synonym mat4 = "vec4 \<times> vec4 \<times> vec4 \<times> vec4"
type_synonym viewport = "real \<times> real \<times> real \<times> real"

definition dot4 :: "vec4 \<Rightarrow> vec4 \<Rightarrow> real" where
  "dot4 a b = (case a of (a1, a2, a3, a4) \<Rightarrow> case b of (b1, b2, b3, b4) \<Rightarrow>
     a1 * b1 + a2 * b2 + a3 * b3 + a4 * b4)"

definition mat4_vec :: "mat4 \<Rightarrow> vec4 \<Rightarrow> vec4" where
  "mat4_vec m v = (case m of (r1, r2, r3, r4) \<Rightarrow> (dot4 r1 v, dot4 r2 v, dot4 r3 v, dot4 r4 v))"

definition cross :: "vec3 \<Rightarrow> vec3 \<Rightarrow> vec3" where
  "cross a b = (vy a * vz b - vz a * vy b, vz a * vx b - vx a * vz b, vx a * vy b - vy a * vx b)"

definition normalize :: "vec3 \<Rightarrow> vec3" where
  "normalize v = vscale (1 / sqrt (norm2 v)) v"

text \<open>\<open>gluLookAt(eye, center, up)\<close>: the rotation onto (side, up, -forward), then the translation by -eye.\<close>

definition glu_look_at :: "vec3 \<Rightarrow> vec3 \<Rightarrow> vec3 \<Rightarrow> mat4" where
  "glu_look_at eye center up =
     (let f = normalize (vsub center eye);
          s = normalize (cross f up);
          u = cross s f
      in ((vx s, vy s, vz s, - dot s eye), (vx u, vy u, vz u, - dot u eye),
          (- vx f, - vy f, - vz f, dot f eye), (0, 0, 0, 1)))"

text \<open>\<open>gluPerspective(fovy, aspect, zNear, zFar)\<close>.\<close>

definition glu_perspective :: "real \<Rightarrow> real \<Rightarrow> real \<Rightarrow> real \<Rightarrow> mat4" where
  "glu_perspective fo asp zn zf =
     (let f = cot (radians fo / 2)
      in ((f / asp, 0, 0, 0), (0, f, 0, 0),
          (0, 0, (zf + zn) / (zn - zf), 2 * zf * zn / (zn - zf)), (0, 0, -1, 0)))"

text \<open>\<open>gluProject(x, y, z, modelview, projection, viewport)[:2]\<close>, \<open>None\<close> where it fails.\<close>

definition glu_project :: "mat4 \<Rightarrow> mat4 \<Rightarrow> viewport \<Rightarrow> vec3 \<Rightarrow> (real \<times> real) option" where
  "glu_project mv pr vp p =
     (case mat4_vec pr (mat4_vec mv (vx p, vy p, vz p, 1)) of
        (cx, cy, cz, cw) \<Rightarrow>
          if cw = 0 then None
          else (case vp of (x0, y0, w, h) \<Rightarrow>
                  Some (x0 + w * (cx / cw + 1) / 2, y0 + h * (cy / cw + 1) / 2)))"

section \<open>Picking\<close>

text \<open>Python's \<open>min\<close> and \<open>max\<close> over a non-empty sequence.\<close>

definition py_min :: "real list \<Rightarrow> real" where
  "py_min xs = fold min (tl xs) (hd xs)"

definition py_max :: "real list \<Rightarrow> real" where
  "py_max xs = fold max (tl xs) (hd xs)"

text \<open>
  \<open>project_vertices_to_screen\<close>: the loop appends the projection of every vertex and
  skips (after printing) a vertex whose projection raises \<open>ValueError\<close>.
\<close>

definition project_vertices_to_screen :: "mat4 \<Rightarrow> mat4 \<Rightarrow> viewport \<Rightarrow> figure_data \<Rightarrow> (real \<times> real) list" where
  "project_vertices_to_screen mv pr vp f =
     concat (map (\<lambda>v. case glu_project mv pr vp (position v) of None \<Rightarrow> [] | Some s \<Rightarrow> [s]) (vertices f))"

definition contains_point :: "real \<Rightarrow> real \<Rightarrow> mat4 \<Rightarrow> mat4 \<Rightarrow> viewport \<Rightarrow> figure_data \<Rightarrow> bool" where
  "contains_point x y mv pr vp f =
     (let sc = project_vertices_to_screen mv pr vp f
      in if sc = [] then False
         else py_min (map fst sc) \<le> x \<and> x \<le> py_max (map fst sc)
              \<and> py_min (map snd sc) \<le> y \<and> y \<le> py_max (map snd sc))"

section \<open>Lemmas\<close>

lemma py_min_Min: "xs \<noteq> [] \<Longrightarrow> py_min xs = Min (set xs)"
proof (cases xs)
  case (Cons a l)
  then show ?thesis by (simp only: py_min_def list.sel Min.set_eq_fold)
qed simp

lemma py_max_Max: "xs \<noteq> [] \<Longrightarrow> py_max xs = Max (set xs)"
proof (cases xs)
  case (Cons a l)
  then show ?thesis by (simp only: py_max_def list.sel Max.set_eq_fold)
qed simp

lemma set_project_vertices_to_screen:
  "set (project_vertices_to_screen mv pr vp f)
   = {s. \<exists>v \<in> set (vertices f). glu_project mv pr vp (position v) = Some s}"
  by (auto simp: project_vertices_to_screen_def split: option.splits)

lemma contains_point_iff:
  "contains_point x y mv pr vp f \<longleftrightarrow>
     (let S = set (project_vertices_to_screen mv pr vp f)
      in (\<exists>a \<in> S. fst a \<le> x) \<and> (\<exists>a \<in> S. x \<le> fst a) \<and> (\<exists>a \<in> S. snd a \<le> y) \<and> (\<exists>a \<in> S. y \<le> snd a))"
proof -
  let ?sc = "project_vertices_to_screen mv pr vp f"
  show ?thesis
  proof (cases "?sc = []")
    case True
    then show ?thesis by (simp add: contains_point_def)
  next
    case False
    then show ?thesis
      by (simp add: contains_point_def py_min_Min py_max_Max Min_le_iff Max_ge_iff Let_def)
  qed
qed

lemma project_vertices_to_screen_Nil:
  "(\<forall>v \<in> set (vertices f). glu_project mv pr vp (position v) = None)
   \<Longrightarrow> project_vertices_to_screen mv pr vp f = []"
  by (simp add: project_vertices_to_screen_def)

text \<open>The camera of the spec's scenarios: at (0, 0, 5), looking at the origin, up along y.\<close>

lemma glu_look_at_z5:
  "glu_look_at (0, 0, 5) (0, 0, 0) (0, 1, 0) = ((1, 0, 0, 0), (0, 1, 0, 0), (0, 0, 1, -5), (0, 0, 0, 1))"
proof -
  have r: "sqrt 25 = (5::real)" by (rule real_sqrt_unique) simp_all
  have f: "normalize (vsub (0, 0, 0) (0, 0, 5)) = (0, 0, -1)"
    by (simp add: normalize_def vsub_def vscale_def norm2_def dot_def r)
  have s: "normalize (cross (0, 0, -1) (0, 1, 0)) = (1, 0, 0)"
    by (simp add: normalize_def cross_def vscale_def norm2_def dot_def)
  have u: "cross (1, 0, 0) (0, 0, -1) = (0, 1, 0)" by (simp add: cross_def)
  show ?thesis by (simp add: glu_look_at_def Let_def f s u dot_def)
qed

lemma glu_perspective_90:
  "glu_perspective 90 1 1 10 = ((1, 0, 0, 0), (0, 1, 0, 0), (0, 0, -11/9, -20/9), (0, 0, -1, 0))"
proof -
  have "cot (radians 90 / 2) = 1" by (simp add: radians_def cot_def cos_45 sin_45)
  then show ?thesis by (simp add: glu_perspective_def)
qed

section \<open>Properties\<close>

text \<open>
  C11. Picking never misses a vertex: a screen point onto which some vertex of the figure
  projects lies in the figure's bounding box.
\<close>

theorem projected_vertex_contained:
  assumes "v \<in> set (vertices f)" and "glu_project mv pr vp (position v) = Some (x, y)"
  shows "contains_point x y mv pr vp f"
proof -
  have "(x, y) \<in> set (project_vertices_to_screen mv pr vp f)"
    using assms by (auto simp: set_project_vertices_to_screen)
  then show ?thesis unfolding contains_point_iff Let_def
    by (intro conjI bexI [of _ "(x, y)"]) simp_all
qed

theorem projected_vertex_contained_witness:
  "mk_vertex 0 0 0 \<in> set (vertices (mk_figure_data [mk_vertex 0 0 0] [] None (PTuple [0, 0, 100]) ''edges'' True))
   \<and> glu_project ((1, 0, 0, 0), (0, 1, 0, 0), (0, 0, 1, 0), (0, 0, 0, 1)) ((1, 0, 0, 0), (0, 1, 0, 0), (0, 0, 1, 0), (0, 0, 0, 1))
        (0, 0, 100, 100) (position (mk_vertex 0 0 0)) = Some (50, 50)
   \<and> contains_point 50 50 ((1, 0, 0, 0), (0, 1, 0, 0), (0, 0, 1, 0), (0, 0, 0, 1)) ((1, 0, 0, 0), (0, 1, 0, 0), (0, 0, 1, 0), (0, 0, 0, 1))
        (0, 0, 100, 100) (mk_figure_data [mk_vertex 0 0 0] [] None (PTuple [0, 0, 100]) ''edges'' True)"
proof -
  have p: "glu_project ((1, 0, 0, 0), (0, 1, 0, 0), (0, 0, 1, 0), (0, 0, 0, 1)) ((1, 0, 0, 0), (0, 1, 0, 0), (0, 0, 1, 0), (0, 0, 0, 1))
        (0, 0, 100, 100) (position (mk_vertex 0 0 0)) = Some (50, 50)"
    by (simp add: glu_project_def mat4_vec_def dot4_def mk_vertex_def)
  have m: "mk_vertex 0 0 0 \<in> set (vertices (mk_figure_data [mk_vertex 0 0 0] [] None (PTuple [0, 0, 100]) ''edges'' True))"
    by (simp add: mk_figure_data_def)
  show ?thesis using projected_vertex_contained [OF m p] m p by simp
qed

text \<open>
  A vertex whose projection fails does not count: a figure none of whose vertices
  projects contains no screen point.
\<close>

theorem unprojectable_not_contained:
  assumes "\<forall>v \<in> set (vertices f). glu_project mv pr vp (position v) = None"
  shows "\<not> contains_point x y mv pr vp f"
  using project_vertices_to_screen_Nil [OF assms] by (simp add: contains_point_def)

theorem unprojectable_not_contained_witness:
  "\<not> contains_point 0 0 ((1, 0, 0, 0), (0, 1, 0, 0), (0, 0, 1, 0), (0, 0, 0, 1)) ((0, 0, 0, 0), (0, 0, 0, 0), (0, 0, 0, 0), (0, 0, 0, 0))
        (0, 0, 100, 100) (mk_figure_data [mk_vertex 1 2 3] [] None (PTuple [0, 0, 100]) ''edges'' True)"
proof -
  have h: "\<forall>v \<in> set (vertices (mk_figure_data [mk_vertex 1 2 3] [] None (PTuple [0, 0, 100]) ''edges'' True)).
      glu_project ((1, 0, 0, 0), (0, 1, 0, 0), (0, 0, 1, 0), (0, 0, 0, 1)) ((0, 0, 0, 0), (0, 0, 0, 0), (0, 0, 0, 0), (0, 0, 0, 0))
        (0, 0, 100, 100) (position v) = None"
    by (simp add: mk_figure_data_def glu_project_def mat4_vec_def dot4_def)
  show ?thesis using unprojectable_not_contained [OF h] .
qed

text \<open>
  A point behind the eye is not skipped: \<open>gluProject\<close> fails only when the clip
  coordinate w is zero, so a vertex five units behind the camera of the cube scenario
  projects to the centre of the viewport, and a figure made of that vertex alone is picked
  there.
\<close>

theorem behind_eye_pickable:
  "glu_project (glu_look_at (0, 0, 5) (0, 0, 0) (0, 1, 0)) (glu_perspective 90 1 1 10) (0, 0, 100, 100) (0, 0, 10) = Some (50, 50)
   \<and> contains_point 50 50 (glu_look_at (0, 0, 5) (0, 0, 0) (0, 1, 0)) (glu_perspective 90 1 1 10) (0, 0, 100, 100)
        (mk_figure_data [mk_vertex 0 0 10] [] None (PTuple [0, 0, 100]) ''edges'' True)"
proof -
  have p: "glu_project (glu_look_at (0, 0, 5) (0, 0, 0) (0, 1, 0)) (glu_perspective 90 1 1 10) (0, 0, 100, 100) (0, 0, 10) = Some (50, 50)"
    by (simp add: glu_look_at_z5 glu_perspective_90 glu_project_def mat4_vec_def dot4_def)
  have "position (mk_vertex 0 0 10) = (0, 0, 10)" by (simp add: mk_vertex_def)
  then have "contains_point 50 50 (glu_look_at (0, 0, 5) (0, 0, 0) (0, 1, 0)) (glu_perspective 90 1 1 10) (0, 0, 100, 100)
        (mk_figure_data [mk_vertex 0 0 10] [] None (PTuple [0, 0, 100]) ''edges'' True)"
    using p by (simp add: contains_point_def project_vertices_to_screen_def mk_figure_data_def py_min_def py_max_def)
  with p show ?thesis by simp
qed

end
