(* ===== verification/Scene.thy ===== *)
theory Scene
  imports Picking Templates
begin

text \<open>
  The scene: \<open>SceneData\<close> of \<open>src/src/labs/lab5/dal/Scene.py\<close> and the methods of
  \<open>Scene\<close> in \<open>src/src/labs/lab5/bll/Scene.py\<close> (\<open>add_figure\<close>, \<open>set_camera\<close>,
  \<open>deselect_figure\<close>, \<open>select_figure\<close>, \<open>selection\<close>, \<open>handle_click\<close>, \<open>handle_mouse\<close>,
  \<open>handle_motion\<close>), together with \<open>create_scene\<close> of \<open>src/src/labs/lab5/init.py\<close>.

  Python figures are objects shared by reference, and \<open>FigureWrapper.create(name)\<close>
  returns the module-level template object itself. The model therefore keeps an explicit
  store \<open>heap\<close> of \<open>FigureData\<close> values, whose first seven slots are the templates of
  \<open>Templates\<close>; a figure of the scene is a slot number, and every mutation writes the slot.
  The selection state machine (Nothing-selected / Figure-selected) is the pair of the
  \<open>selected_figure\<close> field and the \<open>selected\<close> flags in the store; its invariant
  \<open>sel_inv\<close> says they agree and that the scene's references are distinct.
\<close>

section \<open>Data\<close>

text \<open>
  \<open>SceneData()\<close> stores a bare \<open>CameraData\<close>; \<open>set_camera\<close> stores a \<open>Camera\<close> wrapper.
  Only the wrapper has \<open>rotate\<close>.
\<close>

datatype camera_slot = RawCameraData camera_data | CameraObj camera_data

datatype mouse_button = LeftButton | MiddleButton | RightButton

datatype button_state = ButtonDown | ButtonUp

record scene_data =
  scene_figures :: "nat list"
  selected_figure :: "nat option"
  is_rotating :: bool
  last_mouse_x :: int
  last_mouse_y :: int
  camera :: camera_slot
  point_size :: "real option"
  line_width :: "real option"
  alpha :: "real option"
  highlight_color :: "vec3 option"
  highlight_line_width :: "real option"

record world =
  heap :: "figure_data list"
  scene :: scene_data

text \<open>What \<open>selection\<close> reads back from OpenGL and GLUT.\<close>

record gl_view =
  modelview :: mat4
  projection :: mat4
  view_port :: viewport
  window_height :: int

definition scene_data_init :: scene_data where
  "scene_data_init =
     \<lparr>scene_figures = [], selected_figure = None, is_rotating = False, last_mouse_x = 0,
      last_mouse_y = 0, camera = RawCameraData default_camera_data, point_size = Some 30,
      line_width = Some 10, alpha = Some 0.2, highlight_color = Some (1, 1, 1),
      highlight_line_width = Some 20\<rparr>"

text \<open>The store at start-up: the seven template objects of \<open>Figure.py\<close>, in catalogue order.\<close>

definition world_init :: world where
  "world_init = \<lparr>heap = map snd figure_catalogue, scene = scene_data_init\<rparr>"

text \<open>\<open>FigureWrapper.create(name)\<close>: a reference to the template object, or \<open>ValueError\<close>.\<close>

definition create :: "string \<Rightarrow> nat result" where
  "create name =
     (case set_example name of
        Inl e \<Rightarrow> Inl e
      | Inr _ \<Rightarrow> Inr (length (takeWhile (\<lambda>p. fst p \<noteq> name) figure_catalogue)))"

section \<open>Operations\<close>

text \<open>A method of \<open>FigureWrapper\<close> applied to the object a reference points to.\<close>

definition update_figure :: "nat \<Rightarrow> (figure_data \<Rightarrow> figure_data) \<Rightarrow> world \<Rightarrow> world" where
  "update_figure r g w = w\<lparr>heap := (heap w)[r := g (heap w ! r)]\<rparr>"

definition update_scene :: "(scene_data \<Rightarrow> scene_data) \<Rightarrow> world \<Rightarrow> world" where
  "update_scene g w = w\<lparr>scene := g (scene w)\<rparr>"

definition add_figure :: "nat \<Rightarrow> world \<Rightarrow> world" where
  "add_figure r = update_scene (\<lambda>s. s\<lparr>scene_figures := scene_figures s @ [r]\<rparr>)"

definition set_camera :: "camera_data \<Rightarrow> world \<Rightarrow> world" where
  "set_camera c = update_scene (\<lambda>s. s\<lparr>camera := CameraObj c\<rparr>)"

definition deselect_figure :: "world \<Rightarrow> world" where
  "deselect_figure w =
     (case selected_figure (scene w) of
        None \<Rightarrow> w
      | Some r \<Rightarrow> update_scene (\<lambda>s. s\<lparr>selected_figure := None\<rparr>)
                   (update_figure r (\<lambda>f. f\<lparr>selected := False\<rparr>) w))"

definition select_figure :: "nat \<Rightarrow> world \<Rightarrow> world" where
  "select_figure r w =
     update_scene (\<lambda>s. s\<lparr>selected_figure := Some r\<rparr>) (update_figure r (\<lambda>f. f\<lparr>selected := True\<rparr>) w)"

text \<open>
  \<open>selection(x, y)\<close>: deselect, then select the first figure, in scene order, whose
  projected bounding box contains \<open>(x, window_height - y - 1)\<close>.
\<close>

definition selection :: "int \<Rightarrow> int \<Rightarrow> gl_view \<Rightarrow> world \<Rightarrow> world" where
  "selection x y gl w =
     (let w1 = deselect_figure w;
          py = of_int (window_height gl - y - 1)
      in case find (\<lambda>r. contains_point (of_int x) py (modelview gl) (projection gl) (view_port gl) (heap w1 ! r))
                (scene_figures (scene w1)) of
           None \<Rightarrow> w1
         | Some r \<Rightarrow> select_figure r w1)"

text \<open>\<open>handle_click\<close> and \<open>handle_mouse\<close> (identical bodies): the selection on a left button only.\<close>

definition handle_click :: "int \<Rightarrow> int \<Rightarrow> mouse_button \<Rightarrow> gl_view \<Rightarrow> world \<Rightarrow> world" where
  "handle_click x y b gl w = (if b = LeftButton then selection x y gl w else w)"

definition scene_handle_mouse :: "int \<Rightarrow> int \<Rightarrow> mouse_button \<Rightarrow> gl_view \<Rightarrow> world \<Rightarrow> world" where
  "scene_handle_mouse x y b gl w = (if b = LeftButton then selection x y gl w else w)"

text \<open>
  \<open>handle_motion(x, y)\<close>: while the drag latch is set, the mouse delta scaled by 0.1 drives
  \<open>Camera.rotate(dy * 0.1, dx * 0.1)\<close>; a bare \<open>CameraData\<close> has no \<open>rotate\<close>.
\<close>

definition handle_motion :: "int \<Rightarrow> int \<Rightarrow> world \<Rightarrow> world result" where
  "handle_motion x y w =
     (let s = scene w in
      if is_rotating s then
        (case camera s of
           RawCameraData _ \<Rightarrow> Inl (AttributeError ''rotate'')
         | CameraObj c \<Rightarrow>
             (let dx = x - last_mouse_x s; dy = y - last_mouse_y s
              in Inr (update_scene (\<lambda>s. s\<lparr>camera := CameraObj (cam_rotate (of_int dy * 0.1) (of_int dx * 0.1) c),
                                          last_mouse_x := x, last_mouse_y := y\<rparr>) w)))
      else Inr w)"

text \<open>
  \<open>init.create_scene\<close> with the camera \<open>camera_create()\<close> reads from the settings file:
  a cube moved and painted green, a pyramid rotated, squashed and painted red, a sphere
  moved and painted blue, added in this order.
\<close>

definition set_color_at :: "nat \<Rightarrow> pyval \<Rightarrow> world \<Rightarrow> world result" where
  "set_color_at r c w = rbind (set_color c (heap w ! r)) (\<lambda>g. Inr (update_figure r (\<lambda>_. g) w))"

definition create_scene :: "camera_data \<Rightarrow> world result" where
  "create_scene c =
     rbind (create ''Cube'') (\<lambda>cube.
     rbind (set_color_at cube (PStr ''Green'') (update_figure cube (translate 4 (-2) 1) (set_camera c world_init))) (\<lambda>w1.
     rbind (create ''Pyramid'') (\<lambda>pyramid.
     rbind (set_color_at pyramid (PStr ''Red'') (update_figure pyramid (scale 1.1 1.5 0.4 \<circ> rotate 45 0 0) w1)) (\<lambda>w2.
     rbind (create ''Sphere'') (\<lambda>sphere.
     rbind (set_color_at sphere (PStr ''Blue'') (update_figure sphere (translate (-1) 3 5) w2)) (\<lambda>w3.
     Inr (add_figure sphere (add_figure pyramid (add_figure cube w3)))))))))"

section \<open>The selection invariant\<close>

definition sel_inv :: "world \<Rightarrow> bool" where
  "sel_inv w \<longleftrightarrow>
     (let figs = scene_figures (scene w); sel = selected_figure (scene w)
      in distinct figs \<and> (\<forall>r \<in> set figs. r < length (heap w))
         \<and> (\<forall>r \<in> set figs. selected (heap w ! r) \<longleftrightarrow> sel = Some r)
         \<and> (\<forall>r. sel = Some r \<longrightarrow> r \<in> set figs))"

text \<open>
  The view of the spec's cube-pick scenario as \<open>selection\<close> reads it back: the camera at
  (0, 0, 5) looking at the origin, a 90 degree perspective with near plane 1 and far plane
  10, and a 100 by 100 window.
\<close>

definition cube_view :: gl_view where
  "cube_view =
     \<lparr>modelview = glu_look_at (0, 0, 5) (0, 0, 0) (0, 1, 0), projection = glu_perspective 90 1 1 10,
      view_port = (0, 0, 100, 100), window_height = 100\<rparr>"

section \<open>Lemmas\<close>

lemma heap_length_update_figure [simp]: "length (heap (update_figure r g w)) = length (heap w)"
  by (simp add: update_figure_def)

lemma heap_update_scene [simp]: "heap (update_scene g w) = heap w"
  by (simp add: update_scene_def)

lemma scene_update_figure [simp]: "scene (update_figure r g w) = scene w"
  by (simp add: update_figure_def)

lemma scene_update_scene [simp]: "scene (update_scene g w) = g (scene w)"
  by (simp add: update_scene_def)

lemma heap_update_figure_nth:
  "heap (update_figure r g w) ! i = (if i = r \<and> r < length (heap w) then g (heap w ! r) else heap w ! i)"
  by (auto simp: update_figure_def nth_list_update list_update_beyond)

lemma vertices_deselect [simp]: "vertices (heap (deselect_figure w) ! i) = vertices (heap w ! i)"
  by (simp add: deselect_figure_def update_figure_def
        nth_update_keeps [where h = vertices and g = "\<lambda>f. f\<lparr>selected := False\<rparr>"] split: option.splits)

lemma figures_deselect [simp]: "scene_figures (scene (deselect_figure w)) = scene_figures (scene w)"
  by (simp add: deselect_figure_def split: option.splits)

lemma length_heap_deselect [simp]: "length (heap (deselect_figure w)) = length (heap w)"
  by (simp add: deselect_figure_def split: option.splits)

lemma contains_point_cong_vertices:
  "vertices f = vertices g \<Longrightarrow> contains_point x y mv pr vp f = contains_point x y mv pr vp g"
  by (simp add: contains_point_def project_vertices_to_screen_def)

text \<open>After \<open>deselect_figure\<close> no figure of a consistent scene is selected.\<close>

lemma deselect_clears:
  assumes "sel_inv w"
  shows "selected_figure (scene (deselect_figure w)) = None
         \<and> (\<forall>r \<in> set (scene_figures (scene w)). \<not> selected (heap (deselect_figure w) ! r))"
proof (cases "selected_figure (scene w)")
  case None
  with assms show ?thesis by (simp add: deselect_figure_def sel_inv_def Let_def)
next
  case (Some r0)
  with assms have "r0 < length (heap w)" "r0 \<in> set (scene_figures (scene w))"
    by (auto simp: sel_inv_def Let_def)
  with Some assms show ?thesis
    by (auto simp: deselect_figure_def sel_inv_def Let_def heap_update_figure_nth)
qed

lemma selected_figure_selection:
  "selected_figure (scene (selection x y gl w)) =
     find (\<lambda>r. contains_point (of_int x) (of_int (window_height gl - y - 1)) (modelview gl) (projection gl)
                 (view_port gl) (heap w ! r)) (scene_figures (scene w))"
proof -
  have "(\<lambda>r. contains_point (of_int x) (of_int (window_height gl - y - 1)) (modelview gl) (projection gl)
                 (view_port gl) (heap (deselect_figure w) ! r))
      = (\<lambda>r. contains_point (of_int x) (of_int (window_height gl - y - 1)) (modelview gl) (projection gl)
                 (view_port gl) (heap w ! r))"
    by (intro ext contains_point_cong_vertices vertices_deselect)
  moreover have "selected_figure (scene (deselect_figure w)) = None \<or> True" by simp
  ultimately show ?thesis
    by (auto simp: selection_def Let_def select_figure_def deselect_figure_def split: option.splits)
qed

text \<open>How the selection operations keep \<open>sel_inv\<close>.\<close>

lemma sel_inv_deselect:
  assumes "sel_inv w"
  shows "sel_inv (deselect_figure w) \<and> selected_figure (scene (deselect_figure w)) = None"
  using deselect_clears [OF assms] assms by (auto simp: sel_inv_def Let_def)

lemma sel_inv_select:
  assumes "sel_inv w" "selected_figure (scene w) = None" "r \<in> set (scene_figures (scene w))"
  shows "sel_inv (select_figure r w)"
  using assms by (auto simp: sel_inv_def Let_def select_figure_def heap_update_figure_nth)

lemma find_Some_set: "find P xs = Some r \<Longrightarrow> r \<in> set xs"
  by (auto simp: find_Some_iff)

lemma sel_inv_selection:
  assumes "sel_inv w"
  shows "sel_inv (selection x y gl w)"
proof -
  let ?w1 = "deselect_figure w"
  have d: "sel_inv ?w1" "selected_figure (scene ?w1) = None"
    using sel_inv_deselect [OF assms] by simp_all
  show ?thesis
  proof (cases "find (\<lambda>r. contains_point (of_int x) (of_int (window_height gl - y - 1)) (modelview gl) (projection gl)
                 (view_port gl) (heap ?w1 ! r)) (scene_figures (scene ?w1))")
    case None
    with d show ?thesis by (simp add: selection_def)
  next
    case (Some r)
    with d show ?thesis by (simp add: selection_def sel_inv_select find_Some_set)
  qed
qed

lemma sel_inv_update_figure:
  assumes "sel_inv w" "\<And>f. selected (g f) = selected f"
  shows "sel_inv (update_figure r g w)"
  using assms nth_update_keeps [where h = selected and g = g and xs = "heap w" and r = r]
  by (simp add: sel_inv_def Let_def update_figure_def)

lemma sel_inv_add_figure:
  assumes "sel_inv w" "r \<notin> set (scene_figures (scene w))" "r < length (heap w)" "\<not> selected (heap w ! r)"
  shows "sel_inv (add_figure r w)"
  using assms by (auto simp: sel_inv_def Let_def add_figure_def)

lemma sel_inv_handle_motion:
  "handle_motion x y w = Inr w' \<Longrightarrow> sel_inv w \<Longrightarrow> sel_inv w'"
  by (auto simp: handle_motion_def Let_def sel_inv_def split: if_splits camera_slot.splits)

text \<open>Under \<open>sel_inv\<close> at most one entry of the scene's figure list is selected.\<close>

lemma sel_inv_at_most_one:
  assumes "sel_inv w" "i < length (scene_figures (scene w))" "j < length (scene_figures (scene w))"
    "selected (heap w ! (scene_figures (scene w) ! i))" "selected (heap w ! (scene_figures (scene w) ! j))"
  shows "i = j"
  using assms by (auto simp: sel_inv_def Let_def nth_eq_iff_index_eq)

lemma update_figure_all:
  assumes "\<forall>f \<in> set (heap w). P f" "\<And>f. P f \<Longrightarrow> P (g f)"
  shows "\<forall>f \<in> set (heap (update_figure r g w)). P f"
proof -
  have h: "heap (update_figure r g w) = (heap w)[r := g (heap w ! r)]" by (simp add: update_figure_def)
  show ?thesis unfolding h by (rule list_update_all [OF assms])
qed

lemma deselect_all:
  assumes "\<forall>f \<in> set (heap w). P f" "\<And>f. P f \<Longrightarrow> P (f\<lparr>selected := False\<rparr>)"
  shows "\<forall>f \<in> set (heap (deselect_figure w)). P f"
proof (cases "selected_figure (scene w)")
  case None
  then show ?thesis using assms(1) by (simp add: deselect_figure_def)
next
  case (Some r)
  then have "heap (deselect_figure w) = heap (update_figure r (\<lambda>f. f\<lparr>selected := False\<rparr>) w)"
    by (simp add: deselect_figure_def)
  then show ?thesis using update_figure_all [OF assms(1) assms(2)] by simp
qed

lemma selection_all:
  assumes "\<forall>f \<in> set (heap w). P f" "\<And>f b. P f \<Longrightarrow> P (f\<lparr>selected := b\<rparr>)"
  shows "\<forall>f \<in> set (heap (selection x y gl w)). P f"
proof -
  let ?w1 = "deselect_figure w"
  have d: "\<forall>f \<in> set (heap ?w1). P f" using deselect_all [OF assms(1) assms(2)] .
  have s: "\<forall>f \<in> set (heap (select_figure r ?w1)). P f" for r
  proof -
    have "heap (select_figure r ?w1) = heap (update_figure r (\<lambda>f. f\<lparr>selected := True\<rparr>) ?w1)"
      by (simp add: select_figure_def)
    then show ?thesis using update_figure_all [OF d assms(2)] by simp
  qed
  show ?thesis using d s by (simp add: selection_def Let_def split: option.splits)
qed

lemma create_templates:
  "create ''Cube'' = Inr 0" "create ''Pyramid'' = Inr 1" "create ''Sphere'' = Inr 2"
  by (simp_all add: create_def set_example_def figures_def figure_catalogue_def)

lemma project_cube:
  "project_vertices_to_screen (modelview cube_view) (projection cube_view) (view_port cube_view) cube_data
   = [(125/3, 125/3), (175/3, 125/3), (175/3, 175/3), (125/3, 175/3),
      (75/2, 75/2), (125/2, 75/2), (125/2, 125/2), (75/2, 125/2)]"
  by (simp add: cube_view_def glu_look_at_z5 glu_perspective_90 project_vertices_to_screen_def
      glu_project_def mat4_vec_def dot4_def template_data_defs)

lemma heap_world_init_0: "heap (add_figure 0 world_init) ! 0 = cube_data"
  by (simp add: add_figure_def world_init_def figure_catalogue_def)

lemma figures_add_figure [simp]: "scene_figures (scene (add_figure r w)) = scene_figures (scene w) @ [r]"
  by (simp add: add_figure_def)

lemma cube_view_hits:
  "contains_point 50 50 (modelview cube_view) (projection cube_view) (view_port cube_view) cube_data"
  "\<not> contains_point 5 5 (modelview cube_view) (projection cube_view) (view_port cube_view) cube_data"
  "window_height cube_view = 100"
  by (simp_all add: contains_point_def project_cube py_min_def py_max_def) (simp add: cube_view_def)

section \<open>Properties\<close>

text \<open>
  C3. \<open>selection\<close> selects exactly the first figure, in the scene's insertion order, whose
  projected bounding box contains the flipped click point; ties go to the earliest figure.
\<close>

theorem selection_first_hit:
  "selected_figure (scene (selection x y gl w)) = Some r \<longleftrightarrow>
     (let figs = scene_figures (scene w);
          hit = (\<lambda>r. contains_point (of_int x) (of_int (window_height gl - y - 1)) (modelview gl) (projection gl)
                        (view_port gl) (heap w ! r))
      in \<exists>i < length figs. figs ! i = r \<and> hit r \<and> (\<forall>j < i. \<not> hit (figs ! j)))"
  by (simp only: selected_figure_selection find_Some_iff Let_def) (metis)

theorem selection_first_hit_witness:
  "selected_figure (scene (selection 50 49 cube_view (add_figure 0 world_init))) = Some 0"
proof -
  have f: "scene_figures (scene world_init) = []"
    by (simp add: world_init_def scene_data_init_def)
  show ?thesis
    using selection_first_hit [of 50 49 cube_view "add_figure 0 world_init" 0]
    by (simp add: f heap_world_init_0 cube_view_hits)
qed

text \<open>
  C4. From a consistent state, a click leaves the state consistent, and afterwards at most
  one entry of the scene's figure list is selected.
\<close>

theorem selection_single_selection:
  assumes "sel_inv w"
  shows "let w' = selection x y gl w; figs = scene_figures (scene w')
         in sel_inv w' \<and>
            (\<forall>i < length figs. \<forall>j < length figs.
               selected (heap w' ! (figs ! i)) \<and> selected (heap w' ! (figs ! j)) \<longrightarrow> i = j)"
  using sel_inv_selection [OF assms] sel_inv_at_most_one by (simp add: Let_def) blast

theorem selection_single_selection_witness:
  "sel_inv (add_figure 0 world_init) \<and>
   (let w' = selection 50 49 cube_view (add_figure 0 world_init); figs = scene_figures (scene w')
    in sel_inv w' \<and>
       (\<forall>i < length figs. \<forall>j < length figs.
          selected (heap w' ! (figs ! i)) \<and> selected (heap w' ! (figs ! j)) \<longrightarrow> i = j))"
proof -
  have i: "sel_inv (add_figure 0 world_init)"
    by (simp add: sel_inv_def heap_world_init_0 add_figure_def world_init_def scene_data_init_def
        figure_catalogue_def cube_data_def mk_figure_data_def)
  show ?thesis using selection_single_selection [OF i, of 50 49 cube_view] i by simp
qed

text \<open>
  The spec's cube-pick scenario: with only the cube in the scene, a click at the centre
  of its projected box (pixel (50, 49), flipped to row 50) selects it, and a click at pixel
  (5, 94), outside the box, selects nothing.
\<close>

theorem cube_pick_scenario:
  "selected_figure (scene (handle_click 50 49 LeftButton cube_view (add_figure 0 world_init))) = Some 0
   \<and> selected_figure (scene (handle_click 5 94 LeftButton cube_view (add_figure 0 world_init))) = None"
proof -
  have f: "scene_figures (scene world_init) = []"
    by (simp add: world_init_def scene_data_init_def)
  show ?thesis
    by (simp add: handle_click_def selected_figure_selection f heap_world_init_0 cube_view_hits)
qed

text \<open>
  \<open>create\<close> hands out the template objects themselves: \<open>create_scene\<close> succeeds,
  its scene holds the first three template slots, and afterwards \<open>create(''Cube'')\<close>
  returns the same slot, which now holds the moved, green cube instead of the template.
\<close>

theorem create_scene_shares_templates:
  "\<exists>w. create_scene c = Inr w \<and> scene_figures (scene w) = [0, 1, 2] \<and> create ''Cube'' = Inr 0
       \<and> positions (heap w ! 0) = positions (translate 4 (-2) 1 cube_data)
       \<and> color (heap w ! 0) = PList [0, 1, 0]"
proof -
  have pal: "colors ''Green'' = Some [0, 1, 0]" "colors ''Red'' = Some [1, 0, 0]" "colors ''Blue'' = Some [0, 0, 1]"
    by (simp_all add: colors_def)
  show ?thesis
    by (simp add: create_scene_def create_templates set_color_at_def set_color_palette pal
        update_figure_def add_figure_def set_camera_def update_scene_def world_init_def
        scene_data_init_def figure_catalogue_def figure_simps)
qed

text \<open>
  A scene built with the default \<open>SceneData()\<close> holds a bare \<open>CameraData\<close>: once the
  right button has latched the drag, the next motion event raises \<open>AttributeError\<close>.
\<close>

theorem handle_motion_default_camera_fails:
  "handle_motion x y (update_scene (\<lambda>s. s\<lparr>is_rotating := True\<rparr>) world_init) = Inl (AttributeError ''rotate'')"
  by (simp add: handle_motion_def world_init_def scene_data_init_def)

end
