(* ===== verification/Ascii.thy ===== *)
theory Ascii
  imports Prelude
begin

text \<open>
  The ASCII rasterization pipeline: \<open>AsciiRenderer\<close> of \<open>src/src/labs/lab5/ui/Renderer.py\<close>
  (\<open>set_ascii_height\<close>, \<open>map_pixel_to_ascii\<close>, \<open>render_to_ascii\<close>, \<open>reshape\<close>) and the
  escape-stripping loop of \<open>Controller.get_scene\<close> in \<open>src/src/labs/lab5/bll/Controller.py\<close>,
  which consumes the renderer's output.

  Pixels are bytes: a channel or a grey level is an \<open>8 word\<close>. The frame read back by
  \<open>glReadPixels\<close> is a list of rows, bottom row first. The two Pillow operations the
  renderer calls are written out from Pillow's documented algorithms (they are library
  code): \<open>resize(..., NEAREST)\<close> samples source pixel \<open>floor((x + 0.5) * W / w)\<close>, and
  \<open>convert("L")\<close> computes \<open>(19595 R + 38470 G + 7471 B + 32768) >> 16\<close> in 32-bit
  integers.
\<close>

section \<open>Strings\<close>

type_synonym rgb8 = "8 word \<times> 8 word \<times> 8 word"

text \<open>\<open>str(n)\<close> of a natural number: its decimal digits.\<close>

fun dec :: "nat \<Rightarrow> string" where
  "dec n = (if n < 10 then [char_of (48 + n)] else dec (n div 10) @ [char_of (48 + n mod 10)])"

definition esc :: char where
  "esc = CHR 0x1B"

text \<open>\<open>sep.join(xs)\<close> and \<open>s.split(sep)\<close> for a one-character separator.\<close>

fun py_join :: "char \<Rightarrow> string list \<Rightarrow> string" where
  "py_join c [] = []"
| "py_join c [x] = x"
| "py_join c (x # y # xs) = x @ c # py_join c (y # xs)"

fun py_split :: "char \<Rightarrow> string \<Rightarrow> string list" where
  "py_split c [] = [[]]"
| "py_split c (x # xs) =
     (if x = c then [] # py_split c xs
      else (case py_split c xs of l # ls \<Rightarrow> (x # l) # ls | [] \<Rightarrow> [[x]]))"

text \<open>\<open>s.find(c, i)\<close>: the first index at or after \<open>i\<close> holding \<open>c\<close>, or -1.\<close>

definition py_find :: "string \<Rightarrow> char \<Rightarrow> nat \<Rightarrow> int" where
  "py_find s c i =
     (let d = drop i s in if c \<in> set d then int (i + length (takeWhile (\<lambda>x. x \<noteq> c) d)) else -1)"

section \<open>The renderer\<close>

text \<open>
  The renderer's fields; width and height are \<open>None\<close> until the first reshape.
  (\<open>color_palette\<close> is stored by the constructor but never read.)
\<close>

record renderer =
  r_width :: "int option"
  r_height :: "int option"
  ascii_height :: "int option"
  ascii_chars :: string

definition set_ascii_height :: "int \<Rightarrow> renderer \<Rightarrow> renderer" where
  "set_ascii_height h rd = rd\<lparr>ascii_height := Some h\<rparr>"

text \<open>
  \<open>map_pixel_to_ascii(gray, color)\<close>: the glyph at \<open>int(gray / 255 * (len(chars) - 1))\<close>
  wrapped in a 24-bit colour escape and a reset. An empty ramp raises \<open>IndexError\<close>.
\<close>

definition ascii_cell :: "rgb8 \<Rightarrow> char \<Rightarrow> string" where
  "ascii_cell col ch =
     (case col of (r, g, b) \<Rightarrow>
        esc # ''[38;2;'' @ dec (unat r) @ '';'' @ dec (unat g) @ '';'' @ dec (unat b) @ ''m''
        @ [ch] @ esc # ''[0m'')"

definition map_pixel_to_ascii :: "string \<Rightarrow> 8 word \<Rightarrow> rgb8 \<Rightarrow> string result" where
  "map_pixel_to_ascii chars gray col =
     rbind (py_index chars (py_int (real (unat gray) / 255 * real_of_int (int (length chars) - 1))))
       (\<lambda>ch. Inr (ascii_cell col ch))"

text \<open>Pillow's \<open>convert("L")\<close>: ITU-R 601-2 luma in 16-bit fixed point, rounded.\<close>

definition pil_gray :: "rgb8 \<Rightarrow> 8 word" where
  "pil_gray col =
     (case col of (r, g, b) \<Rightarrow>
        ucast (drop_bit 16 (ucast r * 19595 + ucast g * 38470 + ucast b * 7471 + 32768 :: 32 word)))"

text \<open>Pillow's nearest-neighbour \<open>resize\<close> from \<open>W \<times> H\<close> to \<open>w \<times> h\<close>.\<close>

definition nearest_src :: "nat \<Rightarrow> nat \<Rightarrow> nat \<Rightarrow> nat" where
  "nearest_src big small x = ((2 * x + 1) * big) div (2 * small)"

definition pil_resize_nearest :: "nat \<Rightarrow> nat \<Rightarrow> nat \<Rightarrow> nat \<Rightarrow> 'a list list \<Rightarrow> 'a list list" where
  "pil_resize_nearest W H w h img =
     map (\<lambda>y. map (\<lambda>x. img ! nearest_src H h y ! nearest_src W w x) [0..<w]) [0..<h]"

text \<open>
  \<open>render_to_ascii()\<close> applied to the frame read back from the front buffer. The output
  height is \<open>ascii_height\<close>, or a fifth of the window height when it is unset or zero;
  the width is \<open>int(h * (W / H) * 3)\<close>. Pillow rejects a non-positive target size, and a
  frame whose size is unset or empty is rejected by the read-back.
\<close>

definition scaled_height :: "renderer \<Rightarrow> int \<Rightarrow> int" where
  "scaled_height rd H =
     (case ascii_height rd of Some a \<Rightarrow> if a \<noteq> 0 then a else py_int (of_int H * 0.2)
      | None \<Rightarrow> py_int (of_int H * 0.2))"

definition scaled_width :: "int \<Rightarrow> int \<Rightarrow> int \<Rightarrow> int" where
  "scaled_width sh W H =
     (if H \<noteq> 0 \<and> W \<noteq> 0 then py_int (of_int sh * (of_int W / of_int H) * 3) else py_int (of_int sh * 3))"

definition render_rows :: "string \<Rightarrow> rgb8 list list \<Rightarrow> string list result" where
  "render_rows chars img =
     rmap (\<lambda>row. rbind (rmap (\<lambda>c. map_pixel_to_ascii chars (pil_gray c) c) row) (\<lambda>cells. Inr (concat cells)))
       (rev img)"

definition render_to_ascii :: "renderer \<Rightarrow> rgb8 list list \<Rightarrow> string result" where
  "render_to_ascii rd frame =
     (case (r_width rd, r_height rd) of
        (Some W, Some H) \<Rightarrow>
          if W \<le> 0 \<or> H \<le> 0 then Inl (ValueError ''empty frame'')
          else
            (let sh = scaled_height rd H; sw = scaled_width sh W H
             in if sw \<le> 0 \<or> sh \<le> 0 then Inl (ValueError ''height and width must be > 0'')
                else rbind (render_rows (ascii_chars rd) (pil_resize_nearest (nat W) (nat H) (nat sw) (nat sh) frame))
                       (\<lambda>rows. Inr (py_join CHR ''\<newline>'' rows)))
      | _ \<Rightarrow> Inl (TypeError ''unsupported operand type(s)''))"

text \<open>
  \<open>reshape(width, height, ...)\<close>: a height below 70 is raised to 70 (and the window is
  resized to it); the new size is stored and becomes the viewport.
\<close>

definition renderer_reshape :: "int \<Rightarrow> int \<Rightarrow> renderer \<Rightarrow> renderer \<times> (int \<times> int \<times> int \<times> int)" where
  "renderer_reshape w h rd =
     (let h' = (if h < 70 then 70 else h)
      in (rd\<lparr>r_width := Some w, r_height := Some h'\<rparr>, (0, 0, w, h')))"

section \<open>Stripping the colour escapes\<close>

text \<open>
  The inner \<open>while\<close> loop of \<open>get_scene(remove_color=True)\<close> on one line: at an escape
  introducer \<open>ESC [\<close> the index jumps past the next \<open>m\<close>; otherwise the character is kept.
  When no \<open>m\<close> follows, \<open>find\<close> returns -1 and the index falls back to 0, so the loop may
  not end: its value is \<open>None\<close> then.
\<close>

partial_function (option) strip_from :: "string \<Rightarrow> nat \<Rightarrow> string \<Rightarrow> string option" where
  "strip_from line i acc =
     (if i < length line then
        (if take 2 (drop i line) = [esc, CHR ''[''] then strip_from line (nat (py_find line CHR ''m'' i + 1)) acc
         else strip_from line (Suc i) (acc @ [line ! i]))
      else Some acc)"

definition strip_lines :: "string list \<Rightarrow> string list option" where
  "strip_lines ls = those (map (\<lambda>l. strip_from l 0 []) ls)"

definition get_scene :: "bool \<Rightarrow> string \<Rightarrow> string option" where
  "get_scene remove_color screen =
     (if remove_color then map_option (py_join CHR ''\<newline>'') (strip_lines (py_split CHR ''\<newline>'' screen))
      else Some screen)"

text \<open>The spec's glyph index \<open>floor(g / 255 * (len(ramp) - 1))\<close> in exact natural arithmetic.\<close>

definition glyph_index :: "string \<Rightarrow> 8 word \<Rightarrow> nat" where
  "glyph_index chars g = (unat g * (length chars - 1)) div 255"

section \<open>Lemmas\<close>

declare dec.simps [simp del]


lemma py_int_ramp:
  assumes "0 < n"
  shows "py_int (real m / 255 * real_of_int (int n - 1)) = int ((m * (n - 1)) div 255)"
proof -
  have e1: "real_of_int (int n - 1) = real (n - 1)" using assms by (simp add: of_nat_diff Suc_le_eq)
  have e2: "real m / 255 * real (n - 1) = real (m * (n - 1)) / real (255::nat)" by simp
  have "py_int (real (m * (n - 1)) / real (255::nat)) = \<lfloor>real (m * (n - 1)) / real (255::nat)\<rfloor>"
    by (rule py_int_nonneg) simp
  then show ?thesis by (simp only: e1 e2 floor_divide_of_nat_eq)
qed

lemma unat_byte_le: "unat (g :: 8 word) \<le> 255"
proof -
  have "unat g < 256" using unsigned_less [of g] by simp
  then show ?thesis by simp
qed

lemma glyph_index_less: "chars \<noteq> [] \<Longrightarrow> glyph_index chars g < length chars"
proof -
  assume "chars \<noteq> []"
  have "unat g * (length chars - 1) \<le> 255 * (length chars - 1)" using unat_byte_le [of g] by simp
  then have "glyph_index chars g \<le> length chars - 1"
    unfolding glyph_index_def by (metis div_le_mono nonzero_mult_div_cancel_left zero_neq_numeral)
  with \<open>chars \<noteq> []\<close> show ?thesis by (cases chars) auto
qed

lemma map_pixel_to_ascii_ok:
  assumes "chars \<noteq> []"
  shows "map_pixel_to_ascii chars g col = Inr (ascii_cell col (chars ! glyph_index chars g))"
proof -
  have "py_int (real (unat g) / 255 * real_of_int (int (length chars) - 1)) = int (glyph_index chars g)"
    unfolding glyph_index_def using assms by (intro py_int_ramp) simp
  then show ?thesis
    by (simp only: map_pixel_to_ascii_def py_index_nat [OF glyph_index_less [OF assms]] rbind_Inr)
qed


lemma strip_end: "length line \<le> i \<Longrightarrow> strip_from line i acc = Some acc"
  by (subst strip_from.simps) simp

lemma drop_Cons_less: "drop i xs = y # ys \<Longrightarrow> i < length xs"
  by (cases "i < length xs") simp_all

lemma strip_skip:
  assumes "drop i line = u @ CHR ''m'' # rest" "CHR ''m'' \<notin> set u" "take 2 u = [esc, CHR ''['']"
  shows "strip_from line i acc = strip_from line (i + length u + 1) acc"
proof -
  have i: "i < length line" using assms(1) by (cases u) (simp_all add: drop_Cons_less)
  have "take 2 (drop i line) = take 2 u"
  proof -
    have "length u \<ge> 2"
    proof (rule ccontr)
      assume "\<not> 2 \<le> length u"
      then have "take 2 u = u" by simp
      with assms(3) have "length u = 2" by simp
      then show False using \<open>\<not> 2 \<le> length u\<close> by simp
    qed
    then show ?thesis using assms(1) by simp
  qed
  then have t: "take 2 (drop i line) = [esc, CHR ''['']" using assms(3) by simp
  have tw: "takeWhile (\<lambda>x. x \<noteq> CHR ''m'') (u @ CHR ''m'' # rest) = u"
    using assms(2) by (subst takeWhile_append2) auto
  have f: "py_find line CHR ''m'' i = int (i + length u)"
    using assms(1) by (simp add: py_find_def tw)
  have n: "nat (int (i + length u) + 1) = i + length u + 1" by simp
  show ?thesis by (subst strip_from.simps) (simp only: i t f n if_True simp_thms)
qed

lemma strip_keep:
  assumes "drop i line = c # rest" "take 2 (c # rest) \<noteq> [esc, CHR ''['']"
  shows "strip_from line i acc = strip_from line (Suc i) (acc @ [c])"
proof -
  have i: "i < length line" using assms(1) by (rule drop_Cons_less)
  have n: "line ! i = c" using assms(1) i by (simp add: hd_drop_conv_nth [symmetric])
  have t: "take 2 (drop i line) \<noteq> [esc, CHR ''['']" using assms by simp
  show ?thesis by (subst strip_from.simps) (simp only: i t n if_True if_False)
qed



lemma dec_digit: "x \<in> set (dec n) \<Longrightarrow> \<exists>d::nat. d < 10 \<and> x = char_of (48 + d)"
proof (induction n rule: dec.induct)
  case (1 n)
  show ?case
  proof (cases "n < 10")
    case True
    with "1.prems" show ?thesis by (subst (asm) dec.simps) auto
  next
    case False
    with "1.prems" have "x \<in> set (dec (n div 10)) \<or> x = char_of (48 + n mod 10)"
      by (subst (asm) dec.simps) auto
    then show ?thesis
    proof
      assume "x \<in> set (dec (n div 10))"
      then show ?thesis using "1.IH" False by blast
    next
      assume "x = char_of (48 + n mod 10)"
      then show ?thesis by (intro exI [of _ "n mod 10"]) simp
    qed
  qed
qed

lemma dec_avoids:
  assumes "\<not> (48 \<le> (of_char c :: nat) \<and> (of_char c :: nat) < 58)"
  shows "c \<notin> set (dec n)"
proof
  assume "c \<in> set (dec n)"
  then obtain d :: nat where d: "d < 10" "c = char_of (48 + d)" using dec_digit by blast
  then have "of_char c = (48 + d :: nat)" by (simp add: of_char_of)
  with d(1) assms show False by simp
qed

lemma dec_no_m [simp]: "CHR ''m'' \<notin> set (dec n)"
  by (rule dec_avoids) simp

lemma dec_no_nl [simp]: "CHR ''\<newline>'' \<notin> set (dec n)"
  by (rule dec_avoids) simp

lemma ascii_cell_split:
  "ascii_cell (r, g, b) c =
     (esc # ''[38;2;'' @ dec (unat r) @ '';'' @ dec (unat g) @ '';'' @ dec (unat b))
     @ CHR ''m'' # c # [esc, CHR ''['', CHR ''0''] @ CHR ''m'' # []"
  by (simp add: ascii_cell_def)

lemma length_ascii_cell:
  "length (ascii_cell (r, g, b) c) =
     length (esc # ''[38;2;'' @ dec (unat r) @ '';'' @ dec (unat g) @ '';'' @ dec (unat b)) + 6"
  by (simp add: ascii_cell_def)

lemma strip_cell:
  assumes "drop i line = ascii_cell col c @ rest" "c \<noteq> esc"
  shows "strip_from line i acc = strip_from line (i + length (ascii_cell col c)) (acc @ [c])"
proof -
  obtain r g b where col: "col = (r, g, b)" by (cases col) auto
  define u where "u = esc # ''[38;2;'' @ dec (unat r) @ '';'' @ dec (unat g) @ '';'' @ dec (unat b)"
  have d0: "drop i line = u @ CHR ''m'' # (c # [esc, CHR ''['', CHR ''0''] @ CHR ''m'' # rest)"
    using assms(1) by (simp add: col ascii_cell_split u_def)
  have mu: "CHR ''m'' \<notin> set u" by (simp add: u_def esc_def)
  have s1: "strip_from line i acc = strip_from line (i + length u + 1) acc"
    by (rule strip_skip [OF d0 mu]) (simp add: u_def)
  have d1: "drop (i + length u + 1) line = c # ([esc, CHR ''['', CHR ''0''] @ CHR ''m'' # rest)"
  proof -
    have "drop (i + length u + 1) line = drop (length u + 1) (drop i line)" by (simp add: add.commute add.left_commute)
    then show ?thesis by (simp add: d0)
  qed
  have s2: "strip_from line (i + length u + 1) acc = strip_from line (Suc (i + length u + 1)) (acc @ [c])"
    by (rule strip_keep [OF d1]) (simp add: assms(2))
  have d2: "drop (Suc (i + length u + 1)) line = [esc, CHR ''['', CHR ''0''] @ CHR ''m'' # rest"
  proof -
    have "drop (Suc (i + length u + 1)) line = drop 1 (drop (i + length u + 1) line)" by simp
    then show ?thesis by (simp only: d1) simp
  qed
  have s3: "strip_from line (Suc (i + length u + 1)) (acc @ [c])
            = strip_from line (Suc (i + length u + 1) + length [esc, CHR ''['', CHR ''0''] + 1) (acc @ [c])"
    by (rule strip_skip [OF d2]) (simp_all add: esc_def)
  have l: "i + length (ascii_cell col c) = Suc (i + length u + 1) + length [esc, CHR ''['', CHR ''0''] + 1"
    by (simp add: col length_ascii_cell u_def)
  show ?thesis unfolding l by (rule trans [OF trans [OF s1 s2] s3])
qed


lemma strip_cells:
  assumes "drop i line = concat (map (\<lambda>x. ascii_cell (col x) (gl x)) xs) @ rest" "\<forall>x \<in> set xs. gl x \<noteq> esc"
  shows "strip_from line i acc
         = strip_from line (i + length (concat (map (\<lambda>x. ascii_cell (col x) (gl x)) xs))) (acc @ map gl xs)"
  using assms
proof (induction xs arbitrary: i acc)
  case Nil
  then show ?case by simp
next
  case (Cons x xs)
  let ?rest = "concat (map (\<lambda>x. ascii_cell (col x) (gl x)) xs)"
  have d: "drop i line = ascii_cell (col x) (gl x) @ (?rest @ rest)" using Cons.prems(1) by simp
  have s: "strip_from line i acc = strip_from line (i + length (ascii_cell (col x) (gl x))) (acc @ [gl x])"
    by (rule strip_cell [OF d]) (use Cons.prems(2) in simp)
  have d': "drop (i + length (ascii_cell (col x) (gl x))) line = ?rest @ rest"
  proof -
    have "drop (i + length (ascii_cell (col x) (gl x))) line = drop (length (ascii_cell (col x) (gl x))) (drop i line)"
      by (simp add: add.commute)
    then show ?thesis by (simp add: d)
  qed
  show ?case using s Cons.IH [OF d'] Cons.prems(2) by (simp add: add.assoc)
qed

lemma strip_row:
  "\<forall>x \<in> set xs. gl x \<noteq> esc \<Longrightarrow> strip_from (concat (map (\<lambda>x. ascii_cell (col x) (gl x)) xs)) 0 [] = Some (map gl xs)"
  using strip_cells [where i = 0 and rest = "[]" and acc = "[]" and col = col and gl = gl and xs = xs]
  by (simp add: strip_end)

lemma py_split_sep: "c \<notin> set x \<Longrightarrow> py_split c (x @ c # y) = x # py_split c y"
  by (induction x) auto

lemma py_split_none: "c \<notin> set x \<Longrightarrow> py_split c x = [x]"
  by (induction x) auto

lemma py_split_join:
  "xs \<noteq> [] \<Longrightarrow> \<forall>x \<in> set xs. c \<notin> set x \<Longrightarrow> py_split c (py_join c xs) = xs"
  by (induction c xs rule: py_join.induct) (simp_all add: py_split_none py_split_sep)

lemma unat_gray_sum:
  fixes r g b :: "8 word"
  shows "unat (ucast r * 19595 + ucast g * 38470 + ucast b * 7471 + 32768 :: 32 word)
         = unat r * 19595 + unat g * 38470 + unat b * 7471 + 32768"
proof -
  have br: "unat r < 256" "unat g < 256" "unat b < 256"
    using unsigned_less [of r] unsigned_less [of g] unsigned_less [of b] by simp_all
  have e: "(ucast r * 19595 + ucast g * 38470 + ucast b * 7471 + 32768 :: 32 word)
        = word_of_nat (unat r * 19595 + unat g * 38470 + unat b * 7471 + 32768)"
    by (simp only: of_nat_add of_nat_mult of_nat_unat of_nat_numeral)
  show ?thesis unfolding e unat_of_nat using br by simp
qed

lemma unat_pil_gray:
  "unat (pil_gray (r, g, b)) = (unat r * 19595 + unat g * 38470 + unat b * 7471 + 32768) div 65536"
proof -
  have br: "unat r < 256" "unat g < 256" "unat b < 256"
    using unsigned_less [of r] unsigned_less [of g] unsigned_less [of b] by simp_all
  then have "(unat r * 19595 + unat g * 38470 + unat b * 7471 + 32768) div 65536 < 256"
    by simp
  then show ?thesis
    by (simp only: pil_gray_def prod.case unsigned_ucast_eq unat_drop_bit_eq unat_gray_sum)
      (simp add: drop_bit_eq_div take_bit_eq_mod)
qed

lemma floor_ramp: "\<lfloor>real m / 255 * real k\<rfloor> = int ((m * k) div 255)"
proof -
  have "real m / 255 * real k = real (m * k) / real (255::nat)" by simp
  then show ?thesis by (simp only: floor_divide_of_nat_eq)
qed

lemma those_map_Some:
  "(\<And>x. x \<in> set xs \<Longrightarrow> f x = Some (g x)) \<Longrightarrow> those (map f xs) = Some (map g xs)"
  by (induction xs) simp_all

lemma nl_not_in_cell: "ch \<noteq> CHR ''\<newline>'' \<Longrightarrow> CHR ''\<newline>'' \<notin> set (ascii_cell col ch)"
  by (cases col) (auto simp: ascii_cell_def esc_def)

lemma render_rows_ok:
  "chars \<noteq> [] \<Longrightarrow> render_rows chars img =
     Inr (map (\<lambda>row. concat (map (\<lambda>c. ascii_cell c (chars ! glyph_index chars (pil_gray c))) row)) (rev img))"
  unfolding render_rows_def by (intro rmap_Inr) (simp add: rmap_Inr map_pixel_to_ascii_ok)

lemma pil_resize_nearest_dims:
  "length (pil_resize_nearest W H w h img) = h"
  "row \<in> set (pil_resize_nearest W H w h img) \<Longrightarrow> length row = w"
  by (auto simp: pil_resize_nearest_def)

lemma glyph_in_ramp: "chars \<noteq> [] \<Longrightarrow> chars ! glyph_index chars g \<in> set chars"
  by (simp add: glyph_index_less)

section \<open>Properties\<close>

text \<open>
  C10. \<open>map_pixel_to_ascii\<close> picks the glyph at the spec's index
  \<open>floor(gray / 255 * (len(ramp) - 1))\<close> of a non-empty ramp and wraps it in the colour escape.
\<close>

theorem map_pixel_to_ascii_floor:
  assumes "chars \<noteq> []"
  shows "map_pixel_to_ascii chars g col =
           Inr (ascii_cell col (chars ! nat \<lfloor>real (unat g) / 255 * real (length chars - 1)\<rfloor>))"
  using map_pixel_to_ascii_ok [OF assms, of g col]
  by (simp only: floor_ramp [of "unat g"] nat_int glyph_index_def)

theorem map_pixel_to_ascii_floor_witness:
  "map_pixel_to_ascii ''ab'' 255 (0, 0, 0) = Inr (ascii_cell (0, 0, 0) CHR ''b'')"
  using map_pixel_to_ascii_floor [of "''ab''" 255 "(0, 0, 0)"] by simp

text \<open>
  The spec's mapping scenario: with the ramp \<open>" .:#"\<close> a grey level of 128 selects
  index \<open>floor(128 / 255 * 3) = 1\<close>, the glyph \<open>.\<close>.
\<close>

theorem ascii_mapping_scenario:
  "map_pixel_to_ascii '' .:#'' 128 col = Inr (ascii_cell col CHR ''.'')"
  by (simp add: map_pixel_to_ascii_ok glyph_index_def)

text \<open>An empty ramp makes every pixel raise \<open>IndexError\<close>.\<close>

theorem map_pixel_to_ascii_empty_ramp:
  "map_pixel_to_ascii [] g col = Inl IndexError"
  by (simp add: map_pixel_to_ascii_def)

text \<open>
  The 32-bit luma sum of \<open>convert("L")\<close> never wraps, and the grey level is its exact
  rounded value, at most 255.
\<close>

lemma pil_gray_exact:
  "unat (ucast r * 19595 + ucast g * 38470 + ucast b * 7471 + 32768 :: 32 word)
     = unat r * 19595 + unat g * 38470 + unat b * 7471 + 32768
   \<and> unat (pil_gray (r, g, b)) = (unat r * 19595 + unat g * 38470 + unat b * 7471 + 32768) div 65536
   \<and> unat (pil_gray (r, g, b)) \<le> 255"
  using unat_gray_sum [of r g b] unat_pil_gray [of r g b] unat_byte_le [of "pil_gray (r, g, b)"] by simp

text \<open>
  \<open>resize(..., NEAREST)\<close> only reads pixels inside the frame: the source column or row
  of every target position lies inside the source size.
\<close>

lemma nearest_src_in_frame:
  assumes "x < small" "0 < big"
  shows "nearest_src big small x < big"
proof -
  have "2 * x + 1 < 2 * small" using assms(1) by simp
  then have "(2 * x + 1) * big < 2 * small * big" using assms(2) by (rule mult_strict_right_mono)
  moreover have "0 < 2 * small" using assms(1) by simp
  ultimately show ?thesis unfolding nearest_src_def by (metis div_less_iff_less_mult mult.commute)
qed

text \<open>
  C9. Rendering and stripping agree: when the renderer has a size, the target size is
  positive and the ramp is non-empty and holds neither ESC nor a line break,
  \<open>render_to_ascii\<close> succeeds and \<open>get_scene\<close> strips its output back to exactly the
  grid of glyphs, one line per target row from the top row down, each as wide as the target.
\<close>

theorem render_strip_roundtrip:
  assumes "r_width rd = Some W" "r_height rd = Some H" "0 < W" "0 < H"
    and "0 < scaled_height rd H" "0 < scaled_width (scaled_height rd H) W H"
    and "ascii_chars rd \<noteq> []" "esc \<notin> set (ascii_chars rd)" "CHR ''\<newline>'' \<notin> set (ascii_chars rd)"
  shows "let img = pil_resize_nearest (nat W) (nat H) (nat (scaled_width (scaled_height rd H) W H))
                     (nat (scaled_height rd H)) frame;
             grid = map (map (\<lambda>c. ascii_chars rd ! glyph_index (ascii_chars rd) (pil_gray c))) (rev img)
         in (\<exists>s. render_to_ascii rd frame = Inr s \<and> get_scene True s = Some (py_join CHR ''\<newline>'' grid))
            \<and> length grid = nat (scaled_height rd H)
            \<and> (\<forall>l \<in> set grid. length l = nat (scaled_width (scaled_height rd H) W H))"
proof -
  define chars where "chars = ascii_chars rd"
  define img where "img = pil_resize_nearest (nat W) (nat H) (nat (scaled_width (scaled_height rd H) W H))
                     (nat (scaled_height rd H)) frame"
  define gl where "gl = (\<lambda>c. chars ! glyph_index chars (pil_gray c))"
  define rows where "rows = map (\<lambda>row. concat (map (\<lambda>c. ascii_cell c (gl c)) row)) (rev img)"
  define grid where "grid = map (map gl) (rev img)"
  have ne: "chars \<noteq> []" using assms(7) by (simp add: chars_def)
  have gl_in: "gl c \<in> set chars" for c by (simp add: gl_def glyph_in_ramp [OF ne])
  have r: "render_to_ascii rd frame = Inr (py_join CHR ''\<newline>'' rows)"
    using assms(1-6) ne
    by (simp add: render_to_ascii_def Let_def render_rows_ok rows_def gl_def chars_def img_def)
  have len: "length img = nat (scaled_height rd H)"
    by (simp add: img_def pil_resize_nearest_dims)
  have "img \<noteq> []" using len assms(5) by (cases img) simp_all
  then have rows_ne: "rows \<noteq> []" by (simp add: rows_def)
  have gl_nl: "gl c \<noteq> CHR ''\<newline>''" for c using gl_in [of c] assms(9) by (auto simp: chars_def)
  have cell_nl: "CHR ''\<newline>'' \<notin> set (ascii_cell col (gl c))" for col c
    by (rule nl_not_in_cell [OF gl_nl])
  have no_nl: "\<forall>x \<in> set rows. CHR ''\<newline>'' \<notin> set x"
    by (auto simp: rows_def cell_nl)
  have no_esc: "gl c \<noteq> esc" for c using gl_in [of c] assms(8) by (auto simp: chars_def)
  have strip: "strip_lines rows = Some grid"
    unfolding strip_lines_def rows_def grid_def map_map comp_def
    by (rule those_map_Some) (simp add: strip_row no_esc)
  have g: "get_scene True (py_join CHR ''\<newline>'' rows) = Some (py_join CHR ''\<newline>'' grid)"
    by (simp add: get_scene_def py_split_join [OF rows_ne no_nl] strip)
  have dims: "length grid = nat (scaled_height rd H)"
    "\<forall>l \<in> set grid. length l = nat (scaled_width (scaled_height rd H) W H)"
    using len by (auto simp: grid_def img_def pil_resize_nearest_dims)
  show ?thesis using r g dims by (simp add: Let_def img_def grid_def gl_def chars_def)
qed

theorem render_strip_roundtrip_witness:
  "let rd = \<lparr>r_width = Some 4, r_height = Some 2, ascii_height = Some 2, ascii_chars = '' .:#''\<rparr>;
       frame = [[(0, 0, 0), (255, 255, 255), (0, 0, 0), (1, 1, 1)], [(9, 9, 9), (200, 200, 200), (0, 0, 0), (1, 1, 1)]];
       img = pil_resize_nearest 4 2 12 2 frame;
       grid = map (map (\<lambda>c. '' .:#'' ! glyph_index '' .:#'' (pil_gray c))) (rev img)
   in (\<exists>s. render_to_ascii rd frame = Inr s \<and> get_scene True s = Some (py_join CHR ''\<newline>'' grid))
      \<and> length grid = 2 \<and> (\<forall>l \<in> set grid. length l = 12)"
proof -
  let ?rd = "\<lparr>r_width = Some 4, r_height = Some 2, ascii_height = Some 2, ascii_chars = '' .:#''\<rparr>"
  have h: "scaled_height ?rd 2 = 2" by (simp add: scaled_height_def)
  have w: "scaled_width 2 4 2 = 12" by (simp add: scaled_width_def py_int_def)
  show ?thesis
    using render_strip_roundtrip [of ?rd 4 2, simplified h w]
    by (simp add: esc_def Let_def)
qed

lemma those_map_None:
  "x \<in> set xs \<Longrightarrow> f x = None \<Longrightarrow> those (map f xs) = None"
  by (induction xs) (auto split: option.split)

lemma takeWhile_neq_less:
  "c \<in> set d \<Longrightarrow> length (takeWhile (\<lambda>x. x \<noteq> c) d) < length d"
  by (induction d) auto

lemma py_find_within:
  assumes "CHR ''m'' \<notin> set (drop i s)" "j \<le> i"
  shows "nat (py_find s CHR ''m'' j + 1) \<le> i"
proof (cases "CHR ''m'' \<in> set (drop j s)")
  case True
  let ?d = "drop j s"
  let ?n = "length (takeWhile (\<lambda>x. x \<noteq> CHR ''m'') ?d)"
  have lt: "?n < length ?d" using True by (rule takeWhile_neq_less)
  then have "?d ! ?n = CHR ''m''" using nth_length_takeWhile [of "\<lambda>x. x \<noteq> CHR ''m''" ?d] by simp
  then have m: "s ! (j + ?n) = CHR ''m''" and k: "j + ?n < length s" using lt by simp_all
  have "j + ?n < i"
  proof (rule ccontr)
    assume "\<not> j + ?n < i"
    then have "drop i s ! (j + ?n - i) = CHR ''m''" "j + ?n - i < length (drop i s)" using m k by simp_all
    then show False using assms(1) nth_mem by metis
  qed
  then show ?thesis using True by (simp add: py_find_def)
next
  case False
  then show ?thesis by (simp add: py_find_def)
qed

lemma strip_from_cycle:
  assumes "take 2 (drop i line) = [esc, CHR ''['']" "CHR ''m'' \<notin> set (drop i line)"
  shows "\<forall>j acc. strip_from line (min j i) acc = None"
proof (induction rule: strip_from.fixp_induct)
  case 1
  show ?case
    by (intro admissible_all ccpo.admissibleI) (auto simp: fun_lub_def flat_lub_def)
next
  case 2
  then show ?case by simp
next
  case (3 f)
  have len: "i < length line" using assms(1) by (cases "i < length line") simp_all
  show ?case
  proof (intro allI)
    fix j acc
    let ?k = "min j i"
    have kl: "?k < length line" using len by simp
    show "(if ?k < length line then
             (if take 2 (drop ?k line) = [esc, CHR ''['']
              then f line (nat (py_find line CHR ''m'' ?k + 1)) acc
              else f line (Suc ?k) (acc @ [line ! ?k]))
           else Some acc) = None"
    proof (cases "take 2 (drop ?k line) = [esc, CHR ''['']")
      case True
      have "nat (py_find line CHR ''m'' ?k + 1) \<le> i" by (rule py_find_within [OF assms(2)]) simp
      then have "f line (nat (py_find line CHR ''m'' ?k + 1)) acc = None"
        using "3" [rule_format, of "nat (py_find line CHR ''m'' ?k + 1)" acc] by (simp add: min_absorb1)
      then show ?thesis using kl True by simp
    next
      case False
      then have "?k \<noteq> i" using assms(1) by auto
      then have "Suc ?k \<le> i" by simp
      then have "f line (Suc ?k) (acc @ [line ! ?k]) = None"
        using "3" [rule_format, of "Suc ?k" "acc @ [line ! ?k]"] by (simp add: min_absorb1)
      then show ?thesis using kl False by simp
    qed
  qed
qed

text \<open>
  C14. \<open>get_scene\<close> never returns once any line of the screen holds an escape introducer
  \<open>ESC [\<close> with no \<open>m\<close> at or after it: \<open>find\<close> returns -1 there, so the scan of that
  line restarts at index 0, and every later escape it meets sends it back at or before the
  unterminated one, for ever.
\<close>
theorem get_scene_unterminated_escape:
  assumes "line \<in> set (py_split CHR ''\<newline>'' scr)"
    and "take 2 (drop i line) = [esc, CHR ''['']" "CHR ''m'' \<notin> set (drop i line)"
  shows "get_scene True scr = None"
proof -
  have "strip_from line 0 [] = None" using strip_from_cycle [OF assms(2,3)] by (metis min_0L)
  then have "strip_lines (py_split CHR ''\<newline>'' scr) = None"
    unfolding strip_lines_def by (rule those_map_None [OF assms(1)])
  then show ?thesis by (simp add: get_scene_def)
qed

theorem get_scene_unterminated_escape_witness:
  "[CHR ''a'', esc, CHR ''['', CHR ''3'', CHR ''1''] \<in> set (py_split CHR ''\<newline>'' (''ok'' @ ''\<newline>'' @ [CHR ''a'', esc, CHR ''['', CHR ''3'', CHR ''1'']))
   \<and> take 2 (drop 1 [CHR ''a'', esc, CHR ''['', CHR ''3'', CHR ''1'']) = [esc, CHR ''['']
   \<and> CHR ''m'' \<notin> set (drop 1 [CHR ''a'', esc, CHR ''['', CHR ''3'', CHR ''1''])
   \<and> get_scene True (''ok'' @ ''\<newline>'' @ [CHR ''a'', esc, CHR ''['', CHR ''3'', CHR ''1'']) = None"
proof -
  have h: "[CHR ''a'', esc, CHR ''['', CHR ''3'', CHR ''1''] \<in> set (py_split CHR ''\<newline>'' (''ok'' @ ''\<newline>'' @ [CHR ''a'', esc, CHR ''['', CHR ''3'', CHR ''1'']))"
    "take 2 (drop 1 [CHR ''a'', esc, CHR ''['', CHR ''3'', CHR ''1'']) = [esc, CHR ''['']"
    "CHR ''m'' \<notin> set (drop 1 [CHR ''a'', esc, CHR ''['', CHR ''3'', CHR ''1''])"
    by (simp_all add: esc_def)
  show ?thesis using get_scene_unterminated_escape [OF h] h by blast
qed
end
