(* ===== verification/Draw.thy ===== *)
theory Draw
  imports Scene
begin

text \<open>
  Draw-mode rendering: the \<open>draw*\<close> methods of \<open>FigureWrapper\<close> in
  \<open>src/src/labs/lab5/bll/FigureWrapper.py\<close> and \<open>Scene.draw\<close> of
  \<open>src/src/labs/lab5/bll/Scene.py\<close>. What the code sends to OpenGL is a list of
  immediate-mode commands (\<open>gl_cmd\<close>); a drawing routine is a function from the figure
  to that list, or to the exception it raises. Edges and faces refer to the figure's
  vertices by index, as in the rest of the model.
\<close>

section \<open>Commands\<close>

datatype gl_prim = GLPoints | GLLines | GLQuads

datatype gl_cmd =
    PointSize real
  | LineWidth real
  | GLBegin gl_prim
  | GLEnd
  | Color3 pyval
  | Color4 pyval real
  | Vertex3 vec3
  | PushMatrix
  | PopMatrix
  | LookAt vec3 vec3 vec3

text \<open>The colour a point, edge or face is drawn with: the figure's when \<open>figure_color\<close> is set.\<close>

definition pick_color :: "figure_data \<Rightarrow> pyval \<Rightarrow> pyval" where
  "pick_color f own = (if figure_color f then color f else own)"

definition vertex_at :: "figure_data \<Rightarrow> nat \<Rightarrow> gl_cmd" where
  "vertex_at f i = Vertex3 (position (vertices f ! i))"

section \<open>The fixed-style strategies\<close>

definition draw_points :: "figure_data \<Rightarrow> gl_cmd list" where
  "draw_points f =
     [PointSize (if selected f then 5 else 1), GLBegin GLPoints]
     @ concat (map (\<lambda>v. [Color3 (pick_color f (vcolor v)), Vertex3 (position v)]) (vertices f))
     @ [GLEnd]"

definition draw_edges :: "figure_data \<Rightarrow> gl_cmd list" where
  "draw_edges f =
     [LineWidth (if selected f then 2 else 1), GLBegin GLLines]
     @ concat (map (\<lambda>e. [Color3 (pick_color f (ecolor e)), vertex_at f (fst (evertices e)), vertex_at f (snd (evertices e))])
                 (edges f))
     @ [GLEnd]"

text \<open>\<open>sum(color)\<close>: a string colour cannot be summed.\<close>

fun py_sum :: "pyval \<Rightarrow> real result" where
  "py_sum (PStr _) = Inl (TypeError ''unsupported operand type(s) for +'')"
| "py_sum (PTuple xs) = Inr (sum_list xs)"
| "py_sum (PList xs) = Inr (sum_list xs)"

definition border_lines :: "figure_data \<Rightarrow> gl_cmd list" where
  "border_lines f =
     concat (map (\<lambda>fc. concat (map (\<lambda>(a, b). [vertex_at f a, vertex_at f b]) (face_border fc))) (faces f))"

definition face_quads :: "figure_data \<Rightarrow> (face \<Rightarrow> gl_cmd) \<Rightarrow> gl_cmd list" where
  "face_quads f col =
     [GLBegin GLQuads] @ concat (map (\<lambda>fc. col fc # map (vertex_at f) (fvertices fc)) (faces f)) @ [GLEnd]"

text \<open>
  \<open>draw_faces()\<close>: translucent quads (alpha 0.2), then for a selected figure a border
  whose colour contrasts with the figure's: white when the RGB sum is at most 1.5.
\<close>

definition draw_faces :: "figure_data \<Rightarrow> gl_cmd list result" where
  "draw_faces f =
     (let quads = face_quads f (\<lambda>fc. Color4 (pick_color f (fcolor fc)) 0.2)
      in if selected f then
           rbind (py_sum (color f)) (\<lambda>t.
             Inr (quads @ [Color3 (if t \<le> 1.5 then PTuple [1, 1, 1] else PTuple [0, 0, 0]), LineWidth 2,
                           GLBegin GLLines] @ border_lines f @ [GLEnd]))
         else Inr quads)"

definition figure_draw :: "figure_data \<Rightarrow> gl_cmd list result" where
  "figure_draw f =
     rbind (if draw_mode f = ''points'' then Inr (draw_points f)
            else if draw_mode f = ''edges'' then Inr (draw_edges f)
            else if draw_mode f = ''faces'' then draw_faces f else Inr [])
       (\<lambda>cs. Inr (PushMatrix # cs @ [PopMatrix]))"

section \<open>The styled strategies\<close>

text \<open>The style \<open>Scene.draw\<close> passes down.\<close>

record draw_style =
  st_point_size :: real
  st_line_width :: real
  st_alpha :: real
  st_highlight_color :: vec3
  st_highlight_line_width :: real

definition draw_points_custom :: "real \<Rightarrow> figure_data \<Rightarrow> gl_cmd list" where
  "draw_points_custom ps f =
     [PointSize (if selected f then ps else 1), GLBegin GLPoints]
     @ concat (map (\<lambda>v. [Color3 (pick_color f (vcolor v)), Vertex3 (position v)]) (vertices f))
     @ [GLEnd]"

definition draw_edges_custom :: "real \<Rightarrow> real \<Rightarrow> figure_data \<Rightarrow> gl_cmd list" where
  "draw_edges_custom lw hlw f =
     [LineWidth (if selected f then hlw else lw), GLBegin GLLines]
     @ concat (map (\<lambda>e. [Color3 (pick_color f (ecolor e)), vertex_at f (fst (evertices e)), vertex_at f (snd (evertices e))])
                 (edges f))
     @ [GLEnd]"

text \<open>
  \<open>draw_faces_custom(alpha, ...)\<close>: with \<open>figure_color\<close> set each quad gets the figure colour
  with the given alpha. Without it the loop rebinds \<open>face.color\<close> and then reads the local
  \<open>face_color\<close>, which was never assigned: \<open>UnboundLocalError\<close> at the first face.
\<close>

definition draw_faces_custom :: "real \<Rightarrow> vec3 \<Rightarrow> real \<Rightarrow> figure_data \<Rightarrow> gl_cmd list result" where
  "draw_faces_custom a hc hlw f =
     (if \<not> figure_color f \<and> faces f \<noteq> [] then Inl (UnboundLocalError ''face_color'')
      else
        Inr (face_quads f (\<lambda>fc. Color4 (color f) a)
             @ (if selected f then
                  [Color3 (PTuple [vx hc, vy hc, vz hc]), LineWidth hlw, GLBegin GLLines] @ border_lines f @ [GLEnd]
                else [])))"

definition draw_custom :: "draw_style \<Rightarrow> figure_data \<Rightarrow> gl_cmd list result" where
  "draw_custom sty f =
     rbind (if draw_mode f = ''points'' then Inr (draw_points_custom (st_point_size sty) f)
            else if draw_mode f = ''edges'' then Inr (draw_edges_custom (st_line_width sty) (st_highlight_line_width sty) f)
            else if draw_mode f = ''faces'' then
              draw_faces_custom (st_alpha sty) (st_highlight_color sty) (st_highlight_line_width sty) f
            else Inr [])
       (\<lambda>cs. Inr (PushMatrix # cs @ [PopMatrix]))"

section \<open>The scene\<close>

text \<open>
  \<open>Scene.draw()\<close>: the style from \<open>SceneData\<close>, each unset entry replaced by its default
  (5, 2, 0.5, white, 2); the camera's view (a bare \<open>CameraData\<close> has no
  \<open>apply_transformations\<close>); then every figure in insertion order.
\<close>

definition scene_style :: "scene_data \<Rightarrow> draw_style" where
  "scene_style d =
     \<lparr>st_point_size = (case point_size d of Some p \<Rightarrow> p | None \<Rightarrow> 5),
      st_line_width = (case line_width d of Some l \<Rightarrow> l | None \<Rightarrow> 2),
      st_alpha = (case alpha d of Some a \<Rightarrow> a | None \<Rightarrow> 0.5),
      st_highlight_color = (case highlight_color d of Some c \<Rightarrow> c | None \<Rightarrow> (1, 1, 1)),
      st_highlight_line_width = (case highlight_line_width d of Some l \<Rightarrow> l | None \<Rightarrow> 2)\<rparr>"

definition scene_draw :: "world \<Rightarrow> gl_cmd list result" where
  "scene_draw w =
     (case camera (scene w) of
        RawCameraData _ \<Rightarrow> Inl (AttributeError ''apply_transformations'')
      | CameraObj c \<Rightarrow>
          (case apply_transformations c of (p, t, u) \<Rightarrow>
             rbind (rmap (\<lambda>r. draw_custom (scene_style (scene w)) (heap w ! r)) (scene_figures (scene w)))
               (\<lambda>css. Inr (LookAt p t u # concat css))))"

text \<open>The number of vertices a command list sends.\<close>

definition vertex_count :: "gl_cmd list \<Rightarrow> nat" where
  "vertex_count cs = length (filter (\<lambda>c. case c of Vertex3 _ \<Rightarrow> True | _ \<Rightarrow> False) cs)"

section \<open>Lemmas\<close>

lemma rmap_ok: "(\<And>x. x \<in> set xs \<Longrightarrow> \<exists>y. f x = Inr y) \<Longrightarrow> \<exists>ys. rmap f xs = Inr ys"
  by (induction xs) fastforce+

lemma draw_custom_ok: "figure_color f \<Longrightarrow> \<exists>cs. draw_custom sty f = Inr cs"
  by (simp add: draw_custom_def draw_faces_custom_def)

text \<open>
  With \<open>figure_color\<close> cleared, a figure drawn in faces mode raises \<open>UnboundLocalError\<close>
  as soon as it has a face.
\<close>

lemma draw_custom_unbound_local:
  "\<not> figure_color f \<Longrightarrow> faces f \<noteq> [] \<Longrightarrow> draw_mode f = ''faces''
   \<Longrightarrow> draw_custom sty f = Inl (UnboundLocalError ''face_color'')"
  by (simp add: draw_custom_def draw_faces_custom_def)

text \<open>The border colour of \<open>draw_faces\<close>: white on a dark figure, black on a bright one.\<close>

lemma draw_faces_border:
  "selected f \<Longrightarrow> color f = PTuple rgb \<Longrightarrow>
   draw_faces f = Inr (face_quads f (\<lambda>fc. Color4 (pick_color f (fcolor fc)) 0.2)
     @ [Color3 (if sum_list rgb \<le> 1.5 then PTuple [1, 1, 1] else PTuple [0, 0, 0]), LineWidth 2, GLBegin GLLines]
     @ border_lines f @ [GLEnd])"
  by (simp add: draw_faces_def)

lemma vertex_count_append [simp]: "vertex_count (xs @ ys) = vertex_count xs + vertex_count ys"
  by (simp add: vertex_count_def)

lemma vertex_count_concat: "vertex_count (concat xss) = sum_list (map vertex_count xss)"
  by (induction xss) (simp_all add: vertex_count_def)

text \<open>Every styled strategy sends one vertex per point and two per edge.\<close>

lemma draw_counts:
  "vertex_count (draw_points_custom ps f) = length (vertices f)"
  "vertex_count (draw_edges_custom lw hlw f) = 2 * length (edges f)"
  by (simp_all add: draw_points_custom_def draw_edges_custom_def vertex_count_def vertex_at_def
      vertex_count_concat [unfolded vertex_count_def] comp_def sum_list_triv)

end
