(* ===== verification/Controller.thy ===== *)
theory Controller
  imports Draw Ascii
begin

text \<open>
  The controller and the input handlers: \<open>Controller\<close> of
  \<open>src/src/labs/lab5/bll/Controller.py\<close>, the GLUT callbacks of \<open>ui/Mouse.py\<close> and
  \<open>ui/Keyboard.py\<close>, and the key table \<open>keys_map\<close> of \<open>dal/Keyboard.py\<close>.

  The controller owns the world of \<open>Scene\<close> (store and scene data), the renderer of
  \<open>Ascii\<close>, the ordered set of pressed keys and the GL state it writes (viewport and
  projection). Settings read from the JSON file (key bindings, shortcuts, window and
  ASCII settings) are a read-only record. Every GLUT callback is a constructor of
  \<open>ctrl_event\<close>, and \<open>ctrl_step\<close> runs its handler to the end or to the exception it
  raises; \<open>ctrl_reachable\<close> is the set of states the event loop can reach from
  \<open>init.create_scene\<close>.
\<close>

section \<open>Keys\<close>

text \<open>
  A key as GLUT reports it: a character string, or the integer code of a special key.
  The GLUT constants are those of the GLUT specification: \<open>GLUT_KEY_F1\<close> .. \<open>F12\<close> are
  1 .. 12, the arrow, page, home, end and insert keys 100 .. 108, and the modifier masks
  \<open>GLUT_ACTIVE_SHIFT\<close>, \<open>CTRL\<close>, \<open>ALT\<close> are 1, 2, 4.
\<close>

datatype pykey = KStr string | KInt int

definition keys_map_items :: "(pykey \<times> string) list" where
  "keys_map_items =
     [(KInt 27, ''esc''), (KInt 32, ''enter''), (KStr [CHR 0x1B], ''esc''), (KStr [CHR 0x03], ''ctrl+c''),
      (KStr [CHR 0x20], ''enter''),
      (KInt 1, ''f1''), (KInt 2, ''f2''), (KInt 3, ''f3''), (KInt 4, ''f4''), (KInt 5, ''f5''),
      (KInt 6, ''f6''), (KInt 7, ''f7''), (KInt 8, ''f8''), (KInt 9, ''f9''), (KInt 10, ''f10''),
      (KInt 11, ''f11''), (KInt 12, ''f12''),
      (KInt 100, ''left''), (KInt 101, ''up''), (KInt 102, ''right''), (KInt 103, ''down''),
      (KInt 104, ''page up''), (KInt 105, ''page down''), (KInt 106, ''home''), (KInt 107, ''end''),
      (KInt 108, ''insert''),
      (KInt 1, ''shift''), (KInt 2, ''ctrl''), (KInt 4, ''alt''), (KInt 5, ''shift_alt''),
      (KInt 3, ''shift_ctr''), (KInt 6, ''ctrl_alt''), (KInt 7, ''shift_ctr_alt''),
      (KInt 112, ''shift''), (KInt 114, ''ctrl''), (KInt 116, ''alt'')]"

text \<open>\<open>keys_map.get(k)\<close>: in a dict display a repeated key keeps the last value.\<close>

definition keys_map :: "pykey \<rightharpoonup> string" where
  "keys_map = map_of (rev keys_map_items)"

text \<open>
  \<open>KeyboardHandler.keyboard(key, x, y)\<close>: an undecodable byte string (\<open>None\<close>) returns
  early; the result of \<open>key.lower()\<close> is discarded; a mapped key is replaced by its name;
  when a modifier is held, the modifier passed on is \<open>keys_map.get(key)\<close> of the key
  itself. The result is the call \<open>handle_keyboard(key, modifiers)\<close>, with \<open>None\<close> for a
  falsy modifier (0 or \<open>None\<close>).
\<close>

definition kb_keyboard :: "string option \<Rightarrow> int \<Rightarrow> (string \<times> string option) option" where
  "kb_keyboard k mods =
     (case k of
        None \<Rightarrow> None
      | Some key \<Rightarrow>
          (let key' = (case keys_map (KStr key) of Some n \<Rightarrow> if n \<noteq> [] then n else key | None \<Rightarrow> key)
           in Some (key', if mods \<noteq> 0 then keys_map (KStr key') else None)))"

definition kb_keyboard_up :: "string option \<Rightarrow> string option" where
  "kb_keyboard_up k = k"

text \<open>\<open>special_keyboard(key, x, y)\<close>: only a mapped special key is passed on, by its name.\<close>

definition kb_special :: "int \<Rightarrow> int \<Rightarrow> (string \<times> string option) option" where
  "kb_special code mods =
     (case keys_map (KInt code) of
        Some n \<Rightarrow> if n \<noteq> [] then kb_keyboard (Some n) mods else None
      | None \<Rightarrow> None)"

definition kb_special_up :: "int \<Rightarrow> string option" where
  "kb_special_up code =
     (case keys_map (KInt code) of Some n \<Rightarrow> if n \<noteq> [] then Some n else None | None \<Rightarrow> None)"

section \<open>State\<close>

text \<open>The settings file's entries the controller reads.\<close>

record settings =
  action_keys :: "string \<rightharpoonup> string"
  shortcuts :: "string \<rightharpoonup> (string \<rightharpoonup> string)"
  st_width :: int
  st_height :: int
  st_ascii_height :: "int option"
  st_ascii_chars :: string
  st_fov :: real
  st_z_near :: real
  st_z_far :: real

record ctrl_state =
  world :: world
  renderer :: renderer
  pressed_keys :: "string list"
  file_name :: "string option"
  last_screen :: "string option"
  saved :: "string option"
  running :: bool
  gl_viewport :: "int \<times> int \<times> int \<times> int"
  gl_projection :: mat4
  win_width :: int
  win_height :: int

text \<open>The ordered set of \<open>shared.classes.ordered_set\<close>: insertion order, no repeats.\<close>

definition oset_add :: "'a \<Rightarrow> 'a list \<Rightarrow> 'a list" where
  "oset_add x xs = (if x \<in> set xs then xs else xs @ [x])"

definition oset_discard :: "'a \<Rightarrow> 'a list \<Rightarrow> 'a list" where
  "oset_discard x xs = removeAll x xs"

text \<open>The commands of \<open>action_values\<close>.\<close>

datatype ctrl_action =
    DrawModeA string
  | TranslateA real real real
  | RotateA real real real
  | PerspectiveA "real option" "real option" "real option" "real option"
  | ExitA

definition action_values :: "string \<rightharpoonup> ctrl_action" where
  "action_values = map_of
     [(''draw_points'', DrawModeA ''points''), (''draw_edges'', DrawModeA ''edges''),
      (''draw_faces'', DrawModeA ''faces''),
      (''translate_left'', TranslateA (-0.5) 0 0), (''translate_right'', TranslateA 0.5 0 0),
      (''translate_forward'', TranslateA 0 0 (-0.5)), (''translate_backward'', TranslateA 0 0 0.5),
      (''translate_up'', TranslateA 0 0.5 0), (''translate_down'', TranslateA 0 (-0.5) 0),
      (''rotate_x_plus'', RotateA 0 (-5) 0), (''rotate_x_minus'', RotateA 0 5 0),
      (''rotate_y_plus'', RotateA 5 0 0), (''rotate_y_minus'', RotateA (-5) 0 0),
      (''increase_render_distance'', PerspectiveA None None None (Some 10)),
      (''decrease_render_distance'', PerspectiveA None None None (Some (-10))),
      (''zoom_up'', PerspectiveA (Some (-5)) None None None),
      (''zoom_down'', PerspectiveA (Some 5) None None None),
      (''exit'', ExitA)]"

section \<open>Commands\<close>

text \<open>
  A method called on \<open>scene.data.camera\<close>: the \<open>Camera\<close> wrapper has it, a bare
  \<open>CameraData\<close> raises \<open>AttributeError\<close>.
\<close>

definition camera_call :: "string \<Rightarrow> camera_op \<Rightarrow> world \<Rightarrow> world result" where
  "camera_call name op w =
     (case camera (scene w) of
        CameraObj c \<Rightarrow> Inr (update_scene (\<lambda>s. s\<lparr>camera := CameraObj (camera_step op c)\<rparr>) w)
      | RawCameraData _ \<Rightarrow> Inl (AttributeError name))"

text \<open>\<open>set_draw_mode(mode)\<close>: the selected figure, or every figure of the scene in order.\<close>

definition ctrl_set_draw_mode :: "string \<Rightarrow> world \<Rightarrow> world" where
  "ctrl_set_draw_mode mode w =
     (case selected_figure (scene w) of
        Some r \<Rightarrow> update_figure r (set_draw_mode mode) w
      | None \<Rightarrow> fold (\<lambda>r. update_figure r (set_draw_mode mode)) (scene_figures (scene w)) w)"

text \<open>\<open>translate_figure_or_camera\<close> and \<open>rotate_figure_or_camera\<close>: the selected figure if any, else the camera.\<close>

definition translate_figure_or_camera :: "real \<Rightarrow> real \<Rightarrow> real \<Rightarrow> world \<Rightarrow> world result" where
  "translate_figure_or_camera x y z w =
     (case selected_figure (scene w) of
        Some r \<Rightarrow> Inr (update_figure r (translate x y z) w)
      | None \<Rightarrow> camera_call ''translate'' (CamTranslate x y z) w)"

definition rotate_figure_or_camera :: "real \<Rightarrow> real \<Rightarrow> real \<Rightarrow> world \<Rightarrow> world result" where
  "rotate_figure_or_camera dx dy dz w =
     (case selected_figure (scene w) of
        Some r \<Rightarrow> Inr (update_figure r (rotate dx dy dz) w)
      | None \<Rightarrow> camera_call ''rotate'' (CamRotate dx dy) w)"

text \<open>
  \<open>reset_perspective()\<close>: a projection from the camera and the window size
  (\<open>width / max(height, 1)\<close>).
\<close>

definition reset_perspective :: "ctrl_state \<Rightarrow> ctrl_state result" where
  "reset_perspective s =
     (case camera (scene (world s)) of
        CameraObj c \<Rightarrow>
          Inr (s\<lparr>gl_projection := glu_perspective (fovy c) (of_int (win_width s) / of_int (max (win_height s) 1))
                                    (z_near c) (z_far c)\<rparr>)
      | RawCameraData _ \<Rightarrow> Inl (AttributeError ''data''))"

text \<open>\<open>change_camera_perspective\<close>: z_far, then fovy, then aspect, then z_near, each when given.\<close>

definition opt_camera_call :: "string \<Rightarrow> (real \<Rightarrow> camera_op) \<Rightarrow> real option \<Rightarrow> world \<Rightarrow> world result" where
  "opt_camera_call name op d w = (case d of None \<Rightarrow> Inr w | Some v \<Rightarrow> camera_call name (op v) w)"

definition change_camera_perspective ::
  "real option \<Rightarrow> real option \<Rightarrow> real option \<Rightarrow> real option \<Rightarrow> ctrl_state \<Rightarrow> ctrl_state result" where
  "change_camera_perspective dfo asp dzn dzf s =
     rbind (opt_camera_call ''update_z_far'' UpdateZFar dzf (world s)) (\<lambda>w1.
     rbind (opt_camera_call ''update_fovy'' UpdateFovy dfo w1) (\<lambda>w2.
     rbind (opt_camera_call ''update_aspect'' UpdateAspect asp w2) (\<lambda>w3.
     rbind (opt_camera_call ''update_z_near'' UpdateZNear dzn w3) (\<lambda>w4.
     reset_perspective (s\<lparr>world := w4\<rparr>)))))"

text \<open>\<open>set_file_name(file_name)\<close>: option 2 of the menu, the file \<open>stop_scene\<close> saves to.\<close>

definition set_file_name :: "string \<Rightarrow> ctrl_state \<Rightarrow> ctrl_state" where
  "set_file_name n s = s\<lparr>file_name := Some n\<rparr>"

text \<open>
  \<open>stop_scene()\<close> (the \<open>exit\<close> command): leave the main loop, then save when a file name
  is set. \<open>save_scene\<close> strips the last screen, which is \<open>None\<close> before the first frame,
  and refuses an empty text; when the stripping loop does not end, neither does the call.
\<close>

definition save_scene :: "ctrl_state \<Rightarrow> ctrl_state result" where
  "save_scene s =
     (case last_screen s of
        None \<Rightarrow> Inl (AttributeError ''split'')
      | Some scr \<Rightarrow>
          (case get_scene True scr of
             None \<Rightarrow> Inl Diverges
           | Some txt \<Rightarrow> if txt = [] then Inl (ValueError ''No scene to save'') else Inr (s\<lparr>saved := Some txt\<rparr>)))"

definition stop_scene :: "ctrl_state \<Rightarrow> ctrl_state result" where
  "stop_scene s =
     (let s1 = s\<lparr>running := False\<rparr>
      in case file_name s1 of None \<Rightarrow> Inr s1 | Some n \<Rightarrow> if n = [] then Inr s1 else save_scene s1)"

definition run_action :: "ctrl_action \<Rightarrow> ctrl_state \<Rightarrow> ctrl_state result" where
  "run_action a s =
     (case a of
        DrawModeA m \<Rightarrow> Inr (s\<lparr>world := ctrl_set_draw_mode m (world s)\<rparr>)
      | TranslateA x y z \<Rightarrow> rbind (translate_figure_or_camera x y z (world s)) (\<lambda>w. Inr (s\<lparr>world := w\<rparr>))
      | RotateA dx dy dz \<Rightarrow> rbind (rotate_figure_or_camera dx dy dz (world s)) (\<lambda>w. Inr (s\<lparr>world := w\<rparr>))
      | PerspectiveA dfo asp dzn dzf \<Rightarrow> change_camera_perspective dfo asp dzn dzf s
      | ExitA \<Rightarrow> stop_scene s)"

text \<open>\<open>execute_command(name)\<close>: an unknown name does nothing.\<close>

definition execute_command :: "string \<Rightarrow> ctrl_state \<Rightarrow> ctrl_state result" where
  "execute_command name s = (case action_values name of None \<Rightarrow> Inr s | Some a \<Rightarrow> run_action a s)"

section \<open>Handlers\<close>

text \<open>
  \<open>handle_actions(modifiers)\<close> over the pressed keys in insertion order. With a modifier,
  the first key bound in \<open>shortcuts[modifiers]\<close> runs and the loop stops (a missing
  table raises \<open>AttributeError\<close> on \<open>None.get\<close>); without one, every pressed key bound in
  \<open>action_keys\<close> runs.
\<close>

fun handle_actions_loop :: "settings \<Rightarrow> string option \<Rightarrow> string list \<Rightarrow> ctrl_state \<Rightarrow> ctrl_state result" where
  "handle_actions_loop st mods [] s = Inr s"
| "handle_actions_loop st mods (k # ks) s =
     (case mods of
        Some m \<Rightarrow>
          (case shortcuts st m of
             None \<Rightarrow> Inl (AttributeError ''get'')
           | Some tbl \<Rightarrow>
               (case tbl k of
                  None \<Rightarrow> handle_actions_loop st mods ks s
                | Some a \<Rightarrow> if a = [] then handle_actions_loop st mods ks s else execute_command a s))
      | None \<Rightarrow>
          (case action_keys st k of
             None \<Rightarrow> handle_actions_loop st mods ks s
           | Some a \<Rightarrow> rbind (execute_command a s) (handle_actions_loop st mods ks)))"

definition handle_keyboard :: "settings \<Rightarrow> string \<Rightarrow> string option \<Rightarrow> ctrl_state \<Rightarrow> ctrl_state result" where
  "handle_keyboard st key mods s =
     (let s1 = s\<lparr>pressed_keys := oset_add key (pressed_keys s)\<rparr>
      in handle_actions_loop st mods (pressed_keys s1) s1)"

definition handle_keyboard_up :: "string \<Rightarrow> ctrl_state \<Rightarrow> ctrl_state" where
  "handle_keyboard_up key s = s\<lparr>pressed_keys := oset_discard key (pressed_keys s)\<rparr>"

text \<open>
  \<open>handle_mouse(button, state, x, y)\<close>: left press picks; right press latches the drag and
  snapshots the mouse; right release clears the latch.
\<close>

definition ctrl_handle_mouse :: "mouse_button \<Rightarrow> button_state \<Rightarrow> int \<Rightarrow> int \<Rightarrow> gl_view \<Rightarrow> ctrl_state \<Rightarrow> ctrl_state" where
  "ctrl_handle_mouse b bs x y gl s =
     (if b = LeftButton \<and> bs = ButtonDown then s\<lparr>world := handle_click x y b gl (world s)\<rparr>
      else if b = RightButton \<and> bs = ButtonDown then
        s\<lparr>world := update_scene (\<lambda>d. d\<lparr>is_rotating := True, last_mouse_x := x, last_mouse_y := y\<rparr>) (world s)\<rparr>
      else if b = RightButton \<and> bs = ButtonUp then
        s\<lparr>world := update_scene (\<lambda>d. d\<lparr>is_rotating := False\<rparr>) (world s)\<rparr>
      else s)"

definition handle_wheel :: "int \<Rightarrow> ctrl_state \<Rightarrow> ctrl_state result" where
  "handle_wheel direction s = execute_command (if 0 < direction then ''zoom_up'' else ''zoom_down'') s"

definition ctrl_handle_motion :: "int \<Rightarrow> int \<Rightarrow> ctrl_state \<Rightarrow> ctrl_state result" where
  "ctrl_handle_motion x y s = rbind (handle_motion x y (world s)) (\<lambda>w. Inr (s\<lparr>world := w\<rparr>))"

text \<open>
  \<open>reshape(width, height)\<close>: the aspect is computed from the requested size, then the
  renderer raises a height below 70 and asks GLUT to resize the window, and the
  projection is set from that aspect.
\<close>

definition ctrl_reshape :: "int \<Rightarrow> int \<Rightarrow> ctrl_state \<Rightarrow> ctrl_state result" where
  "ctrl_reshape w h s =
     (case camera (scene (world s)) of
        CameraObj c \<Rightarrow>
          (let asp = (if w \<noteq> 0 \<and> h \<noteq> 0 then of_int w / of_int h else 1.5);
               (rd, vp) = renderer_reshape w h (renderer s)
           in Inr (s\<lparr>renderer := rd, gl_viewport := vp,
                     gl_projection := glu_perspective (fovy c) asp (z_near c) (z_far c),
                     win_width := w, win_height := (case r_height rd of Some h' \<Rightarrow> h' | None \<Rightarrow> h)\<rparr>))
      | RawCameraData _ \<Rightarrow> Inl (AttributeError ''data''))"

text \<open>
  \<open>display()\<close>: the scene's draw callback (\<open>Scene.draw\<close>, which may raise), then the
  frame read back is rendered to text and kept as the last screen.
\<close>

definition ctrl_display :: "rgb8 list list \<Rightarrow> ctrl_state \<Rightarrow> ctrl_state result" where
  "ctrl_display frame s =
     rbind (scene_draw (world s)) (\<lambda>_.
       rbind (render_to_ascii (renderer s) frame) (\<lambda>t. Inr (s\<lparr>last_screen := Some t\<rparr>)))"

section \<open>The event loop\<close>

datatype ctrl_event =
    MouseEv mouse_button button_state int int gl_view
  | MotionEv int int
  | WheelEv int
  | KeyDownEv "string option" int
  | KeyUpEv "string option"
  | SpecialDownEv int int
  | SpecialUpEv int
  | ReshapeEv int int
  | DisplayEv "rgb8 list list"

fun ctrl_step :: "settings \<Rightarrow> ctrl_event \<Rightarrow> ctrl_state \<Rightarrow> ctrl_state result" where
  "ctrl_step st (MouseEv b bs x y gl) s = Inr (ctrl_handle_mouse b bs x y gl s)"
| "ctrl_step st (MotionEv x y) s = ctrl_handle_motion x y s"
| "ctrl_step st (WheelEv d) s = handle_wheel d s"
| "ctrl_step st (KeyDownEv k m) s =
     (case kb_keyboard k m of None \<Rightarrow> Inr s | Some (key, mods) \<Rightarrow> handle_keyboard st key mods s)"
| "ctrl_step st (KeyUpEv k) s =
     (case kb_keyboard_up k of None \<Rightarrow> Inr s | Some key \<Rightarrow> Inr (handle_keyboard_up key s))"
| "ctrl_step st (SpecialDownEv c m) s =
     (case kb_special c m of None \<Rightarrow> Inr s | Some (key, mods) \<Rightarrow> handle_keyboard st key mods s)"
| "ctrl_step st (SpecialUpEv c) s =
     (case kb_special_up c of None \<Rightarrow> Inr s | Some key \<Rightarrow> Inr (handle_keyboard_up key s))"
| "ctrl_step st (ReshapeEv w h) s = ctrl_reshape w h s"
| "ctrl_step st (DisplayEv fr) s = ctrl_display fr s"

text \<open>A sequence of events, stopping at the first exception.\<close>

fun ctrl_run :: "settings \<Rightarrow> ctrl_event list \<Rightarrow> ctrl_state \<Rightarrow> ctrl_state result" where
  "ctrl_run st [] s = Inr s"
| "ctrl_run st (e # es) s = rbind (ctrl_step st e s) (ctrl_run st es)"

text \<open>
  Start-up: \<open>init.create_scene\<close> with the settings' camera, then \<open>Controller(...)\<close> and
  \<open>glut_init\<close> (window of the configured size, projection from the configured fov).
\<close>

definition ctrl_init :: "settings \<Rightarrow> camera_data \<Rightarrow> ctrl_state result" where
  "ctrl_init st c =
     rbind (create_scene c) (\<lambda>w. Inr
       \<lparr>world = w,
        renderer = \<lparr>r_width = Some (st_width st), r_height = Some (st_height st),
                    ascii_height = st_ascii_height st, ascii_chars = st_ascii_chars st\<rparr>,
        pressed_keys = [], file_name = None, last_screen = None, saved = None, running = True,
        gl_viewport = (0, 0, st_width st, st_height st),
        gl_projection = glu_perspective (st_fov st) (of_int (st_width st) / of_int (st_height st)) (st_z_near st) (st_z_far st),
        win_width = st_width st, win_height = st_height st\<rparr>)"

text \<open>
  The states the event loop reaches: from start-up, with or without a file name chosen in
  the menu before the scene is made; no event is delivered after \<open>glutLeaveMainLoop\<close>.
\<close>

inductive ctrl_reachable :: "settings \<Rightarrow> camera_data \<Rightarrow> ctrl_state \<Rightarrow> bool" where
  init: "ctrl_init st c = Inr s \<Longrightarrow> ctrl_reachable st c s"
| named: "ctrl_init st c = Inr s \<Longrightarrow> ctrl_reachable st c (set_file_name n s)"
| step: "ctrl_reachable st c s \<Longrightarrow> running s \<Longrightarrow> ctrl_step st e s = Inr s' \<Longrightarrow> ctrl_reachable st c s'"

section \<open>The controller invariant\<close>

text \<open>
  What every reachable state keeps: the selection invariant of \<open>Scene\<close>, the seven-slot
  store, and a \<open>Camera\<close> wrapper whose fields stay in their ranges when the start camera's are.
\<close>

definition world_inv :: "camera_data \<Rightarrow> world \<Rightarrow> bool" where
  "world_inv c0 w \<longleftrightarrow>
     sel_inv w \<and> length (heap w) = 7 \<and> (\<forall>f \<in> set (heap w). figure_color f) \<and>
     (case camera (scene w) of CameraObj c \<Rightarrow> camera_in_range c0 \<longrightarrow> camera_in_range c | RawCameraData _ \<Rightarrow> False)"

text \<open>
  Inputs of the scenarios below: settings binding the key \<open>a\<close> to \<open>translate_left\<close>
  and \<open>q\<close> to \<open>exit\<close>,
  and a GL read-back whose modelview collapses every point onto the viewport centre.
\<close>

definition demo_settings :: settings where
  "demo_settings =
     \<lparr>action_keys = [''a'' \<mapsto> ''translate_left'', ''q'' \<mapsto> ''exit''], shortcuts = Map.empty, st_width = 800, st_height = 600,
      st_ascii_height = Some 70, st_ascii_chars = '' .:#'', st_fov = 45, st_z_near = 0.1, st_z_far = 100\<rparr>"

definition collapse_view :: gl_view where
  "collapse_view =
     \<lparr>modelview = ((0, 0, 0, 0), (0, 0, 0, 0), (0, 0, 0, 0), (0, 0, 0, 1)),
      projection = ((1, 0, 0, 0), (0, 1, 0, 0), (0, 0, 1, 0), (0, 0, 0, 1)),
      view_port = (0, 0, 100, 100), window_height = 100\<rparr>"

text \<open>
  The selection state machine of the spec (section 4.3) as an abstract specification:
  two states, and a pick test whose outcome (a hit on figure \<open>F\<close>, or no hit) moves it;
  every other event leaves it alone. \<open>event_pick\<close> is the outcome a left press reports,
  \<open>None\<close> for every event that is not a pick.
\<close>

datatype sel_state = NothingSelected | FigureSelected nat

definition sel_state_of :: "world \<Rightarrow> sel_state" where
  "sel_state_of w = (case selected_figure (scene w) of None \<Rightarrow> NothingSelected | Some r \<Rightarrow> FigureSelected r)"

fun spec_sel_step :: "sel_state \<Rightarrow> nat option option \<Rightarrow> sel_state" where
  "spec_sel_step q None = q"
| "spec_sel_step q (Some None) = NothingSelected"
| "spec_sel_step q (Some (Some f)) = FigureSelected f"

definition first_hit :: "int \<Rightarrow> int \<Rightarrow> gl_view \<Rightarrow> world \<Rightarrow> nat option" where
  "first_hit x y gl w =
     find (\<lambda>r. contains_point (of_int x) (of_int (window_height gl - y - 1)) (modelview gl) (projection gl)
                 (view_port gl) (heap w ! r)) (scene_figures (scene w))"

fun event_pick :: "ctrl_state \<Rightarrow> ctrl_event \<Rightarrow> nat option option" where
  "event_pick s (MouseEv b bs x y gl) =
     (if b = LeftButton \<and> bs = ButtonDown then Some (first_hit x y gl (world s)) else None)"
| "event_pick s _ = None"

section \<open>Lemmas\<close>

lemma sel_inv_cong:
  "heap w' = heap w \<Longrightarrow> scene_figures (scene w') = scene_figures (scene w)
   \<Longrightarrow> selected_figure (scene w') = selected_figure (scene w) \<Longrightarrow> sel_inv w' = sel_inv w"
  by (simp add: sel_inv_def)

lemma world_inv_update_figure:
  assumes "world_inv c0 w" "\<And>f. selected (g f) = selected f" "\<And>f. figure_color (g f) = figure_color f"
  shows "world_inv c0 (update_figure r g w)"
proof -
  have "\<forall>f \<in> set (heap (update_figure r g w)). figure_color f"
    using assms(1,3) by (intro update_figure_all) (simp_all add: world_inv_def)
  then show ?thesis using assms(1,2) sel_inv_update_figure [of w g r] by (simp add: world_inv_def)
qed

lemma world_inv_scene_fields:
  assumes "world_inv c0 w" "scene_figures (g (scene w)) = scene_figures (scene w)"
    "selected_figure (g (scene w)) = selected_figure (scene w)" "camera (g (scene w)) = camera (scene w)"
  shows "world_inv c0 (update_scene g w)"
  using assms sel_inv_cong [of "update_scene g w" w] by (simp add: world_inv_def)

lemma world_inv_camera_call:
  assumes "world_inv c0 w" "camera_call n op w = Inr w'"
  shows "world_inv c0 w'"
proof (cases "camera (scene w)")
  case (CameraObj c)
  then have w': "w' = update_scene (\<lambda>s. s\<lparr>camera := CameraObj (camera_step op c)\<rparr>) w"
    using assms(2) by (simp add: camera_call_def)
  have "sel_inv w'" using assms(1) sel_inv_cong [of w' w] by (simp add: w' world_inv_def)
  with assms(1) CameraObj show ?thesis by (simp add: w' world_inv_def camera_step_in_range)
next
  case (RawCameraData c)
  then show ?thesis using assms(2) by (simp add: camera_call_def)
qed

lemma selected_set_draw_mode [simp]: "selected (set_draw_mode m f) = selected f"
  by (simp add: set_draw_mode_def)

lemma selected_paint [simp]: "selected (paint c f) = selected f"
  by (simp add: paint_def)

lemma figure_color_set_draw_mode [simp]: "figure_color (set_draw_mode m f) = figure_color f"
  by (simp add: set_draw_mode_def)

lemma figure_color_paint [simp]: "figure_color (paint c f) = figure_color f"
  by (simp add: paint_def)

lemma world_inv_fold_draw_mode:
  "world_inv c0 w \<Longrightarrow> world_inv c0 (fold (\<lambda>r. update_figure r (set_draw_mode m)) rs w)"
  by (induction rs arbitrary: w) (simp_all add: world_inv_update_figure)

lemma world_inv_set_draw_mode: "world_inv c0 w \<Longrightarrow> world_inv c0 (ctrl_set_draw_mode m w)"
  by (simp add: ctrl_set_draw_mode_def world_inv_update_figure world_inv_fold_draw_mode split: option.splits)

lemma world_inv_translate_or_camera:
  "world_inv c0 w \<Longrightarrow> translate_figure_or_camera x y z w = Inr w' \<Longrightarrow> world_inv c0 w'"
  by (auto simp: translate_figure_or_camera_def figure_simps intro: world_inv_update_figure
      elim: world_inv_camera_call split: option.splits)

lemma world_inv_rotate_or_camera:
  "world_inv c0 w \<Longrightarrow> rotate_figure_or_camera dx dy dz w = Inr w' \<Longrightarrow> world_inv c0 w'"
  by (auto simp: rotate_figure_or_camera_def figure_simps intro: world_inv_update_figure
      elim: world_inv_camera_call split: option.splits)

lemma world_inv_opt_camera_call:
  "world_inv c0 w \<Longrightarrow> opt_camera_call n op d w = Inr w' \<Longrightarrow> world_inv c0 w'"
  by (auto simp: opt_camera_call_def elim: world_inv_camera_call split: option.splits)

lemma camera_selection [simp]: "camera (scene (selection x y gl w)) = camera (scene w)"
  by (simp add: selection_def deselect_figure_def select_figure_def Let_def split: option.splits)

lemma length_heap_selection [simp]: "length (heap (selection x y gl w)) = length (heap w)"
  by (simp add: selection_def deselect_figure_def select_figure_def Let_def split: option.splits)

lemma world_inv_handle_click: "world_inv c0 w \<Longrightarrow> world_inv c0 (handle_click x y b gl w)"
  using selection_all [of w figure_color x y gl]
  by (simp add: handle_click_def world_inv_def sel_inv_selection)

lemma cam_rotate_step: "cam_rotate dx dy c = camera_step (CamRotate dx dy) c"
  by simp

lemma world_inv_handle_motion:
  "world_inv c0 w \<Longrightarrow> handle_motion x y w = Inr w' \<Longrightarrow> world_inv c0 w'"
  by (auto simp: handle_motion_def Let_def world_inv_def sel_inv_def cam_rotate_step camera_step_in_range
      simp del: camera_step.simps split: if_splits camera_slot.splits)

text \<open>Handlers that leave the world alone.\<close>

lemma world_reset_perspective: "reset_perspective s = Inr s' \<Longrightarrow> world s' = world s"
  by (auto simp: reset_perspective_def split: camera_slot.splits)

lemma world_save_scene: "save_scene s = Inr s' \<Longrightarrow> world s' = world s"
  by (auto simp: save_scene_def split: option.splits if_splits)

lemma world_stop_scene: "stop_scene s = Inr s' \<Longrightarrow> world s' = world s"
  by (auto simp: stop_scene_def Let_def dest: world_save_scene split: option.splits if_splits)

lemma world_ctrl_reshape: "ctrl_reshape w h s = Inr s' \<Longrightarrow> world s' = world s"
  by (auto simp: ctrl_reshape_def renderer_reshape_def Let_def split: camera_slot.splits)

lemma world_ctrl_display: "ctrl_display fr s = Inr s' \<Longrightarrow> world s' = world s"
  by (auto simp: ctrl_display_def rbind_eq_Inr)

lemma world_inv_change_perspective:
  assumes "world_inv c0 (world s)" "change_camera_perspective dfo asp dzn dzf s = Inr s'"
  shows "world_inv c0 (world s')"
proof -
  obtain w1 w2 w3 w4 where
    c: "opt_camera_call ''update_z_far'' UpdateZFar dzf (world s) = Inr w1"
       "opt_camera_call ''update_fovy'' UpdateFovy dfo w1 = Inr w2"
       "opt_camera_call ''update_aspect'' UpdateAspect asp w2 = Inr w3"
       "opt_camera_call ''update_z_near'' UpdateZNear dzn w3 = Inr w4"
       and r: "reset_perspective (s\<lparr>world := w4\<rparr>) = Inr s'"
    using assms(2) by (auto simp: change_camera_perspective_def rbind_eq_Inr)
  have "world_inv c0 w4"
    using assms(1) c by (blast intro: world_inv_opt_camera_call)
  moreover have "world s' = w4" using world_reset_perspective [OF r] by simp
  ultimately show ?thesis by simp
qed

lemma world_inv_run_action:
  "world_inv c0 (world s) \<Longrightarrow> run_action a s = Inr s' \<Longrightarrow> world_inv c0 (world s')"
  by (cases a)
     (auto simp: run_action_def rbind_eq_Inr world_inv_set_draw_mode dest: world_stop_scene
      elim: world_inv_translate_or_camera world_inv_rotate_or_camera world_inv_change_perspective)

lemma world_inv_execute_command:
  "world_inv c0 (world s) \<Longrightarrow> execute_command n s = Inr s' \<Longrightarrow> world_inv c0 (world s')"
  by (auto simp: execute_command_def elim: world_inv_run_action split: option.splits)

lemma world_inv_handle_actions:
  "world_inv c0 (world s) \<Longrightarrow> handle_actions_loop st mods ks s = Inr s' \<Longrightarrow> world_inv c0 (world s')"
proof (induction ks arbitrary: s)
  case Nil
  then show ?case by simp
next
  case (Cons k ks)
  show ?case
  proof (cases mods)
    case None
    show ?thesis
    proof (cases "action_keys st k")
      case None
      with Cons \<open>mods = None\<close> show ?thesis by simp
    next
      case (Some a)
      then obtain s1 where e: "execute_command a s = Inr s1" and l: "handle_actions_loop st mods ks s1 = Inr s'"
        using Cons.prems(2) \<open>mods = None\<close> by (auto simp: rbind_eq_Inr)
      have "world_inv c0 (world s1)" using world_inv_execute_command [OF Cons.prems(1) e] .
      then show ?thesis using Cons.IH l by blast
    qed
  next
    case (Some m)
    then show ?thesis using Cons
      by (auto elim: world_inv_execute_command split: option.splits if_splits)
  qed
qed

lemma world_inv_ctrl_handle_mouse:
  "world_inv c0 (world s) \<Longrightarrow> world_inv c0 (world (ctrl_handle_mouse b bs x y gl s))"
  by (simp add: ctrl_handle_mouse_def world_inv_handle_click world_inv_scene_fields)

lemma world_inv_handle_keyboard:
  "world_inv c0 (world s) \<Longrightarrow> handle_keyboard st key mods s = Inr s' \<Longrightarrow> world_inv c0 (world s')"
  unfolding handle_keyboard_def Let_def
  by (erule world_inv_handle_actions [rotated]) simp

lemma world_inv_ctrl_step:
  assumes "world_inv c0 (world s)" "ctrl_step st e s = Inr s'"
  shows "world_inv c0 (world s')"
proof (cases e)
  case (MouseEv b bs x y gl)
  then show ?thesis using assms by (auto simp: world_inv_ctrl_handle_mouse)
next
  case (MotionEv x y)
  then show ?thesis using assms
    by (auto simp: ctrl_handle_motion_def rbind_eq_Inr elim: world_inv_handle_motion)
next
  case (WheelEv d)
  then show ?thesis using assms by (auto simp: handle_wheel_def elim: world_inv_execute_command)
next
  case (KeyDownEv k m)
  then show ?thesis using assms by (auto elim: world_inv_handle_keyboard split: option.splits)
next
  case (KeyUpEv k)
  then show ?thesis using assms by (auto simp: handle_keyboard_up_def split: option.splits)
next
  case (SpecialDownEv c m)
  then show ?thesis using assms by (auto elim: world_inv_handle_keyboard split: option.splits)
next
  case (SpecialUpEv c)
  then show ?thesis using assms by (auto simp: handle_keyboard_up_def split: option.splits)
next
  case (ReshapeEv w h)
  then show ?thesis using assms by (auto dest: world_ctrl_reshape)
next
  case (DisplayEv fr)
  then show ?thesis using assms by (auto dest: world_ctrl_display)
qed

lemma templates_unselected [simp]:
  "\<not> selected cube_data" "\<not> selected pyramid_data" "\<not> selected sphere_data"
  by (simp_all add: cube_data_def pyramid_data_def sphere_data_def mk_figure_data_def)

lemma templates_figure_color [simp]:
  "figure_color cube_data" "figure_color pyramid_data" "figure_color sphere_data" "figure_color tetrahedron_data"
  "figure_color hexahedron_data" "figure_color octahedron_data" "figure_color icosahedron_data"
  by (simp_all add: template_data_defs)

lemma create_scene_ok:
  "\<exists>w. create_scene c = Inr w \<and> world_inv c w \<and> scene_figures (scene w) = [0, 1, 2]
       \<and> selected_figure (scene w) = None \<and> camera (scene w) = CameraObj c
       \<and> length (vertices (heap w ! 0)) = length (vertices cube_data)"
proof -
  have pal: "colors ''Green'' = Some [0, 1, 0]" "colors ''Red'' = Some [1, 0, 0]" "colors ''Blue'' = Some [0, 0, 1]"
    by (simp_all add: colors_def)
  show ?thesis
    by (simp add: create_scene_def create_templates set_color_at_def set_color_palette pal
        update_figure_def add_figure_def set_camera_def update_scene_def world_init_def
        scene_data_init_def figure_catalogue_def figure_simps world_inv_def sel_inv_def)
qed

lemma create_scene_world_inv: "create_scene c = Inr w \<Longrightarrow> world_inv c w"
  using create_scene_ok [of c] by auto

lemma ctrl_init_world_inv: "ctrl_init st c = Inr s \<Longrightarrow> world_inv c (world s)"
  by (auto simp: ctrl_init_def rbind_eq_Inr dest: create_scene_world_inv)

text \<open>Rule induction over the reachable states.\<close>

lemma reachable_world_inv: "ctrl_reachable st c s \<Longrightarrow> world_inv c (world s)"
proof (induction rule: ctrl_reachable.induct)
  case (init st c s)
  then show ?case by (rule ctrl_init_world_inv)
next
  case (named st c s n)
  then show ?case by (simp add: set_file_name_def ctrl_init_world_inv)
next
  case (step st c s e s')
  then show ?case by (blast intro: world_inv_ctrl_step)
qed

lemma ctrl_init_ok:
  "\<exists>s. ctrl_init st c = Inr s \<and> running s \<and> scene_figures (scene (world s)) = [0, 1, 2]
       \<and> selected_figure (scene (world s)) = None \<and> camera (scene (world s)) = CameraObj c
       \<and> length (vertices (heap (world s) ! 0)) = length (vertices cube_data)"
  using create_scene_ok [of c] by (auto simp: ctrl_init_def)

lemma collapse_view_hits:
  assumes "vertices f \<noteq> []"
  shows "contains_point 50 50 (modelview collapse_view) (projection collapse_view) (view_port collapse_view) f"
proof -
  obtain v vs where v: "vertices f = v # vs" using assms by (cases "vertices f") auto
  have p: "glu_project (modelview collapse_view) (projection collapse_view) (view_port collapse_view) q = Some (50, 50)" for q
    by (simp add: collapse_view_def glu_project_def mat4_vec_def dot4_def)
  have "(50, 50) \<in> set (project_vertices_to_screen (modelview collapse_view) (projection collapse_view) (view_port collapse_view) f)"
    by (auto simp: set_project_vertices_to_screen p v)
  then show ?thesis unfolding contains_point_iff Let_def
    by (intro conjI bexI [of _ "(50, 50)"]) simp_all
qed

lemma length_vertices_cube: "length (vertices cube_data) = 8"
  by (simp add: cube_data_def mk_figure_data_def)

lemma reachable_after_click:
  "\<exists>s. ctrl_reachable demo_settings default_camera_data s \<and> scene_figures (scene (world s)) = [0, 1, 2]
       \<and> selected_figure (scene (world s)) = Some 0"
proof -
  obtain s0 where s0: "ctrl_init demo_settings default_camera_data = Inr s0" "running s0"
    "scene_figures (scene (world s0)) = [0, 1, 2]"
    "length (vertices (heap (world s0) ! 0)) = length (vertices cube_data)"
    using ctrl_init_ok by blast
  let ?s1 = "ctrl_handle_mouse LeftButton ButtonDown 50 49 collapse_view s0"
  have r: "ctrl_reachable demo_settings default_camera_data ?s1"
    by (rule ctrl_reachable.step [OF ctrl_reachable.init [OF s0(1)] s0(2),
          of "MouseEv LeftButton ButtonDown 50 49 collapse_view"]) simp
  have ne: "vertices (heap (world s0) ! 0) \<noteq> []" using s0(4) length_vertices_cube by auto
  have w: "window_height collapse_view = 100" by (simp add: collapse_view_def)
  have "selected_figure (scene (world ?s1)) = Some 0"
    by (simp add: ctrl_handle_mouse_def handle_click_def selected_figure_selection s0(3) w
        collapse_view_hits [OF ne])
  moreover have "scene_figures (scene (world ?s1)) = [0, 1, 2]"
    by (simp add: ctrl_handle_mouse_def handle_click_def selection_def deselect_figure_def
        select_figure_def Let_def s0(3) split: option.splits)
  ultimately show ?thesis using r by blast
qed

lemma keys_map_str:
  "keys_map (KStr k) =
     (if k = [CHR 0x1B] then Some ''esc'' else if k = [CHR 0x03] then Some ''ctrl+c''
      else if k = [CHR 0x20] then Some ''enter'' else None)"
  by (simp add: keys_map_def keys_map_items_def)

lemma keys_map_int_not_f17:
  "keys_map (KInt code) = Some n \<Longrightarrow> n \<notin> {''f1'', ''f2'', ''f3'', ''f4'', ''f5'', ''f6'', ''f7''}"
  by (auto simp: keys_map_def keys_map_items_def split: if_splits)

lemma kb_keyboard_key:
  "kb_keyboard (Some k) m = Some (key, mods) \<Longrightarrow> key = (case keys_map (KStr k) of Some n \<Rightarrow> n | None \<Rightarrow> k)"
  by (auto simp: kb_keyboard_def keys_map_str Let_def split: if_splits)

lemma execute_translate_left:
  "execute_command ''translate_left'' s = run_action (TranslateA (-0.5) 0 0) s"
  by (simp add: execute_command_def action_values_def)

text \<open>The handlers that are not a pick keep the selected figure.\<close>

abbreviation sel_of :: "ctrl_state \<Rightarrow> nat option" where
  "sel_of s \<equiv> selected_figure (scene (world s))"

lemma sel_camera_call: "camera_call n op w = Inr w' \<Longrightarrow> selected_figure (scene w') = selected_figure (scene w)"
  by (auto simp: camera_call_def split: camera_slot.splits)

lemma sel_opt_camera_call: "opt_camera_call n op d w = Inr w' \<Longrightarrow> selected_figure (scene w') = selected_figure (scene w)"
  by (auto simp: opt_camera_call_def dest: sel_camera_call split: option.splits)

lemma sel_fold_update_figure: "scene (fold (\<lambda>r. update_figure r g) rs w) = scene w"
  by (induction rs arbitrary: w) simp_all

lemma sel_run_action: "run_action a s = Inr s' \<Longrightarrow> sel_of s' = sel_of s"
proof (cases a)
  case (PerspectiveA dfo asp dzn dzf)
  assume r: "run_action a s = Inr s'"
  then obtain w1 w2 w3 w4 where
    c: "opt_camera_call ''update_z_far'' UpdateZFar dzf (world s) = Inr w1"
       "opt_camera_call ''update_fovy'' UpdateFovy dfo w1 = Inr w2"
       "opt_camera_call ''update_aspect'' UpdateAspect asp w2 = Inr w3"
       "opt_camera_call ''update_z_near'' UpdateZNear dzn w3 = Inr w4"
       and p: "reset_perspective (s\<lparr>world := w4\<rparr>) = Inr s'"
    using PerspectiveA by (auto simp: run_action_def change_camera_perspective_def rbind_eq_Inr)
  show ?thesis using c world_reset_perspective [OF p] by (auto dest!: sel_opt_camera_call)
qed (auto simp: run_action_def rbind_eq_Inr ctrl_set_draw_mode_def sel_fold_update_figure
       translate_figure_or_camera_def rotate_figure_or_camera_def
       dest: sel_camera_call world_stop_scene split: option.splits)

lemma sel_execute_command: "execute_command n s = Inr s' \<Longrightarrow> sel_of s' = sel_of s"
  by (auto simp: execute_command_def dest: sel_run_action split: option.splits)

lemma sel_handle_actions: "handle_actions_loop st mods ks s = Inr s' \<Longrightarrow> sel_of s' = sel_of s"
proof (induction ks arbitrary: s)
  case (Cons k ks)
  then show ?case
    by (auto simp: rbind_eq_Inr dest!: sel_execute_command split: option.splits if_splits)
qed simp

lemma sel_handle_keyboard: "handle_keyboard st key mods s = Inr s' \<Longrightarrow> sel_of s' = sel_of s"
  by (auto simp: handle_keyboard_def Let_def dest: sel_handle_actions)

lemma sel_other_events:
  assumes "ctrl_step st e s = Inr s'" "event_pick s e = None"
  shows "sel_of s' = sel_of s"
proof (cases e)
  case (MouseEv b bs x y gl)
  then show ?thesis using assms by (auto simp: ctrl_handle_mouse_def)
next
  case (MotionEv x y)
  then show ?thesis using assms
    by (auto simp: ctrl_handle_motion_def handle_motion_def Let_def rbind_eq_Inr split: if_splits camera_slot.splits)
next
  case (WheelEv d)
  then show ?thesis using assms by (auto simp: handle_wheel_def dest: sel_execute_command)
next
  case (ReshapeEv w h)
  then show ?thesis using assms by (auto dest: world_ctrl_reshape)
next
  case (DisplayEv fr)
  then show ?thesis using assms by (auto dest: world_ctrl_display)
qed (use assms in \<open>auto simp: handle_keyboard_up_def dest: sel_handle_keyboard split: option.splits\<close>)

subsection \<open>Leaving the event loop\<close>

text \<open>
  Which fields an action touches: none of them changes the file name, and only
  \<open>exit\<close> clears \<open>running\<close>.
\<close>

lemma reset_perspective_fields:
  "reset_perspective s = Inr s' \<Longrightarrow> file_name s' = file_name s \<and> running s' = running s"
  by (auto simp: reset_perspective_def split: camera_slot.splits)

lemma run_action_fields:
  assumes "run_action a s = Inr s'"
  shows "file_name s' = file_name s \<and> running s' = (running s \<and> a \<noteq> ExitA)"
proof (cases a)
  case (PerspectiveA dfo asp dzn dzf)
  then show ?thesis using assms
    by (auto simp: run_action_def change_camera_perspective_def rbind_eq_Inr dest!: reset_perspective_fields)
next
  case ExitA
  then show ?thesis using assms
    by (auto simp: run_action_def stop_scene_def save_scene_def Let_def split: option.splits if_splits)
qed (use assms in \<open>auto simp: run_action_def rbind_eq_Inr\<close>)

lemma camera_call_ok: "world_inv c0 w \<Longrightarrow> \<exists>w'. camera_call n op w = Inr w'"
  by (auto simp: world_inv_def camera_call_def split: camera_slot.splits)

lemma opt_camera_call_ok:
  "world_inv c0 w \<Longrightarrow> \<exists>w'. opt_camera_call n op d w = Inr w' \<and> world_inv c0 w'"
  using camera_call_ok world_inv_camera_call
  by (cases d) (fastforce simp: opt_camera_call_def)+

lemma reset_perspective_ok: "world_inv c0 (world s) \<Longrightarrow> \<exists>s'. reset_perspective s = Inr s'"
  by (auto simp: world_inv_def reset_perspective_def split: camera_slot.splits)

lemma change_perspective_ok:
  assumes "world_inv c0 (world s)"
  shows "\<exists>s'. change_camera_perspective dfo asp dzn dzf s = Inr s'"
proof -
  obtain w1 where 1: "opt_camera_call ''update_z_far'' UpdateZFar dzf (world s) = Inr w1" "world_inv c0 w1"
    using opt_camera_call_ok [OF assms] by blast
  obtain w2 where 2: "opt_camera_call ''update_fovy'' UpdateFovy dfo w1 = Inr w2" "world_inv c0 w2"
    using opt_camera_call_ok [OF 1(2)] by blast
  obtain w3 where 3: "opt_camera_call ''update_aspect'' UpdateAspect asp w2 = Inr w3" "world_inv c0 w3"
    using opt_camera_call_ok [OF 2(2)] by blast
  obtain w4 where 4: "opt_camera_call ''update_z_near'' UpdateZNear dzn w3 = Inr w4" "world_inv c0 w4"
    using opt_camera_call_ok [OF 3(2)] by blast
  obtain s' where "reset_perspective (s\<lparr>world := w4\<rparr>) = Inr s'"
    using reset_perspective_ok [of c0 "s\<lparr>world := w4\<rparr>"] 4(2) by auto
  then show ?thesis using 1 2 3 4 by (auto simp: change_camera_perspective_def)
qed

text \<open>Without a file to save to, no action of the table raises on a consistent world.\<close>

lemma run_action_ok:
  assumes "world_inv c0 (world s)" "file_name s = None"
  shows "\<exists>s'. run_action a s = Inr s'"
proof (cases a)
  case (TranslateA x y z)
  obtain w' where "camera_call ''translate'' (CamTranslate x y z) (world s) = Inr w'"
    using camera_call_ok [OF assms(1)] by blast
  then show ?thesis using TranslateA
    by (auto simp: run_action_def translate_figure_or_camera_def split: option.splits)
next
  case (RotateA x y z)
  obtain w' where "camera_call ''rotate'' (CamRotate x y) (world s) = Inr w'"
    using camera_call_ok [OF assms(1)] by blast
  then show ?thesis using RotateA
    by (auto simp: run_action_def rotate_figure_or_camera_def split: option.splits)
next
  case (PerspectiveA dfo asp dzn dzf)
  then show ?thesis using change_perspective_ok [OF assms(1)] by (simp add: run_action_def)
qed (use assms(2) in \<open>simp_all add: run_action_def stop_scene_def\<close>)

lemma action_values_exit: "action_values n = Some ExitA \<longleftrightarrow> n = ''exit''"
  by (simp add: action_values_def)

text \<open>
  The loop of \<open>handle_actions\<close> without modifiers runs to the end, and the loop is left
  exactly when a pressed key is bound to \<open>exit\<close>.
\<close>

lemma handle_actions_exit:
  assumes "world_inv c0 (world s)" "file_name s = None"
  shows "\<exists>s'. handle_actions_loop st None ks s = Inr s'
           \<and> running s' = (running s \<and> (\<forall>k \<in> set ks. action_keys st k \<noteq> Some ''exit''))"
  using assms
proof (induction ks arbitrary: s)
  case Nil
  then show ?case by simp
next
  case (Cons k ks)
  show ?case
  proof (cases "action_keys st k")
    case None
    then show ?thesis using Cons.IH [OF Cons.prems] by auto
  next
    case (Some n)
    obtain s1 where s1: "execute_command n s = Inr s1"
      using run_action_ok [OF Cons.prems, of "the (action_values n)"]
      by (cases "action_values n") (auto simp: execute_command_def)
    have f: "file_name s1 = None \<and> running s1 = (running s \<and> n \<noteq> ''exit'')"
      using s1 Cons.prems(2)
    proof (cases "n = ''exit''")
      case True
      then show ?thesis using s1 Cons.prems(2)
        by (auto simp: execute_command_def action_values_def stop_scene_def run_action_def)
    next
      case False
      then show ?thesis using s1 Cons.prems(2) action_values_exit [of n]
        by (auto simp: execute_command_def dest!: run_action_fields split: option.splits)
    qed
    obtain s' where "handle_actions_loop st None ks s1 = Inr s'"
        "running s' = (running s1 \<and> (\<forall>k \<in> set ks. action_keys st k \<noteq> Some ''exit''))"
      using Cons.IH [OF world_inv_execute_command [OF Cons.prems(1) s1] conjunct1 [OF f]] by blast
    then show ?thesis using Some s1 conjunct2 [OF f] by auto
  qed
qed

section \<open>Properties\<close>

text \<open>
  C1. At most one selection in every reachable state: after any sequence of events from
  start-up, two selected entries of the scene's figure list are the same entry, and the
  selected figure is exactly the one the scene reports as selected.
\<close>

theorem reachable_single_selection:
  assumes "ctrl_reachable st c s"
    and "i < length (scene_figures (scene (world s)))" "j < length (scene_figures (scene (world s)))"
    and "selected (heap (world s) ! (scene_figures (scene (world s)) ! i))"
    and "selected (heap (world s) ! (scene_figures (scene (world s)) ! j))"
  shows "i = j \<and> selected_figure (scene (world s)) = Some (scene_figures (scene (world s)) ! i)"
proof -
  have inv: "sel_inv (world s)" using reachable_world_inv [OF assms(1)] by (simp add: world_inv_def)
  have "i = j" using sel_inv_at_most_one [OF inv assms(2-5)] .
  moreover have "selected_figure (scene (world s)) = Some (scene_figures (scene (world s)) ! i)"
    using inv assms(2,4) by (auto simp: sel_inv_def Let_def)
  ultimately show ?thesis ..
qed

theorem reachable_single_selection_witness:
  "\<exists>s. ctrl_reachable demo_settings default_camera_data s \<and> 0 < length (scene_figures (scene (world s)))
       \<and> selected (heap (world s) ! (scene_figures (scene (world s)) ! 0))
       \<and> selected_figure (scene (world s)) = Some (scene_figures (scene (world s)) ! 0)"
proof -
  obtain s where s: "ctrl_reachable demo_settings default_camera_data s"
    "scene_figures (scene (world s)) = [0, 1, 2]" "selected_figure (scene (world s)) = Some 0"
    using reachable_after_click by blast
  have "selected (heap (world s) ! 0)"
    using reachable_world_inv [OF s(1)] s(2,3) by (auto simp: world_inv_def sel_inv_def)
  then have "0 = (0::nat) \<and> selected_figure (scene (world s)) = Some (scene_figures (scene (world s)) ! 0)"
    using reachable_single_selection [OF s(1), of 0 0] s(2) by simp
  with s \<open>selected (heap (world s) ! 0)\<close> show ?thesis by auto
qed

text \<open>
  C15. The camera stays a \<open>Camera\<close> wrapper in every reachable state, and its clamped
  fields stay in their documented ranges whenever the start camera's are.
\<close>

theorem reachable_camera_in_range:
  assumes "ctrl_reachable st c s" "camera_in_range c"
  shows "\<exists>cd. camera (scene (world s)) = CameraObj cd \<and> camera_in_range cd"
  using reachable_world_inv [OF assms(1)] assms(2)
  by (auto simp: world_inv_def split: camera_slot.splits)

theorem reachable_camera_in_range_witness:
  "\<exists>s. ctrl_reachable demo_settings default_camera_data s \<and> camera_in_range default_camera_data
       \<and> (\<exists>cd. camera (scene (world s)) = CameraObj cd \<and> camera_in_range cd)"
proof -
  obtain s where s: "ctrl_init demo_settings default_camera_data = Inr s" using ctrl_init_ok by blast
  have c: "camera_in_range default_camera_data"
    by (simp add: camera_in_range_def default_camera_data_def)
  show ?thesis using reachable_camera_in_range [OF ctrl_reachable.init [OF s] c] ctrl_reachable.init [OF s] c
    by blast
qed

text \<open>
  C5. Input routing: the \<open>translate_left\<close> command moves the selected figure when there is
  one and leaves the camera alone; with nothing selected it moves the camera's eye and
  target and leaves every figure alone.
\<close>

theorem translate_command_dispatch:
  assumes "sel_inv (world s)" "execute_command ''translate_left'' s = Inr s'"
  shows "case selected_figure (scene (world s)) of
           Some r \<Rightarrow> positions (heap (world s') ! r) = map (\<lambda>p. vadd p (-0.5, 0, 0)) (positions (heap (world s) ! r))
                     \<and> camera (scene (world s')) = camera (scene (world s))
         | None \<Rightarrow> heap (world s') = heap (world s)
                     \<and> (\<exists>c. camera (scene (world s)) = CameraObj c
                          \<and> camera (scene (world s')) = CameraObj (cam_translate (-0.5) 0 0 c))"
proof (cases "selected_figure (scene (world s))")
  case (Some r)
  then have "r < length (heap (world s))" using assms(1) by (auto simp: sel_inv_def Let_def)
  moreover have "world s' = update_figure r (translate (-0.5) 0 0) (world s)"
    using assms(2) Some by (auto simp: execute_translate_left run_action_def translate_figure_or_camera_def)
  ultimately show ?thesis using Some by (simp add: heap_update_figure_nth positions_translate)
next
  case None
  then show ?thesis using assms(2)
    by (auto simp: execute_translate_left run_action_def translate_figure_or_camera_def camera_call_def
        rbind_eq_Inr split: camera_slot.splits)
qed

theorem translate_command_dispatch_witness:
  "\<exists>s s'. ctrl_init demo_settings default_camera_data = Inr s \<and> sel_inv (world s)
      \<and> execute_command ''translate_left'' s = Inr s' \<and> heap (world s') = heap (world s)
      \<and> camera (scene (world s')) = CameraObj (cam_translate (-0.5) 0 0 default_camera_data)"
proof -
  obtain s where s: "ctrl_init demo_settings default_camera_data = Inr s"
    "selected_figure (scene (world s)) = None" "camera (scene (world s)) = CameraObj default_camera_data"
    using ctrl_init_ok by blast
  have i: "sel_inv (world s)" using ctrl_init_world_inv [OF s(1)] by (simp add: world_inv_def)
  obtain s' where e: "execute_command ''translate_left'' s = Inr s'"
    using s(2,3) by (simp add: execute_translate_left run_action_def translate_figure_or_camera_def camera_call_def)
  show ?thesis using translate_command_dispatch [OF i e] s e i by auto
qed

text \<open>
  C16. Drag to orbit: a right press, a motion and a right release rotate the camera once by
  the mouse delta scaled by 0.1 (yaw driven by the vertical delta, pitch by the horizontal
  one), end with the latch cleared and the last mouse position recorded, and move no figure.
\<close>

theorem drag_rotates_camera:
  assumes "camera (scene (world s)) = CameraObj c"
  shows "\<exists>s'. ctrl_run st [MouseEv RightButton ButtonDown x0 y0 gl, MotionEv x1 y1, MouseEv RightButton ButtonUp x1 y1 gl] s = Inr s'
           \<and> camera (scene (world s')) = CameraObj (cam_rotate (of_int (y1 - y0) * 0.1) (of_int (x1 - x0) * 0.1) c)
           \<and> \<not> is_rotating (scene (world s')) \<and> last_mouse_x (scene (world s')) = x1
           \<and> last_mouse_y (scene (world s')) = y1 \<and> heap (world s') = heap (world s)"
  using assms
  by (simp add: ctrl_handle_mouse_def ctrl_handle_motion_def handle_motion_def Let_def)

theorem drag_rotates_camera_witness:
  "\<exists>s s'. ctrl_init demo_settings default_camera_data = Inr s \<and>
      ctrl_run demo_settings [MouseEv RightButton ButtonDown 0 0 collapse_view, MotionEv 10 20,
                              MouseEv RightButton ButtonUp 10 20 collapse_view] s = Inr s'
      \<and> camera (scene (world s')) = CameraObj (cam_rotate 2 1 default_camera_data)"
proof -
  obtain s where s: "ctrl_init demo_settings default_camera_data = Inr s"
    "camera (scene (world s)) = CameraObj default_camera_data"
    using ctrl_init_ok by blast
  show ?thesis using drag_rotates_camera [OF s(2), of demo_settings 0 0 collapse_view 10 20] s(1) by auto
qed

text \<open>
  C17. A held modifier never reaches \<open>handle_actions\<close>: \<open>KeyboardHandler.keyboard\<close> replaces
  it by \<open>keys_map.get(key)\<close> of the already mapped key, which is never a key of the table,
  so the shortcuts table is never consulted, for ordinary and special keys alike.
\<close>

theorem keyboard_modifier_lost:
  "(kb_keyboard k m = Some (key, mods) \<longrightarrow> mods = None)
   \<and> (kb_special code m = Some (key, mods) \<longrightarrow> mods = None)"
proof -
  have kb: "kb_keyboard (Some k') m = Some (key, mods) \<Longrightarrow> mods = None" for k'
    by (auto simp: kb_keyboard_def keys_map_str Let_def split: if_splits)
  have kk: "kb_keyboard k m = Some (key, mods) \<Longrightarrow> mods = None"
  proof (cases k)
    case (Some a)
    then show "kb_keyboard k m = Some (key, mods) \<Longrightarrow> mods = None" using kb [of a] by simp
  qed (simp add: kb_keyboard_def)
  have sp: "kb_special code m = Some (key, mods) \<Longrightarrow> mods = None"
    by (auto simp: kb_special_def split: option.splits if_splits dest: kb)
  show ?thesis using kk sp by blast
qed

theorem keyboard_modifier_lost_witness:
  "kb_keyboard (Some [CHR 0x03]) 2 = Some (''ctrl+c'', None) \<and> kb_special 100 1 = Some (''left'', None)"
  using keyboard_modifier_lost [of "Some [CHR 0x03]" 2 "''ctrl+c''" None 100]
  by (simp add: kb_keyboard_def kb_special_def Let_def keys_map_def keys_map_items_def)

text \<open>
  The special keys F1 to F7 never arrive as \<open>f1\<close> .. \<open>f7\<close>: their GLUT codes 1 .. 7
  equal the modifier masks and their combinations, which come later in the dict display
  of \<open>keys_map\<close> and win, so F1 reads as \<open>shift\<close>, F2 as \<open>ctrl\<close>, F4 as \<open>alt\<close>.
\<close>

theorem special_keys_shadowed:
  "keys_map (KInt 1) = Some ''shift'' \<and> keys_map (KInt 2) = Some ''ctrl'' \<and> keys_map (KInt 3) = Some ''shift_ctr''
   \<and> keys_map (KInt 4) = Some ''alt'' \<and> keys_map (KInt 5) = Some ''shift_alt'' \<and> keys_map (KInt 6) = Some ''ctrl_alt''
   \<and> keys_map (KInt 7) = Some ''shift_ctr_alt''
   \<and> (\<forall>code m key mods. kb_special code m = Some (key, mods) \<longrightarrow> key \<notin> {''f1'', ''f2'', ''f3'', ''f4'', ''f5'', ''f6'', ''f7''})"
proof -
  have "kb_special code m = Some (key, mods) \<Longrightarrow> key \<notin> {''f1'', ''f2'', ''f3'', ''f4'', ''f5'', ''f6'', ''f7''}"
    for code m key mods
  proof -
    assume a: "kb_special code m = Some (key, mods)"
    then obtain n where n: "keys_map (KInt code) = Some n" "kb_keyboard (Some n) m = Some (key, mods)"
      by (auto simp: kb_special_def split: option.splits if_splits)
    have "key = n \<or> key \<in> {''esc'', ''ctrl+c'', ''enter''}"
      using kb_keyboard_key [OF n(2)] by (auto simp: keys_map_str split: if_splits)
    then show ?thesis using keys_map_int_not_f17 [OF n(1)] by auto
  qed
  then show ?thesis by (simp add: keys_map_def keys_map_items_def)
qed

theorem special_keys_shadowed_witness:
  "kb_special 1 0 = Some (''shift'', None)
   \<and> ''shift'' \<notin> {''f1'', ''f2'', ''f3'', ''f4'', ''f5'', ''f6'', ''f7''}"
proof -
  have k: "kb_special 1 0 = Some (''shift'', None)"
    by (simp add: kb_special_def kb_keyboard_def Let_def keys_map_def keys_map_items_def)
  show ?thesis using special_keys_shadowed k by blast
qed

text \<open>
  C18. Reshape floor: reshaping to height 10 stores height 70 and sets the viewport to 70
  rows, but the projection built in the same call uses the aspect 100/10 computed from
  the requested height; only the reshape event that \<open>glutReshapeWindow\<close> triggers brings
  the projection to the aspect 100/70.
\<close>

theorem reshape_floor_aspect:
  assumes "camera (scene (world s)) = CameraObj c"
  shows "\<exists>s1 s2. ctrl_reshape 100 10 s = Inr s1 \<and> r_height (renderer s1) = Some 70
           \<and> gl_viewport s1 = (0, 0, 100, 70) \<and> gl_projection s1 = glu_perspective (fovy c) 10 (z_near c) (z_far c)
           \<and> ctrl_reshape 100 70 s1 = Inr s2 \<and> gl_projection s2 = glu_perspective (fovy c) (10 / 7) (z_near c) (z_far c)"
  using assms by (simp add: ctrl_reshape_def renderer_reshape_def Let_def)

theorem reshape_floor_aspect_witness:
  "\<exists>s s1 s2. ctrl_init demo_settings default_camera_data = Inr s \<and> ctrl_reshape 100 10 s = Inr s1
      \<and> gl_viewport s1 = (0, 0, 100, 70) \<and> gl_projection s1 = glu_perspective 45 10 0.1 1000
      \<and> ctrl_reshape 100 70 s1 = Inr s2"
proof -
  obtain s where s: "ctrl_init demo_settings default_camera_data = Inr s"
    "camera (scene (world s)) = CameraObj default_camera_data"
    using ctrl_init_ok by blast
  show ?thesis using reshape_floor_aspect [OF s(2)] s(1) by (auto simp: default_camera_data_def)
qed

text \<open>
  C2. The controller refines the spec's selection state machine: every event that runs to
  the end moves the abstract selection state exactly as the abstract machine does, a pick
  to the first figure hit or to Nothing-selected, every other event nowhere.
\<close>

theorem selection_refines_spec:
  assumes "ctrl_step st e s = Inr s'"
  shows "sel_state_of (world s') = spec_sel_step (sel_state_of (world s)) (event_pick s e)"
proof (cases "event_pick s e")
  case None
  then show ?thesis using sel_other_events [OF assms] by (simp add: sel_state_of_def)
next
  case (Some p)
  then obtain x y gl where e: "e = MouseEv LeftButton ButtonDown x y gl" and p: "p = first_hit x y gl (world s)"
    by (cases e) (auto split: if_splits)
  have "world s' = selection x y gl (world s)"
    using assms by (auto simp: e ctrl_handle_mouse_def handle_click_def)
  then have "selected_figure (scene (world s')) = p"
    by (simp add: p selected_figure_selection first_hit_def)
  then show ?thesis using Some by (cases p) (simp_all add: sel_state_of_def)
qed

theorem selection_refines_spec_witness:
  "\<exists>s s'. ctrl_init demo_settings default_camera_data = Inr s
      \<and> ctrl_step demo_settings (MouseEv LeftButton ButtonDown 50 49 collapse_view) s = Inr s'
      \<and> sel_state_of (world s') = FigureSelected 0"
proof -
  obtain s where s: "ctrl_init demo_settings default_camera_data = Inr s"
    "scene_figures (scene (world s)) = [0, 1, 2]"
    "length (vertices (heap (world s) ! 0)) = length (vertices cube_data)"
    using ctrl_init_ok by blast
  have ne: "vertices (heap (world s) ! 0) \<noteq> []" using s(3) length_vertices_cube by auto
  have h: "first_hit 50 49 collapse_view (world s) = Some 0"
  proof -
    have w: "window_height collapse_view = 100" by (simp add: collapse_view_def)
    show ?thesis by (simp add: first_hit_def s(2) collapse_view_hits [OF ne] w)
  qed
  let ?s' = "ctrl_handle_mouse LeftButton ButtonDown 50 49 collapse_view s"
  have st: "ctrl_step demo_settings (MouseEv LeftButton ButtonDown 50 49 collapse_view) s = Inr ?s'" by simp
  show ?thesis using selection_refines_spec [OF st] s(1) st h by auto
qed

text \<open>
  C19. Every frame of a reachable state can be drawn: \<open>Scene.draw\<close> starts with the camera's
  look-at and never raises, because every figure keeps \<open>figure_color\<close> set and so
  \<open>draw_faces_custom\<close> never reaches its unbound local.
\<close>

theorem reachable_scene_draw:
  assumes "ctrl_reachable st c s"
  shows "\<exists>cd cmds. camera (scene (world s)) = CameraObj cd
           \<and> scene_draw (world s) = Inr (LookAt (cam_position cd) (target cd) (up_vector cd) # cmds)"
proof -
  have inv: "world_inv c (world s)" by (rule reachable_world_inv [OF assms])
  then obtain cd where cd: "camera (scene (world s)) = CameraObj cd"
    by (auto simp: world_inv_def split: camera_slot.splits)
  have "r \<in> set (scene_figures (scene (world s))) \<Longrightarrow> figure_color (heap (world s) ! r)" for r
    using inv by (auto simp: world_inv_def sel_inv_def Let_def)
  then have "\<exists>css. rmap (\<lambda>r. draw_custom (scene_style (scene (world s))) (heap (world s) ! r))
                       (scene_figures (scene (world s))) = Inr css"
    by (intro rmap_ok draw_custom_ok)
  then show ?thesis using cd by (auto simp: scene_draw_def apply_transformations_def)
qed

theorem reachable_scene_draw_witness:
  "\<exists>s. ctrl_reachable demo_settings default_camera_data s
      \<and> (\<exists>cd cmds. camera (scene (world s)) = CameraObj cd
           \<and> scene_draw (world s) = Inr (LookAt (cam_position cd) (target cd) (up_vector cd) # cmds))"
proof -
  obtain s where s: "ctrl_init demo_settings default_camera_data = Inr s" using ctrl_init_ok by blast
  show ?thesis using reachable_scene_draw [OF ctrl_reachable.init [OF s]] ctrl_reachable.init [OF s] by blast
qed

text \<open>
  C20. Liveness of the exit key: in every reachable state without a save file, pressing
  a key bound to \<open>exit\<close> (no modifier held) is handled without an exception and leaves
  the main loop, whatever other keys are held, so no further event is delivered.
\<close>

theorem reachable_exit_stops:
  assumes "ctrl_reachable st c s" "file_name s = None"
    and "kb_keyboard (Some k) 0 = Some (k', None)" "action_keys st k' = Some ''exit''"
  shows "\<exists>s'. ctrl_step st (KeyDownEv (Some k) 0) s = Inr s' \<and> \<not> running s'"
proof -
  let ?s1 = "s\<lparr>pressed_keys := oset_add k' (pressed_keys s)\<rparr>"
  have inv: "world_inv c (world ?s1)" using reachable_world_inv [OF assms(1)] by simp
  have f: "file_name ?s1 = None" using assms(2) by simp
  obtain s' where s': "handle_actions_loop st None (pressed_keys ?s1) ?s1 = Inr s'"
    "running s' = (running ?s1 \<and> (\<forall>k \<in> set (pressed_keys ?s1). action_keys st k \<noteq> Some ''exit''))"
    using handle_actions_exit [OF inv f] by blast
  have "k' \<in> set (pressed_keys ?s1)" by (simp add: oset_add_def)
  then show ?thesis using s' assms(3,4) by (auto simp: handle_keyboard_def Let_def)
qed

theorem reachable_exit_stops_witness:
  "\<exists>s s'. ctrl_reachable demo_settings default_camera_data s \<and> file_name s = None
      \<and> kb_keyboard (Some ''q'') 0 = Some (''q'', None) \<and> action_keys demo_settings ''q'' = Some ''exit''
      \<and> ctrl_step demo_settings (KeyDownEv (Some ''q'') 0) s = Inr s' \<and> \<not> running s'"
proof -
  obtain s where s: "ctrl_init demo_settings default_camera_data = Inr s" using ctrl_init_ok by blast
  have r: "ctrl_reachable demo_settings default_camera_data s" by (rule ctrl_reachable.init [OF s])
  have f: "file_name s = None" using s by (auto simp: ctrl_init_def rbind_eq_Inr)
  have k: "kb_keyboard (Some ''q'') 0 = Some (''q'', None)" by (simp add: kb_keyboard_def keys_map_str)
  have a: "action_keys demo_settings ''q'' = Some ''exit''" by (simp add: demo_settings_def)
  show ?thesis using reachable_exit_stops [OF r f k a] r f k a by blast
qed

text \<open>
  C21. Saving before the first frame: with a file name chosen in the menu, pressing the
  exit key before any frame has been displayed makes \<open>stop_scene\<close> call \<open>save_scene\<close>,
  whose \<open>get_scene\<close> splits \<open>last_screen\<close>, still \<open>None\<close>: \<open>AttributeError\<close>.
\<close>

theorem exit_before_first_frame_fails:
  assumes "ctrl_init st c = Inr s" "n \<noteq> []"
    and "kb_keyboard (Some k) 0 = Some (k', None)" "action_keys st k' = Some ''exit''"
  shows "ctrl_reachable st c (set_file_name n s)
         \<and> ctrl_step st (KeyDownEv (Some k) 0) (set_file_name n s) = Inl (AttributeError ''split'')"
proof
  show "ctrl_reachable st c (set_file_name n s)" by (rule ctrl_reachable.named [OF assms(1)])
  have "pressed_keys s = [] \<and> last_screen s = None" using assms(1) by (auto simp: ctrl_init_def rbind_eq_Inr)
  then show "ctrl_step st (KeyDownEv (Some k) 0) (set_file_name n s) = Inl (AttributeError ''split'')"
    using assms(2-4)
    by (simp add: handle_keyboard_def Let_def oset_add_def set_file_name_def execute_command_def
        action_values_def run_action_def stop_scene_def save_scene_def)
qed

theorem exit_before_first_frame_fails_witness:
  "\<exists>s. ctrl_init demo_settings default_camera_data = Inr s
      \<and> ctrl_reachable demo_settings default_camera_data (set_file_name ''scene.txt'' s)
      \<and> ctrl_step demo_settings (KeyDownEv (Some ''q'') 0) (set_file_name ''scene.txt'' s)
          = Inl (AttributeError ''split'')"
proof -
  obtain s where s: "ctrl_init demo_settings default_camera_data = Inr s" using ctrl_init_ok by blast
  have k: "kb_keyboard (Some ''q'') 0 = Some (''q'', None)" by (simp add: kb_keyboard_def keys_map_str)
  have a: "action_keys demo_settings ''q'' = Some ''exit''" by (simp add: demo_settings_def)
  show ?thesis using exit_before_first_frame_fails [OF s _ k a, of "''scene.txt''"] s by auto
qed

end
