(* ===== verification/AsciiMenu.thy ===== *)
theory AsciiMenu
  imports Controller
begin

text \<open>
  The console menu of lab 5 and the program around it: \<open>Ascii3DMenu\<close> of
  \<open>src/src/labs/lab5/ui/Ascii3DMenu.py\<close>, the two controller methods it calls that the event
  loop does not (\<open>set_height\<close>, \<open>make_scene\<close>), and \<open>main\<close> of \<open>src/src/labs/lab5/init.py\<close>.
  The program state is the settings file, the controller and the printed lines. The
  input classes of \<open>shared\<close> are outside the repository: their answers are inputs of the
  model (the yes/no answer, the file name, and the height as \<open>int()\<close> converts it, or
  \<open>None\<close> when the conversion raises). \<open>glutMainLoop\<close> delivers the user's events until
  the \<open>exit\<close> command leaves it; with events left over after that it has returned, and
  when the events run out first it never returns (\<open>Diverges\<close>).
\<close>

section \<open>State\<close>

record lab5_app =
  app_settings :: settings
  app_ctrl :: ctrl_state
  app_out :: "string list"

section \<open>Controller methods called from the menu\<close>

text \<open>\<open>set_height(number)\<close>: the settings file and the renderer both get the new height.\<close>

definition ctrl_set_height :: "int \<Rightarrow> lab5_app \<Rightarrow> lab5_app" where
  "ctrl_set_height n a =
     a\<lparr>app_settings := (app_settings a)\<lparr>st_ascii_height := Some n\<rparr>,
       app_ctrl := (app_ctrl a)\<lparr>renderer := set_ascii_height n (renderer (app_ctrl a))\<rparr>\<rparr>"

text \<open>\<open>glut_init()\<close>: a window of the configured size, whose viewport it is, and the
  projection from the configured field of view and the window's aspect.\<close>

definition glut_init :: "settings \<Rightarrow> ctrl_state \<Rightarrow> ctrl_state" where
  "glut_init st s =
     s\<lparr>gl_viewport := (0, 0, st_width st, st_height st),
       gl_projection := glu_perspective (st_fov st) (of_int (st_width st) / of_int (st_height st)) (st_z_near st) (st_z_far st),
       win_width := st_width st, win_height := st_height st\<rparr>"

text \<open>\<open>glutMainLoop()\<close>: one handler per event while the loop runs.\<close>

fun main_loop :: "settings \<Rightarrow> ctrl_event list \<Rightarrow> ctrl_state \<Rightarrow> ctrl_state result" where
  "main_loop st [] s = (if running s then Inl Diverges else Inr s)"
| "main_loop st (e # es) s = (if running s then rbind (ctrl_step st e s) (main_loop st es) else Inr s)"

text \<open>\<open>make_scene()\<close>: \<open>glut_init\<close>, the handlers, and the main loop.\<close>

definition ctrl_make_scene :: "settings \<Rightarrow> ctrl_event list \<Rightarrow> ctrl_state \<Rightarrow> ctrl_state result" where
  "ctrl_make_scene st evs s = main_loop st evs ((glut_init st s)\<lparr>running := True\<rparr>)"

section \<open>The menu\<close>

text \<open>Option 1, \<open>make_scene\<close>: without a file name the user is asked whether they want to
  save, and answering yes returns to the menu; with one, the file is announced.\<close>

definition menu_make_scene :: "bool \<Rightarrow> ctrl_event list \<Rightarrow> lab5_app \<Rightarrow> lab5_app result" where
  "menu_make_scene answer evs a =
     (let run = (\<lambda>a'. rbind (ctrl_make_scene (app_settings a') evs (app_ctrl a')) (\<lambda>s. Inr (a'\<lparr>app_ctrl := s\<rparr>)))
      in case file_name (app_ctrl a) of
           Some n \<Rightarrow> if n = [] then (if answer then Inr a else run a)
                     else run (a\<lparr>app_out := app_out a @ [''Will save your scene in '' @ n]\<rparr>)
         | None \<Rightarrow> if answer then Inr a else run a)"

text \<open>Option 2, \<open>save_scene\<close>: the name typed, with \<open>.txt\<close> appended.\<close>

definition menu_save_scene :: "string \<Rightarrow> lab5_app \<Rightarrow> lab5_app" where
  "menu_save_scene name a = a\<lparr>app_ctrl := set_file_name (name @ ''.txt'') (app_ctrl a)\<rparr>"

text \<open>Option 3, \<open>set_height\<close>: a height that \<open>int()\<close> rejects is ignored.\<close>

definition menu_set_height :: "int option \<Rightarrow> lab5_app \<Rightarrow> lab5_app" where
  "menu_set_height h a = (case h of None \<Rightarrow> a | Some n \<Rightarrow> ctrl_set_height n a)"

datatype menu_choice = MakeScene bool "ctrl_event list" | SpecifyFile string | SetHeight "int option"

fun menu_step :: "menu_choice \<Rightarrow> lab5_app \<Rightarrow> lab5_app result" where
  "menu_step (MakeScene ans evs) a = menu_make_scene ans evs a"
| "menu_step (SpecifyFile n) a = Inr (menu_save_scene n a)"
| "menu_step (SetHeight h) a = Inr (menu_set_height h a)"

text \<open>\<open>show()\<close>: the choices in order, then one of the stop options.\<close>

fun menu_show :: "menu_choice list \<Rightarrow> lab5_app \<Rightarrow> lab5_app result" where
  "menu_show [] a = Inr a"
| "menu_show (c # cs) a = rbind (menu_step c a) (menu_show cs)"

text \<open>\<open>init.main()\<close>: the scene of \<open>create_scene\<close>, the controller over it, and the menu.\<close>

definition lab5_main :: "settings \<Rightarrow> camera_data \<Rightarrow> menu_choice list \<Rightarrow> lab5_app result" where
  "lab5_main st c cs = rbind (ctrl_init st c) (\<lambda>s. menu_show cs \<lparr>app_settings = st, app_ctrl = s, app_out = []\<rparr>)"

text \<open>Two controller states whose renderers have the same output height.\<close>

abbreviation same_height :: "ctrl_state \<Rightarrow> ctrl_state \<Rightarrow> bool" where
  "same_height s s' \<equiv> ascii_height (renderer s') = ascii_height (renderer s)"

section \<open>Lemmas\<close>

text \<open>Only \<open>reshape\<close> touches the renderer, and only its window size: no event changes the
  output height.\<close>

lemma height_reset_perspective: "reset_perspective s = Inr s' \<Longrightarrow> same_height s s'"
  by (auto simp: reset_perspective_def split: camera_slot.splits)

lemma height_run_action: "run_action a s = Inr s' \<Longrightarrow> same_height s s'"
  by (cases a)
     (auto simp: run_action_def rbind_eq_Inr change_camera_perspective_def stop_scene_def save_scene_def Let_def
      dest!: height_reset_perspective split: option.splits if_splits)

lemma height_execute_command: "execute_command n s = Inr s' \<Longrightarrow> same_height s s'"
  by (auto simp: execute_command_def dest: height_run_action split: option.splits)

lemma height_handle_actions: "handle_actions_loop st mods ks s = Inr s' \<Longrightarrow> same_height s s'"
proof (induction ks arbitrary: s)
  case (Cons k ks)
  show ?case
  proof (cases "mods = None \<and> action_keys st k \<noteq> None")
    case True
    then obtain a s1 where "execute_command a s = Inr s1" "handle_actions_loop st mods ks s1 = Inr s'"
      using Cons.prems by (auto simp: rbind_eq_Inr)
    then show ?thesis using Cons.IH height_execute_command by metis
  next
    case False
    then show ?thesis using Cons
      by (auto dest: height_execute_command split: option.splits if_splits)
  qed
qed simp

lemma height_ctrl_step: "ctrl_step st e s = Inr s' \<Longrightarrow> same_height s s'"
  by (cases e)
     (auto simp: ctrl_handle_mouse_def ctrl_handle_motion_def handle_wheel_def handle_keyboard_def
        handle_keyboard_up_def ctrl_reshape_def renderer_reshape_def ctrl_display_def Let_def rbind_eq_Inr
      dest!: height_execute_command height_handle_actions split: option.splits camera_slot.splits prod.splits)

lemma height_main_loop: "main_loop st evs s = Inr s' \<Longrightarrow> same_height s s'"
proof (induction st evs s rule: main_loop.induct)
  case (2 st e es s)
  then show ?case by (auto simp: rbind_eq_Inr split: if_splits dest: height_ctrl_step)
qed (simp split: if_splits)

text \<open>The controller invariant of \<open>Controller\<close> survives the menu: a scene session keeps it,
  and the menu's own options do not touch the world.\<close>

lemma world_inv_main_loop:
  "world_inv c0 (world s) \<Longrightarrow> main_loop st evs s = Inr s' \<Longrightarrow> world_inv c0 (world s')"
proof (induction st evs s rule: main_loop.induct)
  case (2 st e es s)
  then show ?case by (auto simp: rbind_eq_Inr split: if_splits dest: world_inv_ctrl_step)
qed (simp split: if_splits)

lemma world_inv_make_scene:
  "world_inv c0 (world s) \<Longrightarrow> ctrl_make_scene st evs s = Inr s' \<Longrightarrow> world_inv c0 (world s')"
  unfolding ctrl_make_scene_def by (erule world_inv_main_loop [rotated]) (simp add: glut_init_def)

lemma world_inv_menu_step:
  "world_inv c0 (world (app_ctrl a)) \<Longrightarrow> menu_step ch a = Inr a' \<Longrightarrow> world_inv c0 (world (app_ctrl a'))"
  by (cases ch)
     (auto simp: menu_make_scene_def menu_save_scene_def set_file_name_def menu_set_height_def ctrl_set_height_def
        Let_def rbind_eq_Inr split: option.splits if_splits dest: world_inv_make_scene)

lemma world_inv_menu_show:
  "world_inv c0 (world (app_ctrl a)) \<Longrightarrow> menu_show cs a = Inr a' \<Longrightarrow> world_inv c0 (world (app_ctrl a'))"
  by (induction cs arbitrary: a) (auto simp: rbind_eq_Inr dest: world_inv_menu_step)

text \<open>A session of the scenario below: height 12, no file, the scene made, \<open>q\<close> pressed.\<close>

lemma demo_menu_run:
  assumes "ctrl_init demo_settings default_camera_data = Inr s"
  shows "\<exists>a'. menu_show [SetHeight (Some 12), MakeScene False [KeyDownEv (Some ''q'') 0]]
                 \<lparr>app_settings = demo_settings, app_ctrl = s, app_out = []\<rparr> = Inr a'"
proof -
  let ?st = "demo_settings\<lparr>st_ascii_height := Some 12\<rparr>"
  let ?s0 = "(glut_init ?st (s\<lparr>renderer := set_ascii_height 12 (renderer s)\<rparr>))\<lparr>running := True\<rparr>"
  let ?s1 = "?s0\<lparr>pressed_keys := oset_add ''q'' (pressed_keys ?s0)\<rparr>"
  have f: "file_name s = None" and p: "pressed_keys s = []" using assms by (auto simp: ctrl_init_def rbind_eq_Inr)
  have inv: "world_inv default_camera_data (world ?s1)"
    using ctrl_init_world_inv [OF assms] by (simp add: glut_init_def)
  have f1: "file_name ?s1 = None" using f by (simp add: glut_init_def)
  obtain s' where s': "handle_actions_loop ?st None (pressed_keys ?s1) ?s1 = Inr s'"
      "running s' = (running ?s1 \<and> (\<forall>k \<in> set (pressed_keys ?s1). action_keys ?st k \<noteq> Some ''exit''))"
    using handle_actions_exit [OF inv f1] by blast
  have k: "kb_keyboard (Some ''q'') 0 = Some (''q'', None)" by (simp add: kb_keyboard_def keys_map_str)
  have "ctrl_step ?st (KeyDownEv (Some ''q'') 0) ?s0 = Inr s'" using s'(1) k by (simp add: handle_keyboard_def)
  moreover have "\<not> running s'" using s'(2) p by (simp add: oset_add_def glut_init_def demo_settings_def)
  ultimately have "main_loop ?st [KeyDownEv (Some ''q'') 0] ?s0 = Inr s'" by simp
  then have "ctrl_make_scene ?st [KeyDownEv (Some ''q'') 0] (s\<lparr>renderer := set_ascii_height 12 (renderer s)\<rparr>) = Inr s'"
    by (simp only: ctrl_make_scene_def)
  then show ?thesis using f
    by (simp add: menu_set_height_def ctrl_set_height_def menu_make_scene_def Let_def)
qed

section \<open>Properties\<close>

text \<open>
  C22. The whole lab 5 program keeps the controller invariant: whatever the user does in
  the menu (file names, heights, any number of scene sessions, each with any events), the
  state \<open>init.main\<close> ends in has at most one selected figure, the one the scene reports,
  seven figures in the store, every figure drawn in its own colour, and a camera in range
  when the configured one is.
\<close>

theorem lab5_program_world_inv:
  assumes "lab5_main st c cs = Inr a"
  shows "world_inv c (world (app_ctrl a))"
proof -
  obtain s where s: "ctrl_init st c = Inr s" "menu_show cs \<lparr>app_settings = st, app_ctrl = s, app_out = []\<rparr> = Inr a"
    using assms by (auto simp: lab5_main_def rbind_eq_Inr)
  have "world_inv c (world (app_ctrl \<lparr>app_settings = st, app_ctrl = s, app_out = []\<rparr>))"
    using ctrl_init_world_inv [OF s(1)] by simp
  then show ?thesis using world_inv_menu_show s(2) by blast
qed

theorem lab5_program_world_inv_witness:
  "\<exists>a. lab5_main demo_settings default_camera_data [SetHeight (Some 12), MakeScene False [KeyDownEv (Some ''q'') 0]] = Inr a
     \<and> world_inv default_camera_data (world (app_ctrl a))"
proof -
  obtain s where s: "ctrl_init demo_settings default_camera_data = Inr s" using ctrl_init_ok by blast
  obtain a where a: "lab5_main demo_settings default_camera_data [SetHeight (Some 12), MakeScene False [KeyDownEv (Some ''q'') 0]] = Inr a"
    using demo_menu_run [OF s] s by (auto simp: lab5_main_def)
  show ?thesis using lab5_program_world_inv [OF a] a by blast
qed

text \<open>
  C23. The height chosen in the menu reaches the scene: after option 3 with a height
  \<open>int()\<close> accepts, a scene session (whatever its events and however it is started) renders
  with that height, and the settings file holds it.
\<close>

theorem set_height_reaches_scene:
  assumes "menu_show [SetHeight (Some n), MakeScene ans evs] a = Inr a'"
  shows "ascii_height (renderer (app_ctrl a')) = Some n \<and> st_ascii_height (app_settings a') = Some n"
  using assms
  by (auto simp: menu_set_height_def ctrl_set_height_def set_ascii_height_def menu_make_scene_def ctrl_make_scene_def
        glut_init_def Let_def rbind_eq_Inr split: option.splits if_splits dest!: height_main_loop)

theorem set_height_reaches_scene_witness:
  "\<exists>s a'. ctrl_init demo_settings default_camera_data = Inr s
     \<and> menu_show [SetHeight (Some 12), MakeScene False [KeyDownEv (Some ''q'') 0]]
         \<lparr>app_settings = demo_settings, app_ctrl = s, app_out = []\<rparr> = Inr a'
     \<and> ascii_height (renderer (app_ctrl a')) = Some 12 \<and> st_ascii_height (app_settings a') = Some 12"
proof -
  obtain s where s: "ctrl_init demo_settings default_camera_data = Inr s" using ctrl_init_ok by blast
  obtain a' where a: "menu_show [SetHeight (Some 12), MakeScene False [KeyDownEv (Some ''q'') 0]]
         \<lparr>app_settings = demo_settings, app_ctrl = s, app_out = []\<rparr> = Inr a'"
    using demo_menu_run [OF s] by blast
  show ?thesis using set_height_reaches_scene [OF a] s a by blast
qed

end
