(* ===== verification/Font.thy ===== *)
theory Font
  imports Prelude
begin

text \<open>
  The bitmap font of lab 4, \<open>base_font\<close> in \<open>src/src/labs/lab4/bll/base_font.py\<close>: a
  dictionary with the glyph height and width, a name, a line-breaking flag and the
  table \<open>symbols\<close> from one-character strings to the rows of the glyph. The table is kept
  as an association list in source order, keyed by the Unicode code point of the
  character (the Ukrainian letters are outside the 8-bit characters of HOL strings);
  each group of glyphs below is one stretch of the source. A glyph is well formed when it
  has \<open>height\<close> rows of \<open>width\<close> characters drawn from space and \<open>@\<close>.
\<close>

section \<open>The table\<close>

record font_data =
  font_height :: nat
  font_width :: nat
  font_name :: string
  breaks_lines :: bool
  font_symbols :: "(nat \<times> string list) list"

text \<open>Glyphs for the digits 0 to 9 (source lines 7 to 76).\<close>

definition font_digits :: "(nat \<times> string list) list" where
  "font_digits =
     [(48, ['' @@@@@'', ''@   @ '', ''@ @ @ '', ''@   @ '', '' @@@  '']),
      (49, [''  @@@@'', '' @@   '', ''  @   '', ''  @   '', ''@@@@  '']),
      (50, ['' @@@@@'', ''@   @ '', ''  @@  '', '' @    '', ''@@@@@ '']),
      (51, [''@@@@@@'', ''   @  '', '' @@@  '', ''   @  '', ''@@@@  '']),
      (52, [''@  @@ '', ''@  @  '', ''@@@@  '', ''   @  '', ''   @  '']),
      (53, [''@@@@@@'', ''@     '', ''@@@@  '', ''   @  '', ''@@@@  '']),
      (54, ['' @@@@@'', ''@     '', ''@@@@  '', ''@   @ '', '' @@@  '']),
      (55, [''@@@@@@'', ''   @  '', '' @@@@ '', ''  @   '', '' @    '']),
      (56, ['' @@@@@'', ''@   @ '', '' @@@  '', ''@   @ '', '' @@@  '']),
      (57, ['' @@@@@'', ''@   @ '', '' @@@  '', ''   @  '', '' @@@  ''])]"

text \<open>Glyphs for the Latin letters a to m (source lines 77 to 167).\<close>

definition font_latin_a_m :: "(nat \<times> string list) list" where
  "font_latin_a_m =
     [(97, [''  @@@@'', '' @ @  '', ''@@@@@ '', ''@   @ '', ''@   @ '']),
      (98, [''@@@@@@'', ''@   @ '', ''@@@@  '', ''@   @ '', ''@@@@  '']),
      (99, ['' @@@@@'', ''@     '', ''@     '', ''@     '', '' @@@  '']),
      (100, [''@@@@@@'', ''@   @ '', ''@   @ '', ''@   @ '', ''@@@@  '']),
      (101, [''@@@@@@'', ''@     '', ''@@@@  '', ''@     '', ''@@@@@ '']),
      (102, [''@@@@@@'', ''@     '', ''@@@@  '', ''@     '', ''@     '']),
      (103, ['' @@@@@'', ''@     '', ''@  @@ '', ''@   @ '', '' @@@  '']),
      (104, [''@   @@'', ''@   @ '', ''@@@@@ '', ''@   @ '', ''@   @ '']),
      (105, ['' @@@@@'', ''  @   '', ''  @   '', ''  @   '', '' @@@  '']),
      (106, ['' @@@@@'', ''  @   '', ''  @   '', ''  @   '', ''@@    '']),
      (107, [''@   @@'', ''@  @  '', ''@@    '', ''@  @  '', ''@   @ '']),
      (108, [''@@    '', ''@     '', ''@     '', ''@     '', ''@@@@@ '']),
      (109, [''@   @@'', ''@@ @@ '', ''@ @ @ '', ''@   @ '', ''@   @ ''])]"

text \<open>Glyphs for the Latin letters n to z (source lines 168 to 258).\<close>

definition font_latin_n_z :: "(nat \<times> string list) list" where
  "font_latin_n_z =
     [(110, [''@   @@'', ''@@  @ '', ''@ @ @ '', ''@  @@ '', ''@   @ '']),
      (111, ['' @@@@@'', ''@   @ '', ''@   @ '', ''@   @ '', '' @@@  '']),
      (112, [''@@@@@@'', ''@   @ '', ''@@@@  '', ''@     '', ''@     '']),
      (113, ['' @@@@@'', ''@   @ '', ''@   @ '', ''@@@@@ '', ''     @'']),
      (114, [''@@@@@@'', ''@   @ '', ''@@@@  '', ''@  @  '', ''@   @ '']),
      (115, ['' @@@@@'', ''@     '', '' @@@  '', ''    @ '', ''@@@@  '']),
      (116, [''@@@@@@'', ''  @   '', ''  @   '', ''  @   '', ''  @   '']),
      (117, [''@   @@'', ''@   @ '', ''@   @ '', ''@   @ '', '' @@@  '']),
      (118, [''@   @@'', ''@   @ '', '' @ @  '', '' @ @  '', ''  @   '']),
      (119, [''@   @@'', ''@   @ '', ''@ @ @ '', ''@@ @@ '', ''@   @ '']),
      (120, [''@   @@'', '' @ @  '', ''  @   '', '' @ @  '', ''@   @ '']),
      (121, [''@   @@'', '' @ @  '', ''  @   '', ''  @   '', ''  @   '']),
      (122, [''@@@@@@'', ''   @  '', ''  @   '', '' @    '', ''@@@@@ ''])]"

text \<open>Glyphs for the Ukrainian letters from a to el (source lines 259 to 370).\<close>

definition font_cyrillic_a_l :: "(nat \<times> string list) list" where
  "font_cyrillic_a_l =
     [(1072, [''  @@@@'', '' @  @ '', ''@@@@@ '', ''@   @ '', ''@   @ '']),
      (1073, [''@@@@@@'', ''@     '', ''@@@@  '', ''@   @ '', ''@@@@  '']),
      (1074, [''@@@@@@'', ''@   @ '', ''@@@@  '', ''@   @ '', ''@@@@  '']),
      (1075, [''@@@@@@'', ''@     '', ''@     '', ''@     '', ''@     '']),
      (1169, [''@@@@@@'', ''@     '', ''@     '', ''@     '', ''@     '']),
      (1076, ['' @@@@@'', '' @ @  '', '' @ @  '', ''@@@@@ '', ''@   @ '']),
      (1077, ['' @@@@@'', ''@   @ '', ''@@@@@ '', ''@     '', '' @@@  '']),
      (1108, ['' @@@@@'', ''@     '', ''@@@@  '', ''@     '', '' @@@  '']),
      (1078, [''@ @ @@'', '' @@@  '', ''  @   '', '' @@@  '', ''@ @ @ '']),
      (1079, ['' @@@@@'', ''    @ '', ''  @@  '', ''    @ '', '' @@@  '']),
      (1080, [''@   @@'', ''@  @@ '', ''@ @ @ '', ''@   @ '', ''@   @ '']),
      (1110, [''  @@@'', ''      '', ''  @   '', ''  @   '', ''  @   '']),
      (1111, [''  @ @'', ''      '', ''  @   '', ''  @   '', ''  @   '']),
      (1081, ['' @@@@@'', ''      '', ''@ @@  '', ''@@ @  '', ''@  @  '']),
      (1082, [''@   @@'', ''@  @  '', ''@@    '', ''@  @  '', ''@   @ '']),
      (1083, [''   @@@'', ''  @@  '', '' @ @  '', ''@  @  '', ''@  @  ''])]"

text \<open>Glyphs for the Ukrainian letters from em to the soft sign (source lines 371 to 475).\<close>

definition font_cyrillic_m_soft :: "(nat \<times> string list) list" where
  "font_cyrillic_m_soft =
     [(1084, [''@   @@'', ''@@ @@ '', ''@ @ @ '', ''@   @ '', ''@   @ '']),
      (1085, [''@   @@'', ''@   @ '', ''@@@@@ '', ''@   @ '', ''@   @ '']),
      (1086, ['' @@@@@'', ''@   @ '', ''@   @ '', ''@   @ '', '' @@@  '']),
      (1087, [''@@@@@@'', ''@   @ '', ''@   @ '', ''@   @ '', ''@   @ '']),
      (1088, [''@@@@@@'', ''@   @ '', ''@@@@  '', ''@     '', ''@     '']),
      (1089, ['' @@@@@'', ''@     '', ''@     '', ''@     '', '' @@@  '']),
      (1090, [''@@@@@@'', ''  @   '', ''  @   '', ''  @   '', ''  @   '']),
      (1091, [''@   @@'', ''@   @ '', '' @ @  '', ''  @   '', '' @    '']),
      (1092, ['' @@@@@'', ''@ @ @ '', '' @@@  '', ''  @   '', ''  @   '']),
      (1093, [''@   @@'', '' @ @  '', ''  @   '', '' @ @  '', ''@   @ '']),
      (1094, [''@  @@@'', ''@  @  '', ''@  @  '', ''@@@@  '', ''    @ '']),
      (1095, [''@   @@'', ''@   @ '', ''@@@@@ '', ''    @ '', ''    @ '']),
      (1096, [''@ @ @@'', ''@ @ @ '', ''@ @ @ '', ''@ @ @ '', ''@@@@@ '']),
      (1097, [''@ @ @@'', ''@ @ @ '', ''@ @ @ '', ''@@@@@ '', ''    @ '']),
      (1100, [''@     '', ''@     '', ''@@@@@ '', ''@  @  '', ''@@@   ''])]"

text \<open>Glyphs for space and punctuation (source lines 476 to 552).\<close>

definition font_punctuation :: "(nat \<times> string list) list" where
  "font_punctuation =
     [(32, [''      '', ''      '', ''      '', ''      '', ''      '']),
      (46, [''      '', ''      '', ''      '', ''  @   '', ''  @   '']),
      (44, [''      '', ''      '', ''      '', ''  @   '', '' @    '']),
      (33, [''  @   '', ''  @   '', ''  @   '', ''      '', ''  @   '']),
      (63, ['' @@@@ '', ''    @ '', ''  @@  '', ''      '', ''  @   '']),
      (58, [''      '', ''  @   '', ''      '', ''  @   '', ''      '']),
      (59, [''      '', ''  @   '', ''      '', ''  @   '', '' @    '']),
      (45, [''      '', ''      '', '' @@@  '', ''      '', ''      '']),
      (95, [''      '', ''      '', ''      '', ''      '', '' @@@@ '']),
      (40, [''   @  '', ''  @   '', ''  @   '', ''  @   '', ''   @  '']),
      (41, [''  @   '', ''   @  '', ''   @  '', ''   @  '', ''  @   ''])]"

definition base_font :: font_data where
  "base_font =
     \<lparr>font_height = 5, font_width = 6, font_name = ''cap_font'', breaks_lines = True,
      font_symbols = font_digits @ font_latin_a_m @ font_latin_n_z @ font_cyrillic_a_l @ font_cyrillic_m_soft @ font_punctuation\<rparr>"

section \<open>Well-formed glyphs\<close>

definition glyph_wf :: "font_data \<Rightarrow> string list \<Rightarrow> bool" where
  "glyph_wf fd g \<longleftrightarrow>
     length g = font_height fd
     \<and> list_all (\<lambda>r. length r = font_width fd \<and> list_all (\<lambda>c. c = CHR '' '' \<or> c = CHR ''@'') r) g"

text \<open>The lower-case Ukrainian alphabet, 33 letters, as code points in alphabetical order.\<close>

definition ukrainian_lower :: "nat list" where
  "ukrainian_lower =
     [1072, 1073, 1074, 1075, 1169, 1076, 1077, 1108, 1078, 1079, 1080, 1110, 1111, 1081, 1082,
      1083, 1084, 1085, 1086, 1087, 1088, 1089, 1090, 1091, 1092, 1093, 1094, 1095, 1096, 1097,
      1100, 1102, 1103]"

section \<open>Properties\<close>

text \<open>
  The table is a proper dictionary (no character listed twice) and every glyph is
  well formed except those of \<open>\<close>\<^emph>\<open>i\<close> (U+0456) and \<^emph>\<open>yi\<close> (U+0457), whose
  first row is five characters wide instead of six.
\<close>

theorem font_glyph_shapes:
  "distinct (map fst (font_symbols base_font))
   \<and> map fst (filter (\<lambda>(k, g). \<not> glyph_wf base_font g) (font_symbols base_font)) = [1110, 1111]"
  by (simp add: base_font_def glyph_wf_def font_digits_def font_latin_a_m_def font_latin_n_z_def font_cyrillic_a_l_def font_cyrillic_m_soft_def font_punctuation_def)

text \<open>
  Of the 33 lower-case letters of the Ukrainian alphabet the table has 31: there is no
  glyph for \<^emph>\<open>yu\<close> (U+044E) or \<^emph>\<open>ya\<close> (U+044F).
\<close>

theorem font_missing_letters:
  "filter (\<lambda>c. c \<notin> set (map fst (font_symbols base_font))) ukrainian_lower = [1102, 1103]"
  by (simp add: base_font_def ukrainian_lower_def font_digits_def font_latin_a_m_def font_latin_n_z_def font_cyrillic_a_l_def font_cyrillic_m_soft_def font_punctuation_def)

end
