(* ===== verification/Json.thy ===== *)
theory Json
  imports Ascii
begin

text \<open>
  The values the lab 7 client handles: what \<open>json.loads\<close> returns for a Google Books
  response or a settings file, with objects as association lists in the order of the
  document (the shape of Nano JSON). The Python operations the client applies to them
  are written out once here: \<open>d.get(k, default)\<close>, \<open>d[k]\<close>, truth values, iteration,
  \<open>str\<close> and \<open>repr\<close>. Numbers are integers (the fields the client reads are strings,
  lists of strings and counts); \<open>repr\<close> of a string always uses single quotes.
\<close>

section \<open>Values\<close>

datatype json =
    JNull
  | JBool bool
  | JInt int
  | JStr string
  | JList "json list"
  | JObj "(string \<times> json) list"

text \<open>
  A key of a decoded dict: \<open>json.loads\<close> keeps the last binding of a repeated key. Also
  used for the string-to-string dicts of the settings.
\<close>

definition obj_lookup :: "('k \<times> 'v) list \<Rightarrow> 'k \<Rightarrow> 'v option" where
  "obj_lookup kvs k = map_of (rev kvs) k"

text \<open>\<open>d[k] = v\<close>: the value is replaced in place, a new key goes last.\<close>

definition obj_set :: "(string \<times> json) list \<Rightarrow> string \<Rightarrow> json \<Rightarrow> (string \<times> json) list" where
  "obj_set kvs k v =
     (if k \<in> set (map fst kvs) then map (\<lambda>(k', v'). if k' = k then (k', v) else (k', v')) kvs
      else kvs @ [(k, v)])"

section \<open>Operations\<close>

text \<open>\<open>d.get(k, default)\<close>: only a dict has \<open>get\<close>.\<close>

fun py_get :: "json \<Rightarrow> string \<Rightarrow> json \<Rightarrow> json result" where
  "py_get (JObj kvs) k dflt = Inr (case obj_lookup kvs k of None \<Rightarrow> dflt | Some v \<Rightarrow> v)"
| "py_get _ k dflt = Inl (AttributeError ''get'')"

text \<open>\<open>d[k]\<close> with a string key.\<close>

fun py_subscript :: "json \<Rightarrow> string \<Rightarrow> json result" where
  "py_subscript (JObj kvs) k = (case obj_lookup kvs k of None \<Rightarrow> Inl (KeyError k) | Some v \<Rightarrow> Inr v)"
| "py_subscript (JList _) k = Inl (TypeError ''list indices must be integers or slices, not str'')"
| "py_subscript (JStr _) k = Inl (TypeError ''string indices must be integers'')"
| "py_subscript _ k = Inl (TypeError ''object is not subscriptable'')"

text \<open>\<open>bool(v)\<close>: empty containers, the empty string, zero and \<open>None\<close> are false.\<close>

fun py_truthy :: "json \<Rightarrow> bool" where
  "py_truthy JNull = False"
| "py_truthy (JBool b) = b"
| "py_truthy (JInt i) = (i \<noteq> 0)"
| "py_truthy (JStr s) = (s \<noteq> [])"
| "py_truthy (JList xs) = (xs \<noteq> [])"
| "py_truthy (JObj kvs) = (kvs \<noteq> [])"

text \<open>\<open>for x in v\<close>: a dict yields its keys, a string its characters.\<close>

fun py_iter :: "json \<Rightarrow> json list result" where
  "py_iter (JList xs) = Inr xs"
| "py_iter (JObj kvs) = Inr (map (\<lambda>(k, _). JStr k) kvs)"
| "py_iter (JStr s) = Inr (map (\<lambda>c. JStr [c]) s)"
| "py_iter _ = Inl (TypeError ''object is not iterable'')"

text \<open>\<open>sep.join(xs)\<close> for a separator string.\<close>

fun str_join :: "string \<Rightarrow> string list \<Rightarrow> string" where
  "str_join sep [] = []"
| "str_join sep [x] = x"
| "str_join sep (x # y # xs) = x @ sep @ str_join sep (y # xs)"

definition int_str :: "int \<Rightarrow> string" where
  "int_str i = (if i < 0 then CHR ''-'' # dec (nat (- i)) else dec (nat i))"

definition str_repr :: "string \<Rightarrow> string" where
  "str_repr s = CHR 0x27 # s @ [CHR 0x27]"

fun py_repr :: "json \<Rightarrow> string" where
  "py_repr JNull = ''None''"
| "py_repr (JBool b) = (if b then ''True'' else ''False'')"
| "py_repr (JInt i) = int_str i"
| "py_repr (JStr s) = str_repr s"
| "py_repr (JList xs) = ''['' @ str_join '', '' (map py_repr xs) @ '']''"
| "py_repr (JObj kvs) = ''{'' @ str_join '', '' (map (\<lambda>(k, v). str_repr k @ '': '' @ py_repr v) kvs) @ ''}''"

text \<open>\<open>str(v)\<close> and f-string interpolation: a string is itself, anything else its \<open>repr\<close>.\<close>

fun py_str :: "json \<Rightarrow> string" where
  "py_str (JStr s) = s"
| "py_str v = py_repr v"

text \<open>\<open>str(e)\<close> of an exception, as \<open>raise Exception(str(e))\<close> passes it on.\<close>

fun err_msg :: "py_error \<Rightarrow> string" where
  "err_msg (ValueError s) = s"
| "err_msg (TypeError s) = s"
| "err_msg IndexError = ''list index out of range''"
| "err_msg (AttributeError s) = s"
| "err_msg (UnboundLocalError s) = s"
| "err_msg (KeyError k) = str_repr k"
| "err_msg (Exception s) = s"
| "err_msg EOFError = []"
| "err_msg Diverges = []"

section \<open>Lemmas\<close>

lemma py_iter_truthy_iff: "py_iter v = Inr xs \<Longrightarrow> py_truthy v = (xs \<noteq> [])"
  by (cases v) auto

lemma py_iter_truthy: "py_truthy v \<Longrightarrow> py_iter v = Inr xs \<Longrightarrow> xs \<noteq> []"
  by (cases v) auto

end
