(* ===== verification/BooksQuery.thy ===== *)
theory BooksQuery
  imports Json
begin

text \<open>
  Querying and flattening search results: \<open>InputParser\<close> of
  \<open>src/src/labs/lab7/bll/InputParser.py\<close> and \<open>extract_data_items\<close> of
  \<open>src/src/labs/lab7/bll/ItemExtraction.py\<close>. The regular-expression engine is a
  parameter: \<open>rx pattern text\<close> says whether \<open>re.search(pattern, text)\<close> finds a match
  (the user interface checks a pattern with \<open>is_regex\<close> before it is stored). A field
  path is a dotted string such as \<open>items.volumeInfo.title\<close>.
\<close>

type_synonym regex_search = "string \<Rightarrow> string \<Rightarrow> bool"

section \<open>InputParser\<close>

text \<open>\<open>_get_nested_value\<close>: descend through dicts; a missing key gives \<open>None\<close> and
  anything that is not a dict ends the walk with \<open>None\<close>.\<close>

fun get_nested_value :: "json \<Rightarrow> string list \<Rightarrow> json" where
  "get_nested_value d [] = d"
| "get_nested_value (JObj kvs) (f # fs) =
     get_nested_value (case obj_lookup kvs f of None \<Rightarrow> JNull | Some v \<Rightarrow> v) fs"
| "get_nested_value _ (f # fs) = JNull"

definition matches_query :: "regex_search \<Rightarrow> json \<Rightarrow> string list \<Rightarrow> string \<Rightarrow> bool" where
  "matches_query rx item fl q = rx q (py_str (get_nested_value item fl))"

text \<open>\<open>parse_query(data, field, query)\<close>: the items of \<open>data\<close> (the keys, for a dict)
  whose field matches.\<close>

definition parse_query :: "regex_search \<Rightarrow> json \<Rightarrow> string \<Rightarrow> string \<Rightarrow> json result" where
  "parse_query rx data field q =
     rbind (py_iter data)
       (\<lambda>items. Inr (JList (filter (\<lambda>it. matches_query rx it (py_split CHR ''.'' field) q) items)))"

section \<open>extract_data_items\<close>

text \<open>The keys of a field path, without a leading \<open>items\<close>.\<close>

definition field_keys :: "string \<Rightarrow> string list" where
  "field_keys path = (let keys = py_split CHR ''.'' path in if hd keys = ''items'' then tl keys else keys)"

text \<open>\<open>value = value.get(key, "")\<close> along the keys: a missing key gives the empty string,
  whose \<open>get\<close> then raises.\<close>

fun get_path :: "json \<Rightarrow> string list \<Rightarrow> json result" where
  "get_path v [] = Inr v"
| "get_path v (k # ks) = rbind (py_get v k (JStr [])) (\<lambda>v'. get_path v' ks)"

text \<open>\<open>row[field] = value\<close> for a dict row, \<open>row.append(value)\<close> for a list row.\<close>

fun row_add :: "json \<Rightarrow> string \<Rightarrow> json \<Rightarrow> json" where
  "row_add (JObj kvs) f v = JObj (obj_set kvs f v)"
| "row_add (JList xs) f v = JList (xs @ [v])"
| "row_add r f v = r"

text \<open>The inner loop over the selected fields; a field without a (non-empty) path is
  skipped.\<close>

fun extract_row :: "(string \<times> string) list \<Rightarrow> bool \<Rightarrow> json \<Rightarrow> json \<Rightarrow> string list \<Rightarrow> json result" where
  "extract_row fd to_str item row [] = Inr row"
| "extract_row fd to_str item row (f # fs) =
     (case obj_lookup fd f of
        None \<Rightarrow> extract_row fd to_str item row fs
      | Some p \<Rightarrow>
          if p = [] then extract_row fd to_str item row fs
          else rbind (get_path item (field_keys p)) (\<lambda>v.
                 extract_row fd to_str item (row_add row f (if to_str then JStr (py_str v) else v)) fs))"

definition extract_data_items ::
  "json \<Rightarrow> string list \<Rightarrow> (string \<times> string) list \<Rightarrow> bool \<Rightarrow> bool \<Rightarrow> json list result" where
  "extract_data_items data sel fd to_dict to_str =
     rbind (py_get data ''items'' (JList [])) (\<lambda>items.
     rbind (py_iter items) (\<lambda>its.
       rmap (\<lambda>it. extract_row fd to_str it (if to_dict then JObj [] else JList []) sel) its))"

section \<open>Lemmas\<close>

text \<open>The selected fields that have a path, and so a column.\<close>

abbreviation has_path :: "(string \<times> string) list \<Rightarrow> string \<Rightarrow> bool" where
  "has_path fd f \<equiv> (\<exists>p. obj_lookup fd f = Some p \<and> p \<noteq> [])"

lemma extract_row_list:
  assumes "\<forall>f \<in> set fs. \<forall>p. obj_lookup fd f = Some p \<longrightarrow> p \<noteq> [] \<longrightarrow> (\<exists>v. get_path it (field_keys p) = Inr v)"
  shows "\<exists>vs'. extract_row fd ts it (JList vs) fs = Inr (JList (vs @ vs'))
           \<and> length vs' = length (filter (has_path fd) fs)"
  using assms
proof (induction fs arbitrary: vs)
  case Nil
  then show ?case by simp
next
  case (Cons f fs)
  show ?case
  proof (cases "obj_lookup fd f")
    case None
    then show ?thesis using Cons by auto
  next
    case (Some p)
    show ?thesis
    proof (cases "p = []")
      case True
      then show ?thesis using Cons Some by auto
    next
      case False
      then obtain v where v: "get_path it (field_keys p) = Inr v" using Cons.prems Some by auto
      let ?w = "if ts then JStr (py_str v) else v"
      obtain vs' where "extract_row fd ts it (JList (vs @ [?w])) fs = Inr (JList (vs @ [?w] @ vs'))"
          "length vs' = length (filter (has_path fd) fs)"
        using Cons.IH [of "vs @ [?w]"] Cons.prems by auto
      then show ?thesis using Some False v by (intro exI [of _ "?w # vs'"]) simp
    qed
  qed
qed

lemma extract_row_Inr:
  "extract_row fd ts it (JList acc) fs = Inr r \<Longrightarrow>
   \<exists>vs'. r = JList (acc @ vs') \<and> length vs' = length (filter (has_path fd) fs)"
proof (induction fs arbitrary: acc)
  case Nil
  then show ?case by simp
next
  case (Cons f fs)
  then show ?case
    by (fastforce simp: rbind_eq_Inr split: option.splits if_splits dest!: Cons.IH)
qed

lemma extract_data_items_first_row:
  "extract_data_items data sel fd False ts = Inr (r # rows) \<Longrightarrow>
   \<exists>vs. r = JList vs \<and> length vs = length (filter (has_path fd) sel)"
proof -
  assume "extract_data_items data sel fd False ts = Inr (r # rows)"
  then obtain its where "rmap (\<lambda>it. extract_row fd ts it (JList []) sel) its = Inr (r # rows)"
    by (auto simp: extract_data_items_def rbind_eq_Inr)
  then obtain it its' where "its = it # its'" "extract_row fd ts it (JList []) sel = Inr r"
    by (cases its) (auto simp: rbind_eq_Inr)
  then show ?thesis using extract_row_Inr [of fd ts it "[]" sel r] by auto
qed

lemma extract_data_items_rows:
  "extract_data_items data sel fd False ts = Inr rows \<Longrightarrow>
   \<forall>r \<in> set rows. \<exists>vs. r = JList vs \<and> length vs = length (filter (has_path fd) sel)"
proof
  fix r assume "extract_data_items data sel fd False ts = Inr rows" "r \<in> set rows"
  then obtain it where "extract_row fd ts it (JList []) sel = Inr r"
    by (auto simp: extract_data_items_def rbind_eq_Inr dest!: rmap_Inr_set)
  then show "\<exists>vs. r = JList vs \<and> length vs = length (filter (has_path fd) sel)"
    using extract_row_Inr [of fd ts it "[]" sel r] by auto
qed

lemma get_path_missing_parent:
  "obj_lookup kvs k = None \<Longrightarrow> get_path (JObj kvs) (k # k' # ks) = Inl (AttributeError ''get'')"
  by simp

section \<open>Properties\<close>

text \<open>
  C24. In list mode, when every item has every selected path, \<open>extract_data_items\<close>
  gives one row per item, each with one value per selected field that has a path in
  the fields dictionary, in the order of the selection.
\<close>

theorem extract_rows_shape:
  assumes "obj_lookup kvs ''items'' = Some (JList its)"
    and "\<forall>it \<in> set its. \<forall>f \<in> set sel. \<forall>p. obj_lookup fd f = Some p \<longrightarrow> p \<noteq> []
           \<longrightarrow> (\<exists>v. get_path it (field_keys p) = Inr v)"
  shows "\<exists>rows. extract_data_items (JObj kvs) sel fd False ts = Inr rows \<and> length rows = length its
           \<and> (\<forall>r \<in> set rows. \<exists>vs. r = JList vs \<and> length vs = length (filter (has_path fd) sel))"
proof -
  have "\<exists>r. extract_row fd ts it (JList []) sel = Inr r
            \<and> (\<exists>vs. r = JList vs \<and> length vs = length (filter (has_path fd) sel))" if "it \<in> set its" for it
    using extract_row_list [of sel fd it ts "[]"] assms(2) that by auto
  then show ?thesis using rmap_all [of its "\<lambda>it. extract_row fd ts it (JList []) sel"]
    by (simp add: extract_data_items_def assms(1))
qed

theorem extract_rows_shape_witness:
  "\<exists>rows. extract_data_items
     (JObj [(''items'', JList [JObj [(''volumeInfo'', JObj [(''title'', JStr ''Python'')])]])])
     [''Title'', ''Rating''] [(''Title'', ''items.volumeInfo.title'')] False False = Inr rows
     \<and> length rows = 1 \<and> (\<forall>r \<in> set rows. \<exists>vs. r = JList vs \<and> length vs = 1)"
  using extract_rows_shape [of "[(''items'', JList [JObj [(''volumeInfo'', JObj [(''title'', JStr ''Python'')])]])]"
      "[JObj [(''volumeInfo'', JObj [(''title'', JStr ''Python'')])]]" "[''Title'', ''Rating'']"
      "[(''Title'', ''items.volumeInfo.title'')]" False]
  by (simp add: obj_lookup_def field_keys_def Let_def)

text \<open>
  A selected field whose path passes through a key the item lacks does not give an
  empty value: the missing key yields \<open>""\<close>, whose \<open>get\<close> raises \<open>AttributeError\<close>, and
  the whole extraction fails (a book without \<open>saleInfo.listPrice\<close> and the field
  \<open>saleInfo.listPrice.amount\<close>, say).
\<close>

theorem extract_missing_parent_fails:
  assumes "obj_lookup fd f = Some p" "field_keys p = k # k' # ks" "obj_lookup kvs k = None"
  shows "extract_row fd ts (JObj kvs) row (f # fs) = Inl (AttributeError ''get'')"
  using assms by (cases "p = []") (auto simp: field_keys_def get_path_missing_parent)

theorem extract_missing_parent_fails_witness:
  "extract_row [(''Price'', ''items.saleInfo.listPrice.amount'')] False
     (JObj [(''saleInfo'', JObj [(''saleability'', JStr ''FREE'')])]) (JList []) [''Price'']
   = Inl (AttributeError ''get'')"
  using extract_missing_parent_fails [of "[(''Price'', ''items.saleInfo.listPrice.amount'')]" "''Price''"
      "''items.saleInfo.listPrice.amount''" "''saleInfo''" "''listPrice''" "[''amount'']"
      "[(''saleability'', JStr ''FREE'')]" False "JList []" "[]"]
  by (simp add: obj_lookup_def field_keys_def)

end
