(* ===== verification/Styler.thy ===== *)
theory Styler
  imports BooksQuery
begin

text \<open>
  \<open>DataStyler\<close> of \<open>src/src/labs/lab7/bll/DataStyler.py\<close>: the colour and attribute
  tables, \<open>apply_styles\<close>, \<open>remove_styles\<close> and \<open>as_list\<close>. The escape codes are
  colorama's constants, written out from its documentation: \<open>Fore.RED\<close> is
  \<open>ESC[31m\<close>, \<open>Style.BRIGHT\<close> is \<open>ESC[1m\<close>, \<open>Style.RESET_ALL\<close> is \<open>ESC[0m\<close>, and so on.
  \<open>remove_styles\<close> substitutes the pattern \<open>\x1B[@-_][0-?]*[ -/]*[@-~]\<close>; because the
  three character classes after the introducer are disjoint ranges, the regular
  expression matches exactly the greedy scan \<open>ansi_match\<close> below, and \<open>re.sub\<close> is the
  left-to-right loop that deletes each match. \<open>as_table\<close> hands its rows and headers to
  the \<open>tabulate\<close> library, whose grid drawing is a parameter of the model.
\<close>

section \<open>Tables\<close>

definition sgr :: "nat \<Rightarrow> string" where
  "sgr n = esc # CHR ''['' # dec n @ ''m''"

definition colorama_fore_colors :: "(string \<times> string) list" where
  "colorama_fore_colors =
     [(''red'', sgr 31), (''blue'', sgr 34), (''green'', sgr 32), (''yellow'', sgr 33),
      (''white'', sgr 37), (''magenta'', sgr 35), (''cyan'', sgr 36), (''black'', sgr 30)]"

definition text_attributes_tbl :: "(string \<times> string) list" where
  "text_attributes_tbl = [(''bold'', sgr 1), (''dim'', sgr 2), (''normal'', sgr 22)]"

record styler =
  fore_colors :: "(string \<times> string) list"
  text_attributes :: "(string \<times> string) list"

definition styler_default :: styler where
  "styler_default = \<lparr>fore_colors = colorama_fore_colors, text_attributes = text_attributes_tbl\<rparr>"

definition get_available_fore_colors :: "styler \<Rightarrow> string list" where
  "get_available_fore_colors st = map fst (fore_colors st)"

section \<open>Styling\<close>

text \<open>\<open>table.get(key, default)\<close> with a key read from the settings: a list or dict key is
  unhashable; a key of another type is simply absent.\<close>

definition style_lookup :: "(string \<times> string) list \<Rightarrow> json \<Rightarrow> string \<Rightarrow> string result" where
  "style_lookup tbl key dflt =
     (case key of
        JStr k \<Rightarrow> Inr (case obj_lookup tbl k of None \<Rightarrow> dflt | Some c \<Rightarrow> c)
      | JList _ \<Rightarrow> Inl (TypeError ''unhashable type: list'')
      | JObj _ \<Rightarrow> Inl (TypeError ''unhashable type: dict'')
      | _ \<Rightarrow> Inr dflt)"

definition apply_styles :: "styler \<Rightarrow> string \<Rightarrow> json \<Rightarrow> string result" where
  "apply_styles st field looks =
     rbind (py_get looks field (JObj [])) (\<lambda>style.
     rbind (py_get style ''color'' (JStr ''white'')) (\<lambda>c.
     rbind (style_lookup (fore_colors st) c (sgr 37)) (\<lambda>fore.
     rbind (py_get style ''font'' (JStr ''normal'')) (\<lambda>fn.
     rbind (style_lookup (text_attributes st) fn (sgr 22)) (\<lambda>font.
       Inr (font @ fore @ field @ sgr 0))))))"

section \<open>Removing styles\<close>

definition in_range :: "nat \<Rightarrow> nat \<Rightarrow> char \<Rightarrow> bool" where
  "in_range lo hi c \<longleftrightarrow> lo \<le> of_char c \<and> of_char c \<le> hi"

text \<open>The length of the escape sequence at the start of a string, if one starts there.\<close>

fun ansi_match :: "string \<Rightarrow> nat option" where
  "ansi_match (e # c # rest) =
     (if e = esc \<and> in_range 0x40 0x5F c then
        (let ps = takeWhile (in_range 0x30 0x3F) rest;
             r1 = drop (length ps) rest;
             is = takeWhile (in_range 0x20 0x2F) r1
         in case drop (length is) r1 of
              f # _ \<Rightarrow> if in_range 0x40 0x7E f then Some (length ps + length is + 3) else None
            | [] \<Rightarrow> None)
      else None)"
| "ansi_match _ = None"

function remove_styles :: "string \<Rightarrow> string" where
  "remove_styles [] = []"
| "remove_styles (c # cs) =
     (case ansi_match (c # cs) of
        Some n \<Rightarrow> remove_styles (drop n (c # cs))
      | None \<Rightarrow> c # remove_styles cs)"
  by pat_completeness auto
termination
proof (relation "measure length")
  fix c cs n
  assume "ansi_match (c # cs) = Some n"
  then show "(drop n (c # cs), c # cs) \<in> measure length"
    by (cases cs) (auto simp: Let_def split: if_splits list.splits)
qed simp_all

section \<open>The list view\<close>

text \<open>\<open>item[i]\<close> of a list row.\<close>

fun row_index :: "json \<Rightarrow> nat \<Rightarrow> json result" where
  "row_index (JList vs) i = (if i < length vs then Inr (vs ! i) else Inl IndexError)"
| "row_index _ i = Inl (TypeError ''object is not subscriptable'')"

text \<open>A list value is joined with \<open>", "\<close>, which needs strings; anything else is
  interpolated with \<open>str\<close>.\<close>

fun json_strs :: "json list \<Rightarrow> string list result" where
  "json_strs [] = Inr []"
| "json_strs (JStr s # vs) = rbind (json_strs vs) (\<lambda>ss. Inr (s # ss))"
| "json_strs (_ # vs) = Inl (TypeError ''sequence item: expected str instance'')"

fun value_text :: "json \<Rightarrow> string result" where
  "value_text (JList vs) = rbind (json_strs vs) (\<lambda>ss. Inr (str_join '', '' ss))"
| "value_text v = Inr (py_str v)"

text \<open>The inner loop of \<open>as_list\<close> over \<open>enumerate(selected_fields)\<close>, from index \<open>i\<close>.\<close>

fun list_item :: "styler \<Rightarrow> json \<Rightarrow> json \<Rightarrow> nat \<Rightarrow> string list \<Rightarrow> string result" where
  "list_item st looks row i [] = Inr []"
| "list_item st looks row i (f # fs) =
     rbind (apply_styles st f looks) (\<lambda>title.
     rbind (row_index row i) (\<lambda>v.
     rbind (value_text v) (\<lambda>vt.
     rbind (list_item st looks row (Suc i) fs) (\<lambda>rest.
       Inr (title @ '': '' @ vt @ ''\<newline>'' @ rest)))))"

definition as_list :: "styler \<Rightarrow> json \<Rightarrow> string list \<Rightarrow> json \<Rightarrow> (string \<times> string) list \<Rightarrow> string result" where
  "as_list st data sel looks fd =
     rbind (extract_data_items data sel fd False False) (\<lambda>rows.
     rbind (rmap (\<lambda>row. rbind (list_item st looks row 0 sel) (\<lambda>s. Inr (s @ ''\<newline>''))) rows) (\<lambda>blocks.
       Inr (concat blocks)))"

section \<open>The table view\<close>

text \<open>\<open>tabulate(rows, headers, tablefmt="grid")\<close>: the grid is drawn by the library.\<close>

type_synonym grid_tabulate = "json list list \<Rightarrow> string list \<Rightarrow> string"

text \<open>A cell of \<open>as_table\<close>: a list value is joined with \<open>", "\<close>, anything else is
  handed to \<open>tabulate\<close> as it is.\<close>

fun table_cell :: "json \<Rightarrow> json result" where
  "table_cell (JList vs) = rbind (json_strs vs) (\<lambda>ss. Inr (JStr (str_join '', '' ss)))"
| "table_cell v = Inr v"

definition as_table ::
  "grid_tabulate \<Rightarrow> styler \<Rightarrow> json \<Rightarrow> string list \<Rightarrow> json \<Rightarrow> (string \<times> string) list \<Rightarrow> string result" where
  "as_table tab st data sel looks fd =
     rbind (extract_data_items data sel fd False False) (\<lambda>rows.
     rbind (rmap (\<lambda>f. apply_styles st f looks) sel) (\<lambda>headers.
     rbind (rmap (\<lambda>item. rbind (py_iter item) (rmap table_cell)) rows) (\<lambda>formatted.
       Inr (tab formatted headers))))"

section \<open>Lemmas\<close>

lemma ansi_match_plain: "c \<noteq> esc \<Longrightarrow> ansi_match (c # cs) = None"
  by (cases cs) auto

lemma remove_styles_plain: "esc \<notin> set f \<Longrightarrow> remove_styles (f @ rest) = f @ remove_styles rest"
  by (induction f) (auto simp: ansi_match_plain)

lemma dec_in_params: "\<forall>x \<in> set (dec n). in_range 0x30 0x3F x"
proof
  fix x assume "x \<in> set (dec n)"
  then obtain d :: nat where "d < 10" "x = char_of (48 + d)" using dec_digit by blast
  then show "in_range 0x30 0x3F x" by (simp add: in_range_def)
qed

text \<open>A control sequence \<open>ESC [ params m\<close> is one match of the pattern.\<close>

lemma ansi_match_csi:
  assumes "\<forall>x \<in> set ps. in_range 0x30 0x3F x"
  shows "ansi_match (esc # CHR ''['' # ps @ CHR ''m'' # rest) = Some (length ps + 3)"
proof -
  have p: "takeWhile (in_range 0x30 0x3F) (ps @ CHR ''m'' # rest) = ps"
    using assms by (simp add: takeWhile_append2 in_range_def)
  show ?thesis by (simp add: p in_range_def esc_def)
qed

lemma remove_styles_csi:
  assumes "\<forall>x \<in> set ps. in_range 0x30 0x3F x"
  shows "remove_styles (esc # CHR ''['' # ps @ CHR ''m'' # rest) = remove_styles rest"
proof -
  have "remove_styles (esc # CHR ''['' # ps @ CHR ''m'' # rest)
        = remove_styles (drop (length ps + 3) (esc # CHR ''['' # ps @ CHR ''m'' # rest))"
    by (subst remove_styles.simps(2)) (simp only: ansi_match_csi [OF assms] option.case)
  then show ?thesis by (simp add: numeral_3_eq_3)
qed

lemma remove_styles_sgr [simp]: "remove_styles (sgr n @ rest) = remove_styles rest"
  using remove_styles_csi [OF dec_in_params [of n]] by (simp add: sgr_def)

text \<open>A cell of the lab 5 renderer: its colour code and reset vanish, its glyph stays.\<close>

lemma remove_styles_cell:
  assumes "ch \<noteq> esc"
  shows "remove_styles (ascii_cell col ch @ rest) = ch # remove_styles rest"
proof -
  obtain r g b where col: "col = (r, g, b)" by (cases col) auto
  let ?ps = "''38;2;'' @ dec (unat r) @ '';'' @ dec (unat g) @ '';'' @ dec (unat b)"
  have ps: "\<forall>x \<in> set ?ps. in_range 0x30 0x3F x"
    using dec_in_params [of "unat r"] dec_in_params [of "unat g"] dec_in_params [of "unat b"]
    by (auto simp: in_range_def)
  have z: "\<forall>x \<in> set ''0''. in_range 0x30 0x3F x" by (simp add: in_range_def)
  have "ascii_cell col ch @ rest = esc # CHR ''['' # ?ps @ CHR ''m'' # ch # esc # CHR ''['' # ''0'' @ CHR ''m'' # rest"
    by (simp add: ascii_cell_def col)
  then show ?thesis
    using remove_styles_csi [OF ps] remove_styles_csi [OF z] assms by (simp add: ansi_match_plain)
qed

lemma remove_styles_cells:
  "\<forall>x \<in> set xs. snd x \<noteq> esc \<Longrightarrow>
   remove_styles (concat (map (\<lambda>x. ascii_cell (fst x) (snd x)) xs) @ rest) = map snd xs @ remove_styles rest"
  by (induction xs) (simp_all add: remove_styles_cell)

lemma remove_styles_sgr_only [simp]: "remove_styles (sgr n) = []"
  using remove_styles_sgr [of n "[]"] by simp

lemma style_lookup_sgr:
  "\<forall>c \<in> set (map snd tbl). \<exists>k. c = sgr k \<Longrightarrow> style_lookup tbl key (sgr d) = Inr c \<Longrightarrow> \<exists>k. c = sgr k"
  by (auto simp: style_lookup_def obj_lookup_def split: json.splits option.splits dest!: map_of_SomeD)
     (metis snd_conv)

lemma styler_default_sgr:
  "\<forall>c \<in> set (map snd (fore_colors styler_default)). \<exists>k. c = sgr k"
  "\<forall>c \<in> set (map snd (text_attributes styler_default)). \<exists>k. c = sgr k"
  by (auto simp: styler_default_def colorama_fore_colors_def text_attributes_tbl_def)

text \<open>The inner loop of \<open>as_list\<close> on a row shorter than the selection reaches
  \<open>item[len(item)]\<close>.\<close>

lemma list_item_short:
  assumes "\<forall>f \<in> set fs. \<exists>t. apply_styles st f looks = Inr t" "\<forall>v \<in> set vs. \<exists>t. value_text v = Inr t"
    and "i \<le> length vs" "length vs < i + length fs"
  shows "list_item st looks (JList vs) i fs = Inl IndexError"
  using assms
proof (induction fs arbitrary: i)
  case Nil
  then show ?case by simp
next
  case (Cons f fs)
  obtain t where t: "apply_styles st f looks = Inr t" using Cons.prems(1) by auto
  show ?case
  proof (cases "i < length vs")
    case True
    then obtain vt where "value_text (vs ! i) = Inr vt" using Cons.prems(2) nth_mem by blast
    moreover have "list_item st looks (JList vs) (Suc i) fs = Inl IndexError"
      using Cons.IH [of "Suc i"] Cons.prems True by simp
    ultimately show ?thesis using t True by simp
  next
    case False
    then show ?thesis using t by simp
  qed
qed

section \<open>Properties\<close>

text \<open>
  C25. Styling round trip: whatever the field styles say, \<open>remove_styles\<close> takes the
  output of \<open>apply_styles\<close> of the default styler back to the field name, for a name
  without an escape character.
\<close>

theorem styles_roundtrip:
  assumes "apply_styles styler_default f looks = Inr s" "esc \<notin> set f"
  shows "remove_styles s = f"
proof -
  obtain fore font where s: "s = font @ fore @ f @ sgr 0"
    and "\<exists>c. style_lookup (fore_colors styler_default) c (sgr 37) = Inr fore"
    and "\<exists>c. style_lookup (text_attributes styler_default) c (sgr 22) = Inr font"
    using assms(1) by (auto simp: apply_styles_def rbind_eq_Inr)
  then obtain k1 k2 where "fore = sgr k1" "font = sgr k2"
    using style_lookup_sgr styler_default_sgr by metis
  then show ?thesis using assms(2) by (simp add: s remove_styles_plain)
qed

theorem styles_roundtrip_witness:
  "\<exists>s. apply_styles styler_default ''Title''
          (JObj [(''Title'', JObj [(''color'', JStr ''red''), (''font'', JStr ''bold'')])]) = Inr s
      \<and> esc \<notin> set ''Title'' \<and> remove_styles s = ''Title''"
proof -
  obtain s where s: "apply_styles styler_default ''Title''
          (JObj [(''Title'', JObj [(''color'', JStr ''red''), (''font'', JStr ''bold'')])]) = Inr s"
    by (simp add: apply_styles_def styler_default_def style_lookup_def obj_lookup_def)
  have e: "esc \<notin> set ''Title''" by (simp add: esc_def)
  show ?thesis using styles_roundtrip [OF s e] s e by blast
qed

text \<open>
  C26. A selected field without a path in the fields dictionary breaks \<open>as_list\<close>: the
  rows are built without a column for it, so the values shift one title to the left
  and \<open>item[i]\<close> runs past the end of the first row with \<open>IndexError\<close>.
\<close>

theorem as_list_missing_path_fails:
  assumes "extract_data_items data sel fd False False = Inr (JList vs # rows)"
    and "f \<in> set sel" "\<not> has_path fd f"
    and "\<forall>f \<in> set sel. \<exists>t. apply_styles st f looks = Inr t" "\<forall>v \<in> set vs. \<exists>t. value_text v = Inr t"
  shows "as_list st data sel looks fd = Inl IndexError"
proof -
  have "length vs = length (filter (has_path fd) sel)"
    using extract_data_items_first_row [OF assms(1)] by auto
  also have "\<dots> < length sel" using assms(2,3) by (auto intro: length_filter_less)
  finally have "list_item st looks (JList vs) 0 sel = Inl IndexError"
    using list_item_short [OF assms(4,5)] by simp
  then show ?thesis using assms(1) by (simp add: as_list_def)
qed

theorem as_list_missing_path_fails_witness:
  "as_list styler_default
     (JObj [(''items'', JList [JObj [(''volumeInfo'', JObj [(''title'', JStr ''Python'')])]])])
     [''Rating'', ''Title''] (JObj []) [(''Title'', ''items.volumeInfo.title'')] = Inl IndexError"
proof -
  let ?d = "JObj [(''items'', JList [JObj [(''volumeInfo'', JObj [(''title'', JStr ''Python'')])]])]"
  have x: "extract_data_items ?d [''Rating'', ''Title''] [(''Title'', ''items.volumeInfo.title'')] False False
           = Inr [JList [JStr ''Python'']]"
    by (simp add: extract_data_items_def obj_lookup_def field_keys_def)
  have r: "\<not> has_path [(''Title'', ''items.volumeInfo.title'')] ''Rating''" by (simp add: obj_lookup_def)
  have a: "\<forall>f \<in> set [''Rating'', ''Title'']. \<exists>t. apply_styles styler_default f (JObj []) = Inr t"
    by (simp add: apply_styles_def style_lookup_def obj_lookup_def)
  show ?thesis using as_list_missing_path_fails [OF x _ r a] by simp
qed

text \<open>
  C27. A selected field without a path in the fields dictionary does not break
  \<open>as_table\<close> as it breaks \<open>as_list\<close>: the headers are all the selected fields but every
  row handed to \<open>tabulate\<close> is shorter, so the values after the missing column stand
  under the header of the field before them.
\<close>

theorem as_table_missing_path_shifts:
  assumes "extract_data_items data sel fd False False = Inr rows"
    and "f \<in> set sel" "\<not> has_path fd f"
    and "\<forall>f \<in> set sel. \<exists>t. apply_styles st f looks = Inr t"
    and "\<forall>r \<in> set rows. \<forall>v \<in> set (case r of JList vs \<Rightarrow> vs | _ \<Rightarrow> []). \<exists>c. table_cell v = Inr c"
  shows "\<exists>cells hdrs. as_table tab st data sel looks fd = Inr (tab cells hdrs)
           \<and> length hdrs = length sel \<and> (\<forall>c \<in> set cells. length c < length hdrs)"
proof -
  let ?n = "length (filter (has_path fd) sel)"
  let ?fmt = "\<lambda>item. rbind (py_iter item) (rmap table_cell)"
  obtain hdrs where h: "rmap (\<lambda>f. apply_styles st f looks) sel = Inr hdrs" "length hdrs = length sel"
    using rmap_all [of sel "\<lambda>f. apply_styles st f looks" "\<lambda>_. True"] assms(4) by auto
  have fmt: "\<exists>c. ?fmt r = Inr c \<and> length c = ?n" if "r \<in> set rows" for r
  proof -
    have "\<exists>vs. r = JList vs \<and> length vs = ?n"
      by (rule bspec [OF extract_data_items_rows [OF assms(1)] that])
    then obtain vs where r: "r = JList vs" "length vs = ?n" by (elim exE conjE)
    have "\<forall>v \<in> set vs. \<exists>c. table_cell v = Inr c" using assms(5) that r(1) by simp
    then obtain c where "rmap table_cell vs = Inr c" "length c = length vs"
      using rmap_all [of vs table_cell "\<lambda>_. True"] by auto
    then show ?thesis using r by simp
  qed
  obtain cells where c: "rmap ?fmt rows = Inr cells" "\<forall>c \<in> set cells. length c = ?n"
    using rmap_all [of rows ?fmt "\<lambda>c. length c = ?n", OF fmt] by blast
  have "?n < length sel" using assms(2,3) by (auto intro: length_filter_less)
  then have "\<forall>c \<in> set cells. length c < length hdrs" using c(2) h(2) by simp
  moreover have "as_table tab st data sel looks fd = Inr (tab cells hdrs)"
    unfolding as_table_def using assms(1) h(1) c(1) by simp
  ultimately show ?thesis using h(2) by blast
qed

theorem as_table_missing_path_shifts_witness:
  "\<exists>(cells :: json list list) hdrs. as_table (\<lambda>cs hs. str_join ''|'' hs) styler_default
       (JObj [(''items'', JList [JObj [(''volumeInfo'', JObj [(''title'', JStr ''Python'')])]])])
       [''Rating'', ''Title''] (JObj []) [(''Title'', ''items.volumeInfo.title'')]
       = Inr ((\<lambda>cs hs. str_join ''|'' hs) cells hdrs)
     \<and> length hdrs = 2 \<and> (\<forall>c \<in> set cells. length c < length hdrs)"
proof -
  let ?d = "JObj [(''items'', JList [JObj [(''volumeInfo'', JObj [(''title'', JStr ''Python'')])]])]"
  have x: "extract_data_items ?d [''Rating'', ''Title''] [(''Title'', ''items.volumeInfo.title'')] False False
           = Inr [JList [JStr ''Python'']]"
    by (simp add: extract_data_items_def obj_lookup_def field_keys_def)
  have r: "\<not> has_path [(''Title'', ''items.volumeInfo.title'')] ''Rating''" by (simp add: obj_lookup_def)
  have a: "\<forall>f \<in> set [''Rating'', ''Title'']. \<exists>t. apply_styles styler_default f (JObj []) = Inr t"
    by (simp add: apply_styles_def style_lookup_def obj_lookup_def)
  have c: "\<forall>r \<in> set [JList [JStr ''Python'']]. \<forall>v \<in> set (case r of JList vs \<Rightarrow> vs | _ \<Rightarrow> []).
             \<exists>c. table_cell v = Inr c" by simp
  show ?thesis using as_table_missing_path_shifts [OF x _ r a c, of "\<lambda>cs hs. str_join ''|'' hs"] by (simp add: numeral_2_eq_2)
qed

end
