(* ===== verification/BooksModels.thy ===== *)
theory BooksModels
  imports Styler
begin

text \<open>
  The data layer and the HTTP client of lab 7: \<open>HistoryModel\<close>, \<open>SettingsModel\<close> and
  \<open>UserSettingsModel\<close> of \<open>src/src/labs/lab7/dal\<close>, \<open>FileHandler\<close>, and
  \<open>GoogleBooksAPI\<close> of \<open>src/src/labs/lab7/bll/GoogleBooksAPI.py\<close>. The JSON files behind
  the models (read and written through the shared \<open>DictJsonDataAccess\<close>) are the
  records' fields: a getter reads a field and a setter replaces it. The network is a
  parameter \<open>http\<close>: what \<open>requests.get\<close> with the given query parameters does.
\<close>

section \<open>Python slicing\<close>

text \<open>\<open>xs[a:b]\<close>: negative bounds count from the end, bounds are clipped to the list.\<close>

definition py_slice_bound :: "nat \<Rightarrow> int \<Rightarrow> nat" where
  "py_slice_bound n i = (if i < 0 then nat (max 0 (int n + i)) else min n (nat i))"

definition py_slice :: "'a list \<Rightarrow> int \<Rightarrow> int \<Rightarrow> 'a list" where
  "py_slice xs a b =
     (let lo = py_slice_bound (length xs) a; hi = py_slice_bound (length xs) b in take (hi - lo) (drop lo xs))"

section \<open>History\<close>

record history_model =
  hist_events :: "json list"
  hist_results_to_save :: int

definition py_opt_str :: "string option \<Rightarrow> json" where
  "py_opt_str s = (case s of None \<Rightarrow> JNull | Some x \<Rightarrow> JStr x)"

text \<open>The event \<open>add\<close> stores, a dict in this key order.\<close>

definition history_event :: "string \<Rightarrow> string option \<Rightarrow> string option \<Rightarrow> string list \<Rightarrow> json \<Rightarrow> json" where
  "history_event q rx rf fs results =
     JObj [(''query'', JStr q), (''regex'', py_opt_str rx), (''regex_field'', py_opt_str rf),
           (''fields'', JList (map JStr fs)), (''results'', results)]"

text \<open>\<open>add\<close>: \<open>history[1 : results_to_save - 1]\<close>, then the new event.\<close>

definition history_add :: "json \<Rightarrow> history_model \<Rightarrow> history_model" where
  "history_add ev h = h\<lparr>hist_events := py_slice (hist_events h) 1 (hist_results_to_save h - 1) @ [ev]\<rparr>"

definition clear_history :: "history_model \<Rightarrow> history_model" where
  "clear_history h = h\<lparr>hist_events := []\<rparr>"

section \<open>Settings\<close>

text \<open>The read-only application settings (\<open>SettingsModel\<close>'s getters).\<close>

record books_settings =
  bs_fields :: "(string \<times> string) list"
  bs_languages :: "string list"
  bs_max_results :: int
  bs_default_save_dir :: string
  bs_default_file_name :: string
  bs_results_to_save :: int
  bs_logger_path :: "string option"

definition get_fields_keys :: "books_settings \<Rightarrow> string list" where
  "get_fields_keys st = map fst (bs_fields st)"

text \<open>The user settings (\<open>UserSettingsModel\<close>): the selected fields of the two views,
  which views are printed, the language, the number of results and the field styles.\<close>

record user_settings =
  us_table_fields :: "string list"
  us_list_fields :: "string list"
  us_is_table_print :: bool
  us_is_list_print :: bool
  us_lang :: string
  us_items_amount :: int
  us_field_styles :: json

definition set_table_fields :: "string list \<Rightarrow> user_settings \<Rightarrow> user_settings" where
  "set_table_fields fs u = u\<lparr>us_table_fields := fs\<rparr>"

definition set_list_fields :: "string list \<Rightarrow> user_settings \<Rightarrow> user_settings" where
  "set_list_fields fs u = u\<lparr>us_list_fields := fs\<rparr>"

definition set_is_table_print :: "bool \<Rightarrow> user_settings \<Rightarrow> user_settings" where
  "set_is_table_print b u = u\<lparr>us_is_table_print := b\<rparr>"

definition set_is_list_print :: "bool \<Rightarrow> user_settings \<Rightarrow> user_settings" where
  "set_is_list_print b u = u\<lparr>us_is_list_print := b\<rparr>"

definition set_lang :: "string \<Rightarrow> user_settings \<Rightarrow> user_settings" where
  "set_lang l u = u\<lparr>us_lang := l\<rparr>"

definition set_items_amount :: "int \<Rightarrow> user_settings \<Rightarrow> user_settings" where
  "set_items_amount n u = u\<lparr>us_items_amount := n\<rparr>"

section \<open>Files\<close>

text \<open>What \<open>FileHandler\<close> writes: a JSON document, CSV rows as dicts keyed by the header,
  or the \<open>str\<close> of a value.\<close>

datatype file_write =
    WriteJson string json
  | WriteCsv string "string list" "(string \<times> json) list list"
  | WriteText string string

text \<open>\<open>save_to_csv\<close>: nothing for no data; each row becomes \<open>{header[i]: row[i]}\<close>.\<close>

definition csv_rows :: "json list \<Rightarrow> string list \<Rightarrow> (string \<times> json) list list result" where
  "csv_rows data header =
     rmap (\<lambda>row. rmap (\<lambda>i. rbind (row_index row i) (\<lambda>v. Inr (header ! i, v))) [0..<length header]) data"

definition save_to_csv :: "json list \<Rightarrow> string list \<Rightarrow> string \<Rightarrow> file_write list result" where
  "save_to_csv data header fn =
     (if data = [] then Inr [] else rbind (csv_rows data header) (\<lambda>rows. Inr [WriteCsv fn header rows]))"

definition save_to_text :: "json \<Rightarrow> string \<Rightarrow> file_write list" where
  "save_to_text data fn = [WriteText fn (py_str data)]"

section \<open>The HTTP client\<close>

text \<open>What \<open>requests.get\<close> does: a response with its JSON body and final URL, a
  response whose status \<open>raise_for_status\<close> rejects (\<open>HTTPError\<close>), or an exception of
  the request itself (no connection).\<close>

datatype http_outcome =
    HttpOk json string
  | HttpStatusError string
  | HttpRaises string

type_synonym http_client = "(string \<times> json) list \<Rightarrow> http_outcome"

definition api_params ::
  "string option \<Rightarrow> string \<Rightarrow> string \<Rightarrow> int \<Rightarrow> int \<Rightarrow> string list \<Rightarrow> (string \<times> json) list" where
  "api_params key q lang start maxr flds =
     [(''q'', JStr q), (''langRestrict'', JStr lang), (''startIndex'', JInt start), (''maxResults'', JInt maxr),
      (''fields'', if flds \<noteq> [] then JStr (py_join CHR '','' flds) else JNull)]
     @ (case key of Some k \<Rightarrow> if k \<noteq> [] then [(''key'', JStr k)] else [] | None \<Rightarrow> [])"

text \<open>\<open>search\<close> returns the pair \<open>(json, url)\<close>, or the dict \<open>_handle_error\<close> builds; only
  an \<open>HTTPError\<close> can reach \<open>_handle_error\<close>, so its other branches are not taken.\<close>

datatype api_reply = ApiPair json string | ApiErrorDict json

definition books_api_search ::
  "http_client \<Rightarrow> string option \<Rightarrow> string \<Rightarrow> string \<Rightarrow> int \<Rightarrow> int \<Rightarrow> string list \<Rightarrow> api_reply result" where
  "books_api_search http key q lang start maxr flds =
     (case http (api_params key q lang start maxr flds) of
        HttpOk j url \<Rightarrow> Inr (ApiPair j url)
      | HttpStatusError e \<Rightarrow> Inr (ApiErrorDict (JObj [(''error'', JStr e)]))
      | HttpRaises e \<Rightarrow> Inl (Exception e))"

section \<open>Lemmas\<close>

lemma py_slice_short: "length xs \<le> 1 \<Longrightarrow> py_slice xs 1 b = []"
  by (auto simp: py_slice_def py_slice_bound_def Let_def)

text \<open>A history of at most one event is replaced by the new event.\<close>

lemma history_add_short: "length (hist_events h) \<le> 1 \<Longrightarrow> hist_events (history_add ev h) = [ev]"
  by (simp add: history_add_def py_slice_short)

end
