(* ===== verification/BooksController.thy ===== *)
theory BooksController
  imports BooksModels
begin

text \<open>
  The search controller of lab 7, \<open>Controller\<close> of \<open>src/src/labs/lab7/bll/Controller.py\<close>.
  Its state is the last query, the filter (a regular expression and the name of the
  field it applies to) and the two models it writes: the user settings and the
  history. The settings file, the network and the regular-expression engine are the
  environment \<open>books_env\<close>. \<open>search\<close> pages through the API until it has
  \<open>items_amount\<close> items or the API has no more; each page is filtered by the regular
  expression when one is set, and every search is recorded in the history.
\<close>

section \<open>State\<close>

record books_env =
  env_settings :: books_settings
  env_http :: http_client
  env_key :: "string option"
  env_rx :: regex_search

record books_ctrl =
  last_query :: string
  last_regex :: "string option"
  regex_field_name :: "string option"
  user :: user_settings
  hist :: history_model

text \<open>\<open>__init__\<close>: the query \<open>Python\<close>, the date filter on \<open>Publishing date\<close>.\<close>

definition books_init :: "user_settings \<Rightarrow> history_model \<Rightarrow> books_ctrl" where
  "books_init u h =
     \<lparr>last_query = ''Python'', last_regex = Some ''^201[7-9]|^202'', regex_field_name = Some ''Publishing date'',
      user = u, hist = h\<rparr>"

text \<open>Truth of an optional string: \<open>None\<close> and the empty string are false.\<close>

definition opt_truthy :: "string option \<Rightarrow> bool" where
  "opt_truthy s = (case s of Some x \<Rightarrow> x \<noteq> [] | None \<Rightarrow> False)"

section \<open>Filtering\<close>

text \<open>\<open>parse_query(data, field, query)\<close>: a dict whose field path starts with
  \<open>items.\<close> is filtered inside its \<open>items\<close> list and rewrapped; anything else goes to
  \<open>InputParser\<close> as it is (a dict is then iterated by its keys). \<open>hasattr(data,
  "items")\<close> holds exactly for dicts.\<close>

definition books_parse_query :: "regex_search \<Rightarrow> json \<Rightarrow> string option \<Rightarrow> string \<Rightarrow> json result" where
  "books_parse_query rx data field q =
     (case data of
        JObj kvs \<Rightarrow>
          (case field of
             None \<Rightarrow> Inl (AttributeError ''startswith'')
           | Some f \<Rightarrow>
               if take 6 f = ''items.'' then
                 rbind (py_subscript data ''items'') (\<lambda>its.
                 rbind (parse_query rx its (drop 6 f) q) (\<lambda>nd. Inr (JObj [(''items'', nd)])))
               else parse_query rx data f q)
      | _ \<Rightarrow> (case field of None \<Rightarrow> Inl (AttributeError ''split'') | Some f \<Rightarrow> parse_query rx data f q))"

definition name_to_field :: "books_env \<Rightarrow> string \<Rightarrow> string option" where
  "name_to_field env name = obj_lookup (bs_fields (env_settings env)) name"

definition names_to_fields :: "books_env \<Rightarrow> string list \<Rightarrow> string list" where
  "names_to_fields env names =
     concat (map (\<lambda>n. case name_to_field env n of Some f \<Rightarrow> if f \<noteq> [] then [f] else [] | None \<Rightarrow> []) names)"

definition do_regex :: "books_env \<Rightarrow> books_ctrl \<Rightarrow> json \<Rightarrow> json result" where
  "do_regex env st data =
     (if \<not> opt_truthy (last_regex st) \<or> \<not> opt_truthy (regex_field_name st)
      then Inl (ValueError ''No regex and field to do regex'')
      else books_parse_query (env_rx env) data (name_to_field env (the (regex_field_name st)))
             (the (last_regex st)))"

definition apply_regex_if_needed :: "books_env \<Rightarrow> books_ctrl \<Rightarrow> json \<Rightarrow> json result" where
  "apply_regex_if_needed env st data =
     (if opt_truthy (last_regex st) \<and> opt_truthy (regex_field_name st) then do_regex env st data else Inr data)"

section \<open>Paging\<close>

text \<open>\<open>_fetch_additional_results\<close>: one page and, on the first page of a run, the
  reported total. The error dict of the client cannot be unpacked into a pair; every
  exception is re-raised as a bare \<open>Exception\<close> with its message.\<close>

definition fetch_body ::
  "books_env \<Rightarrow> books_ctrl \<Rightarrow> string \<Rightarrow> string \<Rightarrow> int \<Rightarrow> int \<Rightarrow> string list \<Rightarrow> bool \<Rightarrow> (json \<times> json) result" where
  "fetch_body env st q lang start maxr flds is_total =
     rbind (books_api_search (env_http env) (env_key env) q lang start maxr flds) (\<lambda>reply.
       case reply of
         ApiErrorDict _ \<Rightarrow> Inl (ValueError ''not enough values to unpack (expected 2, got 1)'')
       | ApiPair j url \<Rightarrow>
           rbind (apply_regex_if_needed env st j) (\<lambda>tr.
           rbind (py_subscript tr ''items'') (\<lambda>its.
             if \<not> py_truthy its then Inr (JList [], JNull)
             else rbind (if is_total then py_get tr ''totalItems'' JNull else Inr JNull) (\<lambda>tot.
                    rbind (py_subscript tr ''items'') (\<lambda>its'. Inr (its', tot))))))"

definition fetch_additional ::
  "books_env \<Rightarrow> books_ctrl \<Rightarrow> string \<Rightarrow> string \<Rightarrow> int \<Rightarrow> int \<Rightarrow> string list \<Rightarrow> bool \<Rightarrow> (json \<times> json) result" where
  "fetch_additional env st q lang start maxr flds is_total =
     (case fetch_body env st q lang start maxr flds is_total of
        Inl e \<Rightarrow> Inl (Exception (err_msg e))
      | Inr r \<Rightarrow> Inr r)"

text \<open>\<open>start_index < total_items\<close> against the total the API reported.\<close>

fun total_allows :: "int \<Rightarrow> json \<Rightarrow> bool result" where
  "total_allows s JNull = Inr True"
| "total_allows s (JInt t) = Inr (s < t)"
| "total_allows s (JBool b) = Inr (s < (if b then 1 else 0))"
| "total_allows s _ = Inl (TypeError ''< not supported'')"

text \<open>The \<open>while\<close> loop of \<open>search\<close>. Each round that does not stop adds at least one
  item (a true page is a non-empty collection), so the loop ends after at most
  \<open>items_amount\<close> rounds.\<close>

function search_loop ::
  "books_env \<Rightarrow> books_ctrl \<Rightarrow> string \<Rightarrow> string \<Rightarrow> int \<Rightarrow> string list \<Rightarrow> int \<Rightarrow> json list \<Rightarrow> int \<Rightarrow> json
   \<Rightarrow> json list result" where
  "search_loop env st q lang maxr flds amount items start reported =
     (if int (length items) < amount then
        rbind (total_allows start reported) (\<lambda>go.
          if go then
            rbind (fetch_additional env st q lang start maxr flds (reported = JNull)) (\<lambda>(resp, tot).
              if \<not> py_truthy resp then Inr items
              else rbind (py_iter resp) (\<lambda>xs.
                     search_loop env st q lang maxr flds amount (items @ xs) (start + maxr) tot))
          else Inr items)
      else Inr items)"
  by pat_completeness auto
termination
  by (relation "measure (\<lambda>(env, st, q, lang, maxr, flds, amount, items, start, reported).
                           nat (amount - int (length items)))")
     (auto dest: py_iter_truthy_iff)

declare search_loop.simps [simp del]

section \<open>Searching\<close>

text \<open>
  \<open>search(fields_names)\<close>: nothing for an empty query. The regex field's name is
  appended to the caller's list (which the caller then returns), the pages are
  collected, the first \<open>items_amount\<close> items are the result, and the search is
  recorded in the history.
\<close>

definition search ::
  "books_env \<Rightarrow> books_ctrl \<Rightarrow> string list \<Rightarrow> ((json option \<times> string list) \<times> books_ctrl) result" where
  "search env st names =
     (let q = last_query st in
      if q = [] then Inr ((None, names), st)
      else
        (let names' = (if opt_truthy (regex_field_name st) then names @ [the (regex_field_name st)] else names);
             amount = us_items_amount (user st)
         in rbind (search_loop env st q (us_lang (user st)) (bs_max_results (env_settings env))
                     (names_to_fields env names') amount [] 0 JNull) (\<lambda>items.
              let result = JObj [(''items'', JList (py_slice items 0 amount))]
              in Inr ((Some result, names'),
                      st\<lparr>hist := history_add (history_event q (last_regex st) (regex_field_name st) names' result) (hist st)\<rparr>))))"

text \<open>\<open>_search_generic\<close>: \<open>None\<close> when the view is switched off, else the result and the
  (extended) field list.\<close>

definition search_generic ::
  "bool \<Rightarrow> string list \<Rightarrow> books_env \<Rightarrow> books_ctrl \<Rightarrow> ((json option \<times> string list) option \<times> books_ctrl) result" where
  "search_generic check names env st =
     (if \<not> check then Inr (None, st) else rbind (search env st names) (\<lambda>(r, st'). Inr (Some r, st')))"

definition search_for_table :: "books_env \<Rightarrow> books_ctrl \<Rightarrow> ((json option \<times> string list) option \<times> books_ctrl) result" where
  "search_for_table env st = search_generic (us_is_table_print (user st)) (us_table_fields (user st)) env st"

definition search_for_list :: "books_env \<Rightarrow> books_ctrl \<Rightarrow> ((json option \<times> string list) option \<times> books_ctrl) result" where
  "search_for_list env st = search_generic (us_is_list_print (user st)) (us_list_fields (user st)) env st"

section \<open>Selected fields\<close>

definition get_selected_fields :: "string \<Rightarrow> books_ctrl \<Rightarrow> string list result" where
  "get_selected_fields mode st =
     (if mode = ''List'' then Inr (us_list_fields (user st))
      else if mode = ''Table'' then Inr (us_table_fields (user st))
      else Inl (ValueError ''Wrong mode''))"

definition set_selected :: "string list \<Rightarrow> string \<Rightarrow> books_ctrl \<Rightarrow> books_ctrl result" where
  "set_selected chosen mode st =
     (if mode = ''List'' then Inr (st\<lparr>user := set_list_fields chosen (user st)\<rparr>)
      else if mode = ''Table'' then Inr (st\<lparr>user := set_table_fields chosen (user st)\<rparr>)
      else Inl (ValueError ''Wrong mode''))"

section \<open>Flat results and saving\<close>

text \<open>\<open>flat_search(mode)\<close>: unpacking the \<open>None\<close> of a switched-off view raises
  \<open>TypeError\<close>; the \<open>None\<close> of an empty query reaches \<open>extract_data_items\<close>.\<close>

definition flat_search :: "books_env \<Rightarrow> books_ctrl \<Rightarrow> string \<Rightarrow> ((json list \<times> string list) \<times> books_ctrl) result" where
  "flat_search env st mode =
     rbind (if mode = ''List'' then search_for_list env st else search_for_table env st) (\<lambda>(r, st').
       case r of
         None \<Rightarrow> Inl (TypeError ''cannot unpack non-iterable NoneType object'')
       | Some (data, sel) \<Rightarrow>
           rbind (extract_data_items (case data of Some d \<Rightarrow> d | None \<Rightarrow> JNull) sel (bs_fields (env_settings env)) False False)
             (\<lambda>rows. Inr ((rows, sel), st')))"

text \<open>\<open>json.dump\<close> of what a view returned: \<open>None\<close>, or the pair as a list.\<close>

definition view_json :: "(json option \<times> string list) option \<Rightarrow> json" where
  "view_json r =
     (case r of None \<Rightarrow> JNull
      | Some (d, names) \<Rightarrow> JList [case d of None \<Rightarrow> JNull | Some j \<Rightarrow> j, JList (map JStr names)])"

definition save_to_json :: "books_env \<Rightarrow> books_ctrl \<Rightarrow> string \<Rightarrow> (file_write list \<times> books_ctrl) result" where
  "save_to_json env st path =
     rbind (if us_is_table_print (user st) then rbind (search_for_table env st) (\<lambda>(r, st1). Inr ([(''table'', view_json r)], st1))
            else Inr ([], st)) (\<lambda>(kv1, st1).
     rbind (if us_is_list_print (user st1) then rbind (search_for_list env st1) (\<lambda>(r, st2). Inr ([(''list'', view_json r)], st2))
            else Inr ([], st1)) (\<lambda>(kv2, st2).
       Inr ([WriteJson path (JObj (kv1 @ kv2))], st2)))"

text \<open>\<open>str.replace(old, new)\<close>: every occurrence, left to right.\<close>

fun py_replace :: "string \<Rightarrow> string \<Rightarrow> string \<Rightarrow> string" where
  "py_replace old new [] = []"
| "py_replace old new (c # cs) =
     (if old \<noteq> [] \<and> take (length old) (c # cs) = old
      then new @ py_replace old new (drop (length old - 1) cs)
      else c # py_replace old new cs)"

definition save_to_csv_files :: "books_env \<Rightarrow> books_ctrl \<Rightarrow> string \<Rightarrow> (file_write list \<times> books_ctrl) result" where
  "save_to_csv_files env st path =
     rbind (if us_is_table_print (user st) then
              rbind (flat_search env st ''Table'') (\<lambda>((rows, sel), st1).
                rbind (save_to_csv rows sel (py_replace ''.csv'' ''_table.csv'' path)) (\<lambda>w. Inr (w, st1)))
            else Inr ([], st)) (\<lambda>(w1, st1).
     rbind (if us_is_list_print (user st1) then
              rbind (flat_search env st1 ''List'') (\<lambda>((rows, sel), st2).
                rbind (save_to_csv rows sel (py_replace ''.csv'' ''_list.csv'' path)) (\<lambda>w. Inr (w, st2)))
            else Inr ([], st1)) (\<lambda>(w2, st2).
       Inr (w1 @ w2, st2)))"

definition py_endswith :: "string \<Rightarrow> string \<Rightarrow> bool" where
  "py_endswith sfx s \<longleftrightarrow> length sfx \<le> length s \<and> drop (length s - length sfx) s = sfx"

definition books_save :: "books_env \<Rightarrow> books_ctrl \<Rightarrow> string \<Rightarrow> json \<Rightarrow> (file_write list \<times> books_ctrl) result" where
  "books_save env st path data =
     (if py_endswith ''.json'' path then save_to_json env st path
      else if py_endswith ''.csv'' path then save_to_csv_files env st path
      else Inr (save_to_text data path, st))"

section \<open>The controller as a state machine\<close>

text \<open>The calls the user interface makes, and their effect on the state (outputs
  dropped).\<close>

datatype books_op =
    SetLastQuery string
  | SetLastRegex "string option"
  | SetRegexFieldName "string option"
  | ClearRegexFieldName
  | SetSelected "string list" string
  | SetIsList bool
  | SetIsTable bool
  | SearchForTable
  | SearchForList
  | FlatSearch string
  | Save string json
  | ClearHistory

fun books_step :: "books_env \<Rightarrow> books_op \<Rightarrow> books_ctrl \<Rightarrow> books_ctrl result" where
  "books_step env (SetLastQuery q) st = Inr (st\<lparr>last_query := q\<rparr>)"
| "books_step env (SetLastRegex r) st = Inr (st\<lparr>last_regex := r\<rparr>)"
| "books_step env (SetRegexFieldName f) st = Inr (st\<lparr>regex_field_name := f\<rparr>)"
| "books_step env ClearRegexFieldName st = Inr (st\<lparr>last_regex := None, regex_field_name := None\<rparr>)"
| "books_step env (SetSelected ch m) st = set_selected ch m st"
| "books_step env (SetIsList b) st = Inr (st\<lparr>user := set_is_list_print b (user st)\<rparr>)"
| "books_step env (SetIsTable b) st = Inr (st\<lparr>user := set_is_table_print b (user st)\<rparr>)"
| "books_step env SearchForTable st = rbind (search_for_table env st) (\<lambda>(_, st'). Inr st')"
| "books_step env SearchForList st = rbind (search_for_list env st) (\<lambda>(_, st'). Inr st')"
| "books_step env (FlatSearch m) st = rbind (flat_search env st m) (\<lambda>(_, st'). Inr st')"
| "books_step env (Save p d) st = rbind (books_save env st p d) (\<lambda>(_, st'). Inr st')"
| "books_step env ClearHistory st = Inr (st\<lparr>hist := clear_history (hist st)\<rparr>)"

inductive books_reachable :: "books_env \<Rightarrow> books_ctrl \<Rightarrow> books_ctrl \<Rightarrow> bool" for env s0 where
  start: "books_reachable env s0 s0"
| step: "books_reachable env s0 s \<Longrightarrow> books_step env op s = Inr s' \<Longrightarrow> books_reachable env s0 s'"

section \<open>Scenario inputs\<close>

text \<open>
  An API in the manner of Google Books, whose \<open>totalItems\<close> is an estimate: every
  request is answered with a page of five books and a reported total of ten; settings
  with pages of five; a user asking for forty results; and the controller after
  start-up with the date filter switched off.
\<close>

definition demo_page :: "json list" where
  "demo_page = replicate 5 (JObj [(''volumeInfo'', JObj [(''title'', JStr ''Python'')])])"

definition demo_env :: books_env where
  "demo_env =
     \<lparr>env_settings =
        \<lparr>bs_fields = [(''Title'', ''items.volumeInfo.title'')], bs_languages = [''en''], bs_max_results = 5,
         bs_default_save_dir = ''saves'', bs_default_file_name = ''books'', bs_results_to_save = 5,
         bs_logger_path = None\<rparr>,
      env_http = (\<lambda>ps. HttpOk (JObj [(''items'', JList demo_page), (''totalItems'', JInt 10)])
                          ''https://www.googleapis.com/books/v1/volumes''),
      env_key = None, env_rx = (\<lambda>pat txt. True)\<rparr>"

definition demo_user :: user_settings where
  "demo_user =
     \<lparr>us_table_fields = [''Title''], us_list_fields = [''Title''], us_is_table_print = True,
      us_is_list_print = False, us_lang = ''en'', us_items_amount = 40, us_field_styles = JObj []\<rparr>"

definition demo_ctrl :: books_ctrl where
  "demo_ctrl = (books_init demo_user \<lparr>hist_events = [], hist_results_to_save = 5\<rparr>)\<lparr>last_regex := None\<rparr>"

section \<open>Lemmas\<close>

abbreviation hist_short :: "books_ctrl \<Rightarrow> bool" where
  "hist_short st \<equiv> length (hist_events (hist st)) \<le> 1"

lemma search_hist: "search env st names = Inr (r, st') \<Longrightarrow> hist_short st \<Longrightarrow> hist_short st'"
  by (auto simp: search_def Let_def rbind_eq_Inr history_add_short split: if_splits)


lemma search_generic_hist:
  "search_generic c names env st = Inr (r, st') \<Longrightarrow> hist_short st \<Longrightarrow> hist_short st'"
  by (auto simp: search_generic_def rbind_eq_Inr dest: search_hist split: if_splits)

lemma views_hist:
  "search_for_table env st = Inr (r, st') \<Longrightarrow> hist_short st \<Longrightarrow> hist_short st'"
  "search_for_list env st = Inr (r, st') \<Longrightarrow> hist_short st \<Longrightarrow> hist_short st'"
  unfolding search_for_table_def search_for_list_def by (blast dest: search_generic_hist)+

lemma flat_search_view:
  "flat_search env st m = Inr (r, st') \<Longrightarrow>
   \<exists>r0. (if m = ''List'' then search_for_list env st else search_for_table env st) = Inr (r0, st')"
proof -
  assume "flat_search env st m = Inr (r, st')"
  then obtain a where a: "(if m = ''List'' then search_for_list env st else search_for_table env st) = Inr a"
    and k: "(case a of (None, st1) \<Rightarrow> Inl (TypeError ''cannot unpack non-iterable NoneType object'')
             | (Some (data, sel), st1) \<Rightarrow>
                 rbind (extract_data_items (case data of Some d \<Rightarrow> d | None \<Rightarrow> JNull) sel
                          (bs_fields (env_settings env)) False False)
                   (\<lambda>rows. Inr ((rows, sel), st1))) = Inr (r, st')"
    unfolding flat_search_def rbind_eq_Inr by blast
  obtain ro st1 where ro: "a = (ro, st1)" by (cases a)
  with k have "st1 = st'" by (auto simp: rbind_eq_Inr split: option.splits)
  with a ro show ?thesis by blast
qed

lemma flat_search_hist: "flat_search env st m = Inr (r, st') \<Longrightarrow> hist_short st \<Longrightarrow> hist_short st'"
  by (cases "m = ''List''") (fastforce dest!: flat_search_view dest: views_hist)+

lemma stage_hist:
  "(if c then rbind (V st) (\<lambda>(r, s1). Inr (f r, s1)) else Inr (z, st)) = Inr (x, st1) \<Longrightarrow>
   (\<And>r s. V st = Inr (r, s) \<Longrightarrow> hist_short s) \<Longrightarrow> hist_short st \<Longrightarrow> hist_short st1"
  by (auto simp: rbind_pair_Inr split: if_splits)

lemma save_json_hist:
  assumes "save_to_json env st p = Inr (w, st')" "hist_short st"
  shows "hist_short st'"
proof -
  from assms(1) obtain kv1 st1 kv2 where
    1: "(if us_is_table_print (user st) then rbind (search_for_table env st) (\<lambda>(r, st1). Inr ([(''table'', view_json r)], st1))
         else Inr ([], st)) = Inr (kv1, st1)" and
    2: "(if us_is_list_print (user st1) then rbind (search_for_list env st1) (\<lambda>(r, st2). Inr ([(''list'', view_json r)], st2))
         else Inr ([], st1)) = Inr (kv2, st')"
    unfolding save_to_json_def rbind_pair_Inr by auto
  have "hist_short st1" using stage_hist [where V = "search_for_table env" and f = "\<lambda>r. [(''table'', view_json r)]", OF 1] views_hist(1) assms(2) by blast
  then show ?thesis using stage_hist [where V = "search_for_list env" and f = "\<lambda>r. [(''list'', view_json r)]", OF 2] views_hist(2) by blast
qed
lemma csv_stage_hist:
  "(if c then rbind (flat_search env st m) (\<lambda>((rows, sel), st1).
       rbind (save_to_csv rows sel fn) (\<lambda>w. Inr (w, st1))) else Inr ([], st)) = Inr (x, st1) \<Longrightarrow>
   hist_short st \<Longrightarrow> hist_short st1"
  by (auto simp: rbind_pair_Inr rbind_eq_Inr split: if_splits prod.splits dest: flat_search_hist)

lemma save_csv_hist:
  assumes "save_to_csv_files env st p = Inr (w, st')" "hist_short st"
  shows "hist_short st'"
proof -
  from assms(1) obtain w1 st1 w2 where
    1: "(if us_is_table_print (user st) then
              rbind (flat_search env st ''Table'') (\<lambda>((rows, sel), st1).
                rbind (save_to_csv rows sel (py_replace ''.csv'' ''_table.csv'' p)) (\<lambda>w. Inr (w, st1)))
            else Inr ([], st)) = Inr (w1, st1)" and
    2: "(if us_is_list_print (user st1) then
              rbind (flat_search env st1 ''List'') (\<lambda>((rows, sel), st2).
                rbind (save_to_csv rows sel (py_replace ''.csv'' ''_list.csv'' p)) (\<lambda>w. Inr (w, st2)))
            else Inr ([], st1)) = Inr (w2, st')"
    unfolding save_to_csv_files_def rbind_pair_Inr by auto
  show ?thesis using csv_stage_hist [OF 2 csv_stage_hist [OF 1 assms(2)]] .
qed

lemma save_hist: "books_save env st p d = Inr (w, st') \<Longrightarrow> hist_short st \<Longrightarrow> hist_short st'"
  by (auto simp: books_save_def split: if_splits dest: save_json_hist save_csv_hist)

lemma step_hist: "books_step env op st = Inr st' \<Longrightarrow> hist_short st \<Longrightarrow> hist_short st'"
  by (cases op)
     (auto simp: rbind_pair_Inr set_selected_def clear_history_def split: if_splits
      dest: views_hist flat_search_hist save_hist)
section \<open>Properties\<close>

text \<open>
  C28. The search history never holds more than one event: \<open>HistoryModel.add\<close> keeps
  \<open>history[1 : results_to_save - 1]\<close>, which is empty for a history of at most one
  event, so from an empty or one-event history file every search replaces the stored
  event, whatever \<open>results_to_save\<close> is.
\<close>

theorem history_holds_one_event:
  assumes "books_reachable env s0 s" "length (hist_events (hist s0)) \<le> 1"
  shows "length (hist_events (hist s)) \<le> 1"
  using assms by (induction rule: books_reachable.induct) (auto dest: step_hist)

theorem history_holds_one_event_witness:
  "\<exists>s. books_reachable demo_env demo_ctrl s \<and> hist_events (hist s) \<noteq> [] \<and> length (hist_events (hist s)) \<le> 1"
proof -
  have c: "case books_step demo_env SearchForTable demo_ctrl of Inl _ \<Rightarrow> False | Inr s \<Rightarrow> hist_events (hist s) \<noteq> []"
    by code_simp
  then obtain s where s: "books_step demo_env SearchForTable demo_ctrl = Inr s" "hist_events (hist s) \<noteq> []"
    by (auto split: sum.splits)
  have r: "books_reachable demo_env demo_ctrl s"
    by (rule books_reachable.step [OF books_reachable.start s(1)])
  have "length (hist_events (hist demo_ctrl)) \<le> 1" by (simp add: demo_ctrl_def books_init_def)
  then show ?thesis using history_holds_one_event [OF r] r s(2) by blast
qed

lemma concat_replicate_snoc: "concat (replicate n P) @ P = concat (replicate (Suc n) P)"
  by (induction n) auto

lemma length_concat_replicate: "length (concat (replicate n P)) = n * length P"
  by (induction n) auto

lemma fetch_additional_const:
  assumes "\<forall>ps. \<exists>url. env_http env ps = HttpOk (JObj [(''items'', JList P), (''totalItems'', JInt t)]) url"
    and "\<not> (opt_truthy (last_regex st) \<and> opt_truthy (regex_field_name st))" "P \<noteq> []"
  shows "fetch_additional env st q lang s maxr flds b = Inr (JList P, if b then JInt t else JNull)"
proof -
  obtain url where "env_http env (api_params (env_key env) q lang s maxr flds)
                      = HttpOk (JObj [(''items'', JList P), (''totalItems'', JInt t)]) url"
    using assms(1) by blast
  moreover have "apply_regex_if_needed env st j = Inr j" for j
    using assms(2) by (auto simp: apply_regex_if_needed_def)
  ultimately show ?thesis using assms(3)
    by (simp add: fetch_additional_def fetch_body_def books_api_search_def obj_lookup_def)
qed

lemma search_loop_const_rounds:
  assumes http: "\<forall>ps. \<exists>url. env_http env ps = HttpOk (JObj [(''items'', JList P), (''totalItems'', JInt t)]) url"
    and rx: "\<not> (opt_truthy (last_regex st) \<and> opt_truthy (regex_field_name st))" and P: "P \<noteq> []"
    and below: "\<forall>j<m. int (2 * j + 1) * maxr < t" and above: "t \<le> int (2 * m + 1) * maxr"
    and amt: "int (2 * m * length P) < amount"
  shows "k \<le> 2 * m + 1 \<Longrightarrow>
    search_loop env st q lang maxr flds amount (concat (replicate (2 * m + 1 - k) P))
      (int (2 * m + 1 - k) * maxr) (if odd (2 * m + 1 - k) then JInt t else JNull)
    = Inr (concat (replicate (2 * m + 1) P))"
proof (induction k)
  case 0
  then show ?case using above by (subst search_loop.simps) simp
next
  case (Suc k)
  define n where "n = 2 * m + 1 - Suc k"
  have n: "n \<le> 2 * m" "Suc n = 2 * m + 1 - k" using Suc.prems by (simp_all add: n_def)
  have "n * length P \<le> 2 * m * length P" using n(1) by simp
  then have "length (concat (replicate n P)) \<le> 2 * m * length P" by (simp only: length_concat_replicate)
  then have "int (length (concat (replicate n P))) \<le> int (2 * m * length P)" by (simp only: of_nat_le_iff)
  then have len: "int (length (concat (replicate n P))) < amount" using amt by linarith
  have go: "total_allows (int n * maxr) (if odd n then JInt t else JNull) = Inr True"
  proof (cases "odd n")
    case True
    then obtain j where j: "n = 2 * j + 1" by (auto elim: oddE)
    then have "j < m" using n(1) by simp
    then show ?thesis using below j True by simp
  qed simp
  have rec: "search_loop env st q lang maxr flds amount (concat (replicate (Suc n) P))
               (int (Suc n) * maxr) (if odd (Suc n) then JInt t else JNull)
             = Inr (concat (replicate (2 * m + 1) P))"
    using Suc.IH Suc.prems n(2) by simp
  have "search_loop env st q lang maxr flds amount (concat (replicate n P)) (int n * maxr)
          (if odd n then JInt t else JNull) = Inr (concat (replicate (2 * m + 1) P))"
    using len go rec P fetch_additional_const [OF http rx P]
    by (subst search_loop.simps) (cases "even n", simp_all add: concat_replicate_snoc algebra_simps)
  then show ?case by (simp add: n_def)
qed

text \<open>
  C29. Paging past the reported total: the loop compares \<open>start_index\<close> with
  \<open>total_items\<close>, but \<open>_fetch_additional_results\<close> returns the total only when it is
  asked for it (when \<open>total_items\<close> is \<open>None\<close>), so every second round resets it to
  \<open>None\<close> and skips the check. For an API that answers every request with the same
  non-empty page \<open>P\<close> and reports the total \<open>t\<close>, and a request large enough not to
  stop the loop first, the loop stops only at the first odd round \<open>2m+1\<close> whose start
  index \<open>(2m+1) * max_results\<close> reaches \<open>t\<close>, having collected \<open>2m+1\<close> pages,
  where a loop checking every round would stop at the first round reaching \<open>t\<close>. With
  ten results in pages of five, a request for forty collects fifteen.
\<close>

theorem search_pages_past_total:
  assumes "\<forall>ps. \<exists>url. env_http env ps = HttpOk (JObj [(''items'', JList P), (''totalItems'', JInt t)]) url"
    and "\<not> (opt_truthy (last_regex st) \<and> opt_truthy (regex_field_name st))" "P \<noteq> []"
    and "\<forall>j<m. int (2 * j + 1) * maxr < t" "t \<le> int (2 * m + 1) * maxr"
    and "int (2 * m * length P) < amount"
  shows "search_loop env st q lang maxr flds amount [] 0 JNull = Inr (concat (replicate (2 * m + 1) P))"
  using search_loop_const_rounds [OF assms, of "2 * m + 1"] by simp

theorem search_pages_past_total_witness:
  "search_loop demo_env demo_ctrl ''Python'' ''en'' 5 [''items.volumeInfo.title''] 40 [] 0 JNull
     = Inr (demo_page @ demo_page @ demo_page)
   \<and> length (demo_page @ demo_page @ demo_page) = 15"
proof -
  have h: "\<forall>ps. \<exists>url. env_http demo_env ps = HttpOk (JObj [(''items'', JList demo_page), (''totalItems'', JInt 10)]) url"
    "\<not> (opt_truthy (last_regex demo_ctrl) \<and> opt_truthy (regex_field_name demo_ctrl))" "demo_page \<noteq> []"
    "\<forall>j<1. int (2 * j + 1) * 5 < (10::int)" "(10::int) \<le> int (2 * 1 + 1) * 5"
    "int (2 * 1 * length demo_page) < (40::int)"
    by (simp_all add: demo_env_def demo_ctrl_def opt_truthy_def demo_page_def)
  show ?thesis
    using search_pages_past_total [OF h, of "''Python''" "''en''" "[''items.volumeInfo.title'']"]
    by (simp add: numeral_eq_Suc demo_page_def)
qed

text \<open>
  C30. An error status from the API never reaches the \<open>HTTPError\<close> handler of the
  controller: \<open>GoogleBooksAPI.search\<close> turns it into a one-key dict, which the controller
  unpacks as a pair, so the search fails with the unpacking \<open>ValueError\<close> re-raised as
  a bare \<open>Exception\<close>.
\<close>

theorem http_error_surfaces_as_unpack:
  assumes "last_query st \<noteq> []" "0 < us_items_amount (user st)" "\<forall>ps. env_http env ps = HttpStatusError e"
  shows "search env st names = Inl (Exception ''not enough values to unpack (expected 2, got 1)'')"
proof -
  have "search_loop env st q lang maxr flds (us_items_amount (user st)) [] 0 JNull
        = Inl (Exception ''not enough values to unpack (expected 2, got 1)'')" for q lang maxr flds
    using assms(2,3)
    by (subst search_loop.simps) (simp add: fetch_additional_def fetch_body_def books_api_search_def)
  then show ?thesis using assms(1) by (simp add: search_def Let_def)
qed

theorem http_error_surfaces_as_unpack_witness:
  "search (demo_env\<lparr>env_http := (\<lambda>ps. HttpStatusError ''403 Client Error: Forbidden'')\<rparr>) demo_ctrl [''Title'']
     = Inl (Exception ''not enough values to unpack (expected 2, got 1)'')"
  using http_error_surfaces_as_unpack [of demo_ctrl "demo_env\<lparr>env_http := (\<lambda>ps. HttpStatusError ''403 Client Error: Forbidden'')\<rparr>"
      "''403 Client Error: Forbidden''" "[''Title'']"]
  by (simp add: demo_ctrl_def books_init_def demo_user_def)

text \<open>
  Selected fields round trip: after \<open>set_selected(chosen, mode)\<close> succeeds,
  \<open>get_selected_fields(mode)\<close> returns \<open>chosen\<close> and the other view is unchanged.
\<close>

theorem selected_fields_roundtrip:
  assumes "set_selected ch m st = Inr st'"
  shows "get_selected_fields m st' = Inr ch
         \<and> (\<forall>m'. m' \<noteq> m \<longrightarrow> get_selected_fields m' st' = get_selected_fields m' st)"
  using assms
  by (auto simp: set_selected_def get_selected_fields_def set_list_fields_def set_table_fields_def
      split: if_splits)

theorem selected_fields_roundtrip_witness:
  "\<exists>st'. set_selected [''Title'', ''Authors''] ''Table'' demo_ctrl = Inr st'
     \<and> get_selected_fields ''Table'' st' = Inr [''Title'', ''Authors'']
     \<and> get_selected_fields ''List'' st' = get_selected_fields ''List'' demo_ctrl"
proof -
  obtain st' where s: "set_selected [''Title'', ''Authors''] ''Table'' demo_ctrl = Inr st'"
    by (simp add: set_selected_def)
  show ?thesis using selected_fields_roundtrip [OF s] s by auto
qed

end
