(* ===== verification/BooksUI.thy ===== *)
theory BooksUI
  imports BooksController
begin

text \<open>
  The user interface of lab 7, \<open>UserInterface\<close> of \<open>src/src/labs/lab7/ui/UserInterface.py\<close>:
  the handlers its menus call, the results text the main menu shows as its title, and
  the main menu as a loop over the user's choices, started by \<open>init.main\<close> of
  \<open>src/src/labs/lab7/init.py\<close>. The menu classes, \<open>StringInput\<close> and
  the save dialog come from \<open>shared\<close> and \<open>tkinter\<close>, outside the repository: what they
  return is an input of the model. The console holds the lines \<open>StringInput().input\<close>
  returns, in order, and the lines printed; reading an exhausted console raises
  \<open>EOFError\<close>. A choice menu is its answer as a function of the entries it is shown
  preselected. \<open>re.compile\<close> (behind \<open>Controller.is_regex\<close>) and \<open>tabulate\<close> are
  parameters, as the network and the matcher are for the controller.
\<close>

section \<open>State\<close>

record ui_lib =
  lib_tabulate :: grid_tabulate
  lib_compiles :: "string \<Rightarrow> bool"

record console =
  con_in :: "string list"
  con_out :: "string list"

record books_ui =
  ui_ctrl :: books_ctrl
  ui_con :: console
  ui_files :: "file_write list"

definition read_line :: "console \<Rightarrow> (string \<times> console) result" where
  "read_line c = (case con_in c of [] \<Rightarrow> Inl EOFError | l # ls \<Rightarrow> Inr (l, c\<lparr>con_in := ls\<rparr>))"

definition print_ui :: "string \<Rightarrow> books_ui \<Rightarrow> books_ui" where
  "print_ui s u = u\<lparr>ui_con := (ui_con u)\<lparr>con_out := con_out (ui_con u) @ [s]\<rparr>\<rparr>"

section \<open>The results text\<close>

text \<open>\<open>_dynamic_regex_title\<close>: \<open>None\<close> is interpolated as \<open>None\<close>.\<close>

definition dynamic_regex_title :: "books_ctrl \<Rightarrow> string" where
  "dynamic_regex_title st =
     py_str (py_opt_str (last_regex st)) @ '' regex string on '' @ py_str (py_opt_str (regex_field_name st)) @ '' field''"

text \<open>One view of \<open>_get_results_string\<close> once its search has returned: \<open>view[0]["items"]\<close>
  decides between the empty-result message and the styled text.\<close>

definition view_text ::
  "string \<Rightarrow> (json \<Rightarrow> string list \<Rightarrow> string result) \<Rightarrow> (json option \<times> string list) option \<Rightarrow> string result" where
  "view_text kind fmt r =
     (case r of
        None \<Rightarrow> Inl (TypeError ''NoneType object is not subscriptable'')
      | Some (d, sel) \<Rightarrow>
          (let data = (case d of None \<Rightarrow> JNull | Some j \<Rightarrow> j) in
           rbind (py_subscript data ''items'') (\<lambda>its.
             if \<not> py_truthy its then Inr (''No '' @ kind @ '' results for such query, regex and field, change them\<newline>'')
             else rbind (fmt data sel) (\<lambda>s. Inr (''\<newline>'' @ s)))))"

text \<open>A view that is switched on runs its search under \<open>try\<close>: an exception is logged and
  the whole text becomes \<open>"Error"\<close> (the \<open>None\<close> below), and what an earlier search
  wrote to the history stays. The styler runs outside the \<open>try\<close>.\<close>

definition view_part ::
  "bool \<Rightarrow> string \<Rightarrow> (books_ctrl \<Rightarrow> ((json option \<times> string list) option \<times> books_ctrl) result)
   \<Rightarrow> (json \<Rightarrow> string list \<Rightarrow> string result) \<Rightarrow> books_ctrl \<Rightarrow> (string option \<times> books_ctrl) result" where
  "view_part on kind srch fmt st =
     (if \<not> on then Inr (Some [], st)
      else case srch st of
             Inl e \<Rightarrow> if e = Diverges then Inl e else Inr (None, st)
           | Inr (r, st') \<Rightarrow> rbind (view_text kind fmt r) (\<lambda>s. Inr (Some s, st')))"

definition get_results_string ::
  "books_env \<Rightarrow> ui_lib \<Rightarrow> books_ctrl \<Rightarrow> string \<Rightarrow> (string \<times> string) list \<Rightarrow> json \<Rightarrow> bool \<Rightarrow> bool
   \<Rightarrow> (string \<times> books_ctrl) result" where
  "get_results_string env lib st q fd looks is_table is_list =
     rbind (view_part is_table ''table'' (search_for_table env)
              (\<lambda>d sel. as_table (lib_tabulate lib) styler_default d sel looks fd) st) (\<lambda>(t, st1).
       case t of
         None \<Rightarrow> Inr (''Error'', st1)
       | Some ts \<Rightarrow>
           rbind (view_part is_list ''list'' (search_for_list env)
                    (\<lambda>d sel. as_list styler_default d sel looks fd) st1) (\<lambda>(l, st2).
             case l of
               None \<Rightarrow> Inr (''Error'', st2)
             | Some ls \<Rightarrow> Inr (ts @ ls @ ''Query: '' @ q @ ''\<newline>'' @ dynamic_regex_title st2 @ ''\<newline>'', st2)))"

definition get_results :: "books_env \<Rightarrow> ui_lib \<Rightarrow> books_ctrl \<Rightarrow> (string \<times> books_ctrl) result" where
  "get_results env lib st =
     (if last_query st = [] then Inr (''No query yet'', st)
      else get_results_string env lib st (last_query st) (bs_fields (env_settings env))
             (us_field_styles (user st)) (us_is_table_print (user st)) (us_is_list_print (user st)))"

section \<open>Handlers\<close>

text \<open>\<open>save()\<close>, with the path the dialog returned (\<open>""\<close> when it was cancelled). The
  return value \<open>"No query yet"\<close> is the \<open>Some\<close> of the result.\<close>

definition ui_save :: "books_env \<Rightarrow> ui_lib \<Rightarrow> string \<Rightarrow> books_ui \<Rightarrow> (string option \<times> books_ui) result" where
  "ui_save env lib path u =
     (if last_query (ui_ctrl u) = [] then Inr (Some ''No query yet'', u)
      else if path = [] then Inr (None, print_ui ''Empty filepath!'' u)
      else if \<not> (py_endswith ''.txt'' path \<or> py_endswith ''.json'' path \<or> py_endswith ''.csv'' path)
        then Inr (None, print_ui ''Invalid file extension!'' u)
      else
        rbind (if py_endswith ''.txt'' path
               then rbind (get_results env lib (ui_ctrl u)) (\<lambda>(r, st1). Inr (JStr (remove_styles r), st1))
               else Inr (JNull, ui_ctrl u)) (\<lambda>(data, st1).
        rbind (books_save env st1 path data) (\<lambda>(ws, st2).
          Inr (None, u\<lparr>ui_ctrl := st2, ui_files := ui_files u @ ws\<rparr>))))"

text \<open>\<open>set_query()\<close>: the line read becomes the last query.\<close>

definition set_query :: "books_ui \<Rightarrow> books_ui result" where
  "set_query u =
     rbind (read_line (ui_con u)) (\<lambda>(q, c). Inr (u\<lparr>ui_ctrl := (ui_ctrl u)\<lparr>last_query := q\<rparr>, ui_con := c\<rparr>))"

text \<open>The \<open>while True\<close> loop of \<open>set_regex()\<close>: read a pattern, stop at the first that
  compiles, warn after each that does not.\<close>

function read_regex :: "(string \<Rightarrow> bool) \<Rightarrow> console \<Rightarrow> (string \<times> console) result" where
  "read_regex ok c =
     (case con_in c of
        [] \<Rightarrow> Inl EOFError
      | l # ls \<Rightarrow>
          if ok l then Inr (l, c\<lparr>con_in := ls\<rparr>)
          else read_regex ok \<lparr>con_in = ls, con_out = con_out c @ [''Wrong regex, try again'']\<rparr>)"
  by pat_completeness auto
termination
  by (relation "measure (\<lambda>(ok, c). length (con_in c))") auto

declare read_regex.simps [simp del]

definition set_regex :: "ui_lib \<Rightarrow> books_ui \<Rightarrow> books_ui result" where
  "set_regex lib u =
     rbind (read_regex (lib_compiles lib) (ui_con u)) (\<lambda>(r, c).
       Inr (u\<lparr>ui_ctrl := (ui_ctrl u)\<lparr>last_regex := Some r\<rparr>, ui_con := c\<rparr>))"

text \<open>\<open>set_regex_field()\<close>: the single-choice field menu, shown with the current field
  preselected, answers with a value that is stored through \<open>str\<close>.\<close>

definition set_regex_field :: "(string option \<Rightarrow> json) \<Rightarrow> books_ui \<Rightarrow> books_ui" where
  "set_regex_field menu u =
     u\<lparr>ui_ctrl := (ui_ctrl u)\<lparr>regex_field_name := Some (py_str (menu (regex_field_name (ui_ctrl u))))\<rparr>\<rparr>"

text \<open>\<open>choose_fields(mode)\<close>: the field menu starts from the fields of that view.\<close>

definition choose_fields :: "string \<Rightarrow> (string list \<Rightarrow> string list) \<Rightarrow> books_ui \<Rightarrow> books_ui result" where
  "choose_fields mode menu u =
     rbind (get_selected_fields mode (ui_ctrl u)) (\<lambda>sel.
     rbind (set_selected (menu sel) mode (ui_ctrl u)) (\<lambda>st. Inr (u\<lparr>ui_ctrl := st\<rparr>)))"

text \<open>\<open>choose_visualization_method()\<close>: the mode menu starts from the views switched on.\<close>

definition viz_preselect :: "books_ctrl \<Rightarrow> string list" where
  "viz_preselect st =
     (if us_is_list_print (user st) then [''List''] else []) @ (if us_is_table_print (user st) then [''Table''] else [])"

definition choose_visualization_method :: "(string list \<Rightarrow> string list) \<Rightarrow> books_ui \<Rightarrow> books_ui" where
  "choose_visualization_method menu u =
     (let picked = menu (viz_preselect (ui_ctrl u));
          u1 = set_is_list_print (''List'' \<in> set picked) (user (ui_ctrl u))
      in u\<lparr>ui_ctrl := (ui_ctrl u)\<lparr>user := set_is_table_print (''Table'' \<in> set picked) u1\<rparr>\<rparr>)"

section \<open>The menus\<close>

text \<open>What the user does in one visit of an option of the main menu (\<open>_build_main_menu\<close>
  and the regex and settings menus under it); leaving a submenu returns to the main menu.\<close>

datatype regex_cmd = RegexPattern | RegexField "string option \<Rightarrow> json"

datatype ui_cmd =
    InputQuery
  | RegexMenu "regex_cmd list"
  | Visualization "string list \<Rightarrow> string list"
  | SettingsMenu "(string \<times> (string list \<Rightarrow> string list)) list"
  | SaveAs string

fun regex_menu :: "ui_lib \<Rightarrow> regex_cmd list \<Rightarrow> books_ui \<Rightarrow> books_ui result" where
  "regex_menu lib [] u = Inr u"
| "regex_menu lib (RegexPattern # cs) u = rbind (set_regex lib u) (regex_menu lib cs)"
| "regex_menu lib (RegexField m # cs) u = regex_menu lib cs (set_regex_field m u)"

fun settings_menu :: "(string \<times> (string list \<Rightarrow> string list)) list \<Rightarrow> books_ui \<Rightarrow> books_ui result" where
  "settings_menu [] u = Inr u"
| "settings_menu ((mode, m) # cs) u = rbind (choose_fields mode m u) (settings_menu cs)"

definition run_cmd :: "books_env \<Rightarrow> ui_lib \<Rightarrow> ui_cmd \<Rightarrow> books_ui \<Rightarrow> books_ui result" where
  "run_cmd env lib c u =
     (case c of
        InputQuery \<Rightarrow> set_query u
      | RegexMenu cs \<Rightarrow> regex_menu lib cs u
      | Visualization m \<Rightarrow> Inr (choose_visualization_method m u)
      | SettingsMenu cs \<Rightarrow> settings_menu cs u
      | SaveAs p \<Rightarrow> rbind (ui_save env lib p u) (\<lambda>(_, u'). Inr u'))"

text \<open>Each time the main menu is shown it calls its dynamic title, \<open>get_results\<close>, and
  prints it.\<close>

definition show_main :: "books_env \<Rightarrow> ui_lib \<Rightarrow> books_ui \<Rightarrow> books_ui result" where
  "show_main env lib u =
     rbind (get_results env lib (ui_ctrl u)) (\<lambda>(title, st). Inr (print_ui title (u\<lparr>ui_ctrl := st\<rparr>)))"

text \<open>\<open>show()\<close> of the main menu: a display before every choice, the last choice being
  one of the stop options.\<close>

fun main_menu :: "books_env \<Rightarrow> ui_lib \<Rightarrow> ui_cmd list \<Rightarrow> books_ui \<Rightarrow> books_ui result" where
  "main_menu env lib [] u = show_main env lib u"
| "main_menu env lib (c # cs) u = rbind (show_main env lib u) (\<lambda>u1. rbind (run_cmd env lib c u1) (main_menu env lib cs))"

section \<open>Start-up\<close>

text \<open>\<open>Controller.get_logger_path()\<close>: a missing or empty path raises \<open>KeyError\<close>; the
  path helper \<open>absolute\<close> of \<open>shared\<close> is a parameter. \<open>init.main()\<close> of lab 7 builds the
  controller over the models, asks it for the logger path (before any logging is set
  up) and shows the interface; \<open>runner.run\<close> calls it.\<close>

definition get_logger_path :: "(string \<Rightarrow> string) \<Rightarrow> books_env \<Rightarrow> string result" where
  "get_logger_path absolute env =
     (case bs_logger_path (env_settings env) of
        None \<Rightarrow> Inl (KeyError ''There no logger path provided!'')
      | Some p \<Rightarrow> if p = [] then Inl (KeyError ''There no logger path provided!'') else Inr (absolute p))"


definition books_main ::
  "(string \<Rightarrow> string) \<Rightarrow> books_env \<Rightarrow> ui_lib \<Rightarrow> user_settings \<Rightarrow> history_model \<Rightarrow> string list \<Rightarrow> ui_cmd list
   \<Rightarrow> books_ui result" where
  "books_main absolute env lib u h input cmds =
     (let st = books_init u h
      in rbind (get_logger_path absolute env) (\<lambda>_.
           main_menu env lib cmds \<lparr>ui_ctrl = st, ui_con = \<lparr>con_in = input, con_out = []\<rparr>, ui_files = []\<rparr>))"

section \<open>Runs of the interface\<close>

text \<open>The controller states that differ at most in their history: what a search or a
  save leaves of the state it starts from.\<close>

abbreviation hist_only :: "books_ctrl \<Rightarrow> books_ctrl \<Rightarrow> bool" where
  "hist_only st st' \<equiv> st' = st\<lparr>hist := hist st'\<rparr>"

text \<open>The formatter the table view of the results text uses.\<close>

abbreviation table_fmt :: "books_env \<Rightarrow> ui_lib \<Rightarrow> books_ctrl \<Rightarrow> json \<Rightarrow> string list \<Rightarrow> string result" where
  "table_fmt env lib st \<equiv> \<lambda>d sel. as_table (lib_tabulate lib) styler_default d sel (us_field_styles (user st)) (bs_fields (env_settings env))"

text \<open>The stored pattern compiles (or none is stored).\<close>

definition regex_compiles :: "ui_lib \<Rightarrow> books_ui \<Rightarrow> bool" where
  "regex_compiles lib u = (case last_regex (ui_ctrl u) of None \<Rightarrow> True | Some r \<Rightarrow> lib_compiles lib r)"

text \<open>The states the interface reaches from a start state: each visit of the main menu
  shows its title, then runs the chosen option.\<close>

inductive ui_reachable :: "books_env \<Rightarrow> ui_lib \<Rightarrow> books_ui \<Rightarrow> books_ui \<Rightarrow> bool" for env lib u0 where
  start: "ui_reachable env lib u0 u0"
| step: "ui_reachable env lib u0 u \<Longrightarrow> show_main env lib u = Inr u1 \<Longrightarrow> run_cmd env lib c u1 = Inr u'
         \<Longrightarrow> ui_reachable env lib u0 u'"

section \<open>Scenario inputs\<close>

text \<open>
  A pattern compiler that rejects \<open>[a\<close>, \<open>(x\<close> and \<open>**\<close>, as \<open>re.compile\<close> does, and a
  table printer that joins headers and cells with bars and lines; the interface over the
  controller of \<open>BooksController\<close> with an empty console; and an API that times out
  when it is asked for the authors, with a user who has both views on and lists authors.
\<close>

definition demo_lib :: ui_lib where
  "demo_lib = \<lparr>lib_tabulate = (\<lambda>rows hdrs. str_join ''\<newline>'' (map (str_join ''|'') (hdrs # map (map py_str) rows))),
               lib_compiles = (\<lambda>p. p \<notin> set [''[a'', ''(x'', ''**''])\<rparr>"

definition demo_ui :: books_ui where
  "demo_ui = \<lparr>ui_ctrl = demo_ctrl, ui_con = \<lparr>con_in = [], con_out = []\<rparr>, ui_files = []\<rparr>"

definition demo_flaky_env :: books_env where
  "demo_flaky_env =
     demo_env\<lparr>env_settings := (env_settings demo_env)\<lparr>bs_fields := [(''Title'', ''items.volumeInfo.title''),
                                                          (''Authors'', ''items.volumeInfo.authors'')]\<rparr>,
              env_http := (\<lambda>ps. if (''fields'', JStr ''items.volumeInfo.authors'') \<in> set ps
                                then HttpRaises ''Read timed out'' else env_http demo_env ps)\<rparr>"

definition demo_both_ctrl :: books_ctrl where
  "demo_both_ctrl = demo_ctrl\<lparr>user := demo_user\<lparr>us_is_list_print := True, us_list_fields := [''Authors'']\<rparr>\<rparr>"

section \<open>Lemmas\<close>

text \<open>The loop of \<open>set_regex\<close>: it stops at the first pattern that compiles, and only at
  one; on a console without one it runs out of input.\<close>

lemma read_regex_first:
  "\<forall>b \<in> set bad. \<not> ok b \<Longrightarrow> ok r \<Longrightarrow>
   read_regex ok \<lparr>con_in = bad @ r # rest, con_out = out\<rparr>
     = Inr (r, \<lparr>con_in = rest, con_out = out @ replicate (length bad) ''Wrong regex, try again''\<rparr>)"
proof (induction bad arbitrary: out)
  case Nil
  then show ?case by (simp add: read_regex.simps)
next
  case (Cons b bad)
  then show ?case by (subst read_regex.simps) (simp add: replicate_append_same [symmetric])
qed

lemma read_regex_exhausted:
  "\<forall>b \<in> set (con_in c). \<not> ok b \<Longrightarrow> read_regex ok c = Inl EOFError"
proof (induction "con_in c" arbitrary: c)
  case Nil
  then show ?case by (simp add: read_regex.simps)
next
  case (Cons l ls)
  then show ?case by (subst read_regex.simps) (simp add: Cons.hyps(2) [symmetric])
qed

lemma read_regex_ok: "read_regex ok c = Inr (r, c') \<Longrightarrow> ok r"
proof (induction ok c rule: read_regex.induct)
  case (1 ok c)
  then show ?case by (subst (asm) read_regex.simps) (auto split: list.splits if_splits)
qed

text \<open>Searching, showing the results and saving change the history and nothing else of the
  controller.\<close>

lemma search_hist_only: "search env st names = Inr (r, st') \<Longrightarrow> hist_only st st'"
  by (auto simp: search_def Let_def rbind_eq_Inr split: if_splits)

lemma views_hist_only:
  "search_for_table env st = Inr (r, st') \<Longrightarrow> hist_only st st'"
  "search_for_list env st = Inr (r, st') \<Longrightarrow> hist_only st st'"
  by (auto simp: search_for_table_def search_for_list_def search_generic_def rbind_eq_Inr
      split: if_splits dest: search_hist_only)

lemma hist_only_trans: "hist_only st st1 \<Longrightarrow> hist_only st1 st' \<Longrightarrow> hist_only st st'"
  by (cases st, cases st1, cases st') simp

lemma hist_only_keeps:
  assumes "hist_only st st'"
  shows "last_query st' = last_query st" "last_regex st' = last_regex st"
    "regex_field_name st' = regex_field_name st" "user st' = user st"
  using arg_cong [OF assms, of last_query] arg_cong [OF assms, of last_regex]
    arg_cong [OF assms, of regex_field_name] arg_cong [OF assms, of user] by simp_all

lemma view_part_hist_only:
  assumes "\<And>r s. srch st = Inr (r, s) \<Longrightarrow> hist_only st s" "view_part on kind srch fmt st = Inr (x, st')"
  shows "hist_only st st'"
proof (cases "on")
  case False
  then show ?thesis using assms(2) by (simp add: view_part_def)
next
  case True
  show ?thesis
  proof (cases "srch st")
    case (Inl e)
    then show ?thesis using assms(2) True by (simp add: view_part_def split: if_splits)
  next
    case (Inr a)
    obtain r s where a: "a = (r, s)" by (cases a)
    have "s = st'" using assms(2) True Inr a by (auto simp: view_part_def rbind_eq_Inr)
    then show ?thesis using assms(1) Inr a by simp
  qed
qed

lemma view_parts_hist_only:
  "view_part on kind (search_for_table env) fmt st = Inr (x, st') \<Longrightarrow> hist_only st st'"
  "view_part on kind (search_for_list env) fmt st = Inr (x, st') \<Longrightarrow> hist_only st st'"
  by (auto intro: view_part_hist_only dest: views_hist_only)

lemma get_results_hist_only: "get_results env lib st = Inr (t, st') \<Longrightarrow> hist_only st st'"
  unfolding get_results_def get_results_string_def
  by (auto split: if_splits option.splits elim!: rbind_pairE dest!: view_parts_hist_only)
     (metis hist_only_trans)+

lemma flat_search_hist_only: "flat_search env st m = Inr (r, st') \<Longrightarrow> hist_only st st'"
  by (cases "m = ''List''") (fastforce dest!: flat_search_view dest: views_hist_only)+

lemma stage_hist_only:
  "(if c then rbind (V st) (\<lambda>(r, s1). Inr (f r, s1)) else Inr (z, st)) = Inr (x, st1) \<Longrightarrow>
   (\<And>r s. V st = Inr (r, s) \<Longrightarrow> hist_only st s) \<Longrightarrow> hist_only st st1"
  by (auto simp: rbind_pair_Inr split: if_splits)

lemma csv_stage_hist_only:
  "(if c then rbind (flat_search env st m) (\<lambda>((rows, sel), st1).
       rbind (save_to_csv rows sel fn) (\<lambda>w. Inr (w, st1))) else Inr ([], st)) = Inr (x, st1) \<Longrightarrow>
   hist_only st st1"
  by (auto simp: rbind_pair_Inr rbind_eq_Inr split: if_splits prod.splits dest: flat_search_hist_only)

lemma books_save_hist_only: "books_save env st p d = Inr (w, st') \<Longrightarrow> hist_only st st'"
proof -
  assume a: "books_save env st p d = Inr (w, st')"
  consider (j) "save_to_json env st p = Inr (w, st')" | (c) "save_to_csv_files env st p = Inr (w, st')" | (t) "st' = st"
    using a by (auto simp: books_save_def split: if_splits)
  then show ?thesis
  proof cases
    case j
    then obtain kv1 st1 kv2 where
      1: "(if us_is_table_print (user st) then rbind (search_for_table env st) (\<lambda>(r, st1). Inr ([(''table'', view_json r)], st1))
           else Inr ([], st)) = Inr (kv1, st1)" and
      2: "(if us_is_list_print (user st1) then rbind (search_for_list env st1) (\<lambda>(r, st2). Inr ([(''list'', view_json r)], st2))
           else Inr ([], st1)) = Inr (kv2, st')"
      unfolding save_to_json_def rbind_pair_Inr by auto
    have "hist_only st st1"
      using stage_hist_only [where V = "search_for_table env" and f = "\<lambda>r. [(''table'', view_json r)]", OF 1] views_hist_only(1) by blast
    moreover have "hist_only st1 st'"
      using stage_hist_only [where V = "search_for_list env" and f = "\<lambda>r. [(''list'', view_json r)]", OF 2] views_hist_only(2) by blast
    ultimately show ?thesis by (metis hist_only_trans)
  next
    case c
    then obtain w1 st1 w2 where
      1: "(if us_is_table_print (user st) then
              rbind (flat_search env st ''Table'') (\<lambda>((rows, sel), st1).
                rbind (save_to_csv rows sel (py_replace ''.csv'' ''_table.csv'' p)) (\<lambda>w. Inr (w, st1)))
            else Inr ([], st)) = Inr (w1, st1)" and
      2: "(if us_is_list_print (user st1) then
              rbind (flat_search env st1 ''List'') (\<lambda>((rows, sel), st2).
                rbind (save_to_csv rows sel (py_replace ''.csv'' ''_list.csv'' p)) (\<lambda>w. Inr (w, st2)))
            else Inr ([], st1)) = Inr (w2, st')"
      unfolding save_to_csv_files_def rbind_pair_Inr by auto
    show ?thesis using csv_stage_hist_only [OF 1] csv_stage_hist_only [OF 2] by (metis hist_only_trans)
  next
    case t
    then show ?thesis by simp
  qed
qed

text \<open>A path that ends with \<open>.txt\<close> ends with neither of the other two extensions.\<close>

lemma py_endswith_last: "py_endswith sfx s \<Longrightarrow> sfx \<noteq> [] \<Longrightarrow> last s = last sfx"
  unfolding py_endswith_def by (metis append_take_drop_id last_appendR)

lemma txt_not_json_csv: "py_endswith ''.txt'' p \<Longrightarrow> \<not> py_endswith ''.json'' p \<and> \<not> py_endswith ''.csv'' p \<and> p \<noteq> []"
proof -
  assume a: "py_endswith ''.txt'' p"
  then have "p \<noteq> []" by (auto simp: py_endswith_def)
  moreover have "last p = CHR ''t''" using py_endswith_last [OF a] by simp
  ultimately show ?thesis by (auto dest!: py_endswith_last)
qed

text \<open>Only \<open>set_regex\<close> stores a pattern, and it stores one that compiles.\<close>

lemma regex_compiles_ctrl:
  "last_regex (ui_ctrl u') = last_regex (ui_ctrl u) \<Longrightarrow> regex_compiles lib u' = regex_compiles lib u"
  by (simp add: regex_compiles_def)

lemma show_main_regex: "show_main env lib u = Inr u' \<Longrightarrow> last_regex (ui_ctrl u') = last_regex (ui_ctrl u)"
  by (auto simp: show_main_def print_ui_def rbind_pair_Inr dest!: get_results_hist_only hist_only_keeps(2))

lemma set_regex_compiles: "set_regex lib u = Inr u' \<Longrightarrow> regex_compiles lib u'"
  by (auto simp: set_regex_def regex_compiles_def rbind_pair_Inr dest: read_regex_ok)

lemma regex_menu_compiles:
  "regex_menu lib cs u = Inr u' \<Longrightarrow> regex_compiles lib u \<Longrightarrow> regex_compiles lib u'"
proof (induction lib cs u rule: regex_menu.induct)
  case (2 lib cs u)
  then show ?case by (auto simp: rbind_eq_Inr dest: set_regex_compiles)
next
  case (3 lib m cs u)
  then show ?case by (simp add: set_regex_field_def regex_compiles_def)
qed simp

lemma settings_menu_regex:
  "settings_menu cs u = Inr u' \<Longrightarrow> last_regex (ui_ctrl u') = last_regex (ui_ctrl u)"
  by (induction cs u rule: settings_menu.induct)
     (auto simp: rbind_eq_Inr choose_fields_def set_selected_def split: if_splits)

lemma ui_save_regex: "ui_save env lib p u = Inr (x, u') \<Longrightarrow> last_regex (ui_ctrl u') = last_regex (ui_ctrl u)"
  unfolding ui_save_def
  by (auto simp: print_ui_def split: if_splits elim!: rbind_pairE dest!: get_results_hist_only books_save_hist_only hist_only_keeps(2))

lemma run_cmd_compiles:
  "run_cmd env lib c u = Inr u' \<Longrightarrow> regex_compiles lib u \<Longrightarrow> regex_compiles lib u'"
proof (cases c)
  case InputQuery
  then show "run_cmd env lib c u = Inr u' \<Longrightarrow> regex_compiles lib u \<Longrightarrow> regex_compiles lib u'"
    by (auto simp: run_cmd_def set_query_def regex_compiles_def rbind_pair_Inr)
qed (auto simp: run_cmd_def choose_visualization_method_def Let_def regex_compiles_def rbind_pair_Inr
     dest: regex_menu_compiles settings_menu_regex ui_save_regex)

text \<open>The program of \<open>init.main\<close>: without a logger path it stops before the interface
  shows; otherwise the stored pattern compiles at the end when the start pattern
  \<open>REGEX_FOR_DATE\<close> compiles.\<close>

lemma main_menu_compiles:
  "main_menu env lib cs u = Inr u' \<Longrightarrow> regex_compiles lib u \<Longrightarrow> regex_compiles lib u'"
proof (induction cs arbitrary: u)
  case Nil
  then show ?case using show_main_regex regex_compiles_ctrl by (metis main_menu.simps(1))
next
  case (Cons c cs)
  then obtain u1 u2 where "show_main env lib u = Inr u1" "run_cmd env lib c u1 = Inr u2" "main_menu env lib cs u2 = Inr u'"
    by (auto simp: rbind_eq_Inr)
  then show ?case using Cons.IH Cons.prems(2) show_main_regex regex_compiles_ctrl run_cmd_compiles by metis
qed

lemma books_main_regex_compiles:
  assumes "books_main absolute env lib u h input cmds = Inr ui" "lib_compiles lib ''^201[7-9]|^202''"
  shows "regex_compiles lib ui"
proof -
  have m: "main_menu env lib cmds \<lparr>ui_ctrl = books_init u h, ui_con = \<lparr>con_in = input, con_out = []\<rparr>, ui_files = []\<rparr> = Inr ui"
    using assms(1) by (auto simp: books_main_def Let_def rbind_eq_Inr)
  show ?thesis
    by (rule main_menu_compiles [OF m]) (simp add: assms(2) regex_compiles_def books_init_def)
qed

lemma books_main_no_logger:
  "bs_logger_path (env_settings env) = None \<Longrightarrow>
   books_main absolute env lib u h input cmds = Inl (KeyError ''There no logger path provided!'')"
  by (simp add: books_main_def get_logger_path_def)

section \<open>Properties\<close>

text \<open>
  C31. The pattern loop of \<open>set_regex\<close> ends as soon as a pattern that compiles is
  entered: it stores that pattern, leaves the lines after it unread, and has printed one
  warning for each rejected pattern before it.
\<close>

theorem set_regex_returns:
  assumes "con_in (ui_con u) = bad @ r # rest" "\<forall>b \<in> set bad. \<not> lib_compiles lib b" "lib_compiles lib r"
  shows "set_regex lib u =
           Inr (u\<lparr>ui_ctrl := (ui_ctrl u)\<lparr>last_regex := Some r\<rparr>,
                  ui_con := \<lparr>con_in = rest,
                             con_out = con_out (ui_con u) @ replicate (length bad) ''Wrong regex, try again''\<rparr>\<rparr>)"
proof -
  have c: "ui_con u = \<lparr>con_in = bad @ r # rest, con_out = con_out (ui_con u)\<rparr>"
    using assms(1) by simp
  have "read_regex (lib_compiles lib) (ui_con u)
        = Inr (r, \<lparr>con_in = rest, con_out = con_out (ui_con u) @ replicate (length bad) ''Wrong regex, try again''\<rparr>)"
    by (subst c) (rule read_regex_first [OF assms(2,3)])
  then show ?thesis by (simp add: set_regex_def)
qed

theorem set_regex_returns_witness:
  "set_regex demo_lib (demo_ui\<lparr>ui_con := \<lparr>con_in = [''[a'', ''**'', ''^19'', ''C++''], con_out = []\<rparr>\<rparr>)
     = Inr (demo_ui\<lparr>ui_ctrl := demo_ctrl\<lparr>last_regex := Some ''^19''\<rparr>,
                    ui_con := \<lparr>con_in = [''C++''], con_out = [''Wrong regex, try again'', ''Wrong regex, try again'']\<rparr>\<rparr>)"
  using set_regex_returns [of "demo_ui\<lparr>ui_con := \<lparr>con_in = [''[a'', ''**'', ''^19'', ''C++''], con_out = []\<rparr>\<rparr>"
      "[''[a'', ''**'']" "''^19''" "[''C++'']" demo_lib]
  by (simp add: demo_lib_def demo_ui_def numeral_2_eq_2)

text \<open>
  C32. Whatever the user does in the menus, the stored regular expression is one that
  compiles, when the start state's is: only \<open>set_regex\<close> stores a pattern, and its loop
  accepts only patterns \<open>is_regex\<close> accepts; searching and saving leave it alone.
\<close>

theorem ui_regex_always_compiles:
  assumes "ui_reachable env lib u0 u" "regex_compiles lib u0"
  shows "regex_compiles lib u"
  using assms
proof (induction rule: ui_reachable.induct)
  case (step u u1 c u')
  then show ?case using show_main_regex regex_compiles_ctrl run_cmd_compiles by metis
qed

theorem ui_regex_always_compiles_witness:
  "\<exists>u. ui_reachable demo_env demo_lib (demo_ui\<lparr>ui_con := \<lparr>con_in = [''[a'', ''^19''], con_out = []\<rparr>\<rparr>) u
       \<and> regex_compiles demo_lib (demo_ui\<lparr>ui_con := \<lparr>con_in = [''[a'', ''^19''], con_out = []\<rparr>\<rparr>)
       \<and> last_regex (ui_ctrl u) = Some ''^19'' \<and> regex_compiles demo_lib u"
proof -
  let ?u0 = "demo_ui\<lparr>ui_con := \<lparr>con_in = [''[a'', ''^19''], con_out = []\<rparr>\<rparr>"
  have c: "case rbind (show_main demo_env demo_lib ?u0) (run_cmd demo_env demo_lib (RegexMenu [RegexPattern])) of
             Inl _ \<Rightarrow> False | Inr u \<Rightarrow> last_regex (ui_ctrl u) = Some ''^19''"
    by code_simp
  then obtain u1 u where s: "show_main demo_env demo_lib ?u0 = Inr u1"
      "run_cmd demo_env demo_lib (RegexMenu [RegexPattern]) u1 = Inr u" "last_regex (ui_ctrl u) = Some ''^19''"
    by (auto simp: rbind_def split: sum.splits)
  have r: "ui_reachable demo_env demo_lib ?u0 u"
    by (rule ui_reachable.step [OF ui_reachable.start s(1,2)])
  have i: "regex_compiles demo_lib ?u0" by (simp add: regex_compiles_def demo_ui_def demo_ctrl_def books_init_def)
  show ?thesis using ui_regex_always_compiles [OF r i] r i s(3) by blast
qed

text \<open>
  C33. Saving to a \<open>.txt\<close> file writes the results text of the main menu with its
  colour codes removed, and keeps the effect on the history of the searches that
  computed it.
\<close>

theorem save_txt_writes_plain_text:
  assumes "last_query (ui_ctrl u) \<noteq> []" "py_endswith ''.txt'' path"
    and "get_results env lib (ui_ctrl u) = Inr (r, st1)"
  shows "ui_save env lib path u = Inr (None, u\<lparr>ui_ctrl := st1, ui_files := ui_files u @ [WriteText path (remove_styles r)]\<rparr>)"
  using assms txt_not_json_csv [OF assms(2)]
  by (simp add: ui_save_def books_save_def save_to_text_def)

theorem save_txt_writes_plain_text_witness:
  "\<exists>r st1. last_query (ui_ctrl demo_ui) \<noteq> [] \<and> py_endswith ''.txt'' ''books.txt''
     \<and> get_results demo_env demo_lib (ui_ctrl demo_ui) = Inr (r, st1) \<and> esc \<in> set r \<and> esc \<notin> set (remove_styles r)
     \<and> ui_save demo_env demo_lib ''books.txt'' demo_ui
         = Inr (None, demo_ui\<lparr>ui_ctrl := st1, ui_files := ui_files demo_ui @ [WriteText ''books.txt'' (remove_styles r)]\<rparr>)"
proof -
  have c: "case get_results demo_env demo_lib demo_ctrl of Inl _ \<Rightarrow> False
           | Inr (r, st1) \<Rightarrow> esc \<in> set r \<and> esc \<notin> set (remove_styles r)"
    by code_simp
  then obtain r st1 where g: "get_results demo_env demo_lib demo_ctrl = Inr (r, st1)"
    and e: "esc \<in> set r \<and> esc \<notin> set (remove_styles r)"
    by (auto split: sum.splits)
  have u: "ui_ctrl demo_ui = demo_ctrl" by (simp add: demo_ui_def)
  have h: "last_query (ui_ctrl demo_ui) \<noteq> []" by (simp add: u demo_ctrl_def books_init_def)
  have x: "py_endswith ''.txt'' ''books.txt''" by (simp add: py_endswith_def)
  show ?thesis using save_txt_writes_plain_text [OF h x, of demo_env demo_lib r st1] g e h x u by auto
qed

text \<open>
  C34. Showing the main menu searches: its title is \<open>get_results\<close>, so with a query and
  the table view on, every display runs the table search, records it in the history,
  and prints the table text followed directly by the \<open>Query:\<close> line.
\<close>

theorem menu_display_searches:
  assumes "last_query (ui_ctrl u) \<noteq> []" "us_is_table_print (user (ui_ctrl u))" "\<not> us_is_list_print (user (ui_ctrl u))"
    and "search_for_table env (ui_ctrl u) = Inr (r, st1)" "view_text ''table'' (table_fmt env lib (ui_ctrl u)) r = Inr s"
  shows "show_main env lib u =
           Inr (print_ui (s @ ''Query: '' @ last_query (ui_ctrl u) @ ''\<newline>'' @ dynamic_regex_title st1 @ ''\<newline>'')
                  (u\<lparr>ui_ctrl := st1\<rparr>))"
proof -
  have "us_is_list_print (user st1) = us_is_list_print (user (ui_ctrl u))"
    using hist_only_keeps(4) [OF views_hist_only(1) [OF assms(4)]] by simp
  then show ?thesis
    using assms by (simp add: show_main_def get_results_def get_results_string_def view_part_def)
qed

theorem menu_display_searches_witness:
  "\<exists>r st1 s. last_query (ui_ctrl demo_ui) \<noteq> [] \<and> us_is_table_print (user (ui_ctrl demo_ui))
     \<and> \<not> us_is_list_print (user (ui_ctrl demo_ui))
     \<and> search_for_table demo_env (ui_ctrl demo_ui) = Inr (r, st1)
     \<and> view_text ''table'' (table_fmt demo_env demo_lib (ui_ctrl demo_ui)) r = Inr s
     \<and> hist_events (hist st1) \<noteq> []
     \<and> show_main demo_env demo_lib demo_ui =
         Inr (print_ui (s @ ''Query: '' @ last_query (ui_ctrl demo_ui) @ ''\<newline>'' @ dynamic_regex_title st1 @ ''\<newline>'')
                (demo_ui\<lparr>ui_ctrl := st1\<rparr>))"
proof -
  have c: "case search_for_table demo_env demo_ctrl of Inl _ \<Rightarrow> False
           | Inr (r, st1) \<Rightarrow> hist_events (hist st1) \<noteq> []
               \<and> (case view_text ''table'' (table_fmt demo_env demo_lib demo_ctrl) r of Inl _ \<Rightarrow> False | Inr _ \<Rightarrow> True)"
    by code_simp
  then obtain r st1 s where s: "search_for_table demo_env demo_ctrl = Inr (r, st1)" "hist_events (hist st1) \<noteq> []"
      "view_text ''table'' (table_fmt demo_env demo_lib demo_ctrl) r = Inr s"
    by (auto split: sum.splits prod.splits)
  have u: "ui_ctrl demo_ui = demo_ctrl" by (simp add: demo_ui_def)
  have h: "last_query (ui_ctrl demo_ui) \<noteq> []" "us_is_table_print (user (ui_ctrl demo_ui))"
      "\<not> us_is_list_print (user (ui_ctrl demo_ui))"
    by (simp_all add: u demo_ctrl_def books_init_def demo_user_def)
  show ?thesis using menu_display_searches [OF h, of demo_env r st1 demo_lib s] s h u by auto
qed

text \<open>
  C35. When the list search raises after the table search has succeeded, the results
  text is only \<open>"Error"\<close>, but the table search stays recorded in the history.
\<close>

theorem results_error_keeps_table_search:
  assumes "last_query st \<noteq> []" "us_is_table_print (user st)" "us_is_list_print (user st)"
    and "search_for_table env st = Inr (r, st1)" "view_text ''table'' (table_fmt env lib st) r = Inr s"
    and "search_for_list env st1 = Inl e" "e \<noteq> Diverges"
  shows "get_results env lib st = Inr (''Error'', st1)"
  using assms by (simp add: get_results_def get_results_string_def view_part_def)

theorem results_error_keeps_table_search_witness:
  "\<exists>r st1 s e. search_for_table demo_flaky_env demo_both_ctrl = Inr (r, st1)
     \<and> view_text ''table'' (table_fmt demo_flaky_env demo_lib demo_both_ctrl) r = Inr s
     \<and> search_for_list demo_flaky_env st1 = Inl e \<and> e \<noteq> Diverges
     \<and> hist_events (hist st1) \<noteq> []
     \<and> get_results demo_flaky_env demo_lib demo_both_ctrl = Inr (''Error'', st1)"
proof -
  have c: "case search_for_table demo_flaky_env demo_both_ctrl of Inl _ \<Rightarrow> False
           | Inr (r, st1) \<Rightarrow> hist_events (hist st1) \<noteq> []
               \<and> (case view_text ''table'' (table_fmt demo_flaky_env demo_lib demo_both_ctrl) r of Inl _ \<Rightarrow> False | Inr _ \<Rightarrow> True)
               \<and> (case search_for_list demo_flaky_env st1 of Inl e \<Rightarrow> e \<noteq> Diverges | Inr _ \<Rightarrow> False)"
    by code_simp
  then obtain r st1 where t: "search_for_table demo_flaky_env demo_both_ctrl = Inr (r, st1)"
    and k: "hist_events (hist st1) \<noteq> []
               \<and> (case view_text ''table'' (table_fmt demo_flaky_env demo_lib demo_both_ctrl) r of Inl _ \<Rightarrow> False | Inr _ \<Rightarrow> True)
               \<and> (case search_for_list demo_flaky_env st1 of Inl e \<Rightarrow> e \<noteq> Diverges | Inr _ \<Rightarrow> False)"
    by (auto split: sum.splits)
  obtain s where v: "view_text ''table'' (table_fmt demo_flaky_env demo_lib demo_both_ctrl) r = Inr s"
    using k by (auto split: sum.splits)
  obtain e where l: "search_for_list demo_flaky_env st1 = Inl e" "e \<noteq> Diverges"
    using k by (auto split: sum.splits)
  note s = t k v l
  have h: "last_query demo_both_ctrl \<noteq> []" "us_is_table_print (user demo_both_ctrl)" "us_is_list_print (user demo_both_ctrl)"
    by (simp_all add: demo_both_ctrl_def demo_ctrl_def books_init_def demo_user_def)
  show ?thesis using results_error_keeps_table_search [OF h t v l] t v l k by blast
qed

end
