(* ===== verification/Spec2Isabelle.thy ===== *)
theory Spec2Isabelle
  imports Figure Camera Templates Picking Scene Ascii Controller AsciiMenu Font BooksController BooksUI
begin

text \<open>
  A verification development of the 3D scene engine of \<open>src/src/labs/lab5\<close>: a camera,
  polyhedral figures with their transforms, a scene that selects figures by picking their
  projected bounding boxes, drawing strategies per draw mode, a renderer that turns the
  frame read back from OpenGL into coloured ASCII text, and a controller that routes the
  GLUT keyboard, mouse and window events to all of these, started from a console menu.
  Beside it, the development models
  the two other programs of the repository that hold logic: the bitmap font of lab 4 and
  the Google Books search client of lab 7 (\<open>src/src/labs/lab7\<close>), whose styler strips the
  same colour escapes the lab 5 renderer writes.

  \<^bold>\<open>How the parts interact.\<close> The controller (\<open>bll/Controller.py\<close>) owns a scene
  (\<open>bll/Scene.py\<close>) and an ASCII renderer (\<open>ui/Renderer.py\<close>). Key presses go through the
  key table and the action table to figure or camera operations; a left click runs
  \<open>Scene.selection\<close>, which projects each figure with GLU and selects the first one hit;
  a right drag rotates the selected figure or the camera; \<open>display\<close> draws the scene and
  hands the frame to the renderer; saving strips the escape codes the renderer wrote. The
  menu (\<open>ui/Ascii3DMenu.py\<close>) runs before and between scene sessions: it sets the save
  file and the output height and starts the GLUT main loop. In lab 7 the user interface
  (\<open>ui/UserInterface.py\<close>) calls the controller, which searches through the API and
  records the history, and the styler formats the results the main menu shows.

  \<^bold>\<open>Library layout\<close> (theory: what it models, the definitions that model it).
  \<^item> \<open>Prelude\<close>: \<open>vec3\<close> for points, colours and angles, 3x3 matrices, \<open>mean\<close>
    (\<open>numpy.mean(axis=0)\<close>), clamping, truncating \<open>int()\<close>, the Python exceptions as the
    datatype \<open>py_error\<close> (with \<open>Diverges\<close> for a handler that never returns), results
    \<open>py_error + 'a\<close> with \<open>rbind\<close> and \<open>rmap\<close>, and the list lemmas the components share.
  \<^item> \<open>Figure\<close>: \<open>dal/Figure.py\<close> as records (edges and faces hold vertex indices) and
    every mutator of \<open>bll/FigureWrapper.py\<close>: \<open>translate\<close>, \<open>rotate\<close>, \<open>scale\<close>,
    \<open>set_draw_mode\<close>, \<open>set_color\<close>, \<open>apply_color_transformation\<close>, and
    \<open>figure_step\<close> over them.
  \<^item> \<open>Camera\<close>: \<open>dal/Camera.py\<close> and \<open>bll/CameraWrapper.py\<close> (\<open>cam_rotate\<close>,
    \<open>cam_translate\<close>, the clamped \<open>update_*\<close>, \<open>apply_transformations\<close>), with \<open>camera_step\<close>.
  \<^item> \<open>Templates\<close>: the seven template figures of \<open>bll/FigureWrapper.py\<close> vertex by vertex,
    the \<open>figures\<close> dictionary and \<open>create\<close>/\<open>set_example\<close>.
  \<^item> \<open>Picking\<close>: \<open>project_vertices_to_screen\<close> and \<open>contains_point\<close> over
    \<open>glu_project\<close>, \<open>glu_look_at\<close>, \<open>glu_perspective\<close>.
  \<^item> \<open>Scene\<close>: \<open>dal/Scene.py\<close> and \<open>bll/Scene.py\<close> over an explicit store \<open>heap\<close> of figure
    objects (a figure reference is a slot; slots 0 to 6 are the templates, which
    \<open>create\<close> returns without copying): \<open>add_figure\<close>, \<open>select_figure\<close>,
    \<open>deselect_figure\<close>, \<open>selection\<close>, \<open>handle_click\<close>, \<open>handle_motion\<close>, and
    \<open>create_scene\<close> of \<open>init.py\<close>.
  \<^item> \<open>Draw\<close>: the \<open>draw*\<close> methods of \<open>FigureWrapper\<close> and \<open>Scene.draw\<close> as the list of
    immediate-mode commands (\<open>gl_cmd\<close>) they send, or the exception they raise.
  \<^item> \<open>Ascii\<close>: \<open>AsciiRenderer\<close> (\<open>map_pixel_to_ascii\<close> on bytes, \<open>render_to_ascii\<close>,
    \<open>reshape\<close>, \<open>set_ascii_height\<close>) and the escape-stripping loop of
    \<open>Controller.get_scene\<close> (\<open>strip_from\<close>, \<open>get_scene\<close>).
  \<^item> \<open>Controller\<close>: the settings and controller state as records, \<open>keys_map\<close> of
    \<open>dal/Keyboard.py\<close>, the callbacks of \<open>ui/Keyboard.py\<close> and \<open>ui/Mouse.py\<close>, every
    Controller handler (\<open>execute_command\<close>, \<open>handle_keyboard\<close>, \<open>ctrl_handle_mouse\<close>,
    \<open>handle_wheel\<close>, \<open>ctrl_handle_motion\<close>, \<open>ctrl_reshape\<close>, \<open>ctrl_display\<close>,
    \<open>save_scene\<close>, \<open>stop_scene\<close>), the event type \<open>ctrl_event\<close> with the step function
    \<open>ctrl_step\<close>, and the inductive set \<open>ctrl_reachable\<close> of states the event loop reaches
    from \<open>ctrl_init\<close>, with or without a file name set by the menu beforehand.
  \<^item> \<open>AsciiMenu\<close>: \<open>Ascii3DMenu\<close> (\<open>menu_make_scene\<close>, \<open>menu_save_scene\<close>,
    \<open>menu_set_height\<close>, the loop \<open>menu_show\<close>), the controller methods only the menu calls
    (\<open>ctrl_set_height\<close>, \<open>glut_init\<close>, \<open>ctrl_make_scene\<close> with the GLUT loop
    \<open>main_loop\<close>), and \<open>init.main\<close> as \<open>lab5_main\<close>: the whole lab 5 program as a function of
    the user's menu choices and the events of each scene session.
  \<^item> \<open>Font\<close>: the \<open>base_font\<close> dictionary of \<open>src/src/labs/lab4/bll/base_font.py\<close>,
    generated glyph by glyph, keyed by code point, in six groups that follow the source.
  \<^item> \<open>Json\<close>: the JSON values of lab 7 and the Python operations on them (\<open>get\<close>,
    subscripting, truth, iteration, \<open>str\<close>).
  \<^item> \<open>BooksQuery\<close>: \<open>InputParser\<close> (\<open>parse_query\<close>) and \<open>extract_data_items\<close>; the
    regular-expression search is a parameter.
  \<^item> \<open>Styler\<close>: \<open>DataStyler\<close>: the colour tables, \<open>apply_styles\<close>, \<open>remove_styles\<close>
    (its pattern as the scan \<open>ansi_match\<close>), \<open>as_list\<close> and \<open>as_table\<close> (the grid
    drawing of \<open>tabulate\<close> is a parameter).
  \<^item> \<open>BooksModels\<close>: \<open>HistoryModel\<close>, \<open>SettingsModel\<close> and \<open>UserSettingsModel\<close> as
    records, \<open>FileHandler\<close>'s outputs and \<open>GoogleBooksAPI.search\<close> over a network
    parameter.
  \<^item> \<open>BooksController\<close>: the lab 7 \<open>Controller\<close>: filtering, the paging loop
    \<open>search_loop\<close>, \<open>search\<close> with its history record, the views, \<open>flat_search\<close>, the
    three save formats, and the step function \<open>books_step\<close> over the calls of the user
    interface with the reachable states \<open>books_reachable\<close>.
  \<^item> \<open>BooksUI\<close>: \<open>UserInterface\<close> of lab 7: the results text (\<open>get_results\<close>,
    \<open>get_results_string\<close> with the \<open>try\<close> around each search), \<open>ui_save\<close>, \<open>set_query\<close>,
    the pattern loop \<open>read_regex\<close> of \<open>set_regex\<close>, the field and view choosers, and the
    menus as \<open>main_menu\<close>, whose every display runs \<open>get_results\<close>; \<open>ui_reachable\<close> is
    the set of states the menus reach; \<open>books_main\<close> is \<open>init.main\<close> of lab 7 with
    \<open>get_logger_path\<close>. The console is a list of input lines and a list of
    printed lines; the menus, inputs and the save dialog (from \<open>shared\<close> and \<open>tkinter\<close>,
    outside the repository) are their answers; \<open>re.compile\<close> and \<open>tabulate\<close> are
    parameters.
  \<^item> This theory: the properties that span the two programs.

  \<^bold>\<open>What is proved.\<close>
  \<^item> Figures: translation is additive; rotation keeps the centroid, is rigid and is undone
    by the inverse rotations; every figure operation keeps a figure well formed.
  \<^item> Camera: the clamp ranges are invariant under any sequence of camera operations.
  \<^item> Picking: a figure contains the screen point of each of its vertices that projects,
    and a vertex whose projection fails is not picked.
  \<^item> Scene: \<open>selection\<close> selects exactly the first figure hit and leaves at most one
    figure selected.
  \<^item> Controller: the invariant \<open>world_inv\<close> (selection consistent, camera object in range)
    holds in every reachable state, by rule induction over \<open>ctrl_reachable\<close>; the
    selection of the controller refines the two-state machine \<open>spec_sel_step\<close>
    (Nothing selected / Figure selected), with a left click as its only transition; key
    dispatch, drags, reshape and display behave as stated on every branch, and
    every reachable state can be drawn. Liveness: from every reachable state without a
    save file the exit key is handled without an exception and leaves the main loop;
    with a save file chosen in the menu (\<open>set_file_name\<close>) and no frame displayed yet,
    the same key raises \<open>AttributeError\<close> in \<open>save_scene\<close>.
  \<^item> Lab 5 program: the controller invariant holds in the state \<open>init.main\<close> reaches
    through any menu choices and any number of scene sessions; the height chosen in the
    menu is the renderer's in the following session, since no event changes it.
  \<^item> ASCII: the glyph index is the floor of the grey ramp position; the escape-stripping
    of \<open>get_scene\<close> inverts \<open>render_to_ascii\<close> (a round trip); \<open>get_scene\<close> does not
    return on any screen one of whose lines holds an escape introducer with no \<open>m\<close>
    after it (proved by fixed-point induction over \<open>strip_from\<close>).
  \<^item> Font: the table is a proper dictionary; all glyphs are 5 by 6 except two Ukrainian
    letters, and two letters of the alphabet have no glyph.
  \<^item> Lab 7: \<open>extract_data_items\<close> gives one row per item with one value per selected
    field that has a path, and fails on a path through a missing key; \<open>remove_styles\<close>
    undoes \<open>apply_styles\<close> (a round trip); \<open>as_list\<close> fails when a selected field has no
    path; the history never holds more than one search (an invariant of every reachable
    controller state); the paging loop checks the reported total only every second
    round, so against a server answering a constant page it collects exactly the
    pages up to the first odd round that reaches the total; an HTTP
    error status surfaces as an unpacking error; \<open>as_table\<close> does not fail where
    \<open>as_list\<close> does but shifts the columns under the headers.
  \<^item> Lab 7 interface: the pattern loop of \<open>set_regex\<close> returns as soon as a pattern
    compiles (liveness, with one warning per rejected pattern); every state the menus
    reach stores a pattern that compiles (an invariant by rule induction over
    \<open>ui_reachable\<close>, resting on the frame lemmas that searching and saving change only
    the history); saving to \<open>.txt\<close> writes the menu's results text with the colours
    removed; each display of the main menu runs and records a search; a failing list
    search turns the whole text into \<open>"Error"\<close> but keeps the table search recorded.
  \<^item> Across programs: on every output of the lab 5 renderer, lab 5's \<open>get_scene\<close> and
    lab 7's \<open>remove_styles\<close> strip the colour to the same text (an equivalence of two
    implementations).

  \<^bold>\<open>Library code written from its documentation.\<close> GLU (\<open>gluProject\<close>, \<open>gluLookAt\<close>,
  \<open>gluPerspective\<close>), Pillow's \<open>resize(NEAREST)\<close> and \<open>convert("L")\<close> (on \<open>32 word\<close>,
  with the shift written out), the ordered set of pressed keys, and colorama's escape
  constants. The regular-expression engine and the network are parameters of the lab 7
  model: its theorems hold for any engine and any server.

  \<^bold>\<open>Loops and fuel.\<close> The loops over vertices, figures, keys and rows are structural
  recursion or list combinators. The one loop that may not end, the escape-skipping
  \<open>while\<close> of \<open>get_scene\<close>, is \<open>partial_function (option)\<close>: on a line whose escape is
  unterminated it is proved to be \<open>None\<close>, and on the renderer's output it is proved to
  return. The paging loop of lab 7 is a \<open>function\<close> whose termination measure is the
  number of items still missing (a page that does not stop the loop adds at least one);
  \<open>remove_styles\<close> is a \<open>function\<close> on the length of the text. The \<open>while True\<close> of
  \<open>set_regex\<close> is a \<open>function\<close> on the number of unread console lines: each round reads
  one, and an exhausted console raises \<open>EOFError\<close>, as \<open>input()\<close> does. The GLUT main
  loop delivers the finite list of events of a session and is \<open>Diverges\<close> when they run
  out before \<open>exit\<close>, since it would wait for more. No fuel is used.

  \<^bold>\<open>Idealisation.\<close> numpy floats are exact reals: the geometry theorems are about the
  algorithm, not about rounding; in particular the glyph index of \<open>map_pixel_to_ascii\<close>
  is the exact floor of \<open>g / 255 * (len - 1)\<close>. Bytes and the Pillow grey conversion
  are words of their width. A colour transformation is a HOL function, so the
  \<open>callable\<close> guard of \<open>apply_color_transformation\<close> is not modelled. \<open>ctrl_reshape\<close>
  records the height the renderer asks \<open>glutReshapeWindow\<close> for at once, as the
  window height, instead of waiting for the reshape event GLUT sends back.
  \<open>main_loop\<close> stops at the first event after which the controller is no longer running,
  which assumes freeglut was told to return from \<open>glutMainLoop\<close> on leaving it; the
  code sets no \<open>GLUT_ACTION_ON_WINDOW_CLOSE\<close> option, so this over-approximates the
  return of \<open>make_scene\<close>. \<open>search\<close> appends the regex field to the caller's
  \<open>fields_names\<close> list; the model returns the extended list and does not keep the
  mutation of the caller's object.

  \<^bold>\<open>Not modelled.\<close> The menu, input and dialog classes of \<open>shared\<close> and
  \<open>tkinter\<close> (not in the repository: the models take their answers as inputs, and the
  text they print around them is not modelled), the process set-up of lab 7 (environment
  variables, logging handlers, a jsonpickle hook and path resolution through a helper
  outside the repository, whose results are parameters of \<open>books_main\<close>), \<open>print_screen\<close> (\<open>ctrl_display\<close> stores the
  screen but does not print it: the model assumes the settings hold a
  \<open>print_settings\<close> entry with string \<open>title\<close> and \<open>after_screen\<close>, without which
  \<open>print_screen\<close> raises after every frame), GL calls with no state the program reads back (window creation, buffer swaps),
  the grid drawing of \<open>tabulate\<close>, and the documentation generator (process and file
  I/O). JSON numbers are integers and \<open>repr\<close> of a string always uses single quotes.
\<close>


section \<open>Across components\<close>

text \<open>A line of the lab 5 renderer: coloured cells whose glyphs come from the ramp.\<close>

abbreviation cell_row :: "string \<Rightarrow> string \<Rightarrow> bool" where
  "cell_row chars r \<equiv> \<exists>xs. r = concat (map (\<lambda>x. ascii_cell (fst x) (snd x)) xs) \<and> (\<forall>x \<in> set xs. snd x \<in> set chars)"

lemma map_pixel_cell: "map_pixel_to_ascii chars g col = Inr x \<Longrightarrow> \<exists>ch \<in> set chars. x = ascii_cell col ch"
  by (auto simp: map_pixel_to_ascii_def rbind_eq_Inr dest: py_index_mem)

lemma pixel_cells:
  "rmap (\<lambda>c. map_pixel_to_ascii chars (pil_gray c) c) row = Inr cells \<Longrightarrow>
   \<exists>xs. cells = map (\<lambda>x. ascii_cell (fst x) (snd x)) xs \<and> (\<forall>x \<in> set xs. snd x \<in> set chars)"
proof (induction row arbitrary: cells)
  case Nil
  then show ?case by (intro exI [of _ "[]"]) simp
next
  case (Cons c row)
  then obtain x cs where x: "map_pixel_to_ascii chars (pil_gray c) c = Inr x"
      and cs: "rmap (\<lambda>c. map_pixel_to_ascii chars (pil_gray c) c) row = Inr cs" and cells: "cells = x # cs"
    by (auto simp: rbind_eq_Inr)
  obtain ch where "ch \<in> set chars" "x = ascii_cell c ch" using map_pixel_cell [OF x] by blast
  moreover obtain xs where "cs = map (\<lambda>x. ascii_cell (fst x) (snd x)) xs" "\<forall>x \<in> set xs. snd x \<in> set chars"
    using Cons.IH [OF cs] by blast
  ultimately show ?case using cells by (intro exI [of _ "(c, ch) # xs"]) simp
qed

lemma render_output_cells:
  "render_to_ascii rd frame = Inr s \<Longrightarrow> \<exists>rows. s = py_join CHR ''\<newline>'' rows \<and> (\<forall>r \<in> set rows. cell_row (ascii_chars rd) r)"
proof -
  assume "render_to_ascii rd frame = Inr s"
  then obtain img rows where r: "render_rows (ascii_chars rd) img = Inr rows" and s: "s = py_join CHR ''\<newline>'' rows"
    by (auto simp: render_to_ascii_def Let_def rbind_eq_Inr split: option.splits if_splits)
  have "\<forall>r \<in> set rows. cell_row (ascii_chars rd) r"
  proof
    fix r assume "r \<in> set rows"
    then obtain row where "rbind (rmap (\<lambda>c. map_pixel_to_ascii (ascii_chars rd) (pil_gray c) c) row) (\<lambda>cells. Inr (concat cells)) = Inr r"
      using rmap_Inr_set [OF r [unfolded render_rows_def]] by blast
    then show "cell_row (ascii_chars rd) r" by (auto simp: rbind_eq_Inr dest!: pixel_cells)
  qed
  with s show ?thesis by blast
qed

lemma cells_esc_free:
  "cell_row chars r \<Longrightarrow> esc \<notin> set chars \<Longrightarrow> remove_styles (r @ rest) = remove_styles r @ remove_styles rest"
  using remove_styles_cells [where rest = rest] remove_styles_cells [where rest = "[]"] by fastforce

lemma remove_styles_lines:
  assumes "\<forall>r \<in> set rows. cell_row chars r" "esc \<notin> set chars"
  shows "remove_styles (py_join CHR ''\<newline>'' rows) = py_join CHR ''\<newline>'' (map remove_styles rows)"
  using assms
proof (induction "CHR ''\<newline>''" rows rule: py_join.induct)
  case (3 x y xs)
  have nl: "ansi_match (CHR ''\<newline>'' # t) = None" for t
    by (simp add: ansi_match_plain esc_def)
  show ?case using 3 cells_esc_free [where chars = chars and r = x] by (simp add: nl)
qed simp_all

lemma cell_row_no_nl:
  assumes "cell_row chars r" "CHR ''\<newline>'' \<notin> set chars"
  shows "CHR ''\<newline>'' \<notin> set r"
proof -
  obtain xs where r: "r = concat (map (\<lambda>x. ascii_cell (fst x) (snd x)) xs)"
    and ch: "\<forall>x \<in> set xs. snd x \<in> set chars" using assms(1) by blast
  have "CHR ''\<newline>'' \<notin> set (ascii_cell (fst x) (snd x))" if "x \<in> set xs" for x
    using nl_not_in_cell ch that assms(2) by metis
  then show ?thesis by (simp add: r)
qed

lemma strip_cells_row:
  "cell_row chars r \<Longrightarrow> esc \<notin> set chars \<Longrightarrow> strip_from r 0 [] = Some (remove_styles r)"
proof -
  assume c: "cell_row chars r" and e: "esc \<notin> set chars"
  then obtain xs where r1: "r = concat (map (\<lambda>x. ascii_cell (fst x) (snd x)) xs)"
    and ch: "\<forall>x \<in> set xs. snd x \<in> set chars" by blast
  have r: "r = concat (map (\<lambda>x. ascii_cell (fst x) (snd x)) xs)" "\<forall>x \<in> set xs. snd x \<noteq> esc"
    using r1 ch e by auto
  show ?thesis using strip_row [OF r(2)] remove_styles_cells [OF r(2), where rest = "[]"] r(1) by simp
qed

section \<open>Properties across components\<close>

text \<open>
  C36. The two ways the repository strips colour from a rendered frame agree: on any
  output of the lab 5 renderer whose ramp has no escape or newline character,
  \<open>Controller.get_scene\<close> (its index loop) returns exactly what lab 7's
  \<open>DataStyler.remove_styles\<close> (its regular expression) returns.
\<close>

theorem get_scene_is_remove_styles:
  assumes "render_to_ascii rd frame = Inr s" "esc \<notin> set (ascii_chars rd)" "CHR ''\<newline>'' \<notin> set (ascii_chars rd)"
  shows "get_scene True s = Some (remove_styles s)"
proof -
  obtain rows where s: "s = py_join CHR ''\<newline>'' rows" and c: "\<forall>r \<in> set rows. cell_row (ascii_chars rd) r"
    using render_output_cells [OF assms(1)] by blast
  show ?thesis
  proof (cases "rows = []")
    case True
    have "strip_from [] 0 [] = Some []" by (rule strip_end) simp
    then show ?thesis using s True by (simp add: get_scene_def strip_lines_def)
  next
    case False
    have nl: "\<forall>r \<in> set rows. CHR ''\<newline>'' \<notin> set r"
    proof
      fix r assume "r \<in> set rows"
      then have "cell_row (ascii_chars rd) r" using c by blast
      then show "CHR ''\<newline>'' \<notin> set r" by (rule cell_row_no_nl [OF _ assms(3)])
    qed
    have split: "py_split CHR ''\<newline>'' s = rows" unfolding s by (rule py_split_join [OF False nl])
    have strip: "strip_lines rows = Some (map remove_styles rows)"
      unfolding strip_lines_def by (rule those_map_Some) (rule strip_cells_row [OF _ assms(2)], use c in blast)
    have "remove_styles s = py_join CHR ''\<newline>'' (map remove_styles rows)"
      unfolding s by (rule remove_styles_lines [OF c assms(2)])
    then show ?thesis by (simp only: get_scene_def if_True split strip option.map)
  qed
qed

theorem get_scene_is_remove_styles_witness:
  "\<exists>s. render_to_ascii \<lparr>r_width = Some 1, r_height = Some 1, ascii_height = Some 1, ascii_chars = '' #''\<rparr>
         [[(0, 0, 0)]] = Inr s
       \<and> get_scene True s = Some (remove_styles s)"
proof -
  have sw: "py_int 3 = 3" by (simp add: py_int_def)
  have "\<exists>s. render_to_ascii \<lparr>r_width = Some 1, r_height = Some 1, ascii_height = Some 1, ascii_chars = '' #''\<rparr>
         [[(0, 0, 0)]] = Inr s"
    by (simp add: render_to_ascii_def scaled_height_def scaled_width_def sw render_rows_ok)
  then obtain s where r: "render_to_ascii \<lparr>r_width = Some 1, r_height = Some 1, ascii_height = Some 1, ascii_chars = '' #''\<rparr>
         [[(0, 0, 0)]] = Inr s" by blast
  show ?thesis using get_scene_is_remove_styles [OF r] r by (simp add: esc_def)
qed

end
